(* ===== verification/Prelude.thy ===== *)
theory Prelude
  imports Main "HOL-Library.Word"
begin

text \<open>
  Shared vocabulary of the development: the C++ integer types, the results of
  operations that can leave the normal control flow, and the generic lemmas on
  lists, words and results which the component theories use.
\<close>

unbundle bit_operations_syntax

type_synonym u8 = "8 word"
type_synonym u16 = "16 word"
type_synonym u32 = "32 word"
type_synonym u64 = "64 word"

text \<open>A \<open>NSSPI::ByteBuffer\<close> is a \<open>std::vector<uint8_t>\<close> with stream operators.\<close>

type_synonym byte_buffer = "u8 list"

named_theorems byte_simps \<open>packing and unpacking of bytes\<close>
named_theorems result_splits \<open>case rules of results\<close>

section \<open>Results\<close>

text \<open>
  How a C++ operation can fail to return: \<open>std::out_of_range\<close> thrown by
  \<open>vector::at\<close>, undefined behaviour (an index or an iterator outside a
  container), a loop that never ends, or \<open>std::system_error\<close> thrown by a thread that
  joins itself.
\<close>

datatype fault = OutOfRange | Undefined | Diverges | SelfJoin

type_synonym 'a result = "fault + 'a"

fun bindR :: "'a result \<Rightarrow> ('a \<Rightarrow> 'b result) \<Rightarrow> 'b result" where
  "bindR (Inl e) k = Inl e"
| "bindR (Inr x) k = k x"

lemma bindR_eq_Inr [simp]:
  "bindR m k = Inr y \<longleftrightarrow> (\<exists>x. m = Inr x \<and> k x = Inr y)"
  by (cases m) auto

lemma bindR_eq_Inl:
  "bindR m k = Inl e \<longleftrightarrow> m = Inl e \<or> (\<exists>x. m = Inr x \<and> k x = Inl e)"
  by (cases m) auto

lemma bindR_assoc:
  "bindR (bindR m f) g = bindR m (\<lambda>x. bindR (f x) g)"
  by (cases m) auto

lemma bindR_Inr_right [simp]: "bindR m Inr = m"
  by (cases m) auto

lemma bindR_cong [fundef_cong]:
  "m = m' \<Longrightarrow> (\<And>x. m' = Inr x \<Longrightarrow> k x = k' x) \<Longrightarrow> bindR m k = bindR m' k'"
  by (cases m') auto

lemma bindR_split [result_splits]:
  "P (bindR m k) \<longleftrightarrow> (\<forall>e. m = Inl e \<longrightarrow> P (Inl e)) \<and> (\<forall>x. m = Inr x \<longrightarrow> P (k x))"
  by (cases m) auto

text \<open>\<open>v.at(i)\<close>, and \<open>v[i]\<close> where an index out of range is undefined.\<close>

definition byte_at :: "'a list \<Rightarrow> nat \<Rightarrow> 'a result" where
  "byte_at xs i = (if i < length xs then Inr (xs ! i) else Inl OutOfRange)"

definition byte_idx :: "'a list \<Rightarrow> nat \<Rightarrow> 'a result" where
  "byte_idx xs i = (if i < length xs then Inr (xs ! i) else Inl Undefined)"

lemma byte_at_Inr_iff [simp]: "byte_at xs i = Inr x \<longleftrightarrow> i < length xs \<and> x = xs ! i"
  by (auto simp: byte_at_def)

lemma byte_idx_Inr_iff [simp]: "byte_idx xs i = Inr x \<longleftrightarrow> i < length xs \<and> x = xs ! i"
  by (auto simp: byte_idx_def)

lemma byte_at_Inl_iff [simp]: "byte_at xs i = Inl e \<longleftrightarrow> length xs \<le> i \<and> e = OutOfRange"
  by (auto simp: byte_at_def)

lemma byte_idx_Inl_iff [simp]: "byte_idx xs i = Inl e \<longleftrightarrow> length xs \<le> i \<and> e = Undefined"
  by (auto simp: byte_idx_def)

lemma byte_at_in [simp]: "i < length xs \<Longrightarrow> byte_at xs i = Inr (xs ! i)"
  by simp

lemma byte_idx_in [simp]: "i < length xs \<Longrightarrow> byte_idx xs i = Inr (xs ! i)"
  by simp

section \<open>Lists\<close>

lemma butlast2_append2 [simp]: "butlast (butlast (xs @ [a, b])) = xs"
  by (simp add: butlast_append)

lemma last2_conv:
  assumes "2 \<le> length xs"
  shows "xs = take (length xs - 2) xs @ [xs ! (length xs - 2), xs ! (length xs - 1)]"
proof -
  obtain n where n: "length xs = Suc (Suc n)"
    using assms by (cases "length xs"; cases "length xs - 1"; auto)
  then have "drop n xs = [xs ! n, xs ! Suc n]"
    by (simp add: Cons_nth_drop_Suc [symmetric])
  then show ?thesis
    using append_take_drop_id [of n xs] n by simp
qed

section \<open>Words\<close>

lemma unat_u8: "n < 256 \<Longrightarrow> unat (of_nat n :: u8) = n"
  by (simp add: unat_of_nat)

lemma u8_and_7_less: "(x AND 7 :: u8) < 8"
proof -
  have "x AND 7 \<le> 7" by (rule word_and_le1)
  then show ?thesis
    by (rule order.strict_trans1) simp
qed

lemma word_lt_8_cases:
  fixes x :: u8
  assumes "x < 8"
  shows "x = 0 \<or> x = 1 \<or> x = 2 \<or> x = 3 \<or> x = 4 \<or> x = 5 \<or> x = 6 \<or> x = 7"
proof -
  have "unat x < 8" using assms by (simp add: word_less_nat_alt)
  then have "unat x \<in> {0,1,2,3,4,5,6,7}" by auto
  then show ?thesis
    by (auto simp: word_unat_eq_iff)
qed

end
