(* ===== verification/ByteManip.thy ===== *)
theory ByteManip
  imports Prelude
begin

text \<open>
  \<open>include/ezsp/byte-manip.h\<close>: assembling 16 and 32-bit integers from bytes, taking them
  apart again, and the two-digit hexadecimal form of a byte. Every function is pure; the
  lemmas are the round trips between both directions.
\<close>

section \<open>Definitions\<close>

definition dble_u8_to_u16 :: "u8 \<Rightarrow> u8 \<Rightarrow> u16" where
  "dble_u8_to_u16 highByte lowByte = (push_bit 8 (ucast highByte)) OR (ucast lowByte)"

definition quad_u8_to_u32 :: "u8 \<Rightarrow> u8 \<Rightarrow> u8 \<Rightarrow> u8 \<Rightarrow> u32" where
  "quad_u8_to_u32 highestByte3 byte2 byte1 lowestByte0 =
     (push_bit 24 (ucast highestByte3)) OR (push_bit 16 (ucast byte2))
     OR (push_bit 8 (ucast byte1)) OR (ucast lowestByte0)"

definition u8_get_hi_nibble :: "u8 \<Rightarrow> u8" where
  "u8_get_hi_nibble b = drop_bit 4 b"

definition u8_get_lo_nibble :: "u8 \<Rightarrow> u8" where
  "u8_get_lo_nibble b = b AND 0x0F"

definition u16_get_hi_u8 :: "u16 \<Rightarrow> u8" where
  "u16_get_hi_u8 w = ucast (drop_bit 8 w)"

definition u16_get_lo_u8 :: "u16 \<Rightarrow> u8" where
  "u16_get_lo_u8 w = ucast (w AND 0xFF)"

definition u32_get_byte0 :: "u32 \<Rightarrow> u8" where
  "u32_get_byte0 w = ucast (w AND 0xFF)"

definition u32_get_byte1 :: "u32 \<Rightarrow> u8" where
  "u32_get_byte1 w = ucast ((drop_bit 8 w) AND 0xFF)"

definition u32_get_byte2 :: "u32 \<Rightarrow> u8" where
  "u32_get_byte2 w = ucast ((drop_bit 16 w) AND 0xFF)"

definition u32_get_byte3 :: "u32 \<Rightarrow> u8" where
  "u32_get_byte3 w = ucast ((drop_bit 24 w) AND 0xFF)"

definition u64_get_lo_u32 :: "u64 \<Rightarrow> u32" where
  "u64_get_lo_u32 w = ucast (w AND 0xFFFFFFFF)"

definition u64_get_hi_u32 :: "u64 \<Rightarrow> u32" where
  "u64_get_hi_u32 w = ucast ((drop_bit 32 w) AND 0xFFFFFFFF)"

definition hex_digit :: "u8 \<Rightarrow> u8" where
  "hex_digit nibble = (if nibble \<le> 9 then nibble + 48 else nibble - 0x0A + 97)"

text \<open>The characters are the bytes of the resulting string (\<open>'0'\<close> is 48, \<open>'a'\<close> is 97).\<close>

definition byteToHexString :: "u8 \<Rightarrow> u8 list" where
  "byteToHexString b = [hex_digit (u8_get_hi_nibble b), hex_digit (u8_get_lo_nibble b)]"

section \<open>Round trips\<close>

text \<open>The masks of the C code keep exactly the bits which the narrowing cast keeps.\<close>

lemma ucast_and_mask:
  "ucast (w AND mask LENGTH('b)) = (ucast (w :: 'a::len word) :: 'b::len word)"
  by (rule bit_word_eqI) (auto simp: bit_simps dest: bit_imp_le_length)

lemma masks:
  "(0x0F :: u8) = mask 4" "(0xFF :: u16) = mask LENGTH(8)" "(0xFF :: u32) = mask LENGTH(8)"
  "(0xFFFFFFFF :: u64) = mask LENGTH(32)"
  by (simp_all add: mask_eq_exp_minus_1)

lemma byte_defs:
  "dble_u8_to_u16 h l = push_bit 8 (ucast h) OR ucast l"
  "quad_u8_to_u32 h b c l = push_bit 24 (ucast h) OR push_bit 16 (ucast b)
     OR push_bit 8 (ucast c) OR ucast l"
  "u8_get_hi_nibble x = drop_bit 4 x"
  "u8_get_lo_nibble x = take_bit 4 x"
  "u16_get_hi_u8 w = ucast (drop_bit 8 w)"
  "u16_get_lo_u8 w = ucast w"
  "u32_get_byte0 v = ucast v"
  "u32_get_byte1 v = ucast (drop_bit 8 v)"
  "u32_get_byte2 v = ucast (drop_bit 16 v)"
  "u32_get_byte3 v = ucast (drop_bit 24 v)"
  "u64_get_lo_u32 z = ucast z"
  "u64_get_hi_u32 z = ucast (drop_bit 32 z)"
  unfolding dble_u8_to_u16_def quad_u8_to_u32_def u8_get_hi_nibble_def u8_get_lo_nibble_def
    u16_get_hi_u8_def u16_get_lo_u8_def u32_get_byte0_def u32_get_byte1_def
    u32_get_byte2_def u32_get_byte3_def u64_get_lo_u32_def u64_get_hi_u32_def masks
  by (simp_all only: ucast_and_mask take_bit_eq_mask)

lemma u16_hi_lo_dble [byte_simps, simp]:
  "u16_get_hi_u8 (dble_u8_to_u16 h l) = h"
  "u16_get_lo_u8 (dble_u8_to_u16 h l) = l"
  by (rule bit_word_eqI; auto simp: byte_defs bit_simps dest: bit_imp_le_length)+

lemma dble_hi_lo [byte_simps, simp]:
  "dble_u8_to_u16 (u16_get_hi_u8 w) (u16_get_lo_u8 w) = w"
  by (rule bit_word_eqI) (auto simp: byte_defs bit_simps)

lemma quad_bytes [byte_simps, simp]:
  "quad_u8_to_u32 (u32_get_byte3 w) (u32_get_byte2 w) (u32_get_byte1 w) (u32_get_byte0 w) = w"
proof (rule bit_word_eqI)
  fix n :: nat assume "n < LENGTH(32)"
  then consider "n < 8" | "8 \<le> n" "n < 16" | "16 \<le> n" "n < 24" | "24 \<le> n" "n < 32"
    by fastforce
  then show "bit (quad_u8_to_u32 (u32_get_byte3 w) (u32_get_byte2 w) (u32_get_byte1 w)
      (u32_get_byte0 w)) n = bit w n"
    by cases (auto simp: byte_defs bit_simps)
qed

lemma bytes_quad [byte_simps, simp]:
  "u32_get_byte0 (quad_u8_to_u32 d c b a) = a"
  "u32_get_byte1 (quad_u8_to_u32 d c b a) = b"
  "u32_get_byte2 (quad_u8_to_u32 d c b a) = c"
  "u32_get_byte3 (quad_u8_to_u32 d c b a) = d"
  by (rule bit_word_eqI; auto simp: byte_defs bit_simps dest: bit_imp_le_length)+

lemma dble_inject [simp]:
  "dble_u8_to_u16 h l = dble_u8_to_u16 h' l' \<longleftrightarrow> h = h' \<and> l = l'"
  by (metis u16_hi_lo_dble)

end
