(* ===== verification/BitCrc.thy ===== *)
theory BitCrc
  imports ByteManip
begin

text \<open>
  The interface of a 16-bit cyclic redundancy check computed bit by bit, most significant
  bit first, which both serial protocols of the library use: ASH
  (\<open>src/ezsp/ashv2-codec.cpp\<close>) and XMODEM (\<open>src/spi/georges-menie-thuffir-xmodem\<close>).
  A provider gives the step of its shift register; the laws make the register linear
  over exclusive or, and make it a plain shift on its own top bit. From these laws alone
  follow that a message followed by its own check value leaves the register at zero and
  that no burst error of at most sixteen bits does.
\<close>

section \<open>Bits of a message\<close>

definition word_bits :: "'a::len word \<Rightarrow> bool list" where
  "word_bits w = map (bit w) (rev [0..<LENGTH('a)])"

definition message_bits :: "byte_buffer \<Rightarrow> bool list" where
  "message_bits buf = concat (map word_bits buf)"

lemma length_word_bits [simp]: "length (word_bits (w :: 'a::len word)) = LENGTH('a)"
  by (simp add: word_bits_def)

lemma message_bits_simps [simp]:
  "message_bits [] = []"
  "message_bits (b # buf) = word_bits b @ message_bits buf"
  "message_bits (buf @ buf') = message_bits buf @ message_bits buf'"
  by (simp_all add: message_bits_def)

lemma length_message_bits [simp]: "length (message_bits buf) = 8 * length buf"
  by (induction buf) simp_all

lemma word_bits_inject: "word_bits v = word_bits w \<longleftrightarrow> v = w"
  by (auto simp: word_bits_def intro: bit_word_eqI)

lemma message_bits_inject:
  "length buf = length buf' \<Longrightarrow> message_bits buf = message_bits buf' \<longleftrightarrow> buf = buf'"
  by (induction buf buf' rule: list_induct2) (auto simp: word_bits_inject)

lemma word_bits_surj:
  assumes "length bs = LENGTH('a::len)"
  shows "\<exists>w :: 'a word. word_bits w = bs"
proof
  let ?w = "horner_sum of_bool 2 (rev bs) :: 'a word"
  show "word_bits ?w = bs"
    by (rule nth_equalityI)
      (use assms in \<open>auto simp: word_bits_def rev_nth bit_horner_sum_bit_word_iff\<close>)
qed

lemma word_bits_0: "word_bits (0 :: 'a::len word) = replicate LENGTH('a) False"
  by (rule nth_equalityI) (simp_all add: word_bits_def)

lemma u16_bits_split:
  "word_bits (w :: u16) = word_bits (u16_get_hi_u8 w) @ word_bits (u16_get_lo_u8 w)"
  by (rule nth_equalityI)
    (auto simp: word_bits_def nth_append rev_nth byte_defs bit_simps)

text \<open>A change of a message, as long as the message, with all changed bits in a window.\<close>

definition within_burst :: "bool list \<Rightarrow> bool list \<Rightarrow> bool" where
  "within_burst bs cs \<longleftrightarrow> length bs = length cs \<and>
     (\<exists>k. \<forall>i < length bs. bs ! i \<noteq> cs ! i \<longrightarrow> k \<le> i \<and> i < k + 16)"

section \<open>The interface\<close>

locale bit_crc =
  fixes step :: "u16 \<Rightarrow> bool \<Rightarrow> u16"
  assumes step_xor: "step (r XOR s) (a \<noteq> b) = step r a XOR step s b"
    and step_top: "step r (bit r 15) = push_bit 1 r"
    and step_odd: "bit (step 0 True) 0"
begin

definition run :: "u16 \<Rightarrow> bool list \<Rightarrow> u16" where
  "run r bs = foldl step r bs"

lemma run_simps [simp]:
  "run r [] = r"
  "run r (b # bs) = run (step r b) bs"
  "run r (bs @ cs) = run (run r bs) cs"
  by (simp_all add: run_def)

lemma xor_step: "step r a XOR step s b = step (r XOR s) (a = (\<not> b))"
  using step_xor [of r s a b] by simp

lemma run_xor:
  "length bs = length cs \<Longrightarrow>
     run (r XOR s) (map2 (\<noteq>) bs cs) = run r bs XOR run s cs"
proof (induction bs cs arbitrary: r s rule: list_induct2)
  case (Cons x xs y ys)
  show ?case
    using Cons.IH [of "step r x" "step s y"] by (simp add: xor_step)
qed simp

lemma run_top_bits:
  "k \<le> 16 \<Longrightarrow> run r (map (bit r) (rev [16 - k..<16])) = push_bit k r"
proof (induction k)
  case (Suc k)
  then have "16 - Suc k = 15 - k" "Suc (15 - k) = 16 - k" "15 - k < 16"
    by simp_all
  then have "[16 - Suc k..<16] = (15 - k) # [16 - k..<16]"
    by (simp only: upt_conv_Cons)
  moreover have "bit (push_bit k r) 15 = bit r (15 - k)"
    using Suc.prems by (auto simp: bit_simps)
  ultimately show ?case
    using Suc step_top [of "push_bit k r"] by simp
qed simp

lemma run_own_bits: "run r (word_bits r) = 0"
proof -
  have "push_bit 16 r = 0" by (rule bit_word_eqI) (simp add: bit_simps)
  then show ?thesis
    using run_top_bits [of 16 r] by (simp add: word_bits_def)
qed

lemma residue: "run r (bs @ word_bits (run r bs)) = 0"
  by (simp add: run_own_bits)

lemma step_zero [simp]: "step 0 False = 0"
  using step_top [of 0] by simp

lemma step_False_eq_0: "step r False = 0 \<longleftrightarrow> r = 0"
proof
  assume z: "step r False = 0"
  have low: "\<not> bit (push_bit 1 r) 0"
    by (simp only: bit_push_bit_iff) simp
  have "\<not> bit r 15"
  proof
    assume "bit r 15"
    then have "push_bit 1 r = step 0 True"
      using step_top [of r] step_xor [of r 0 False True] z by simp
    then show False using low step_odd by simp
  qed
  then have p: "push_bit 1 r = 0"
    using step_top [of r] z by simp
  show "r = 0"
  proof (rule bit_word_eqI)
    fix n :: nat assume "n < LENGTH(16)"
    then show "bit r n \<longleftrightarrow> bit (0 :: u16) n"
      using p \<open>\<not> bit r 15\<close> bit_push_bit_iff [of 1 r "Suc n"]
      by (cases "n = 15") (auto simp: bit_simps)
  qed
qed simp

lemma run_zeros: "run r (replicate n False) = 0 \<longleftrightarrow> r = 0"
  by (induction n arbitrary: r) (simp_all add: step_False_eq_0)

lemma run_0_zeros [simp]: "run 0 (replicate n False) = 0"
  by (simp add: run_zeros)

lemma run_word_bits_eq_0: "run 0 (word_bits (w :: u16)) = 0 \<longleftrightarrow> w = 0"
proof -
  have "map2 (\<noteq>) (word_bits w) (replicate 16 False) = word_bits w"
    by (rule nth_equalityI) simp_all
  then have "run w (word_bits w) = run 0 (word_bits w) XOR run w (replicate 16 False)"
    using run_xor [of "word_bits w" "replicate 16 False" 0 w] by simp
  then show ?thesis
    using run_zeros [of w 16] by (auto simp: run_own_bits)
qed

text \<open>An error pattern whose set bits lie within sixteen consecutive positions.\<close>

lemma run_burst_neq_0:
  assumes "length w \<le> 16" "True \<in> set w"
  shows "run 0 (replicate k False @ w @ replicate m False) \<noteq> 0"
proof -
  let ?w = "replicate (16 - length w) False @ w"
  obtain v :: u16 where v: "word_bits v = ?w"
    using word_bits_surj [where 'a = 16, of ?w] assms(1) by auto
  have "v \<noteq> 0"
  proof
    assume "v = 0"
    then have "?w = replicate 16 False"
      using v word_bits_0 [where 'a = 16] by simp
    then have "True \<in> set (replicate 16 False)"
      using assms(2) by (metis Un_iff set_append)
    then show False by simp
  qed
  moreover have "run 0 w = run 0 (word_bits v)"
    using v by simp
  ultimately have "run 0 w \<noteq> 0"
    by (simp add: run_word_bits_eq_0)
  then show ?thesis by (simp add: run_zeros)
qed

lemma all_False_replicate:
  assumes "\<And>i. i < length bs \<Longrightarrow> \<not> bs ! i"
  shows "bs = replicate (length bs) False"
  by (rule nth_equalityI) (use assms in auto)

lemma run_window_neq_0:
  assumes "True \<in> set e" and k: "\<And>i. i < length e \<Longrightarrow> e ! i \<Longrightarrow> k \<le> i \<and> i < k + 16"
  shows "run 0 e \<noteq> 0"
proof -
  have head: "take k e = replicate (length (take k e)) False"
    by (rule all_False_replicate) (use k in \<open>auto, fastforce\<close>)
  have tail: "drop (k + 16) e = replicate (length (drop (k + 16) e)) False"
  proof (rule all_False_replicate)
    fix i assume "i < length (drop (k + 16) e)"
    then have "k + 16 + i < length e" by simp
    then show "\<not> drop (k + 16) e ! i"
      using k [of "k + 16 + i"] by auto
  qed
  have split: "e = take k e @ take 16 (drop k e) @ drop (k + 16) e"
    using append_take_drop_id [of k e] append_take_drop_id [of 16 "drop k e"]
    by (simp add: add.commute)
  obtain i where i: "i < length e" "e ! i"
    using assms(1) by (auto simp: in_set_conv_nth)
  then have "take 16 (drop k e) ! (i - k)" "i - k < length (take 16 (drop k e))"
    using k [OF i] by auto
  then have "True \<in> set (take 16 (drop k e))"
    by (metis nth_mem)
  then have "run 0 (replicate (length (take k e)) False @ take 16 (drop k e) @
      replicate (length (drop (k + 16) e)) False) \<noteq> 0"
    by (intro run_burst_neq_0) simp_all
  then show ?thesis
    unfolding head [symmetric] tail [symmetric] split [symmetric] .
qed

lemma burst_detected:
  assumes "within_burst bs cs" "bs \<noteq> cs" "run r bs = 0"
  shows "run r cs \<noteq> 0"
proof -
  obtain k where len: "length bs = length cs"
    and k: "\<And>i. i < length bs \<Longrightarrow> bs ! i \<noteq> cs ! i \<Longrightarrow> k \<le> i \<and> i < k + 16"
    using assms(1) unfolding within_burst_def by blast
  define e where "e = map2 (\<noteq>) bs cs"
  have e: "length e = length bs" "\<And>i. i < length e \<Longrightarrow> e ! i = (bs ! i \<noteq> cs ! i)"
    by (simp_all add: e_def len)
  obtain i where "i < length bs" "bs ! i \<noteq> cs ! i"
    using assms(2) len nth_equalityI by blast
  then have "True \<in> set e"
    by (metis e nth_mem)
  then have "run 0 e \<noteq> 0"
    by (rule run_window_neq_0 [where k = k]) (use e k in auto)
  then show ?thesis
    using run_xor [OF len, of r r] assms(3) by (simp add: e_def)
qed

end

end
