(* ===== verification/AshBytes.thy ===== *)
theory AshBytes
  imports BitCrc
begin

text \<open>
  The byte transformations of the ASH codec (\<open>src/ezsp/ashv2-codec.cpp\<close>): the check value
  of a frame, byte stuffing and the pseudo-random masking of data fields. They keep no
  state. The lemmas give the round trips, the absence of reserved bytes in a stuffed body,
  the exact lengths for which the masking loop ends, and the instance of the
  cyclic-redundancy interface from which error detection follows.
\<close>

section \<open>Reserved bytes\<close>

definition ASH_CANCEL_BYTE :: u8 where "ASH_CANCEL_BYTE = 0x1A"
definition ASH_FLAG_BYTE :: u8 where "ASH_FLAG_BYTE = 0x7E"
definition ASH_SUBSTITUTE_BYTE :: u8 where "ASH_SUBSTITUTE_BYTE = 0x18"
definition ASH_XON_BYTE :: u8 where "ASH_XON_BYTE = 0x11"
definition ASH_OFF_BYTE :: u8 where "ASH_OFF_BYTE = 0x13"
definition ASH_MAX_LENGTH :: nat where "ASH_MAX_LENGTH = 131"

lemmas ash_consts = ASH_CANCEL_BYTE_def ASH_FLAG_BYTE_def ASH_SUBSTITUTE_BYTE_def
  ASH_XON_BYTE_def ASH_OFF_BYTE_def ASH_MAX_LENGTH_def

text \<open>The bytes to which the receiver gives a meaning of their own.\<close>

definition ash_reserved :: "u8 set" where
  "ash_reserved = {ASH_CANCEL_BYTE, ASH_FLAG_BYTE, ASH_SUBSTITUTE_BYTE, ASH_XON_BYTE, ASH_OFF_BYTE}"

section \<open>Operations\<close>

definition crc_bit :: "u16 \<Rightarrow> bool \<Rightarrow> u16" where
  "crc_bit lo_crc b =
     (let c15 = ((ucast (drop_bit 15 lo_crc) :: u8) AND 1 = 1);
          lo_crc' = push_bit 1 lo_crc
      in if c15 \<noteq> b then lo_crc' XOR 0x1021 else lo_crc')"

definition crc_byte :: "u16 \<Rightarrow> u8 \<Rightarrow> u16" where
  "crc_byte lo_crc v = foldl (\<lambda>c i. crc_bit c (drop_bit (7 - i) v AND 1 = 1)) lo_crc [0..<8]"

definition computeCRC :: "byte_buffer \<Rightarrow> u16" where
  "computeCRC buf = foldl crc_byte 0xFFFF buf AND 0xFFFF"

fun remove_stuffing_loop :: "bool \<Rightarrow> byte_buffer \<Rightarrow> byte_buffer" where
  "remove_stuffing_loop escape [] = []"
| "remove_stuffing_loop escape (b # bs) =
     (if escape then
        (if b AND 0x20 = 0 then b OR 0x20 else b AND 0xDF) # remove_stuffing_loop False bs
      else if b = 0x7D then remove_stuffing_loop True bs
      else b # remove_stuffing_loop False bs)"

definition removeByteStuffing :: "byte_buffer \<Rightarrow> byte_buffer" where
  "removeByteStuffing i_data = remove_stuffing_loop False i_data"

definition stuff_byte :: "u8 \<Rightarrow> byte_buffer" where
  "stuff_byte b =
     (if b = 0x7E then [0x7D, 0x5E]
      else if b = 0x7D then [0x7D, 0x5D]
      else if b = 0x11 then [0x7D, 0x31]
      else if b = 0x13 then [0x7D, 0x33]
      else if b = 0x18 then [0x7D, 0x38]
      else if b = 0x1A then [0x7D, 0x3A]
      else [b])"

definition addByteStuffing :: "byte_buffer \<Rightarrow> byte_buffer" where
  "addByteStuffing i_data = concat (map stuff_byte i_data) @ [0x7E]"

definition lfsr_next :: "u8 \<Rightarrow> u8" where
  "lfsr_next lfsrByte =
     (let lfsrByteBit0 = (lfsrByte AND 0x01 \<noteq> 0); shifted = drop_bit 1 lfsrByte
      in if lfsrByteBit0 then shifted XOR 0xB8 else shifted)"

text \<open>
  The loop counter is an 8-bit integer compared with the size of the buffer, so it may
  wrap around and the loop is a partial function.
\<close>

partial_function (option) randomize_loop ::
    "byte_buffer \<Rightarrow> u8 \<Rightarrow> u8 \<Rightarrow> byte_buffer \<Rightarrow> byte_buffer option" where
  "randomize_loop i_data cnt lfsrByte res =
     (if unat cnt < length i_data
      then randomize_loop i_data (cnt + 1) (lfsr_next lfsrByte)
             (res @ [(i_data ! unat cnt) XOR lfsrByte])
      else Some res)"

declare randomize_loop.simps [code]

definition dataRandomize :: "byte_buffer \<Rightarrow> u8 \<Rightarrow> byte_buffer result" where
  "dataRandomize i_data start =
     (case randomize_loop i_data start 0x42 [] of None \<Rightarrow> Inl Diverges | Some r \<Rightarrow> Inr r)"

section \<open>Check values\<close>

lemma and_1_bit: "(w AND 1 = 1) = bit w 0" for w :: "'a::len word"
  by (simp add: and_one_eq odd_iff_mod_2_eq_one [symmetric] bit_0)

lemma crc_bit_alt:
  "crc_bit r b = push_bit 1 r XOR (if bit r 15 \<noteq> b then 0x1021 else 0)"
  by (simp add: crc_bit_def and_1_bit bit_simps)

interpretation ash_crc: bit_crc crc_bit
proof
  fix r s :: u16 and a b :: bool
  show "crc_bit (r XOR s) (a \<noteq> b) = crc_bit r a XOR crc_bit s b"
    by (auto simp: crc_bit_alt bit_simps intro!: bit_word_eqI)
  show "crc_bit r (bit r 15) = push_bit 1 r"
    by (simp add: crc_bit_alt)
  show "bit (crc_bit 0 True) 0"
    by (simp add: crc_bit_alt)
qed

lemma crc_byte_run: "crc_byte r v = ash_crc.run r (word_bits v)"
proof -
  have "rev [0..<LENGTH(8)] = map (\<lambda>i. 7 - i) [0..<8]"
    by (simp add: upt_rec)
  then show ?thesis
    unfolding crc_byte_def ash_crc.run_def word_bits_def
    by (simp only: map_map foldl_map comp_def and_1_bit) (simp add: bit_simps)
qed

lemma computeCRC_run: "computeCRC buf = ash_crc.run 0xFFFF (message_bits buf)"
proof -
  have "foldl crc_byte r buf = ash_crc.run r (message_bits buf)" for r
    by (induction buf arbitrary: r) (simp_all add: crc_byte_run)
  moreover have "(0xFFFF :: u16) = - 1" by simp
  then have "w AND 0xFFFF = w" for w :: u16
    by (simp only:) simp
  ultimately show ?thesis by (simp add: computeCRC_def)
qed

definition with_crc :: "byte_buffer \<Rightarrow> byte_buffer" where
  "with_crc buf = buf @ [u16_get_hi_u8 (computeCRC buf), u16_get_lo_u8 (computeCRC buf)]"

lemma computeCRC_with_crc [simp]: "computeCRC (with_crc buf) = 0"
  using ash_crc.residue [of "0xFFFF" "message_bits buf"]
  by (simp add: with_crc_def computeCRC_run u16_bits_split)

lemma length_with_crc [simp]: "length (with_crc buf) = length buf + 2"
  by (simp add: with_crc_def)

lemma with_crc_not_Nil [simp]: "with_crc buf \<noteq> []"
  by (simp add: with_crc_def)

lemma butlast2_with_crc [simp]: "butlast (butlast (with_crc buf)) = buf"
  by (simp add: with_crc_def)

lemma computeCRC_burst:
  assumes "computeCRC buf = 0" "length buf' = length buf" "buf' \<noteq> buf"
    and "within_burst (message_bits buf) (message_bits buf')"
  shows "computeCRC buf' \<noteq> 0"
  using assms ash_crc.burst_detected [of "message_bits buf" "message_bits buf'" "0xFFFF"]
  by (simp add: computeCRC_run message_bits_inject)

section \<open>Byte stuffing\<close>

lemma remove_stuffing_stuff_byte:
  "remove_stuffing_loop False (stuff_byte b @ bs) = b # remove_stuffing_loop False bs"
  by (simp add: stuff_byte_def)

lemma remove_stuffing_concat:
  "remove_stuffing_loop False (concat (map stuff_byte xs) @ bs) =
     xs @ remove_stuffing_loop False bs"
  by (induction xs) (simp_all add: remove_stuffing_stuff_byte)

lemma addByteStuffing_body: "addByteStuffing xs = butlast (addByteStuffing xs) @ [0x7E]"
  by (simp add: addByteStuffing_def)

lemma butlast_addByteStuffing [simp]: "butlast (addByteStuffing xs) = concat (map stuff_byte xs)"
  by (simp add: addByteStuffing_def)

lemma removeByteStuffing_body [simp]:
  "removeByteStuffing (concat (map stuff_byte xs)) = xs"
  using remove_stuffing_concat [of xs "[]"] by (simp add: removeByteStuffing_def)

lemma stuff_byte_not_reserved: "set (stuff_byte b) \<inter> ash_reserved = {}"
  by (simp add: stuff_byte_def ash_reserved_def ash_consts)

lemma stuffed_not_reserved: "set (concat (map stuff_byte xs)) \<inter> ash_reserved = {}"
  using stuff_byte_not_reserved by fastforce

lemma length_stuff_byte: "1 \<le> length (stuff_byte b)" "length (stuff_byte b) \<le> 2"
  by (simp_all add: stuff_byte_def)

lemma length_stuffed:
  "length xs \<le> length (concat (map stuff_byte xs))"
  "length (concat (map stuff_byte xs)) \<le> 2 * length xs"
proof (induction xs)
  case (Cons x xs)
  case 1 show ?case using Cons length_stuff_byte [of x] by simp
  case 2 show ?case using Cons length_stuff_byte [of x] by simp
qed simp_all

lemma length_remove_stuffing_loop: "length (remove_stuffing_loop e bs) \<le> length bs"
  by (induction e bs rule: remove_stuffing_loop.induct) auto

lemma length_removeByteStuffing: "length (removeByteStuffing bs) \<le> length bs"
  by (simp add: removeByteStuffing_def length_remove_stuffing_loop)

section \<open>Masking\<close>

text \<open>The mask applied to a field, as a structural recursion.\<close>

primrec randomize :: "u8 \<Rightarrow> byte_buffer \<Rightarrow> byte_buffer" where
  "randomize lfsrByte [] = []"
| "randomize lfsrByte (b # bs) = (b XOR lfsrByte) # randomize (lfsr_next lfsrByte) bs"

lemma length_randomize [simp]: "length (randomize l bs) = length bs"
  by (induction bs arbitrary: l) simp_all

lemma randomize_involution [simp]: "randomize l (randomize l bs) = bs"
  by (induction bs arbitrary: l) (simp_all add: xor.assoc)

lemma randomize_loop_returns:
  assumes "length d < 256" "unat c \<le> length d"
  shows "randomize_loop d c l r = Some (r @ randomize l (drop (unat c) d))"
  using assms(2)
proof (induction "length d - unat c" arbitrary: c l r)
  case 0
  then show ?case by (simp add: randomize_loop.simps [of d c])
next
  case (Suc n)
  then have c: "unat c < length d" by simp
  then have "unat (c + 1) = unat c + 1"
    using assms(1) by (simp add: unat_word_ariths)
  then show ?case
    using Suc c by (simp add: randomize_loop.simps [of d c] Cons_nth_drop_Suc [symmetric])
qed

lemma randomize_loop_diverges:
  assumes "256 \<le> length d"
  shows "randomize_loop d c l r = None"
proof (rule ccontr)
  assume "randomize_loop d c l r \<noteq> None"
  then obtain y where y: "randomize_loop d c l r = Some y" by blast
  have "length d < 256"
  proof (rule randomize_loop.raw_induct [where P = "\<lambda>d c l r y. length d < 256", OF _ y])
    fix f :: "byte_buffer \<Rightarrow> u8 \<Rightarrow> u8 \<Rightarrow> byte_buffer \<Rightarrow> byte_buffer option"
      and d :: byte_buffer and c l :: u8 and r y
    assume "\<And>d c l r y. f d c l r = Some y \<Longrightarrow> length d < 256"
      and "(if unat c < length d
        then f d (c + 1) (lfsr_next l) (r @ [d ! unat c XOR l]) else Some r) = Some y"
    moreover have "unat c < 256"
      using unsigned_less [of c] by simp
    ultimately show "length d < 256"
      by (cases "unat c < length d") auto
  qed
  then show False using assms by simp
qed

lemma dataRandomize_short:
  assumes "length d < 256" "unat c \<le> length d"
  shows "dataRandomize d c = Inr (randomize 0x42 (drop (unat c) d))"
  using randomize_loop_returns [OF assms] by (simp add: dataRandomize_def)

lemma dataRandomize_0 [simp]:
  "length d < 256 \<Longrightarrow> dataRandomize d 0 = Inr (randomize 0x42 d)"
  by (simp add: dataRandomize_short)

lemma dataRandomize_1 [simp]:
  "length d < 255 \<Longrightarrow> dataRandomize (b # d) 1 = Inr (randomize 0x42 d)"
  by (simp add: dataRandomize_short)

lemma dataRandomize_diverges [simp]: "256 \<le> length d \<Longrightarrow> dataRandomize d c = Inl Diverges"
  by (simp add: dataRandomize_def randomize_loop_diverges)

lemma length_dataRandomize:
  assumes "dataRandomize d c = Inr q"
  shows "length q \<le> length d - unat c"
proof -
  consider "256 \<le> length d" | "length d < 256" "unat c \<le> length d" | "length d < unat c"
    by linarith
  then show ?thesis
    using assms
  proof cases
    case 3
    then have "randomize_loop d c 0x42 [] = Some []"
      by (subst randomize_loop.simps) simp
    then show ?thesis using assms by (simp add: dataRandomize_def)
  qed (auto simp: dataRandomize_short)
qed

end
