(* ===== verification/AshCodec.thy ===== *)
theory AshCodec
  imports AshBytes
begin

text \<open>
  The ASH codec, \<open>NSEZSP::AshCodec\<close> of \<open>src/ezsp/ashv2-codec.cpp\<close>: the framing layer
  between the serial port and EZSP. The codec calls back into its owner (to cancel the
  acknowledgement timer, and to report ASH information), and the owner may use the codec
  again from inside such a call, so every operation that calls back takes the callbacks
  as an argument, a function that may change both the codec and the owner's state.
\<close>

section \<open>State\<close>

datatype ash_info =
    ASH_RESET_FAILED | ASH_ACK | ASH_NACK | ASH_STATE_DISCONNECTED | ASH_STATE_CONNECTED

fun ash_info_code :: "ash_info \<Rightarrow> nat" where
  "ash_info_code ASH_RESET_FAILED = 1"
| "ash_info_code ASH_ACK = 2"
| "ash_info_code ASH_NACK = 3"
| "ash_info_code ASH_STATE_DISCONNECTED = 4"
| "ash_info_code ASH_STATE_CONNECTED = 5"

text \<open>The two callbacks: \<open>ackTimerCancelFunc()\<close> and \<open>pCb->ashCbInfo(info)\<close>.\<close>

datatype ash_event = AckTimerCancel | AshCbInfo ash_info

record ash_codec =
  pCb :: bool
  ackTimerCancelFunc :: bool
  nextExpectedFEAckNum :: u8
  frmNum :: u8
  lastReceivedByNEAckNum :: u8
  stateConnected :: bool
  in_msg :: byte_buffer

type_synonym 'w ash_env = "ash_event \<Rightarrow> ash_codec \<Rightarrow> 'w \<Rightarrow> (ash_codec \<times> 'w) result"

definition new_codec :: "bool \<Rightarrow> bool \<Rightarrow> ash_codec" where
  "new_codec ipCb ackTimeoutCancelFunc =
     \<lparr>pCb = ipCb, ackTimerCancelFunc = ackTimeoutCancelFunc, nextExpectedFEAckNum = 0,
      frmNum = 0, lastReceivedByNEAckNum = 0, stateConnected = False, in_msg = []\<rparr>"

definition isInConnectedState :: "ash_codec \<Rightarrow> bool" where
  "isInConnectedState c = stateConnected c"

definition setAckTimeoutCancelFunc :: "bool \<Rightarrow> ash_codec \<Rightarrow> ash_codec" where
  "setAckTimeoutCancelFunc f c = c\<lparr>ackTimerCancelFunc := f\<rparr>"

definition cancel_ack_timer :: "'w ash_env \<Rightarrow> ash_codec \<Rightarrow> 'w \<Rightarrow> (ash_codec \<times> 'w) result" where
  "cancel_ack_timer env c w =
     (if ackTimerCancelFunc c then env AckTimerCancel c w else Inr (c, w))"

definition ash_callback ::
    "'w ash_env \<Rightarrow> ash_info \<Rightarrow> ash_codec \<Rightarrow> 'w \<Rightarrow> (ash_codec \<times> 'w) result" where
  "ash_callback env info c w = (if pCb c then env (AshCbInfo info) c w else Inr (c, w))"

section \<open>Sending\<close>

definition forgeResetNCPFrame ::
    "'w ash_env \<Rightarrow> ash_codec \<Rightarrow> 'w \<Rightarrow> (byte_buffer \<times> ash_codec \<times> 'w) result" where
  "forgeResetNCPFrame env c w =
     bindR (cancel_ack_timer env
              (c\<lparr>nextExpectedFEAckNum := 0, lastReceivedByNEAckNum := 0, frmNum := 0,
                 stateConnected := False\<rparr>) w)
       (\<lambda>(c, w). bindR (ash_callback env ASH_STATE_DISCONNECTED c w)
         (\<lambda>(c, w). Inr (ASH_CANCEL_BYTE # addByteStuffing (with_crc [0xC0]), c, w)))"

definition forgeAckFrame :: "ash_codec \<Rightarrow> byte_buffer" where
  "forgeAckFrame c = addByteStuffing (with_crc [lastReceivedByNEAckNum c OR 0x80])"

definition forgeDataFrame ::
    "byte_buffer \<Rightarrow> ash_codec \<Rightarrow> (byte_buffer \<times> ash_codec) result" where
  "forgeDataFrame i_data c =
     (let ashControlByte = push_bit 4 (frmNum c) OR (lastReceivedByNEAckNum c AND 0x07);
          frmNum' = (frmNum c + 1) AND 0x07;
          c' = c\<lparr>frmNum := frmNum', nextExpectedFEAckNum := frmNum'\<rparr>
      in bindR (dataRandomize i_data 0)
           (\<lambda>field. Inr (addByteStuffing (with_crc (ashControlByte # field)), c')))"

section \<open>Receiving\<close>

text \<open>What a frame whose check value was right (and is removed) leads to.\<close>

definition process_frame ::
    "'w ash_env \<Rightarrow> byte_buffer \<Rightarrow> ash_codec \<Rightarrow> 'w \<Rightarrow> (byte_buffer \<times> ash_codec \<times> 'w) result" where
  "process_frame env lo_msg c w =
     bindR (byte_at lo_msg 0) (\<lambda>ashControlByte.
       if ashControlByte AND 0x80 = 0 then
         (let expectedAckNum = nextExpectedFEAckNum c;
              remoteAckNum = u8_get_lo_nibble ashControlByte AND 0x07;
              remoteFrmNum = u8_get_hi_nibble ashControlByte AND 0x07
          in bindR (if expectedAckNum \<noteq> remoteAckNum then Inr (c, w) else cancel_ack_timer env c w)
               (\<lambda>(c, w). bindR (dataRandomize lo_msg 1)
                 (\<lambda>payload. Inr (payload,
                    c\<lparr>lastReceivedByNEAckNum := (remoteFrmNum + 1) AND 0x07\<rparr>, w))))
       else if ashControlByte AND 0x60 = 0x00 then
         bindR (cancel_ack_timer env c w)
           (\<lambda>(c, w). bindR (ash_callback env ASH_ACK c w) (\<lambda>(c, w). Inr ([], c, w)))
       else if ashControlByte AND 0x60 = 0x20 then
         bindR (cancel_ack_timer env (c\<lparr>frmNum := ashControlByte AND 0x07\<rparr>) w)
           (\<lambda>(c, w). bindR (ash_callback env ASH_NACK c w) (\<lambda>(c, w). Inr ([], c, w)))
       else if ashControlByte = 0xC0 then
         bindR (cancel_ack_timer env c w) (\<lambda>(c, w). Inr ([], c, w))
       else if ashControlByte = 0xC1 then
         bindR (byte_at lo_msg 1) (\<lambda>version. bindR (byte_at lo_msg 2) (\<lambda>resetCode.
           if version \<noteq> 2 then Inr ([], c, w)
           else if \<not> stateConnected c then
             (if resetCode = 0x0B \<or> resetCode = 0x09 \<or> resetCode = 0x02 then
                bindR (cancel_ack_timer env (c\<lparr>stateConnected := True\<rparr>) w)
                  (\<lambda>(c, w). bindR (ash_callback env ASH_STATE_CONNECTED c w)
                    (\<lambda>(c, w). Inr ([], c, w)))
              else Inr ([], c, w))
           else Inr ([], c, w)))
       else Inr ([], c, w))"

definition processInterFlagStream ::
    "'w ash_env \<Rightarrow> ash_codec \<Rightarrow> 'w \<Rightarrow> (byte_buffer \<times> ash_codec \<times> 'w) result" where
  "processInterFlagStream env c w =
     (let lo_msg = removeByteStuffing (in_msg c)
      in if length lo_msg < 3 then Inr ([], c, w)
         else if computeCRC lo_msg \<noteq> 0 then Inr ([], c, w)
         else process_frame env (butlast (butlast lo_msg)) c w)"

text \<open>One turn of the receiving loop: the payloads it extracts and the new error flag.\<close>

definition append_byte ::
    "'w ash_env \<Rightarrow> u8 \<Rightarrow> bool \<Rightarrow> ash_codec \<Rightarrow> 'w
       \<Rightarrow> (byte_buffer list \<times> bool \<times> ash_codec \<times> 'w) result" where
  "append_byte env val inputError c w =
     (if val = ASH_CANCEL_BYTE then Inr ([], False, c\<lparr>in_msg := []\<rparr>, w)
      else if val = ASH_FLAG_BYTE then
        (if \<not> inputError \<and> in_msg c \<noteq> [] then
           bindR (processInterFlagStream env c w)
             (\<lambda>(payload, c, w). Inr ([payload], False, c\<lparr>in_msg := []\<rparr>, w))
         else Inr ([], False, c\<lparr>in_msg := []\<rparr>, w))
      else if val = ASH_SUBSTITUTE_BYTE then Inr ([], True, c, w)
      else if val = ASH_XON_BYTE then Inr ([], inputError, c, w)
      else if val = ASH_OFF_BYTE then Inr ([], inputError, c, w)
      else if ASH_MAX_LENGTH \<le> length (in_msg c) then Inr ([], True, c\<lparr>in_msg := [val]\<rparr>, w)
      else Inr ([], inputError, c\<lparr>in_msg := in_msg c @ [val]\<rparr>, w))"

fun append_loop ::
    "'w ash_env \<Rightarrow> byte_buffer \<Rightarrow> bool \<Rightarrow> ash_codec \<Rightarrow> 'w
       \<Rightarrow> (byte_buffer list \<times> bool \<times> ash_codec \<times> 'w) result" where
  "append_loop env [] inputError c w = Inr ([], inputError, c, w)"
| "append_loop env (val # i_data) inputError c w =
     bindR (append_byte env val inputError c w)
       (\<lambda>(ps, inputError, c, w). bindR (append_loop env i_data inputError c w)
         (\<lambda>(qs, inputError, c, w). Inr (ps @ qs, inputError, c, w)))"

definition appendIncoming ::
    "'w ash_env \<Rightarrow> byte_buffer \<Rightarrow> ash_codec \<Rightarrow> 'w
       \<Rightarrow> (byte_buffer list \<times> ash_codec \<times> 'w) result" where
  "appendIncoming env i_data c w =
     bindR (append_loop env i_data False c w) (\<lambda>(ps, inputError, c, w). Inr (ps, c, w))"

text \<open>A receiver to which the serial port hands over its bytes in several chunks.\<close>

fun feed ::
    "'w ash_env \<Rightarrow> byte_buffer list \<Rightarrow> ash_codec \<Rightarrow> 'w
       \<Rightarrow> (byte_buffer list \<times> ash_codec \<times> 'w) result" where
  "feed env [] c w = Inr ([], c, w)"
| "feed env (chunk # chunks) c w =
     bindR (appendIncoming env chunk c w)
       (\<lambda>(ps, c, w). bindR (feed env chunks c w) (\<lambda>(qs, c, w). Inr (ps @ qs, c, w)))"

text \<open>A sender that forges one data frame for each payload.\<close>

fun forge_frames ::
    "byte_buffer list \<Rightarrow> ash_codec \<Rightarrow> (byte_buffer list \<times> ash_codec) result" where
  "forge_frames [] c = Inr ([], c)"
| "forge_frames (p # ps) c =
     bindR (forgeDataFrame p c)
       (\<lambda>(f, c). bindR (forge_frames ps c) (\<lambda>(fs, c). Inr (f # fs, c)))"

section \<open>Chunks\<close>

text \<open>
  A stream without substitute bytes in which no frame grows over the limit, read by a
  receiver that holds \<open>n\<close> bytes; \<open>held\<close> is what it holds afterwards.
\<close>

fun well_spaced :: "nat \<Rightarrow> byte_buffer \<Rightarrow> bool" where
  "well_spaced n [] = True"
| "well_spaced n (b # bs) =
     (if b = ASH_CANCEL_BYTE \<or> b = ASH_FLAG_BYTE then well_spaced 0 bs
      else if b = ASH_SUBSTITUTE_BYTE then False
      else if b = ASH_XON_BYTE \<or> b = ASH_OFF_BYTE then well_spaced n bs
      else n < ASH_MAX_LENGTH \<and> well_spaced (Suc n) bs)"

fun held :: "nat \<Rightarrow> byte_buffer \<Rightarrow> nat" where
  "held n [] = n"
| "held n (b # bs) =
     (if b = ASH_CANCEL_BYTE \<or> b = ASH_FLAG_BYTE then held 0 bs
      else if b = ASH_XON_BYTE \<or> b = ASH_OFF_BYTE then held n bs
      else held (Suc n) bs)"

lemma well_spaced_append [simp]:
  "well_spaced n (xs @ ys) \<longleftrightarrow> well_spaced n xs \<and> well_spaced (held n xs) ys"
  by (induction n xs rule: well_spaced.induct) auto

lemma append_byte_well_spaced:
  assumes "well_spaced (length (in_msg c)) (b # bs)"
    and "append_byte env b False c w = Inr (ps, e, c', w')"
  shows "e = False \<and> length (in_msg c') = held (length (in_msg c)) [b]"
  using assms by (auto simp: append_byte_def ash_consts split: if_splits)

lemma append_loop_well_spaced:
  assumes "well_spaced (length (in_msg c)) d"
    and "append_loop env d False c w = Inr (ps, e, c', w')"
  shows "e = False \<and> length (in_msg c') = held (length (in_msg c)) d"
  using assms
proof (induction d arbitrary: c w ps e)
  case (Cons b bs)
  obtain qs e1 c1 w1 rs where
    1: "append_byte env b False c w = Inr (qs, e1, c1, w1)" and
    2: "append_loop env bs e1 c1 w1 = Inr (rs, e, c', w')"
    using Cons.prems(2) by auto
  have h: "e1 = False" "length (in_msg c1) = held (length (in_msg c)) [b]"
    using append_byte_well_spaced [OF Cons.prems(1) 1] by auto
  have "well_spaced (length (in_msg c1)) bs"
    using Cons.prems(1) well_spaced_append [of _ "[b]" bs] h by simp
  then have "e = False \<and> length (in_msg c') = held (length (in_msg c1)) bs"
    using Cons.IH 2 h by blast
  then show ?case using h by auto
qed simp

lemma append_loop_append:
  "append_loop env (xs @ ys) e c w =
     bindR (append_loop env xs e c w)
       (\<lambda>(ps, e, c, w). bindR (append_loop env ys e c w)
         (\<lambda>(qs, e, c, w). Inr (ps @ qs, e, c, w)))"
proof (induction xs arbitrary: e c w)
  case Nil
  show ?case by (cases "append_loop env ys e c w") auto
next
  case (Cons x xs)
  show ?case
    by (cases "append_byte env x e c w")
      (auto simp: Cons.IH bindR_assoc split_def intro!: bindR_cong)
qed

lemma appendIncoming_append:
  assumes "well_spaced (length (in_msg c)) xs"
  shows "appendIncoming env (xs @ ys) c w =
    bindR (appendIncoming env xs c w)
      (\<lambda>(ps, c, w). bindR (appendIncoming env ys c w) (\<lambda>(qs, c, w). Inr (ps @ qs, c, w)))"
proof (cases "append_loop env xs False c w")
  case (Inl f)
  then show ?thesis by (simp add: appendIncoming_def append_loop_append)
next
  case (Inr r)
  then obtain ps e c' w' where r: "append_loop env xs False c w = Inr (ps, e, c', w')"
    by (cases r) auto
  moreover have "e = False"
    using append_loop_well_spaced [OF assms r] by simp
  ultimately show ?thesis
    by (simp add: appendIncoming_def append_loop_append bindR_assoc split_def)
qed

lemma appendIncoming_Nil [simp]: "appendIncoming env [] c w = Inr ([], c, w)"
  by (simp add: appendIncoming_def)

lemma appendIncoming_held:
  assumes "well_spaced (length (in_msg c)) xs"
    and "appendIncoming env xs c w = Inr (ps, c', w')"
  shows "length (in_msg c') = held (length (in_msg c)) xs"
  using assms(2) by (auto simp: appendIncoming_def dest: append_loop_well_spaced [OF assms(1)])

lemma feed_eq_appendIncoming:
  "well_spaced (length (in_msg c)) (concat chunks) \<Longrightarrow>
     feed env chunks c w = appendIncoming env (concat chunks) c w"
proof (induction chunks arbitrary: c w)
  case (Cons x xs)
  then have x: "well_spaced (length (in_msg c)) x" by simp
  have "feed env xs c1 w1 = appendIncoming env (concat xs) c1 w1"
    if "appendIncoming env x c w = Inr (ps, c1, w1)" for ps c1 w1
    by (rule Cons.IH) (use Cons.prems appendIncoming_held [OF x that] in simp)
  then show ?case
    by (auto simp: appendIncoming_append [OF x] intro!: bindR_cong)
qed simp

section \<open>Whole frames\<close>

lemma in_msg_same: "in_msg c = [] \<Longrightarrow> c\<lparr>lastReceivedByNEAckNum := n, in_msg := []\<rparr> = c\<lparr>lastReceivedByNEAckNum := n\<rparr>"
  by (cases c) simp

lemma append_byte_plain:
  "b \<notin> ash_reserved \<Longrightarrow> append_byte env b e c w =
     (if ASH_MAX_LENGTH \<le> length (in_msg c) then Inr ([], True, c\<lparr>in_msg := [b]\<rparr>, w)
      else Inr ([], e, c\<lparr>in_msg := in_msg c @ [b]\<rparr>, w))"
  by (simp add: append_byte_def ash_reserved_def)

text \<open>The body of a frame, up to its flag byte, is only stored.\<close>

lemma append_loop_store:
  assumes "set d \<inter> ash_reserved = {}" "length (in_msg c) + length d \<le> ASH_MAX_LENGTH"
  shows "append_loop env d e c w = Inr ([], e, c\<lparr>in_msg := in_msg c @ d\<rparr>, w)"
  using assms
proof (induction d arbitrary: c)
  case (Cons b bs)
  then have "append_byte env b e c w = Inr ([], e, c\<lparr>in_msg := in_msg c @ [b]\<rparr>, w)"
    by (simp add: append_byte_plain)
  then show ?case
    using Cons by simp
qed simp

text \<open>A frame whose body is too long leaves only the error flag, until its flag byte.\<close>

lemma append_loop_error:
  "set d \<inter> ash_reserved = {} \<Longrightarrow>
     \<exists>m. append_loop env d True c w = Inr ([], True, c\<lparr>in_msg := m\<rparr>, w)"
proof (induction d arbitrary: c)
  case Nil
  show ?case by (auto intro: exI [of _ "in_msg c"])
next
  case (Cons b bs)
  then have "\<exists>m. append_byte env b True c w = Inr ([], True, c\<lparr>in_msg := m\<rparr>, w)"
    by (auto simp: append_byte_plain)
  then obtain m where "append_byte env b True c w = Inr ([], True, c\<lparr>in_msg := m\<rparr>, w)" ..
  then show ?case
    using Cons.IH [of "c\<lparr>in_msg := m\<rparr>"] Cons.prems by auto
qed

lemma append_loop_overflow:
  assumes "set d \<inter> ash_reserved = {}" "ASH_MAX_LENGTH < length (in_msg c) + length d"
    and "length (in_msg c) \<le> ASH_MAX_LENGTH"
  shows "\<exists>m. append_loop env d e c w = Inr ([], True, c\<lparr>in_msg := m\<rparr>, w)"
proof -
  define n where "n = ASH_MAX_LENGTH - length (in_msg c)"
  let ?c = "c\<lparr>in_msg := in_msg c @ take n d\<rparr>"
  have res: "set (take n d) \<inter> ash_reserved = {}" "set (drop (Suc n) d) \<inter> ash_reserved = {}"
    using assms(1) by (auto dest: in_set_takeD in_set_dropD)
  have n: "n < length d" "length (in_msg c) + length (take n d) = ASH_MAX_LENGTH"
    using assms(2,3) by (auto simp: n_def)
  then have d: "d = take n d @ d ! n # drop (Suc n) d"
    by (simp add: id_take_nth_drop)
  have "d ! n \<notin> ash_reserved"
    using assms(1) n by (metis disjoint_iff nth_mem)
  then have b: "append_byte env (d ! n) e ?c w = Inr ([], True, ?c\<lparr>in_msg := [d ! n]\<rparr>, w)"
    using n by (simp add: append_byte_plain)
  have "append_loop env (take n d) e c w = Inr ([], e, ?c, w)"
    by (rule append_loop_store [OF res(1)]) (use n in simp)
  then have "append_loop env d e c w =
    bindR (append_loop env (drop (Suc n) d) True (?c\<lparr>in_msg := [d ! n]\<rparr>) w)
      (\<lambda>(qs, e, c, w). Inr (qs, e, c, w))"
    by (subst d) (simp add: append_loop_append b)
  then show ?thesis
    using append_loop_error [OF res(2), of env "?c\<lparr>in_msg := [d ! n]\<rparr>" w] by auto
qed

lemma appendIncoming_frame:
  assumes "in_msg c = []" "xs \<noteq> []" "length (addByteStuffing xs) \<le> Suc ASH_MAX_LENGTH"
  shows "appendIncoming env (addByteStuffing xs) c w =
    bindR (processInterFlagStream env (c\<lparr>in_msg := concat (map stuff_byte xs)\<rparr>) w)
      (\<lambda>(payload, c, w). Inr ([payload], c\<lparr>in_msg := []\<rparr>, w))"
proof -
  let ?d = "concat (map stuff_byte xs)"
  have ne: "?d \<noteq> []"
    using assms(2) length_stuffed(1) [of xs] by (metis le_zero_eq length_0_conv)
  have "append_loop env ?d False c w = Inr ([], False, c\<lparr>in_msg := ?d\<rparr>, w)"
    using append_loop_store [OF stuffed_not_reserved, of c xs] assms
    by (simp add: addByteStuffing_def)
  then show ?thesis
    using ne by (simp add: appendIncoming_def addByteStuffing_def append_loop_append
        append_byte_def ash_consts bindR_assoc split_def)
qed

lemma appendIncoming_overlong:
  assumes "in_msg c = []" "Suc ASH_MAX_LENGTH < length (addByteStuffing xs)"
  shows "appendIncoming env (addByteStuffing xs) c w = Inr ([], c, w)"
proof -
  let ?d = "concat (map stuff_byte xs)"
  have "\<exists>m. append_loop env ?d False c w = Inr ([], True, c\<lparr>in_msg := m\<rparr>, w)"
    by (rule append_loop_overflow [OF stuffed_not_reserved])
      (use assms in \<open>simp_all add: addByteStuffing_def\<close>)
  then obtain m where "append_loop env ?d False c w = Inr ([], True, c\<lparr>in_msg := m\<rparr>, w)" ..
  then show ?thesis
    using assms(1) by (simp add: appendIncoming_def addByteStuffing_def append_loop_append
        append_byte_def ash_consts bindR_assoc split_def)
qed

lemma processInterFlagStream_valid:
  assumes "in_msg c = concat (map stuff_byte (with_crc xs))" "xs \<noteq> []"
  shows "processInterFlagStream env c w = process_frame env xs c w"
  using assms by (cases xs) (simp_all add: processInterFlagStream_def)

lemma processInterFlagStream_corrupted:
  assumes "length (removeByteStuffing (in_msg c)) < 3 \<or> computeCRC (removeByteStuffing (in_msg c)) \<noteq> 0"
  shows "processInterFlagStream env c w = Inr ([], c, w)"
  using assms by (auto simp: processInterFlagStream_def Let_def)

end
