(* ===== verification/AshLink.thy ===== *)
theory AshLink
  imports AshCodec
begin

text \<open>
  What the ASH codec promises to its owner: the invariant of its state under any
  well-behaved callbacks, when it enters the connected state, what it extracts from the
  stream of data frames of a peer, and which frames it ignores.
\<close>

section \<open>Control bytes of data frames\<close>

definition data_control :: "u8 \<Rightarrow> u8 \<Rightarrow> u8" where
  "data_control frm ack = push_bit 4 frm OR (ack AND 0x07)"

lemma data_control_decode:
  assumes "frm < 8"
  shows "data_control frm ack AND 0x80 = 0"
    and "u8_get_lo_nibble (data_control frm ack) AND 0x07 = ack AND 0x07"
    and "u8_get_hi_nibble (data_control frm ack) AND 0x07 = frm"
  using word_lt_8_cases [OF assms] word_lt_8_cases [OF u8_and_7_less [of ack]]
  by (auto simp: data_control_def u8_get_lo_nibble_def u8_get_hi_nibble_def)

lemma and_7_less_8 [simp]: "x < 8 \<Longrightarrow> x AND 7 = (x :: u8)"
  using word_lt_8_cases [of x] by auto

lemma forgeDataFrame_eq:
  assumes "length p < 256"
  shows "forgeDataFrame p a =
    Inr (addByteStuffing (with_crc (data_control (frmNum a) (lastReceivedByNEAckNum a)
           # randomize 0x42 p)),
         a\<lparr>frmNum := (frmNum a + 1) AND 7, nextExpectedFEAckNum := (frmNum a + 1) AND 7\<rparr>)"
  using assms by (simp add: forgeDataFrame_def data_control_def Let_def)

lemma forgeDataFrame_diverges: "256 \<le> length p \<Longrightarrow> forgeDataFrame p a = Inl Diverges"
  by (simp add: forgeDataFrame_def)

lemma forgeDataFrame_InrD:
  assumes "forgeDataFrame p a = Inr (f, a')"
  shows "length p < 256"
    and "f = addByteStuffing (with_crc (data_control (frmNum a) (lastReceivedByNEAckNum a)
           # randomize 0x42 p))"
    and "a' = a\<lparr>frmNum := (frmNum a + 1) AND 7, nextExpectedFEAckNum := (frmNum a + 1) AND 7\<rparr>"
proof -
  show len: "length p < 256"
    using assms forgeDataFrame_diverges [of p a] by (cases "256 \<le> length p") auto
  show "f = addByteStuffing (with_crc (data_control (frmNum a) (lastReceivedByNEAckNum a)
           # randomize 0x42 p))"
    and "a' = a\<lparr>frmNum := (frmNum a + 1) AND 7, nextExpectedFEAckNum := (frmNum a + 1) AND 7\<rparr>"
    using assms forgeDataFrame_eq [OF len, of a] by auto
qed

section \<open>Callbacks\<close>

text \<open>
  The contract of the owner's callbacks: they leave the bytes of the frame in progress
  alone, keep the codec well formed and never declare a connection.
\<close>

definition codec_wf :: "ash_codec \<Rightarrow> bool" where
  "codec_wf c \<longleftrightarrow> frmNum c < 8 \<and> nextExpectedFEAckNum c < 8 \<and> lastReceivedByNEAckNum c < 8
     \<and> length (in_msg c) \<le> ASH_MAX_LENGTH"

lemma new_codec_wf: "codec_wf (new_codec cb f)"
  by (simp add: codec_wf_def new_codec_def)

lemma forgeDataFrame_wf:
  "forgeDataFrame p a = Inr (f, a') \<Longrightarrow> codec_wf a \<Longrightarrow> codec_wf a'"
  by (auto simp: codec_wf_def u8_and_7_less dest!: forgeDataFrame_InrD(3))

locale ash_callbacks =
  fixes env :: "'w ash_env"
  assumes env_in_msg: "env ev c w = Inr (c', w') \<Longrightarrow> in_msg c' = in_msg c"
    and env_wf: "env ev c w = Inr (c', w') \<Longrightarrow> codec_wf c \<Longrightarrow> codec_wf c'"
    and env_connected: "env ev c w = Inr (c', w') \<Longrightarrow> stateConnected c' \<Longrightarrow> stateConnected c"
begin

lemma cancel_ack_timer_pres:
  assumes "cancel_ack_timer env c w = Inr (c', w')"
  shows "in_msg c' = in_msg c" "codec_wf c \<Longrightarrow> codec_wf c'"
    and "stateConnected c' \<Longrightarrow> stateConnected c"
  using assms env_in_msg [of AckTimerCancel] env_wf [of AckTimerCancel]
    env_connected [of AckTimerCancel]
  by (auto simp: cancel_ack_timer_def split: if_splits)

lemma ash_callback_pres:
  assumes "ash_callback env i c w = Inr (c', w')"
  shows "in_msg c' = in_msg c" "codec_wf c \<Longrightarrow> codec_wf c'"
    and "stateConnected c' \<Longrightarrow> stateConnected c"
  using assms env_in_msg [of "AshCbInfo i"] env_wf [of "AshCbInfo i"]
    env_connected [of "AshCbInfo i"]
  by (auto simp: ash_callback_def split: if_splits)

lemmas call_pres = cancel_ack_timer_pres ash_callback_pres

lemma process_frame_wf:
  assumes "process_frame env m c w = Inr (p, c', w')" "codec_wf c"
  shows "codec_wf c'"
proof -
  have upd: "codec_wf (d\<lparr>frmNum := x AND 7\<rparr>)" "codec_wf (d\<lparr>lastReceivedByNEAckNum := x AND 7\<rparr>)"
    "codec_wf (d\<lparr>stateConnected := b\<rparr>)" if "codec_wf d" for d x b
    using that by (simp_all add: codec_wf_def u8_and_7_less)
  show ?thesis
    using assms call_pres(2,5) upd
    by (auto simp: process_frame_def Let_def split: if_splits)
qed

lemma process_frame_connects:
  assumes "process_frame env m c w = Inr (p, c', w')" "\<not> stateConnected c" "stateConnected c'"
  shows "\<exists>code rest. m = 0xC1 # 2 # code # rest \<and> code \<in> {0x0B, 0x09, 0x02}"
proof -
  have "m ! 0 = 0xC1 \<and> m ! 1 = 2 \<and> m ! 2 \<in> {0x0B, 0x09, 0x02} \<and> 2 < length m"
    using assms call_pres(3,6)
    by (auto simp: process_frame_def Let_def split: if_splits) force+
  then show ?thesis
    by (cases m; cases "tl m"; cases "tl (tl m)") auto
qed

lemma processInterFlagStream_wf:
  "processInterFlagStream env c w = Inr (p, c', w') \<Longrightarrow> codec_wf c \<Longrightarrow> codec_wf c'"
  by (auto simp: processInterFlagStream_def Let_def split: if_splits dest: process_frame_wf)

lemma append_byte_wf:
  assumes "append_byte env v e c w = Inr (ps, e', c', w')" "codec_wf c"
  shows "codec_wf c'"
proof -
  have "codec_wf (d\<lparr>in_msg := m\<rparr>)" if "codec_wf d" "length m \<le> ASH_MAX_LENGTH" for d m
    using that by (simp add: codec_wf_def)
  then show ?thesis
    using assms processInterFlagStream_wf
    by (auto simp: append_byte_def ASH_MAX_LENGTH_def split: if_splits)
qed

lemma append_loop_wf:
  "append_loop env d e c w = Inr (ps, e', c', w') \<Longrightarrow> codec_wf c \<Longrightarrow> codec_wf c'"
proof (induction d arbitrary: ps e c w)
  case (Cons b bs)
  then show ?case by (auto dest: append_byte_wf)
qed simp

lemma appendIncoming_wf:
  "appendIncoming env d c w = Inr (ps, c', w') \<Longrightarrow> codec_wf c \<Longrightarrow> codec_wf c'"
  by (auto simp: appendIncoming_def dest: append_loop_wf)

lemma forgeResetNCPFrame_wf:
  assumes "forgeResetNCPFrame env c w = Inr (f, c', w')" "codec_wf c"
  shows "codec_wf c' \<and> \<not> stateConnected c'"
proof -
  have "codec_wf (c\<lparr>nextExpectedFEAckNum := 0, lastReceivedByNEAckNum := 0, frmNum := 0,
      stateConnected := False\<rparr>)"
    using assms(2) by (simp add: codec_wf_def)
  then show ?thesis
    using assms(1) call_pres(2,3,5,6) by (auto simp: forgeResetNCPFrame_def) fastforce+
qed

text \<open>The bytes from which the connected state was entered, if it was.\<close>

lemma processInterFlagStream_connects:
  assumes "processInterFlagStream env c w = Inr (p, c', w')" "\<not> stateConnected c" "stateConnected c'"
  shows "\<exists>code rest. removeByteStuffing (in_msg c) = 0xC1 # 2 # code # rest
    \<and> code \<in> {0x0B, 0x09, 0x02} \<and> computeCRC (removeByteStuffing (in_msg c)) = 0"
proof -
  let ?m = "removeByteStuffing (in_msg c)"
  have m: "3 \<le> length ?m" "computeCRC ?m = 0"
    and "process_frame env (butlast (butlast ?m)) c w = Inr (p, c', w')"
    using assms by (auto simp: processInterFlagStream_def Let_def split: if_splits)
  from process_frame_connects [OF this(3) assms(2,3)]
  obtain code rest where "butlast (butlast ?m) = 0xC1 # 2 # code # rest"
    and code: "code \<in> {0x0B, 0x09, 0x02}" by blast
  moreover have "?m = butlast (butlast ?m) @ [last (butlast ?m), last ?m]"
    using m(1) by (cases ?m rule: rev_cases; cases "butlast ?m" rule: rev_cases)
      (auto simp: butlast_append)
  ultimately show ?thesis
    using m(2) by (metis append_Cons)
qed

text \<open>Payloads are small and the receiver's loops always end.\<close>

lemma process_frame_payload:
  assumes "process_frame env m c w = Inr (p, c', w')"
  shows "length p \<le> length m - 1"
proof -
  have "dataRandomize m 1 = Inr q \<Longrightarrow> length q \<le> length m - 1" for q
    using length_dataRandomize [of m 1 q] by simp
  then show ?thesis
    using assms by (auto simp: process_frame_def Let_def split: if_splits)
qed

lemma processInterFlagStream_payload:
  assumes "processInterFlagStream env c w = Inr (p, c', w')"
  shows "length p \<le> length (in_msg c) - 3"
proof -
  have "length q \<le> length (butlast (butlast (removeByteStuffing (in_msg c)))) - 1 \<Longrightarrow>
      length q \<le> length (in_msg c) - 3" for q :: byte_buffer
    using length_removeByteStuffing [of "in_msg c"] by simp
  then show ?thesis
    using assms by (auto simp: processInterFlagStream_def Let_def split: if_splits
        dest: process_frame_payload)
qed

lemma append_loop_payloads:
  "append_loop env d e c w = Inr (ps, e', c', w') \<Longrightarrow> codec_wf c
     \<Longrightarrow> \<forall>p \<in> set ps. length p \<le> 128"
proof (induction d arbitrary: ps e c w)
  case (Cons b bs)
  then obtain qs e1 c1 w1 rs where
    1: "append_byte env b e c w = Inr (qs, e1, c1, w1)" and
    2: "append_loop env bs e1 c1 w1 = Inr (rs, e', c', w')" and ps: "ps = qs @ rs"
    by auto
  have "\<forall>p \<in> set qs. length p \<le> 128"
    using 1 processInterFlagStream_payload Cons.prems(2)
    by (auto simp: append_byte_def codec_wf_def ASH_MAX_LENGTH_def split: if_splits) fastforce
  moreover have "\<forall>p \<in> set rs. length p \<le> 128"
    using Cons.IH [OF 2 append_byte_wf [OF 1 Cons.prems(2)]] .
  ultimately show ?case using ps by auto
qed simp

lemma appendIncoming_payloads:
  "appendIncoming env d c w = Inr (ps, c', w') \<Longrightarrow> codec_wf c
     \<Longrightarrow> \<forall>p \<in> set ps. length p \<le> 128"
  by (auto simp: appendIncoming_def dest: append_loop_payloads)

text \<open>When the callbacks always return, a fault is the codec's own.\<close>

lemma process_frame_fault:
  assumes total: "\<And>ev d v g. env ev d v \<noteq> Inl g"
    and "process_frame env m c w = Inl f" "m \<noteq> []" "length m < 256"
  shows "f = OutOfRange \<and> length m < 3 \<and> m ! 0 = 0xC1"
proof -
  have "cancel_ack_timer env d v \<noteq> Inl g" "ash_callback env i d v \<noteq> Inl g" for d v g i
    using total by (simp_all add: cancel_ack_timer_def ash_callback_def)
  moreover have "dataRandomize m 1 \<noteq> Inl g" for g
    using assms(3,4) by (cases m) (simp_all add: dataRandomize_short)
  ultimately show ?thesis
    using assms(2-4) by (auto simp: process_frame_def Let_def bindR_eq_Inl split: if_splits prod.splits)
qed

lemma append_byte_fault:
  assumes total: "\<And>ev d v g. env ev d v \<noteq> Inl g"
    and "append_byte env b e c w = Inl f" "codec_wf c"
  shows "f = OutOfRange"
proof -
  let ?m = "removeByteStuffing (in_msg c)"
  have fault: "process_frame env (butlast (butlast ?m)) c w = Inl f" and "3 \<le> length ?m"
    using assms(2) by (auto simp: append_byte_def processInterFlagStream_def Let_def bindR_eq_Inl
        split: if_splits)
  moreover have "length ?m < 256"
    using assms(3) length_removeByteStuffing [of "in_msg c"]
    by (simp add: codec_wf_def ASH_MAX_LENGTH_def)
  moreover have "length (butlast (butlast ?m)) = length ?m - 2" by simp
  ultimately show ?thesis
    by (intro conjunct1 [OF process_frame_fault [OF total fault]]) (auto simp del: length_butlast)
qed

lemma appendIncoming_fault:
  assumes total: "\<And>ev d v g. env ev d v \<noteq> Inl g"
    and "appendIncoming env d c w = Inl f" "codec_wf c"
  shows "f = OutOfRange"
proof -
  have "append_loop env d e c w = Inl f \<Longrightarrow> codec_wf c \<Longrightarrow> f = OutOfRange" for e
  proof (induction d arbitrary: e c w)
    case (Cons b bs)
    then show ?case
      using append_byte_fault [OF total] append_byte_wf by (auto simp: bindR_eq_Inl)
  qed simp
  then show ?thesis
    using assms(2,3) by (auto simp: appendIncoming_def bindR_eq_Inl)
qed

end

section \<open>A recording owner\<close>

text \<open>An owner which only keeps the list of the calls it got.\<close>

definition trace_env :: "ash_event list ash_env" where
  "trace_env ev c w = Inr (c, w @ [ev])"

interpretation traced: ash_callbacks trace_env
  by unfold_locales (auto simp: trace_env_def)

lemma trace_env_total: "trace_env ev c w \<noteq> Inl f"
  by (simp add: trace_env_def)

lemma trace_calls [simp]:
  "cancel_ack_timer trace_env c w =
     Inr (c, w @ (if ackTimerCancelFunc c then [AckTimerCancel] else []))"
  "ash_callback trace_env i c w = Inr (c, w @ (if pCb c then [AshCbInfo i] else []))"
  by (simp_all add: cancel_ack_timer_def ash_callback_def trace_env_def)

section \<open>Streams of data frames\<close>

definition data_calls :: "ash_codec \<Rightarrow> u8 \<Rightarrow> ash_event list" where
  "data_calls c ack =
     (if ackTimerCancelFunc c \<and> nextExpectedFEAckNum c = ack AND 7 then [AckTimerCancel] else [])"

text \<open>What the receiver does with the acknowledgement number of a data frame.\<close>

definition take_ack ::
    "'w ash_env \<Rightarrow> u8 \<Rightarrow> ash_codec \<Rightarrow> 'w \<Rightarrow> (ash_codec \<times> 'w) result" where
  "take_ack env ack c w =
     (if nextExpectedFEAckNum c \<noteq> ack AND 7 then Inr (c, w) else cancel_ack_timer env c w)"

lemma process_data_frame:
  assumes "frm < 8" "length p < 255"
  shows "process_frame env (data_control frm ack # randomize 0x42 p) c w =
    bindR (take_ack env ack c w)
      (\<lambda>(c, w). Inr (p, c\<lparr>lastReceivedByNEAckNum := (frm + 1) AND 7\<rparr>, w))"
  using data_control_decode [OF assms(1), of ack] assms(2)
  by (simp add: process_frame_def take_ack_def)

lemma receive_data_frame_env:
  assumes "in_msg c = []" "frmNum a < 8" "forgeDataFrame p a = Inr (f, a')"
    and "length f \<le> Suc ASH_MAX_LENGTH"
  shows "appendIncoming env f c w =
    bindR (take_ack env (lastReceivedByNEAckNum a) (c\<lparr>in_msg := butlast f\<rparr>) w)
      (\<lambda>(c, w). Inr ([p], c\<lparr>lastReceivedByNEAckNum := frmNum a', in_msg := []\<rparr>, w))"
proof -
  let ?m = "data_control (frmNum a) (lastReceivedByNEAckNum a) # randomize 0x42 p"
  have f: "f = addByteStuffing (with_crc ?m)" and a': "frmNum a' = (frmNum a + 1) AND 7"
    using forgeDataFrame_InrD [OF assms(3)] by simp_all
  have "length p < 255"
    using assms(4) length_stuffed(1) [of "with_crc ?m"]
    by (simp add: f addByteStuffing_def ASH_MAX_LENGTH_def)
  then have "processInterFlagStream env (c\<lparr>in_msg := concat (map stuff_byte (with_crc ?m))\<rparr>) w =
    bindR (take_ack env (lastReceivedByNEAckNum a)
             (c\<lparr>in_msg := concat (map stuff_byte (with_crc ?m))\<rparr>) w)
      (\<lambda>(c, w). Inr (p, c\<lparr>lastReceivedByNEAckNum := frmNum a'\<rparr>, w))"
    by (subst processInterFlagStream_valid [of _ ?m])
      (simp_all add: a' process_data_frame [OF assms(2)])
  note received = this
  have "appendIncoming env f c w =
    bindR (processInterFlagStream env (c\<lparr>in_msg := concat (map stuff_byte (with_crc ?m))\<rparr>) w)
      (\<lambda>(payload, c, w). Inr ([payload], c\<lparr>in_msg := []\<rparr>, w))"
    unfolding f by (rule appendIncoming_frame) (use assms(1,4) f in simp_all)
  then show ?thesis
    by (simp add: received f bindR_assoc split_def)
qed

lemma receive_data_frame:
  assumes "in_msg c = []" "frmNum a < 8" "forgeDataFrame p a = Inr (f, a')"
    and "length f \<le> Suc ASH_MAX_LENGTH"
  shows "appendIncoming trace_env f c w =
    Inr ([p], c\<lparr>lastReceivedByNEAckNum := frmNum a'\<rparr>, w @ data_calls c (lastReceivedByNEAckNum a))"
  using receive_data_frame_env [OF assms, of trace_env w] assms(1)
  by (simp add: take_ack_def data_calls_def)

lemma well_spaced_store:
  "set d \<inter> ash_reserved = {} \<Longrightarrow> n + length d \<le> ASH_MAX_LENGTH \<Longrightarrow>
     well_spaced n d \<and> held n d = n + length d"
  by (induction d arbitrary: n) (auto simp: ash_reserved_def)

lemma well_spaced_frame:
  assumes "length (addByteStuffing xs) \<le> Suc ASH_MAX_LENGTH"
  shows "well_spaced 0 (addByteStuffing xs) \<and> held 0 (addByteStuffing xs) = 0"
proof -
  let ?d = "concat (map stuff_byte xs)"
  have "well_spaced 0 ?d \<and> held 0 ?d = 0 + length ?d"
    by (rule well_spaced_store [OF stuffed_not_reserved])
      (use assms in \<open>simp add: addByteStuffing_def\<close>)
  moreover have "held n (xs @ ys) = held (held n xs) ys" for n xs ys
    by (induction n xs rule: held.induct) auto
  ultimately show ?thesis
    by (simp add: addByteStuffing_def ASH_FLAG_BYTE_def)
qed

lemma forge_frames_well_spaced:
  "forge_frames ps a = Inr (fs, a') \<Longrightarrow> \<forall>f \<in> set fs. length f \<le> Suc ASH_MAX_LENGTH
     \<Longrightarrow> well_spaced 0 (concat fs)"
proof (induction ps arbitrary: fs a)
  case (Cons p ps)
  then obtain f a1 gs where f: "forgeDataFrame p a = Inr (f, a1)"
    and "forge_frames ps a1 = Inr (gs, a')" and fs: "fs = f # gs" by auto
  then have "well_spaced 0 (concat gs)" using Cons by simp
  moreover have "well_spaced 0 f \<and> held 0 f = 0"
    using forgeDataFrame_InrD(2) [OF f] Cons.prems(2) well_spaced_frame fs by simp
  ultimately show ?case using fs by simp
qed simp

lemma receive_frames:
  "\<lbrakk>in_msg c = []; frmNum a < 8; forge_frames ps a = Inr (fs, a');
    \<forall>f \<in> set fs. length f \<le> Suc ASH_MAX_LENGTH\<rbrakk> \<Longrightarrow>
   appendIncoming trace_env (concat fs) c w =
     Inr (ps, c\<lparr>lastReceivedByNEAckNum := (if ps = [] then lastReceivedByNEAckNum c else frmNum a')\<rparr>,
          w @ concat (map (\<lambda>_. data_calls c (lastReceivedByNEAckNum a)) ps))"
proof (induction ps arbitrary: fs a c w)
  case (Cons p ps)
  then obtain f a1 gs where f: "forgeDataFrame p a = Inr (f, a1)"
    and gs: "forge_frames ps a1 = Inr (gs, a')" and fs: "fs = f # gs" by auto
  have ok: "length f \<le> Suc ASH_MAX_LENGTH" "\<forall>f \<in> set gs. length f \<le> Suc ASH_MAX_LENGTH"
    using Cons.prems(4) fs by auto
  note a1 = forgeDataFrame_InrD(3) [OF f]
  let ?c = "c\<lparr>lastReceivedByNEAckNum := frmNum a1\<rparr>"
  have 1: "appendIncoming trace_env f c w =
      Inr ([p], ?c, w @ data_calls c (lastReceivedByNEAckNum a))"
    by (rule receive_data_frame [OF Cons.prems(1,2) f ok(1)])
  have a1w: "frmNum a1 < 8" using a1 by (simp add: u8_and_7_less)
  have 2: "appendIncoming trace_env (concat gs) ?c v =
      Inr (ps, ?c\<lparr>lastReceivedByNEAckNum := (if ps = [] then frmNum a1 else frmNum a')\<rparr>,
        v @ concat (map (\<lambda>_. data_calls c (lastReceivedByNEAckNum a)) ps))" for v
    using Cons.IH [of ?c a1 gs v] Cons.prems(1) gs ok(2) a1w a1
    by (simp add: data_calls_def)
  have ws: "well_spaced (length (in_msg c)) f"
    using Cons.prems(1) well_spaced_frame ok(1) forgeDataFrame_InrD(2) [OF f] by simp
  have "ps = [] \<Longrightarrow> frmNum a1 = frmNum a'" using gs by auto
  then show ?case
    by (auto simp: fs appendIncoming_append [OF ws] 1 2)
qed simp

section \<open>Properties\<close>

text \<open>C17: The link carries data frames faithfully. A peer that forges a data frame for
  each payload of a list, none longer on the wire than the receive limit, is read back
  exactly: however the serial port cuts the bytes into chunks, the receiver extracts the
  payloads in order, ends with the acknowledgement number which the peer expects and an
  empty frame buffer, and cancels its timer once for each frame that acknowledges its own
  last one.\<close>

theorem ash_stream_roundtrip:
  assumes "codec_wf a" "in_msg c = []" "forge_frames ps a = Inr (fs, a')"
    and "\<forall>f \<in> set fs. length f \<le> Suc ASH_MAX_LENGTH" "concat chunks = concat fs"
  shows "feed trace_env chunks c w =
    Inr (ps, c\<lparr>lastReceivedByNEAckNum :=
               (if ps = [] then lastReceivedByNEAckNum c else frmNum a')\<rparr>,
         w @ concat (map (\<lambda>_. data_calls c (lastReceivedByNEAckNum a)) ps))"
proof -
  have "feed trace_env chunks c w = appendIncoming trace_env (concat fs) c w"
    using feed_eq_appendIncoming [of c chunks] forge_frames_well_spaced [OF assms(3,4)] assms(2,5)
    by simp
  also have "\<dots> = Inr (ps, c\<lparr>lastReceivedByNEAckNum :=
               (if ps = [] then lastReceivedByNEAckNum c else frmNum a')\<rparr>,
         w @ concat (map (\<lambda>_. data_calls c (lastReceivedByNEAckNum a)) ps))"
    using assms(1) by (intro receive_frames [OF assms(2) _ assms(3,4)]) (simp add: codec_wf_def)
  finally show ?thesis .
qed

theorem ash_stream_roundtrip_witness:
  "feed trace_env
     [[0x00, 0x42, 0x21], [], [0xA8, 0x50, 0xED, 0x2C, 0x7E, 0x10, 0x7D], [0x5E, 0x81, 0x25, 0x7E]]
     (new_codec True True) [] =
   Inr ([[0x00, 0x00, 0x00, 0x04], [0x3C]],
        (new_codec True True)\<lparr>lastReceivedByNEAckNum := 2\<rparr>, [AckTimerCancel, AckTimerCancel])"
proof -
  let ?n = "new_codec True True"
  have "forge_frames [[0x00, 0x00, 0x00, 0x04], [0x3C]] ?n =
      Inr ([[0x00, 0x42, 0x21, 0xA8, 0x50, 0xED, 0x2C, 0x7E], [0x10, 0x7D, 0x5E, 0x81, 0x25, 0x7E]],
           ?n\<lparr>frmNum := 2, nextExpectedFEAckNum := 2\<rparr>)"
  proof -
    have "addByteStuffing (with_crc [0x00, 0x42, 0x21, 0xA8, 0x50]) =
        [0x00, 0x42, 0x21, 0xA8, 0x50, 0xED, 0x2C, 0x7E]"
      and "addByteStuffing (with_crc [0x10, 0x7E]) = [0x10, 0x7D, 0x5E, 0x81, 0x25, 0x7E]"
      by code_simp+
    then show ?thesis
      by (simp add: forgeDataFrame_eq data_control_def lfsr_next_def new_codec_def)
  qed
  from ash_stream_roundtrip [OF new_codec_wf _ this, of ?n
      "[[0x00, 0x42, 0x21], [], [0xA8, 0x50, 0xED, 0x2C, 0x7E, 0x10, 0x7D], [0x5E, 0x81, 0x25, 0x7E]]" "[]"]
  show ?thesis
    by (simp add: new_codec_def data_calls_def ASH_MAX_LENGTH_def)
qed

text \<open>C25: A frame damaged on the line by a burst of at most sixteen consecutive bits is
  ignored: if what the receiver unstuffs is a valid frame up to such a burst, it extracts
  no payload, calls nobody and leaves its state as it was.\<close>

theorem ash_burst_error_ignored:
  assumes "computeCRC frame = 0" "removeByteStuffing (in_msg c) = damaged"
    and "damaged \<noteq> frame" "within_burst (message_bits frame) (message_bits damaged)"
  shows "processInterFlagStream env c w = Inr ([], c, w)"
proof (rule processInterFlagStream_corrupted)
  have "length damaged = length frame"
    using assms(4) by (simp add: within_burst_def)
  then show "length (removeByteStuffing (in_msg c)) < 3 \<or>
      computeCRC (removeByteStuffing (in_msg c)) \<noteq> 0"
    using computeCRC_burst [OF assms(1) _ assms(3,4)] assms(2) by simp
qed

theorem ash_burst_error_ignored_witness:
  "processInterFlagStream trace_env ((new_codec True True)\<lparr>in_msg := [0x81, 0x9F, 0x59]\<rparr>) [] =
     Inr ([], (new_codec True True)\<lparr>in_msg := [0x81, 0x9F, 0x59]\<rparr>, [])"
proof (rule ash_burst_error_ignored)
  show "computeCRC [0x81, 0x60, 0x59] = 0" by code_simp
  have "word_bits (0x60 :: u8) = [False, True, True, False, False, False, False, False]"
    "word_bits (0x9F :: u8) = [True, False, False, True, True, True, True, True]"
    by code_simp+
  then show "within_burst (message_bits [0x81, 0x60, 0x59]) (message_bits [0x81, 0x9F, 0x59])"
    unfolding within_burst_def by (intro conjI exI [of _ 8]) (auto simp: nth_append)
qed (simp_all add: removeByteStuffing_def)

text \<open>C24: The receiver is safe on any input. From a well-formed state, whatever bytes
  arrive, either the reception returns, with a well-formed state and payloads of at most 128
  bytes, or the only fault is the exception that a truncated RSTACK frame raises: the
  masking loop, which does not end on long buffers, always ends here.\<close>

theorem ash_receiver_safe:
  assumes "codec_wf c"
  shows "case appendIncoming trace_env d c w of
      Inl f \<Rightarrow> f = OutOfRange
    | Inr (ps, c', w') \<Rightarrow> codec_wf c' \<and> (\<forall>p \<in> set ps. length p \<le> 128)"
  using assms traced.appendIncoming_fault [OF trace_env_total] traced.appendIncoming_wf
    traced.appendIncoming_payloads
  by (auto split: sum.split)

theorem ash_receiver_safe_witness:
  "case appendIncoming trace_env (replicate 300 0x41) (new_codec True True) [] of
      Inl f \<Rightarrow> f = OutOfRange
    | Inr (ps, c', w') \<Rightarrow> codec_wf c' \<and> (\<forall>p \<in> set ps. length p \<le> 128)"
  by (rule ash_receiver_safe [OF new_codec_wf])

text \<open>The connected state is entered by one event only: the flag byte that ends, with no
  reception error pending, a frame whose check value is right and which is an RSTACK of
  protocol version 2 with a software-reset, bootloader-exit or power-on code; the owner is
  then told. Reception never leaves the connected state.\<close>

theorem ash_connects_only_on_rstack:
  assumes "append_byte trace_env v e c w = Inr (ps, e', c', w')"
  shows "(stateConnected c \<longrightarrow> stateConnected c') \<and>
    (\<not> stateConnected c \<and> stateConnected c' \<longrightarrow>
      v = ASH_FLAG_BYTE \<and> \<not> e \<and> in_msg c' = [] \<and>
      (pCb c \<longrightarrow> last w' = AshCbInfo ASH_STATE_CONNECTED) \<and>
      (\<exists>code rest. removeByteStuffing (in_msg c) = 0xC1 # 2 # code # rest
         \<and> code \<in> {0x0B, 0x09, 0x02} \<and> computeCRC (removeByteStuffing (in_msg c)) = 0))"
  using assms traced.processInterFlagStream_connects
  by (auto simp: append_byte_def split: if_splits)
    (auto simp: processInterFlagStream_def process_frame_def Let_def split: if_splits)

theorem ash_connects_only_on_rstack_witness:
  "append_byte trace_env 0x7E False ((new_codec True True)\<lparr>in_msg := [0xC1, 2, 0x0B, 0x0A, 0x52]\<rparr>) []
     = Inr ([[]], False, (new_codec True True)\<lparr>stateConnected := True\<rparr>,
            [AckTimerCancel, AshCbInfo ASH_STATE_CONNECTED])
   \<and> (\<exists>code rest. removeByteStuffing [0xC1, 2, 0x0B, 0x0A, 0x52] = 0xC1 # 2 # code # rest
         \<and> code \<in> {0x0B, 0x09, 0x02} \<and> computeCRC (removeByteStuffing [0xC1, 2, 0x0B, 0x0A, 0x52]) = 0)"
proof -
  let ?c = "(new_codec True True)\<lparr>in_msg := [0xC1, 2, 0x0B, 0x0A, 0x52]\<rparr>"
  have "computeCRC [0xC1, 2, 0x0B, 0x0A, 0x52] = 0"
    by code_simp
  then have run: "append_byte trace_env 0x7E False ?c [] =
      Inr ([[]], False, (new_codec True True)\<lparr>stateConnected := True\<rparr>,
        [AckTimerCancel, AshCbInfo ASH_STATE_CONNECTED])"
    by (simp add: append_byte_def processInterFlagStream_def process_frame_def
        removeByteStuffing_def ash_consts new_codec_def)
  then show ?thesis
    using ash_connects_only_on_rstack [OF run] by (simp add: new_codec_def)
qed

text \<open>Masking is undone by masking, exactly for the fields on which the loop ends. A field
  of fewer than 256 bytes is masked and recovered by a second masking; on a longer field the
  8-bit loop counter wraps around before it reaches the end and the loop never ends.\<close>

theorem ash_masking_involution:
  "if length d < 256
   then \<exists>r. dataRandomize d 0 = Inr r \<and> length r = length d \<and> dataRandomize r 0 = Inr d
   else dataRandomize d 0 = Inl Diverges"
  by simp

text \<open>Byte stuffing is transparent. The stuffed form of any buffer ends with the one flag
  byte, contains before it no byte to which the receiver gives a meaning of its own, is at
  most twice as long, and unstuffing it gives the buffer back.\<close>

theorem ash_stuffing_roundtrip:
  "\<exists>body. addByteStuffing xs = body @ [ASH_FLAG_BYTE] \<and> removeByteStuffing body = xs
     \<and> set body \<inter> ash_reserved = {} \<and> length xs \<le> length body \<and> length body \<le> 2 * length xs"
  by (intro exI [of _ "concat (map stuff_byte xs)"])
    (simp only: addByteStuffing_def ASH_FLAG_BYTE_def removeByteStuffing_body
      stuffed_not_reserved length_stuffed simp_thms)

text \<open>How the serial port cuts its input into chunks does not matter to the receiver,
  whatever the callbacks do, for any input without substitute bytes in which no run between
  two flag or cancel bytes exceeds the receive limit.\<close>

theorem ash_chunking_irrelevant:
  assumes "well_spaced (length (in_msg c)) (concat chunks)"
  shows "feed env chunks c w = appendIncoming env (concat chunks) c w"
  using assms by (rule feed_eq_appendIncoming)

theorem ash_chunking_irrelevant_witness:
  "feed trace_env [[0xC1, 0x11], [2, 0x1A, 0x41], [0x7E]] (new_codec True True) [] =
     appendIncoming trace_env [0xC1, 0x11, 2, 0x1A, 0x41, 0x7E] (new_codec True True) []"
  using ash_chunking_irrelevant [of "new_codec True True" "[[0xC1, 0x11], [2, 0x1A, 0x41], [0x7E]]"]
  by (simp add: ash_consts new_codec_def)

text \<open>The receive limit counts stuffed bytes. A data frame which the codec itself forges
  is dropped whole by the receiver, without any payload or call, as soon as escaping makes
  it longer on the wire than the limit of 131, though its payload respects the 128 bytes
  that the protocol allows.\<close>

theorem ash_overlong_frame_dropped:
  assumes "forgeDataFrame p a = Inr (f, a')" "in_msg c = []" "Suc ASH_MAX_LENGTH < length f"
  shows "appendIncoming env f c w = Inr ([], c, w)"
  using assms appendIncoming_overlong forgeDataFrame_InrD(2) [OF assms(1)] by metis

theorem ash_overlong_frame_dropped_witness:
  "length (randomize 0x42 (replicate 128 0x7E)) = 128 \<and>
   (\<exists>f a'. forgeDataFrame (randomize 0x42 (replicate 128 0x7E)) (new_codec True True) = Inr (f, a')
     \<and> appendIncoming trace_env f (new_codec True True) [] = Inr ([], new_codec True True, []))"
proof -
  let ?p = "randomize 0x42 (replicate 128 0x7E)"
  obtain f a' where f: "forgeDataFrame ?p (new_codec True True) = Inr (f, a')"
    using forgeDataFrame_eq [of ?p] by simp
  have "length (concat (map stuff_byte (replicate n 0x7E))) = 2 * n" for n
    by (induction n) (simp_all add: stuff_byte_def)
  then have "256 \<le> length f"
    using forgeDataFrame_InrD(2) [OF f]
    by (simp add: addByteStuffing_def with_crc_def del: map_replicate)
  then show ?thesis
    using f ash_overlong_frame_dropped [OF f, of "new_codec True True" trace_env "[]"]
    by (simp add: new_codec_def ASH_MAX_LENGTH_def)
qed

text \<open>A substitute byte is forgotten at the end of a chunk. In one chunk it discards the
  frame in which it was received; when the serial port ends a chunk after it, the receiver
  processes the rest of the frame as if the byte had never been there.\<close>

theorem ash_substitute_lost_at_chunk_end:
  assumes "in_msg c = []" "set (body @ body') \<inter> ash_reserved = {}"
    and "length (body @ body') \<le> ASH_MAX_LENGTH"
  shows "appendIncoming env (body @ [ASH_SUBSTITUTE_BYTE] @ body' @ [ASH_FLAG_BYTE]) c w = Inr ([], c, w)
    \<and> feed env [body @ [ASH_SUBSTITUTE_BYTE], body' @ [ASH_FLAG_BYTE]] c w =
         appendIncoming env (body @ body' @ [ASH_FLAG_BYTE]) c w" (is "?whole \<and> ?cut")
proof (rule conjI)
  have sets: "set body \<inter> ash_reserved = {}" "set body' \<inter> ash_reserved = {}"
    using assms(2) by auto
  have 1: "append_loop env body False c w = Inr ([], False, c\<lparr>in_msg := body\<rparr>, w)"
    using append_loop_store [OF sets(1), of c] assms(1,3) by simp
  have 2: "append_loop env body' e (c\<lparr>in_msg := body\<rparr>) w = Inr ([], e, c\<lparr>in_msg := body @ body'\<rparr>, w)" for e
    using append_loop_store [OF sets(2), of "c\<lparr>in_msg := body\<rparr>"] assms(3) by simp
  have s: "append_byte env ASH_SUBSTITUTE_BYTE e d w = Inr ([], True, d, w)" for e d
    by (simp add: append_byte_def ash_consts)
  have f: "append_byte env ASH_FLAG_BYTE True d w = Inr ([], False, d\<lparr>in_msg := []\<rparr>, w)" for d
    by (simp add: append_byte_def ash_consts)
  show ?whole
    using assms(1) by (simp add: appendIncoming_def append_loop_append 1 2 s f)
  show ?cut
    by (simp add: appendIncoming_def append_loop_append 1 2 s bindR_assoc split_def)
qed

theorem ash_substitute_lost_at_chunk_end_witness:
  "appendIncoming trace_env [0x81, 0x18, 0x60, 0x59, 0x7E] (new_codec True True) [] =
     Inr ([], new_codec True True, [])
   \<and> feed trace_env [[0x81, 0x18], [0x60, 0x59, 0x7E]] (new_codec True True) [] =
     Inr ([[]], new_codec True True, [AckTimerCancel, AshCbInfo ASH_ACK])"
proof -
  have pre: "in_msg (new_codec True True) = []" "set ([0x81] @ [0x60, 0x59]) \<inter> ash_reserved = {}"
    "length ([0x81] @ [0x60, 0x59] :: byte_buffer) \<le> ASH_MAX_LENGTH"
    by (simp_all add: new_codec_def ash_reserved_def ash_consts)
  have "computeCRC [0x81, 0x60, 0x59] = 0" by code_simp
  then have "appendIncoming trace_env ([0x81] @ [0x60, 0x59] @ [ASH_FLAG_BYTE]) (new_codec True True) [] =
     Inr ([[]], new_codec True True, [AckTimerCancel, AshCbInfo ASH_ACK])"
    by (simp add: appendIncoming_def append_byte_def processInterFlagStream_def process_frame_def
        removeByteStuffing_def ash_consts new_codec_def)
  then show ?thesis
    using ash_substitute_lost_at_chunk_end [OF pre, of trace_env "[]"]
    by (simp add: ash_consts)
qed

text \<open>An RSTACK frame with a right check value but without its version or reset code makes
  reception end with an exception, whatever the state and the callbacks.\<close>

theorem ash_truncated_rstack_throws:
  assumes "in_msg c = []" "length params < 2"
  shows "appendIncoming env (addByteStuffing (with_crc (0xC1 # params))) c w = Inl OutOfRange"
proof -
  let ?m = "with_crc (0xC1 # params)"
  have "process_frame env (0xC1 # params) d w = Inl OutOfRange" for d
    using assms(2) by (cases params) (auto simp: process_frame_def bindR_eq_Inl byte_at_def)
  then have "processInterFlagStream env (c\<lparr>in_msg := concat (map stuff_byte ?m)\<rparr>) w = Inl OutOfRange"
    by (subst processInterFlagStream_valid [of _ "0xC1 # params"]) simp_all
  moreover have "length (addByteStuffing ?m) \<le> Suc ASH_MAX_LENGTH"
    using length_stuffed(2) [of ?m] assms(2) by (simp add: addByteStuffing_def ASH_MAX_LENGTH_def)
  ultimately show ?thesis
    using appendIncoming_frame [OF assms(1), of ?m env w] by simp
qed

theorem ash_truncated_rstack_throws_witness:
  "appendIncoming trace_env [0xC1, 0x28, 0x9D, 0x7E] (new_codec True True) [] = Inl OutOfRange"
proof -
  have "addByteStuffing (with_crc [0xC1]) = [0xC1, 0x28, 0x9D, 0x7E]" by code_simp
  then show ?thesis
    using ash_truncated_rstack_throws [of "new_codec True True" "[]" trace_env "[]"]
    by (simp add: new_codec_def)
qed

text \<open>The reset handshake. Forging a reset frame gives the five bytes of the protocol,
  clears the counters and the connected state and reports the disconnection; when the peer
  answers, after a cancel byte, with an RSTACK of version 2 and an accepted code, the codec
  becomes connected with all counters at zero and reports it.\<close>

theorem ash_reset_handshake:
  assumes "code \<in> {0x0B, 0x09, 0x02}"
  shows "\<exists>c' w'. forgeResetNCPFrame trace_env c w = Inr ([0x1A, 0xC0, 0x38, 0xBC, 0x7E], c', w')
    \<and> c' = c\<lparr>nextExpectedFEAckNum := 0, lastReceivedByNEAckNum := 0, frmNum := 0,
             stateConnected := False\<rparr>
    \<and> (pCb c \<longrightarrow> last w' = AshCbInfo ASH_STATE_DISCONNECTED)
    \<and> appendIncoming trace_env (0x1A # addByteStuffing (with_crc [0xC1, 2, code])) c' w' =
        Inr ([[]], c'\<lparr>stateConnected := True, in_msg := []\<rparr>,
             w' @ (if ackTimerCancelFunc c then [AckTimerCancel] else [])
                @ (if pCb c then [AshCbInfo ASH_STATE_CONNECTED] else []))"
proof -
  let ?m = "with_crc [0xC1, 2, code]"
  let ?c = "c\<lparr>nextExpectedFEAckNum := 0, lastReceivedByNEAckNum := 0, frmNum := 0,
             stateConnected := False\<rparr>"
  let ?w = "w @ (if ackTimerCancelFunc c then [AckTimerCancel] else [])
              @ (if pCb c then [AshCbInfo ASH_STATE_DISCONNECTED] else [])"
  have "addByteStuffing (with_crc [0xC0]) = [0xC0, 0x38, 0xBC, 0x7E]" by code_simp
  then have 1: "forgeResetNCPFrame trace_env c w = Inr ([0x1A, 0xC0, 0x38, 0xBC, 0x7E], ?c, ?w)"
    by (simp add: forgeResetNCPFrame_def ASH_CANCEL_BYTE_def)
  let ?d = "?c\<lparr>in_msg := concat (map stuff_byte ?m)\<rparr>"
  have 2: "processInterFlagStream trace_env ?d ?w = Inr ([], ?d\<lparr>stateConnected := True\<rparr>,
      ?w @ (if ackTimerCancelFunc c then [AckTimerCancel] else [])
         @ (if pCb c then [AshCbInfo ASH_STATE_CONNECTED] else []))"
    using assms by (subst processInterFlagStream_valid [of _ "[0xC1, 2, code]"])
      (auto simp: process_frame_def)
  have 3: "length (addByteStuffing ?m) \<le> Suc ASH_MAX_LENGTH"
    using length_stuffed(2) [of ?m] by (simp add: addByteStuffing_def ASH_MAX_LENGTH_def)
  have "appendIncoming trace_env (0x1A # addByteStuffing ?m) ?c ?w =
      appendIncoming trace_env (addByteStuffing ?m) (?c\<lparr>in_msg := []\<rparr>) ?w"
    by (simp add: appendIncoming_def append_byte_def ash_consts split_def)
  then show ?thesis
    using 1 2 appendIncoming_frame [OF _ _ 3, of "?c\<lparr>in_msg := []\<rparr>" trace_env ?w]
    by simp
qed

theorem ash_reset_handshake_witness:
  "\<exists>c' w'. forgeResetNCPFrame trace_env ((new_codec True True)\<lparr>frmNum := 5\<rparr>) [] =
      Inr ([0x1A, 0xC0, 0x38, 0xBC, 0x7E], c', w')
    \<and> appendIncoming trace_env (0x1A # addByteStuffing (with_crc [0xC1, 2, 0x0B])) c' w' =
        Inr ([[]], (new_codec True True)\<lparr>stateConnected := True\<rparr>,
             [AckTimerCancel, AshCbInfo ASH_STATE_DISCONNECTED,
              AckTimerCancel, AshCbInfo ASH_STATE_CONNECTED])"
  using ash_reset_handshake [of "0x0B" "(new_codec True True)\<lparr>frmNum := 5\<rparr>" "[]"]
  by (auto simp: new_codec_def forgeResetNCPFrame_def)

end
