(* ===== verification/Timer.thy ===== *)
theory Timer
  imports Prelude
begin

text \<open>
  Timers: the interface \<open>NSSPI::ITimer\<close> (\<open>include/spi/ITimer.h\<close>) on which the ASH and
  bootloader drivers rely, and its implementation with threads,
  \<open>src/spi/cppthreads/CppThreadsTimer.cpp\<close>. The waiting thread is a value of the state;
  a step of it (the timeout, the return of the callback) is an operation of its own, so
  that a use of the timer from inside its own callback can be told from any other use.
\<close>

section \<open>CppThreadsTimer\<close>

text \<open>The thread held by \<open>waitingThread\<close>: none, in \<open>wait_for\<close>, inside the callback, or ended
  and not yet joined.\<close>

datatype timer_thread = NoThread | Waiting | InCallback | Ended

record cpp_timer =
  started :: bool
  waitingThread :: timer_thread
  duration :: u32

definition new_timer :: cpp_timer where
  "new_timer = \<lparr>started = False, waitingThread = NoThread, duration = 0\<rparr>"

definition timer_stop :: "cpp_timer \<Rightarrow> (bool \<times> cpp_timer) result" where
  "timer_stop t =
     (if \<not> started t then Inr (False, t)
      else let t = t\<lparr>started := False\<rparr> in
        if waitingThread t = InCallback then Inl SelfJoin
        else Inr (True, t\<lparr>waitingThread := NoThread, duration := 0\<rparr>))"

text \<open>The values returned are the result of the C++ function, whether the callback was run
  before it returned, and the timer.\<close>

definition timer_start :: "u32 \<Rightarrow> bool \<Rightarrow> cpp_timer \<Rightarrow> (bool \<times> bool \<times> cpp_timer) result" where
  "timer_start timeout callBackFunction t =
     bindR (if started t then timer_stop t else Inr (False, t)) (\<lambda>(_, t).
       if \<not> callBackFunction then Inr (False, False, t)
       else if timeout = 0 then Inr (True, True, t\<lparr>duration := timeout\<rparr>)
       else Inr (True, False, t\<lparr>duration := timeout, started := True, waitingThread := Waiting\<rparr>))"

definition timer_isRunning :: "cpp_timer \<Rightarrow> bool" where
  "timer_isRunning t = started t"

text \<open>\<open>routine()\<close>: the wait ends because the time has elapsed, and the callback begins; later
  the callback returns and the thread ends.\<close>

definition timer_elapse :: "cpp_timer \<Rightarrow> cpp_timer option" where
  "timer_elapse t =
     (if waitingThread t = Waiting \<and> started t then Some (t\<lparr>waitingThread := InCallback\<rparr>) else None)"

definition timer_callback_end :: "cpp_timer \<Rightarrow> cpp_timer" where
  "timer_callback_end t =
     (if waitingThread t = InCallback then t\<lparr>waitingThread := Ended\<rparr> else t)"

definition timer_wf :: "cpp_timer \<Rightarrow> bool" where
  "timer_wf t \<longleftrightarrow> (started t \<longleftrightarrow> waitingThread t \<noteq> NoThread) \<and> (started t \<longrightarrow> duration t \<noteq> 0)"

lemmas timer_defs = timer_stop_def timer_start_def timer_isRunning_def timer_elapse_def
  timer_callback_end_def timer_wf_def new_timer_def

lemma new_timer_wf [simp]: "timer_wf new_timer"
  by (simp add: timer_defs)

lemma timer_stop_wf: "timer_stop t = Inr (b, t') \<Longrightarrow> timer_wf t \<Longrightarrow> timer_wf t'"
  by (auto simp: timer_defs Let_def split: if_splits)

lemma timer_start_wf: "timer_start d f t = Inr (b, r, t') \<Longrightarrow> timer_wf t \<Longrightarrow> timer_wf t'"
  by (auto simp: timer_defs Let_def split: if_splits)

lemma timer_elapse_wf: "timer_elapse t = Some t' \<Longrightarrow> timer_wf t \<Longrightarrow> timer_wf t'"
  by (auto simp: timer_defs split: if_splits)

lemma timer_callback_end_wf: "timer_wf t \<Longrightarrow> timer_wf (timer_callback_end t)"
  by (auto simp: timer_defs)

section \<open>The interface\<close>

text \<open>
  What a driver relies on. \<open>busy\<close> is the time during which the callback of the timer is
  running; outside it, stopping always works and starting leaves the timer running with
  the requested duration.
\<close>

locale itimer =
  fixes start :: "u32 \<Rightarrow> 't \<Rightarrow> 't result"
    and stop :: "'t \<Rightarrow> 't result"
    and running :: "'t \<Rightarrow> bool"
    and busy :: "'t \<Rightarrow> bool"
    and dur :: "'t \<Rightarrow> u32"
  assumes start_ok: "0 < d \<Longrightarrow> \<not> busy t \<Longrightarrow>
      \<exists>t'. start d t = Inr t' \<and> running t' \<and> \<not> busy t' \<and> dur t' = d"
    and stop_ok: "\<not> busy t \<Longrightarrow> \<exists>t'. stop t = Inr t' \<and> \<not> running t' \<and> \<not> busy t'"
begin

lemma restart:
  assumes "0 < d" "\<not> busy t"
  shows "\<exists>t'. bindR (stop t) (start d) = Inr t' \<and> running t' \<and> \<not> busy t' \<and> dur t' = d"
  using stop_ok [OF assms(2)] start_ok [OF assms(1)] by auto

lemma stop_then_not_running: "\<not> busy t \<Longrightarrow> stop t = Inr t' \<Longrightarrow> \<not> running t' \<and> \<not> busy t'"
  using stop_ok [of t] by auto

lemma start_then_running:
  "0 < d \<Longrightarrow> \<not> busy t \<Longrightarrow> start d t = Inr t' \<Longrightarrow> running t' \<and> \<not> busy t' \<and> dur t' = d"
  using start_ok [of d t] by auto

end

text \<open>\<open>start(timeout, visitor)\<close> and \<open>stop()\<close> as the drivers call them, their results unused:
  a visitor is a callback that exists, and the durations are not 0.\<close>

definition start_visitor :: "u32 \<Rightarrow> cpp_timer \<Rightarrow> cpp_timer result" where
  "start_visitor timeout t = bindR (timer_start timeout True t) (\<lambda>(_, _, t). Inr t)"

definition stop_timer :: "cpp_timer \<Rightarrow> cpp_timer result" where
  "stop_timer t = bindR (timer_stop t) (\<lambda>(_, t). Inr t)"

definition in_callback :: "cpp_timer \<Rightarrow> bool" where
  "in_callback t \<longleftrightarrow> started t \<and> waitingThread t = InCallback"

interpretation cpp: itimer start_visitor stop_timer timer_isRunning in_callback duration
proof
  fix d :: u32 and t :: cpp_timer
  assume "0 < d" "\<not> in_callback t"
  then show "\<exists>t'. start_visitor d t = Inr t' \<and> timer_isRunning t' \<and> \<not> in_callback t' \<and> duration t' = d"
    by (auto simp: start_visitor_def in_callback_def timer_defs Let_def)
next
  fix t :: cpp_timer
  assume "\<not> in_callback t"
  then show "\<exists>t'. stop_timer t = Inr t' \<and> \<not> timer_isRunning t' \<and> \<not> in_callback t'"
    by (auto simp: stop_timer_def in_callback_def timer_defs Let_def)
qed

lemma stop_timer_wf: "stop_timer t = Inr t' \<Longrightarrow> timer_wf t \<Longrightarrow> timer_wf t'"
  by (auto simp: stop_timer_def dest: timer_stop_wf)

lemma start_visitor_wf: "start_visitor d t = Inr t' \<Longrightarrow> timer_wf t \<Longrightarrow> timer_wf t'"
  by (auto simp: start_visitor_def dest: timer_start_wf)

lemma stop_timer_fault: "stop_timer t = Inl f \<longleftrightarrow> in_callback t \<and> f = SelfJoin"
  by (auto simp: stop_timer_def timer_stop_def in_callback_def Let_def)

lemma start_visitor_fault: "start_visitor d t = Inl f \<longleftrightarrow> in_callback t \<and> f = SelfJoin"
  by (auto simp: start_visitor_def timer_start_def timer_stop_def in_callback_def Let_def
      bindR_eq_Inl)

section \<open>Properties\<close>

text \<open>A timer restarts itself only at the price of an exception. Once its time has elapsed
  and its callback runs, the timer still counts as running, and stopping or starting it
  again from the callback joins the thread it runs on; after the callback has returned the
  timer goes on counting as running until somebody stops or restarts it.\<close>

theorem timer_elapsed_still_running:
  assumes "timer_start d True t = Inr (b, r, t1)" "0 < d" "timer_elapse t1 = Some t2"
  shows "timer_isRunning t2 \<and> timer_stop t2 = Inl SelfJoin \<and> timer_start d' f t2 = Inl SelfJoin
    \<and> timer_isRunning (timer_callback_end t2)
    \<and> timer_stop (timer_callback_end t2) =
        Inr (True, \<lparr>started = False, waitingThread = NoThread, duration = 0\<rparr>)"
  using assms by (auto simp: timer_defs Let_def split: if_splits)

theorem timer_elapsed_still_running_witness:
  "\<exists>t1 t2. timer_start 100 True new_timer = Inr (True, False, t1) \<and> timer_elapse t1 = Some t2
     \<and> timer_isRunning t2 \<and> timer_stop t2 = Inl SelfJoin \<and> timer_isRunning (timer_callback_end t2)"
proof -
  let ?t1 = "\<lparr>started = True, waitingThread = Waiting, duration = 100\<rparr>"
  have "timer_start 100 True new_timer = Inr (True, False, ?t1)"
    and "timer_elapse ?t1 = Some (?t1\<lparr>waitingThread := InCallback\<rparr>)"
    by (simp_all add: timer_defs)
  then show ?thesis
    using timer_elapsed_still_running [of 100 new_timer True False ?t1] by auto
qed

end
