(* ===== verification/AshDriver.thy ===== *)
theory AshDriver
  imports AshLink Timer
begin

text \<open>
  The ASH driver, \<open>NSEZSP::AshDriver\<close> of \<open>src/ezsp/ash-driver.cpp\<close>: it owns the codec and
  the acknowledgement timer, writes the frames to the serial port and hands the payloads
  it decodes to its observers. The serial port is an argument, a function from the bytes
  of all earlier writes and of this one to what \<open>serialWriteFunc\<close> gives back; the owner's
  callback \<open>ashCbInfo\<close> and the observers are arguments too, which may use the driver again.
\<close>

section \<open>State\<close>

definition T_RX_ACK_INIT :: u32 where "T_RX_ACK_INIT = 1600"
definition T_ACK_ASH_RESET :: u32 where "T_ACK_ASH_RESET = 5000"

text \<open>The field \<open>ash_tx\<close> records the arguments of the calls of the write function.\<close>

record ash_driver =
  enabled :: bool
  ackTimer :: cpp_timer
  ashCodec :: ash_codec
  serialReadObservable :: bool
  serialWriteFunc :: bool
  ash_tx :: "byte_buffer list"

text \<open>The return value and the count of written bytes of \<open>write()\<close>.\<close>

type_synonym writer = "byte_buffer list \<Rightarrow> byte_buffer \<Rightarrow> int \<times> nat"
type_synonym 'w ash_owner = "ash_info \<Rightarrow> ash_driver \<Rightarrow> 'w \<Rightarrow> (ash_driver \<times> 'w) result"
type_synonym 'w ash_observer = "byte_buffer \<Rightarrow> ash_driver \<Rightarrow> 'w \<Rightarrow> (ash_driver \<times> 'w) result"

definition new_ash_driver :: "bool \<Rightarrow> bool \<Rightarrow> ash_driver" where
  "new_ash_driver ipCb readObservable =
     \<lparr>enabled = True, ackTimer = new_timer,
      ashCodec = setAckTimeoutCancelFunc True (new_codec ipCb False),
      serialReadObservable = readObservable, serialWriteFunc = False, ash_tx = []\<rparr>"

definition ash_disable :: "ash_driver \<Rightarrow> ash_driver" where
  "ash_disable d = d\<lparr>enabled := False\<rparr>"

definition ash_enable :: "ash_driver \<Rightarrow> ash_driver" where
  "ash_enable d = d\<lparr>enabled := True\<rparr>"

definition registerSerialWriter :: "bool \<Rightarrow> ash_driver \<Rightarrow> ash_driver" where
  "registerSerialWriter newWriteFunc d = d\<lparr>serialWriteFunc := newWriteFunc\<rparr>"

definition hasARegisteredSerialWriter :: "ash_driver \<Rightarrow> bool" where
  "hasARegisteredSerialWriter d = serialWriteFunc d"

definition registerSerialReadObservable :: "bool \<Rightarrow> ash_driver \<Rightarrow> ash_driver" where
  "registerSerialReadObservable obs d = d\<lparr>serialReadObservable := obs\<rparr>"

definition isConnected :: "ash_driver \<Rightarrow> bool" where
  "isConnected d = isInConnectedState (ashCodec d)"

text \<open>The callbacks which the driver gives to its codec.\<close>

definition codec_env :: "'w ash_owner \<Rightarrow> (ash_driver \<times> 'w) ash_env" where
  "codec_env cb ev c dw =
     (case dw of (d, w) \<Rightarrow> let d = d\<lparr>ashCodec := c\<rparr> in
       (case ev of
          AckTimerCancel \<Rightarrow> bindR (stop_timer (ackTimer d)) (\<lambda>t. Inr (c, d\<lparr>ackTimer := t\<rparr>, w))
        | AshCbInfo info \<Rightarrow> bindR (cb info d w) (\<lambda>(d, w). Inr (ashCodec d, d, w))))"

section \<open>Operations\<close>

definition ash_trigger :: "'w ash_owner \<Rightarrow> ash_driver \<Rightarrow> 'w \<Rightarrow> (ash_driver \<times> 'w) result" where
  "ash_trigger cb d w =
     (if \<not> isInConnectedState (ashCodec d)
      then (if pCb (ashCodec d) then cb ASH_RESET_FAILED d w else Inr (d, w))
      else Inr (d, w))"

text \<open>The acknowledgement timer elapses: its thread runs \<open>trigger\<close> and then ends.\<close>

definition ash_timeout :: "'w ash_owner \<Rightarrow> ash_driver \<Rightarrow> 'w \<Rightarrow> (ash_driver \<times> 'w) result" where
  "ash_timeout cb d w =
     (case timer_elapse (ackTimer d) of
        None \<Rightarrow> Inr (d, w)
      | Some t \<Rightarrow> bindR (ash_trigger cb (d\<lparr>ackTimer := t\<rparr>) w)
          (\<lambda>(d, w). Inr (d\<lparr>ackTimer := timer_callback_end (ackTimer d)\<rparr>, w)))"

definition sendAshFrame :: "writer \<Rightarrow> byte_buffer \<Rightarrow> ash_driver \<Rightarrow> bool \<times> ash_driver" where
  "sendAshFrame wr frame d =
     (if \<not> serialWriteFunc d then (False, d)
      else if \<not> enabled d then (False, d)
      else case wr (ash_tx d) frame of (rc, writtenBytes) \<Rightarrow>
        let d = d\<lparr>ash_tx := ash_tx d @ [frame]\<rparr> in
        if rc < 0 then (False, d)
        else if length frame \<noteq> writtenBytes then (False, d)
        else (True, d))"

definition sendResetNCPFrame ::
    "writer \<Rightarrow> 'w ash_owner \<Rightarrow> ash_driver \<Rightarrow> 'w \<Rightarrow> (bool \<times> ash_driver \<times> 'w) result" where
  "sendResetNCPFrame wr cb d w =
     bindR (stop_timer (ackTimer d)) (\<lambda>t.
     bindR (forgeResetNCPFrame (codec_env cb) (ashCodec d) (d\<lparr>ackTimer := t\<rparr>, w))
       (\<lambda>(frame, c, d, w). case sendAshFrame wr frame (d\<lparr>ashCodec := c\<rparr>) of
          (False, d) \<Rightarrow> Inr (False, d, w)
        | (True, d) \<Rightarrow> bindR (start_visitor T_ACK_ASH_RESET (ackTimer d))
            (\<lambda>t. Inr (True, d\<lparr>ackTimer := t\<rparr>, w))))"

definition sendAckFrame :: "writer \<Rightarrow> ash_driver \<Rightarrow> bool \<times> ash_driver" where
  "sendAckFrame wr d = sendAshFrame wr (forgeAckFrame (ashCodec d)) d"

definition sendDataFrame :: "writer \<Rightarrow> byte_buffer \<Rightarrow> ash_driver \<Rightarrow> (bool \<times> ash_driver) result" where
  "sendDataFrame wr i_data d =
     bindR (stop_timer (ackTimer d)) (\<lambda>t.
     bindR (forgeDataFrame i_data (ashCodec d)) (\<lambda>(frame, c).
       case sendAshFrame wr frame (d\<lparr>ackTimer := t, ashCodec := c\<rparr>) of
         (False, d) \<Rightarrow> Inr (False, d)
       | (True, d) \<Rightarrow> bindR (start_visitor T_RX_ACK_INIT (ackTimer d))
           (\<lambda>t. Inr (True, d\<lparr>ackTimer := t\<rparr>))))"

fun notify_payloads ::
    "'w ash_observer \<Rightarrow> byte_buffer list \<Rightarrow> ash_driver \<Rightarrow> 'w \<Rightarrow> (ash_driver \<times> 'w) result" where
  "notify_payloads obs [] d w = Inr (d, w)"
| "notify_payloads obs (p # ps) d w =
     bindR (if 128 < length p then Inr (d, w) else obs p d w)
       (\<lambda>(d, w). notify_payloads obs ps d w)"

definition ash_appendIncoming ::
    "'w ash_owner \<Rightarrow> 'w ash_observer \<Rightarrow> byte_buffer \<Rightarrow> ash_driver \<Rightarrow> 'w
       \<Rightarrow> (ash_driver \<times> 'w) result" where
  "ash_appendIncoming cb obs i_data d w =
     bindR (appendIncoming (codec_env cb) i_data (ashCodec d) (d, w))
       (\<lambda>(ps, c, d, w). notify_payloads obs ps (d\<lparr>ashCodec := c\<rparr>) w)"

definition ash_handleInputData ::
    "'w ash_owner \<Rightarrow> 'w ash_observer \<Rightarrow> byte_buffer \<Rightarrow> ash_driver \<Rightarrow> 'w
       \<Rightarrow> (ash_driver \<times> 'w) result" where
  "ash_handleInputData cb obs dataIn d w =
     (if enabled d then ash_appendIncoming cb obs dataIn d w else Inr (d, w))"

section \<open>Lemmas\<close>

lemma sendAshFrame_fields [simp]:
  "ackTimer (snd (sendAshFrame wr f d)) = ackTimer d"
  "ashCodec (snd (sendAshFrame wr f d)) = ashCodec d"
  "enabled (snd (sendAshFrame wr f d)) = enabled d"
  "serialWriteFunc (snd (sendAshFrame wr f d)) = serialWriteFunc d"
  by (auto simp: sendAshFrame_def Let_def split: prod.splits)

lemma sendAshFrame_True:
  "fst (sendAshFrame wr f d) \<longleftrightarrow> serialWriteFunc d \<and> enabled d
     \<and> 0 \<le> fst (wr (ash_tx d) f) \<and> snd (wr (ash_tx d) f) = length f"
  by (auto simp: sendAshFrame_def Let_def split: prod.splits)

lemma sendAshFrame_tx:
  "ash_tx (snd (sendAshFrame wr f d)) =
     ash_tx d @ (if serialWriteFunc d \<and> enabled d then [f] else [])"
  by (auto simp: sendAshFrame_def Let_def split: prod.splits)

lemma sendAshFrame_pairD:
  assumes "sendAshFrame wr f d = (b, e)"
  shows "ackTimer e = ackTimer d" "ashCodec e = ashCodec d" "enabled e = enabled d"
    "serialWriteFunc e = serialWriteFunc d"
    "ash_tx e = ash_tx d @ (if serialWriteFunc d \<and> enabled d then [f] else [])"
    "b = (serialWriteFunc d \<and> enabled d \<and> 0 \<le> fst (wr (ash_tx d) f)
          \<and> snd (wr (ash_tx d) f) = length f)"
  using sendAshFrame_fields [of wr f d] sendAshFrame_tx [of wr f d] sendAshFrame_True [of wr f d]
  by (simp_all add: assms)

definition driver_wf :: "ash_driver \<Rightarrow> bool" where
  "driver_wf d \<longleftrightarrow> codec_wf (ashCodec d) \<and> timer_wf (ackTimer d) \<and> ackTimerCancelFunc (ashCodec d)"

lemma new_ash_driver_wf: "driver_wf (new_ash_driver cb obs)"
  by (simp add: driver_wf_def new_ash_driver_def new_codec_def setAckTimeoutCancelFunc_def
      codec_wf_def)

text \<open>Everything a data frame does to the driver that sends it.\<close>

lemma sendDataFrame_outcome:
  assumes "sendDataFrame wr p d = Inr (ok, d')"
  shows "\<exists>f. forgeDataFrame p (ashCodec d) = Inr (f, ashCodec d')
    \<and> ok = (serialWriteFunc d \<and> enabled d \<and> 0 \<le> fst (wr (ash_tx d) f)
            \<and> snd (wr (ash_tx d) f) = length f)
    \<and> timer_isRunning (ackTimer d') = ok \<and> (ok \<longrightarrow> duration (ackTimer d') = T_RX_ACK_INIT)
    \<and> ash_tx d' = ash_tx d @ (if serialWriteFunc d \<and> enabled d then [f] else [])
    \<and> enabled d' = enabled d \<and> serialWriteFunc d' = serialWriteFunc d
    \<and> \<not> in_callback (ackTimer d')"
proof -
  obtain t f c where t: "stop_timer (ackTimer d) = Inr t"
    and f: "forgeDataFrame p (ashCodec d) = Inr (f, c)"
    using assms by (auto simp: sendDataFrame_def)
  have stopped: "\<not> timer_isRunning t \<and> \<not> in_callback t"
    using cpp.stop_then_not_running [OF _ t] stop_timer_fault [of "ackTimer d"] t by force
  let ?d = "d\<lparr>ackTimer := t, ashCodec := c\<rparr>"
  obtain sent e where s: "sendAshFrame wr f ?d = (sent, e)" by force
  note e = sendAshFrame_pairD [OF s, simplified] and sent = sendAshFrame_pairD(6) [OF s, simplified]
  show ?thesis
  proof (cases sent)
    case True
    then obtain t' where t': "start_visitor T_RX_ACK_INIT t = Inr t'" "ok" "d' = e\<lparr>ackTimer := t'\<rparr>"
      using assms t f s e by (auto simp: sendDataFrame_def)
    then have "timer_isRunning t' \<and> \<not> in_callback t' \<and> duration t' = T_RX_ACK_INIT"
      using cpp.start_then_running [of T_RX_ACK_INIT t t'] stopped by (simp add: T_RX_ACK_INIT_def)
    then show ?thesis using f t' e sent True by auto
  next
    case False
    then have "\<not> ok" "d' = e"
      using assms t f s by (auto simp: sendDataFrame_def)
    then show ?thesis using f e sent False stopped by auto
  qed
qed

lemma sendDataFrame_fault:
  "sendDataFrame wr p d = Inl f \<longleftrightarrow>
     in_callback (ackTimer d) \<and> f = SelfJoin
   \<or> \<not> in_callback (ackTimer d) \<and> 256 \<le> length p \<and> f = Diverges"
proof (cases "in_callback (ackTimer d)")
  case True
  then have "stop_timer (ackTimer d) = Inl SelfJoin" by (simp add: stop_timer_fault)
  then show ?thesis using True by (auto simp: sendDataFrame_def)
next
  case False
  then obtain t where t: "stop_timer (ackTimer d) = Inr t" "\<not> in_callback t"
    using cpp.stop_ok by blast
  show ?thesis
  proof (cases "256 \<le> length p")
    case True
    then show ?thesis using t False by (auto simp: sendDataFrame_def forgeDataFrame_diverges)
  next
    case short: False
    then obtain f c where f: "forgeDataFrame p (ashCodec d) = Inr (f, c)"
      by (simp add: forgeDataFrame_eq)
    obtain sent e where s: "sendAshFrame wr f (d\<lparr>ackTimer := t, ashCodec := c\<rparr>) = (sent, e)"
      by force
    have "\<not> in_callback (ackTimer e)"
      using sendAshFrame_pairD(1) [OF s] t(2) by simp
    then have "start_visitor T_RX_ACK_INIT (ackTimer e) \<noteq> Inl g" for g
      by (simp add: start_visitor_fault)
    then have "sendDataFrame wr p d \<noteq> Inl g" for g
      using t(1) f s by (cases sent) (auto simp: sendDataFrame_def bindR_eq_Inl)
    then show ?thesis using False short by simp
  qed
qed

lemma sendResetNCPFrame_forges:
  assumes "sendResetNCPFrame wr cb d w = Inr (ok, d', w')"
  shows "\<exists>t f c e. forgeResetNCPFrame (codec_env cb) (ashCodec d) (d\<lparr>ackTimer := t\<rparr>, w) = Inr (f, c, e, w')
    \<and> ashCodec d' = c"
proof -
  obtain t f c e v where
    forge: "forgeResetNCPFrame (codec_env cb) (ashCodec d) (d\<lparr>ackTimer := t\<rparr>, w) = Inr (f, c, e, v)"
    and rest: "(case sendAshFrame wr f (e\<lparr>ashCodec := c\<rparr>) of
          (False, d) \<Rightarrow> Inr (False, d, v)
        | (True, d) \<Rightarrow> bindR (start_visitor T_ACK_ASH_RESET (ackTimer d))
            (\<lambda>t. Inr (True, d\<lparr>ackTimer := t\<rparr>, v))) = Inr (ok, d', w')"
    using assms unfolding sendResetNCPFrame_def by (auto simp del: split_paired_Ex)
  obtain sent g where s: "sendAshFrame wr f (e\<lparr>ashCodec := c\<rparr>) = (sent, g)"
    by (metis surj_pair)
  have "ashCodec g = c" using sendAshFrame_pairD(2) [OF s] by simp
  then have "v = w' \<and> ashCodec d' = c"
    using rest s by (cases sent) auto
  then show ?thesis using forge by blast
qed

lemma notify_payloads_append:
  "notify_payloads obs (ps @ qs) d w =
     bindR (notify_payloads obs ps d w) (\<lambda>(d, w). notify_payloads obs qs d w)"
  by (induction ps arbitrary: d w) (auto simp: bindR_assoc split_def)

section \<open>The contract of the owner\<close>

locale ash_owner_contract =
  fixes cb :: "'w ash_owner"
  assumes cb_in_msg: "cb i d w = Inr (d', w') \<Longrightarrow> in_msg (ashCodec d') = in_msg (ashCodec d)"
    and cb_wf: "cb i d w = Inr (d', w') \<Longrightarrow> codec_wf (ashCodec d) \<Longrightarrow> codec_wf (ashCodec d')"
    and cb_connected:
      "cb i d w = Inr (d', w') \<Longrightarrow> stateConnected (ashCodec d') \<Longrightarrow> stateConnected (ashCodec d)"

sublocale ash_owner_contract \<subseteq> codec: ash_callbacks "codec_env cb"
proof
  fix ev c w c' w'
  assume "codec_env cb ev c w = Inr (c', w')"
  then show "in_msg c' = in_msg c" "codec_wf c \<Longrightarrow> codec_wf c'"
    "stateConnected c' \<Longrightarrow> stateConnected c"
    using cb_in_msg cb_wf cb_connected
    by (auto simp: codec_env_def Let_def split: ash_event.splits prod.splits) fastforce+
qed

context ash_owner_contract
begin

lemma sendResetNCPFrame_wf:
  assumes "sendResetNCPFrame wr cb d w = Inr (ok, d', w')" "codec_wf (ashCodec d)"
  shows "codec_wf (ashCodec d') \<and> \<not> isConnected d'"
proof -
  obtain t f c e where f: "forgeResetNCPFrame (codec_env cb) (ashCodec d) (d\<lparr>ackTimer := t\<rparr>, w) =
      Inr (f, c, e, w')" and "ashCodec d' = c"
    using sendResetNCPFrame_forges [OF assms(1)] by blast
  then show ?thesis
    using codec.forgeResetNCPFrame_wf [OF f assms(2)]
    by (simp add: isConnected_def isInConnectedState_def)
qed

text \<open>The check for payloads over 128 bytes never drops anything the codec decodes.\<close>

lemma payload_check_redundant:
  assumes "appendIncoming (codec_env cb) i (ashCodec d) (d, w) = Inr (ps, c', w')"
    and "codec_wf (ashCodec d)"
  shows "filter (\<lambda>p. length p \<le> 128) ps = ps"
  using codec.appendIncoming_payloads [OF assms] by (simp add: filter_id_conv)

end

section \<open>A recording owner\<close>

text \<open>An owner and observer which only keep what they are told.\<close>

definition log_cb :: "(ash_info list \<times> byte_buffer list) ash_owner" where
  "log_cb i d w = Inr (d, fst w @ [i], snd w)"

definition log_obs :: "(ash_info list \<times> byte_buffer list) ash_observer" where
  "log_obs p d w = Inr (d, fst w, snd w @ [p])"

interpretation logged: ash_owner_contract log_cb
  by unfold_locales (auto simp: log_cb_def)

section \<open>Properties\<close>

lemma take_ack_codec_env:
  assumes "\<not> in_callback (ackTimer d)" "ackTimerCancelFunc c"
  shows "\<exists>t. take_ack (codec_env cb) ack c (d, w) =
      Inr (c, (if nextExpectedFEAckNum c = ack AND 7 then d\<lparr>ashCodec := c, ackTimer := t\<rparr> else d), w)
    \<and> \<not> timer_isRunning t"
proof -
  obtain t where "stop_timer (ackTimer d) = Inr t" "\<not> timer_isRunning t"
    using cpp.stop_ok [OF assms(1)] by blast
  then show ?thesis
    using assms(2) by (auto simp: take_ack_def cancel_ack_timer_def codec_env_def)
qed

text \<open>A payload sent by one driver reaches the observers of another. If the write of the
  frame succeeds and the frame respects the receive limit, an enabled receiver that is at a
  frame boundary hands exactly this payload to its observers, once, with its next
  acknowledgement number set to the frame number the sender will use next and its own
  acknowledgement timer stopped if the frame acknowledges its last one.\<close>

theorem ash_driver_delivers:
  assumes "codec_wf (ashCodec a)" "sendDataFrame wr p a = Inr (True, a')"
    and "length (last (ash_tx a')) \<le> Suc ASH_MAX_LENGTH" "length p \<le> 128"
    and "enabled b" "in_msg (ashCodec b) = []" "\<not> in_callback (ackTimer b)"
    and "ackTimerCancelFunc (ashCodec b)"
  shows "\<exists>b'. ash_handleInputData cb obs (last (ash_tx a')) b w = obs p b' w
    \<and> ashCodec b' = (ashCodec b)\<lparr>lastReceivedByNEAckNum := frmNum (ashCodec a')\<rparr>
    \<and> (nextExpectedFEAckNum (ashCodec b) = lastReceivedByNEAckNum (ashCodec a) AND 7
         \<longrightarrow> \<not> timer_isRunning (ackTimer b'))"
proof -
  obtain f where f: "forgeDataFrame p (ashCodec a) = Inr (f, ashCodec a')"
    and sent: "serialWriteFunc a" "enabled a"
    and tx: "ash_tx a' = ash_tx a @ (if serialWriteFunc a \<and> enabled a then [f] else [])"
    using sendDataFrame_outcome [OF assms(2)] by auto
  have last: "last (ash_tx a') = f" using tx sent by simp
  let ?c = "(ashCodec b)\<lparr>in_msg := butlast f\<rparr>"
  have "ackTimerCancelFunc ?c" using assms(8) by simp
  note ack = take_ack_codec_env [OF assms(7) this]
  obtain t where t: "take_ack (codec_env cb) (lastReceivedByNEAckNum (ashCodec a)) ?c (b, w) =
      Inr (?c, (if nextExpectedFEAckNum ?c = lastReceivedByNEAckNum (ashCodec a) AND 7
                then b\<lparr>ashCodec := ?c, ackTimer := t\<rparr> else b), w)"
    and stopped: "\<not> timer_isRunning t"
    using ack [of cb "lastReceivedByNEAckNum (ashCodec a)" w] by (elim exE conjE)
  have "frmNum (ashCodec a) < 8" using assms(1) by (simp add: codec_wf_def)
  note recv = receive_data_frame_env [OF assms(6) this f assms(3) [unfolded last], of "codec_env cb"]
  let ?b = "if nextExpectedFEAckNum ?c = lastReceivedByNEAckNum (ashCodec a) AND 7
            then b\<lparr>ackTimer := t\<rparr> else b"
  let ?b' = "?b\<lparr>ashCodec := (ashCodec b)\<lparr>lastReceivedByNEAckNum := frmNum (ashCodec a')\<rparr>\<rparr>"
  have "ash_handleInputData cb obs f b w = obs p ?b' w"
    using assms(4,5,6) t by (auto simp: ash_handleInputData_def ash_appendIncoming_def recv split_def in_msg_same)
  then show ?thesis
    using stopped last by (intro exI [of _ ?b']) auto
qed

text \<open>A serial port which accepts everything.\<close>

definition good_port :: writer where
  "good_port tx bytes = (0, length bytes)"

definition ready_driver :: ash_driver where
  "ready_driver = registerSerialWriter True (new_ash_driver True True)"

lemmas ready_defs = ready_driver_def registerSerialWriter_def new_ash_driver_def
  setAckTimeoutCancelFunc_def new_codec_def good_port_def

theorem ash_driver_delivers_witness:
  "\<exists>a' b'. sendDataFrame good_port [0, 0, 2] ready_driver = Inr (True, a')
     \<and> ash_handleInputData log_cb log_obs (last (ash_tx a')) ready_driver ([], []) =
         Inr (b', [], [[0, 0, 2]])"
proof -
  let ?f = "addByteStuffing (with_crc (data_control 0 0 # randomize 0x42 [0, 0, 2]))"
  obtain t where t: "start_visitor T_RX_ACK_INIT new_timer = Inr t"
    using cpp.start_ok [of T_RX_ACK_INIT new_timer]
    by (auto simp: T_RX_ACK_INIT_def in_callback_def new_timer_def)
  have run: "sendDataFrame good_port [0, 0, 2] ready_driver =
      Inr (True, ready_driver\<lparr>ackTimer := t, ash_tx := [?f],
        ashCodec := (ashCodec ready_driver)\<lparr>frmNum := 1, nextExpectedFEAckNum := 1\<rparr>\<rparr>)"
    using t by (simp add: sendDataFrame_def stop_timer_def timer_stop_def new_timer_def ready_defs
        forgeDataFrame_eq sendAshFrame_def)
  have "length (concat (map stuff_byte (with_crc (data_control 0 0 # randomize 0x42 [0, 0, 2])))) \<le> 12"
    using length_stuffed(2) [of "with_crc (data_control 0 0 # randomize 0x42 [0, 0, 2])"] by simp
  then have "length ?f \<le> Suc ASH_MAX_LENGTH"
    by (simp add: addByteStuffing_def ASH_MAX_LENGTH_def)
  then show ?thesis
    using ash_driver_delivers [OF _ run, of ready_driver log_cb log_obs "([], [])"] run
    by (auto simp: ready_defs codec_wf_def in_callback_def new_timer_def log_obs_def)
qed

text \<open>What sending a data frame reports is what happened. It succeeds exactly if a writer
  is registered, the driver is enabled and the serial port takes the whole frame; the
  acknowledgement timer then runs for the initial timeout and otherwise not at all. A failed
  sending uses up a frame number all the same.\<close>

theorem ash_send_outcome:
  assumes "sendDataFrame wr p d = Inr (ok, d')"
  shows "\<exists>f. forgeDataFrame p (ashCodec d) = Inr (f, ashCodec d')
    \<and> (ok \<longleftrightarrow> serialWriteFunc d \<and> enabled d \<and> 0 \<le> fst (wr (ash_tx d) f)
               \<and> snd (wr (ash_tx d) f) = length f)
    \<and> (timer_isRunning (ackTimer d') \<longleftrightarrow> ok) \<and> (ok \<longrightarrow> duration (ackTimer d') = T_RX_ACK_INIT)
    \<and> frmNum (ashCodec d') = (frmNum (ashCodec d) + 1) AND 7"
proof -
  from sendDataFrame_outcome [OF assms] obtain f
    where f: "forgeDataFrame p (ashCodec d) = Inr (f, ashCodec d')"
      and "ok = (serialWriteFunc d \<and> enabled d \<and> 0 \<le> fst (wr (ash_tx d) f)
                 \<and> snd (wr (ash_tx d) f) = length f)"
      and "timer_isRunning (ackTimer d') = ok" "ok \<longrightarrow> duration (ackTimer d') = T_RX_ACK_INIT"
    by blast
  moreover have "frmNum (ashCodec d') = (frmNum (ashCodec d) + 1) AND 7"
    by (subst forgeDataFrame_InrD(3) [OF f]) simp
  ultimately show ?thesis by blast
qed

theorem ash_send_outcome_witness:
  "\<exists>d'. sendDataFrame good_port [1] (ash_disable ready_driver) = Inr (False, d')
     \<and> \<not> timer_isRunning (ackTimer d') \<and> ash_tx d' = [] \<and> frmNum (ashCodec d') = 1"
proof -
  let ?d = "(ash_disable ready_driver)\<lparr>ashCodec :=
    (ashCodec ready_driver)\<lparr>frmNum := 1, nextExpectedFEAckNum := 1\<rparr>\<rparr>"
  have run: "sendDataFrame good_port [1] (ash_disable ready_driver) = Inr (False, ?d)"
    by (simp add: sendDataFrame_def stop_timer_def timer_stop_def new_timer_def ready_defs
        forgeDataFrame_eq sendAshFrame_def ash_disable_def)
  show ?thesis
    using ash_send_outcome [OF run] run by (auto simp: ready_defs ash_disable_def)
qed

text \<open>A disabled driver is silent: incoming bytes change nothing and reach nobody, and no
  frame of any kind is written to the serial port.\<close>

theorem ash_disabled_silent:
  assumes "\<not> enabled d"
  shows "ash_handleInputData cb obs bytes d w = Inr (d, w)
    \<and> sendAckFrame wr d = (False, d)
    \<and> (\<forall>ok d'. sendDataFrame wr p d = Inr (ok, d') \<longrightarrow> \<not> ok \<and> ash_tx d' = ash_tx d)"
  using assms sendDataFrame_outcome [of wr p d]
  by (auto simp: ash_handleInputData_def sendAckFrame_def sendAshFrame_def)

theorem ash_disabled_silent_witness:
  "ash_handleInputData log_cb log_obs [0x81, 0x60, 0x59, 0x7E] (ash_disable ready_driver) ([], []) =
     Inr (ash_disable ready_driver, [], [])"
  by (rule conjunct1 [OF ash_disabled_silent]) (simp add: ash_disable_def)

text \<open>The acknowledgement timer reports a failed reset and nothing else: when it elapses,
  the owner is told that the reset failed exactly if the link is not connected, and an owner that
  leaves the timer alone leaves it ended.\<close>

theorem ash_timeout_reports:
  assumes "timer_elapse (ackTimer d) = Some t" "pCb (ashCodec d)"
  shows "ash_timeout log_cb d w =
    Inr (d\<lparr>ackTimer := t\<lparr>waitingThread := Ended\<rparr>\<rparr>,
         (if isConnected d then fst w else fst w @ [ASH_RESET_FAILED]), snd w)"
  using assms by (auto simp: ash_timeout_def ash_trigger_def isConnected_def isInConnectedState_def
      log_cb_def timer_elapse_def timer_callback_end_def split: if_splits)

theorem ash_timeout_reports_witness:
  "ash_timeout log_cb (ready_driver\<lparr>ackTimer := \<lparr>started = True, waitingThread = Waiting, duration = 5000\<rparr>\<rparr>)
      ([], []) =
   Inr (ready_driver\<lparr>ackTimer := \<lparr>started = True, waitingThread = Ended, duration = 5000\<rparr>\<rparr>,
        [ASH_RESET_FAILED], [])"
  by (subst ash_timeout_reports [where t = "\<lparr>started = True, waitingThread = InCallback, duration = 5000\<rparr>"])
    (simp_all add: timer_elapse_def ready_defs isConnected_def isInConnectedState_def)

end
