(* ===== verification/BootloaderPrompt.thy ===== *)
theory BootloaderPrompt
  imports Timer AshDriver
begin

text \<open>
  The bootloader prompt driver, \<open>NSEZSP::BootloaderPromptDriver\<close> of
  \<open>src/ezsp/bootloader-prompt-driver.cpp\<close>: it waits until the serial port is quiet, probes
  for the Gecko bootloader menu, and answers its prompt. The two callbacks that the owner
  registers are names of a type \<open>'p\<close>; what a name does when it is called is an argument.
\<close>

section \<open>State\<close>

datatype stage =
    RX_FLUSH | PROBE | TOPLEVEL_MENU_HEADER | TOPLEVEL_MENU_CONTENT | TOPLEVEL_MENU_PROMPT
  | XMODEM_READY_CHAR_WAIT | XMODEM_XFR

record 'p blp_driver =
  blp_enabled :: bool
  blp_timer :: cpp_timer
  accumulatedBytes :: byte_buffer
  bootloaderCLIChecked :: bool
  blp_state :: stage
  blp_readObservable :: bool
  blp_writeFunc :: bool
  promptDetectCallback :: "'p option"
  firmwareTransferStartFunc :: "'p option"
  blp_tx :: "byte_buffer list"

type_synonym ('p, 'w) blp_env =
  "'p \<Rightarrow> 'p blp_driver \<Rightarrow> 'w \<Rightarrow> ('p blp_driver \<times> 'w) result"

text \<open>\<open>"Gecko Bootloader"\<close>, \<open>"BL >"\<close> and the timeout in milliseconds.\<close>

definition GECKO_BOOTLOADER_HEADER :: byte_buffer where
  "GECKO_BOOTLOADER_HEADER =
     [0x47, 0x65, 0x63, 0x6B, 0x6F, 0x20, 0x42, 0x6F, 0x6F, 0x74, 0x6C, 0x6F, 0x61, 0x64, 0x65, 0x72]"

definition GECKO_BOOTLOADER_PROMPT :: byte_buffer where
  "GECKO_BOOTLOADER_PROMPT = [0x42, 0x4C, 0x20, 0x3E]"

definition GECKO_QUIET_RX_TIMEOUT :: u32 where "GECKO_QUIET_RX_TIMEOUT = 100"

definition new_blp :: "bool \<Rightarrow> 'p blp_driver" where
  "new_blp readObservable =
     \<lparr>blp_enabled = True, blp_timer = new_timer, accumulatedBytes = [],
      bootloaderCLIChecked = False, blp_state = RX_FLUSH, blp_readObservable = readObservable,
      blp_writeFunc = False, promptDetectCallback = None, firmwareTransferStartFunc = None,
      blp_tx = []\<rparr>"

definition blp_disable :: "'p blp_driver \<Rightarrow> 'p blp_driver" where
  "blp_disable b = b\<lparr>blp_enabled := False\<rparr>"

definition blp_enable :: "'p blp_driver \<Rightarrow> 'p blp_driver" where
  "blp_enable b = b\<lparr>blp_enabled := True\<rparr>"

definition blp_registerSerialWriter :: "bool \<Rightarrow> 'p blp_driver \<Rightarrow> 'p blp_driver" where
  "blp_registerSerialWriter f b = b\<lparr>blp_writeFunc := f\<rparr>"

definition blp_registerSerialReadObservable :: "bool \<Rightarrow> 'p blp_driver \<Rightarrow> 'p blp_driver" where
  "blp_registerSerialReadObservable r b = b\<lparr>blp_readObservable := r\<rparr>"

definition registerPromptDetectCallback :: "'p option \<Rightarrow> 'p blp_driver \<Rightarrow> 'p blp_driver" where
  "registerPromptDetectCallback cb b = b\<lparr>promptDetectCallback := cb\<rparr>"

section \<open>Text\<close>

definition is_space :: "u8 \<Rightarrow> bool" where
  "is_space c \<longleftrightarrow> c = 0x20 \<or> (0x09 \<le> c \<and> c \<le> 0x0D)"

text \<open>The \<open>do ... while\<close> that moves \<open>end\<close> back, as an index from \<open>start\<close>.\<close>

fun trim_end :: "byte_buffer \<Rightarrow> nat \<Rightarrow> nat" where
  "trim_end s e = (if 0 < e \<and> is_space (s ! e) then trim_end s (e - 1) else e)"

declare trim_end.simps [simp del]

text \<open>On an empty string \<open>end--\<close> leaves the string: undefined behaviour.\<close>

definition trim :: "byte_buffer \<Rightarrow> byte_buffer result" where
  "trim s =
     (if s = [] then Inl Undefined
      else let rest = dropWhile is_space s in
        if rest = [] then Inr [] else Inr (take (trim_end rest (length rest - 1) + 1) rest))"

text \<open>\<open>std::string::find\<close>: the first position of a pattern.\<close>

fun find_sub :: "byte_buffer \<Rightarrow> byte_buffer \<Rightarrow> nat option" where
  "find_sub pat s =
     (if take (length pat) s = pat then Some 0
      else case s of [] \<Rightarrow> None | _ # xs \<Rightarrow> map_option Suc (find_sub pat xs))"

declare find_sub.simps [simp del]

section \<open>Operations\<close>

definition blp_sendBytes ::
    "writer \<Rightarrow> byte_buffer \<Rightarrow> stage \<Rightarrow> 'p blp_driver \<Rightarrow> bool \<times> 'p blp_driver" where
  "blp_sendBytes wr dataOut newState b =
     (if \<not> blp_writeFunc b then (False, b)
      else if \<not> blp_enabled b then (False, b)
      else let writtenBytes = snd (wr (blp_tx b) dataOut);
               b = b\<lparr>blp_state := newState, blp_tx := blp_tx b @ [dataOut]\<rparr>
           in (writtenBytes = length dataOut, b))"

definition blp_probe :: "writer \<Rightarrow> 'p blp_driver \<Rightarrow> 'p blp_driver" where
  "blp_probe wr b = snd (blp_sendBytes wr [0x0A] PROBE b)"

definition blp_trigger :: "writer \<Rightarrow> 'p blp_driver \<Rightarrow> 'p blp_driver" where
  "blp_trigger wr b = blp_probe wr b"

text \<open>The flush timer elapses: its thread runs \<open>trigger\<close> and then ends.\<close>

definition blp_timeout :: "writer \<Rightarrow> 'p blp_driver \<Rightarrow> 'p blp_driver" where
  "blp_timeout wr b =
     (case timer_elapse (blp_timer b) of
        None \<Rightarrow> b
      | Some t \<Rightarrow> let b = blp_trigger wr (b\<lparr>blp_timer := t\<rparr>)
                  in b\<lparr>blp_timer := timer_callback_end (blp_timer b)\<rparr>)"

definition blp_reset :: "'p blp_driver \<Rightarrow> 'p blp_driver result" where
  "blp_reset b =
     bindR (start_visitor GECKO_QUIET_RX_TIMEOUT (blp_timer b)) (\<lambda>t.
       Inr (b\<lparr>blp_state := RX_FLUSH, accumulatedBytes := [], bootloaderCLIChecked := False,
              firmwareTransferStartFunc := None, blp_timer := t\<rparr>))"

definition selectModeRun :: "writer \<Rightarrow> 'p blp_driver \<Rightarrow> bool \<times> 'p blp_driver" where
  "selectModeRun wr b =
     (if blp_state b \<noteq> TOPLEVEL_MENU_PROMPT then (False, b)
      else blp_sendBytes wr [0x32] RX_FLUSH b)"

definition selectModeUpgradeFw ::
    "writer \<Rightarrow> 'p option \<Rightarrow> 'p blp_driver \<Rightarrow> bool \<times> 'p blp_driver" where
  "selectModeUpgradeFw wr cb b =
     (if blp_state b \<noteq> TOPLEVEL_MENU_PROMPT then (False, b)
      else case blp_sendBytes wr [0x31] XMODEM_READY_CHAR_WAIT b of
             (False, b) \<Rightarrow> (False, b)
           | (True, b) \<Rightarrow> (True, b\<lparr>firmwareTransferStartFunc := cb\<rparr>))"

text \<open>The accumulating loop: the accumulated bytes and \<open>lastRXByteIsNUL\<close>.\<close>

fun blp_accumulate :: "byte_buffer \<Rightarrow> byte_buffer \<Rightarrow> bool \<Rightarrow> byte_buffer \<times> bool" where
  "blp_accumulate [] acc nul = (acc, nul)"
| "blp_accumulate (v # i_data) acc nul =
     (let acc = (if nul then [] else acc)
      in if v \<noteq> 0 then blp_accumulate i_data (acc @ [v]) False
         else blp_accumulate i_data acc True)"

definition blp_parse_header :: "'p blp_driver \<Rightarrow> 'p blp_driver" where
  "blp_parse_header b =
     (case find_sub GECKO_BOOTLOADER_HEADER (accumulatedBytes b) of
        None \<Rightarrow> b
      | Some blh \<Rightarrow> b\<lparr>blp_state := TOPLEVEL_MENU_HEADER,
          accumulatedBytes := drop (blh + length GECKO_BOOTLOADER_HEADER) (accumulatedBytes b)\<rparr>)"

text \<open>The version text goes from the start to the character before the end of line; there is
  none if the end of line comes first.\<close>

definition blp_parse_version :: "'p blp_driver \<Rightarrow> 'p blp_driver result" where
  "blp_parse_version b =
     (if blp_state b \<noteq> TOPLEVEL_MENU_HEADER then Inr b
      else case find_sub [0x0A] (accumulatedBytes b) of
             None \<Rightarrow> Inr b
           | Some eolChar \<Rightarrow>
               if eolChar = 0 then Inl Undefined
               else bindR (trim (take (eolChar - 1) (accumulatedBytes b)))
                 (\<lambda>version. Inr (b\<lparr>blp_state := TOPLEVEL_MENU_CONTENT,
                    accumulatedBytes := drop eolChar (accumulatedBytes b)\<rparr>)))"

definition blp_parse_prompt ::
    "('p, 'w) blp_env \<Rightarrow> 'p blp_driver \<Rightarrow> 'w \<Rightarrow> ('p blp_driver \<times> 'w) result" where
  "blp_parse_prompt env b w =
     (if blp_state b \<noteq> TOPLEVEL_MENU_HEADER \<and> blp_state b \<noteq> TOPLEVEL_MENU_CONTENT then Inr (b, w)
      else case find_sub GECKO_BOOTLOADER_PROMPT (accumulatedBytes b) of
             None \<Rightarrow> Inr (b, w)
           | Some blPrompt \<Rightarrow>
               let b = b\<lparr>blp_state := TOPLEVEL_MENU_PROMPT,
                        accumulatedBytes := drop blPrompt (accumulatedBytes b)\<rparr>
               in (case promptDetectCallback b of None \<Rightarrow> Inr (b, w) | Some p \<Rightarrow> env p b w))"

definition blp_ready_char ::
    "('p, 'w) blp_env \<Rightarrow> byte_buffer \<Rightarrow> 'p blp_driver \<Rightarrow> 'w \<Rightarrow> ('p blp_driver \<times> 'w) result" where
  "blp_ready_char env i_data b w =
     (if blp_state b = XMODEM_READY_CHAR_WAIT \<and> last i_data = 0x43 then
        (case firmwareTransferStartFunc b of
           None \<Rightarrow> Inr (b, w)
         | Some p \<Rightarrow> bindR (env p (b\<lparr>blp_state := XMODEM_XFR\<rparr>) w)
             (\<lambda>(b, w). Inr (b\<lparr>firmwareTransferStartFunc := None\<rparr>, w)))
      else Inr (b, w))"

definition blp_appendIncoming ::
    "('p, 'w) blp_env \<Rightarrow> byte_buffer \<Rightarrow> 'p blp_driver \<Rightarrow> 'w \<Rightarrow> ('p blp_driver \<times> 'w) result" where
  "blp_appendIncoming env i_data b w =
     (if i_data = [] then Inr (b, w)
      else if blp_state b = RX_FLUSH then
        bindR (stop_timer (blp_timer b)) (\<lambda>t.
          bindR (start_visitor GECKO_QUIET_RX_TIMEOUT t) (\<lambda>t. Inr (b\<lparr>blp_timer := t\<rparr>, w)))
      else bindR (blp_ready_char env i_data b w) (\<lambda>(b, w).
        case blp_accumulate i_data (accumulatedBytes b) False of (acc, lastRXByteIsNUL) \<Rightarrow>
          bindR (blp_parse_version (blp_parse_header (b\<lparr>accumulatedBytes := acc\<rparr>))) (\<lambda>b.
          bindR (blp_parse_prompt env b w) (\<lambda>(b, w).
            Inr (if lastRXByteIsNUL then b\<lparr>accumulatedBytes := []\<rparr> else b, w)))))"

definition blp_handleInputData ::
    "('p, 'w) blp_env \<Rightarrow> byte_buffer \<Rightarrow> 'p blp_driver \<Rightarrow> 'w \<Rightarrow> ('p blp_driver \<times> 'w) result" where
  "blp_handleInputData env dataIn b w =
     (if blp_enabled b then blp_appendIncoming env dataIn b w else Inr (b, w))"

section \<open>Searching\<close>

lemma find_sub_Some:
  "find_sub pat s = Some i \<Longrightarrow> take (length pat) (drop i s) = pat"
proof (induction pat s arbitrary: i rule: find_sub.induct)
  case (1 pat s)
  then show ?case
    by (subst (asm) find_sub.simps) (auto split: if_splits list.splits)
qed

lemma find_sub_le:
  assumes "find_sub pat s = Some i" "pat \<noteq> []"
  shows "i + length pat \<le> length s"
proof -
  have "length (take (length pat) (drop i s)) = length pat"
    using find_sub_Some [OF assms(1)] by simp
  then show ?thesis using assms(2) by (cases pat) auto
qed

lemma find_sub_None_iff:
  "find_sub pat s = None \<longleftrightarrow> (\<forall>i. take (length pat) (drop i s) \<noteq> pat)" if "pat \<noteq> []"
proof (induction s)
  case Nil
  show ?case using that by (subst find_sub.simps) simp
next
  case (Cons x s)
  show ?case
  proof
    assume "find_sub pat (x # s) = None"
    then have "take (length pat) (x # s) \<noteq> pat" "find_sub pat s = None"
      by (subst (asm) find_sub.simps; simp split: if_splits)+
    then show "\<forall>i. take (length pat) (drop i (x # s)) \<noteq> pat"
      using Cons.IH by (auto simp: drop_Cons split: nat.split)
  next
    assume *: "\<forall>i. take (length pat) (drop i (x # s)) \<noteq> pat"
    have "\<forall>i. take (length pat) (drop i s) \<noteq> pat"
      using * by (metis drop_Suc_Cons)
    moreover have "take (length pat) (x # s) \<noteq> pat"
      using * by (metis drop_0)
    ultimately show "find_sub pat (x # s) = None"
      using Cons.IH by (subst find_sub.simps) simp
  qed
qed

text \<open>Searching the beginning of a text finds the same first occurrence, once it is complete.\<close>

lemma find_sub_take:
  assumes "pat \<noteq> []"
  shows "find_sub pat (take n s) =
    (case find_sub pat s of None \<Rightarrow> None | Some h \<Rightarrow> if h + length pat \<le> n then Some h else None)"
proof (induction s arbitrary: n)
  case Nil
  then show ?case by (simp split: option.split)
    (use assms in \<open>subst find_sub.simps, simp\<close>)
next
  case (Cons x s)
  show ?case
  proof (cases n)
    case 0
    then show ?thesis
      using assms by (auto simp: find_sub.simps [of pat "[]"] split: option.split)
  next
    case (Suc m)
    have full: "take (length pat) (x # take m s) = pat \<longleftrightarrow>
        take (length pat) (x # s) = pat \<and> length pat \<le> Suc m"
    proof -
      have "take (length pat) (x # take m s) = take (min (length pat) (Suc m)) (x # s)"
        by (metis min.commute take_Suc_Cons take_take)
      moreover have "length (take (min (length pat) (Suc m)) (x # s)) \<le> Suc m" by simp
      ultimately show ?thesis
        by (metis min.absorb1)
    qed
    show ?thesis
      using Cons.IH [of m] full Suc
      by (subst (1 2) find_sub.simps) (auto split: option.splits)
  qed
qed

lemma blp_accumulate_plain:
  "0 \<notin> set d \<Longrightarrow> blp_accumulate d acc False = (acc @ d, False)"
  by (induction d arbitrary: acc) (auto simp: Let_def)

lemma blp_accumulate_no_NUL:
  "0 \<notin> set acc \<Longrightarrow> 0 \<notin> set (fst (blp_accumulate d acc nul))"
  by (induction d acc nul rule: blp_accumulate.induct) (auto simp: Let_def)

lemma trim_returns: "s \<noteq> [] \<Longrightarrow> \<exists>r. trim s = Inr r"
  by (simp add: trim_def Let_def)

section \<open>Reading the menu\<close>

text \<open>A menu text: one header, a version of at least two characters on its line, and nothing
  behind the first prompt.\<close>

definition menu_text :: "byte_buffer \<Rightarrow> byte_buffer \<Rightarrow> nat \<Rightarrow> bool" where
  "menu_text pre r e \<longleftrightarrow>
     0 \<notin> set (pre @ r)
   \<and> find_sub GECKO_BOOTLOADER_HEADER (pre @ GECKO_BOOTLOADER_HEADER @ r) = Some (length pre)
   \<and> find_sub GECKO_BOOTLOADER_HEADER r = None
   \<and> find_sub [0x0A] r = Some e \<and> 2 \<le> e
   \<and> find_sub GECKO_BOOTLOADER_PROMPT r = Some (length r - 4) \<and> e \<le> length r - 4"

text \<open>What the parser holds after \<open>n\<close> bytes of a menu text, before the prompt is complete.\<close>

definition menu_state :: "byte_buffer \<Rightarrow> byte_buffer \<Rightarrow> nat \<Rightarrow> nat \<Rightarrow> stage \<times> byte_buffer" where
  "menu_state pre r e n =
     (let k = n - (length pre + length GECKO_BOOTLOADER_HEADER) in
      if n < length pre + length GECKO_BOOTLOADER_HEADER
      then (PROBE, take n (pre @ GECKO_BOOTLOADER_HEADER @ r))
      else if k \<le> e then (TOPLEVEL_MENU_HEADER, take k r)
      else (TOPLEVEL_MENU_CONTENT, drop e (take k r)))"

lemma pat_lengths [simp]:
  "length GECKO_BOOTLOADER_HEADER = 16" "length GECKO_BOOTLOADER_PROMPT = 4"
  "GECKO_BOOTLOADER_HEADER \<noteq> []" "GECKO_BOOTLOADER_PROMPT \<noteq> []"
  by (simp_all add: GECKO_BOOTLOADER_HEADER_def GECKO_BOOTLOADER_PROMPT_def)

lemma find_sub_drop_None:
  "find_sub pat s = None \<Longrightarrow> pat \<noteq> [] \<Longrightarrow> find_sub pat (drop i s) = None"
  by (simp add: find_sub_None_iff)

lemma find_sub_drop_Some:
  "find_sub pat s = Some i \<Longrightarrow> e \<le> i \<Longrightarrow> find_sub pat (drop e s) = Some (i - e)"
proof (induction e arbitrary: s i)
  case (Suc e)
  then have "i \<noteq> 0" by simp
  then obtain x xs j where "s = x # xs" "find_sub pat xs = Some j" "i = Suc j"
    using Suc.prems(1) by (subst (asm) find_sub.simps) (auto split: if_splits list.splits)
  then show ?case using Suc by simp
qed simp

definition menu_bytes :: "byte_buffer \<Rightarrow> byte_buffer \<Rightarrow> byte_buffer" where
  "menu_bytes pre r = pre @ GECKO_BOOTLOADER_HEADER @ r"

lemma length_menu_bytes [simp]: "length (menu_bytes pre r) = length pre + 16 + length r"
  by (simp add: menu_bytes_def)

lemma menu_textD:
  assumes "menu_text pre r e"
  shows "0 \<notin> set (menu_bytes pre r)"
    and "find_sub GECKO_BOOTLOADER_HEADER (menu_bytes pre r) = Some (length pre)"
    and "find_sub GECKO_BOOTLOADER_HEADER r = None"
    and "find_sub [0x0A] r = Some e" "2 \<le> e"
    and "find_sub GECKO_BOOTLOADER_PROMPT r = Some (length r - 4)" "e \<le> length r - 4"
    and "4 \<le> length r"
  using assms find_sub_le [of GECKO_BOOTLOADER_PROMPT r "length r - 4"]
  by (auto simp: menu_text_def menu_bytes_def GECKO_BOOTLOADER_HEADER_def)

lemma menu_no_header:
  assumes "menu_text pre r e"
  shows "find_sub GECKO_BOOTLOADER_HEADER (drop i (take k r)) = None"
  using menu_textD(3) [OF assms] by (intro find_sub_drop_None) (simp_all add: find_sub_take)

lemma menu_drop_take: "length pre + 16 \<le> n \<Longrightarrow>
    drop n (take m (menu_bytes pre r)) = drop (n - (length pre + 16)) (take (m - (length pre + 16)) r)"
  by (simp only: drop_take) (simp add: menu_bytes_def)

lemma append_drop_take: "n \<le> m \<Longrightarrow> take n xs @ drop n (take m xs) = take m xs"
  by (metis append_take_drop_id min.absorb1 take_take)

lemma append_drop_take2:
  "i \<le> n \<Longrightarrow> n \<le> m \<Longrightarrow> drop i (take n xs) @ drop n (take m xs) = drop i (take m xs)"
proof -
  assume i: "i \<le> n" "n \<le> m"
  show ?thesis
  proof (cases "length xs \<le> n")
    case True
    then show ?thesis using i by simp
  next
    case False
    then have "drop i (take n xs @ drop n (take m xs)) = drop i (take n xs) @ drop n (take m xs)"
      using i by (simp add: drop_append)
    then show ?thesis using i(2) by (simp add: append_drop_take)
  qed
qed

lemma menu_parse_version:
  assumes "menu_text pre r e"
  shows "blp_parse_version (b\<lparr>blp_state := TOPLEVEL_MENU_HEADER, accumulatedBytes := take k r\<rparr>) =
    Inr (if k \<le> e then b\<lparr>blp_state := TOPLEVEL_MENU_HEADER, accumulatedBytes := take k r\<rparr>
         else b\<lparr>blp_state := TOPLEVEL_MENU_CONTENT, accumulatedBytes := drop e (take k r)\<rparr>)"
proof -
  have find: "find_sub [0x0A] (take k r) = (if k \<le> e then None else Some e)"
    using menu_textD(4) [OF assms] by (auto simp: find_sub_take)
  have "take (e - 1) (take k r) \<noteq> []"
    if "e < k" using that menu_textD(5,7,8) [OF assms] by (cases r) auto
  then show ?thesis
    using find trim_returns [of "take (e - 1) (take k r)"] menu_textD(5) [OF assms]
    by (auto simp: blp_parse_version_def)
qed

lemma menu_parse_step:
  assumes "menu_text pre r e" "n < m" "m \<le> length (menu_bytes pre r)"
    and b: "blp_state b = fst (menu_state pre r e n)" "accumulatedBytes b = snd (menu_state pre r e n)"
  shows "blp_parse_version (blp_parse_header
      (b\<lparr>accumulatedBytes := accumulatedBytes b @ drop n (take m (menu_bytes pre r))\<rparr>)) =
    Inr (b\<lparr>blp_state := fst (menu_state pre r e m), accumulatedBytes := snd (menu_state pre r e m)\<rparr>)"
proof -
  let ?L = "length pre + 16"
  let ?b = "\<lambda>x. b\<lparr>accumulatedBytes := x\<rparr>"
  have hdr: "find_sub GECKO_BOOTLOADER_HEADER (take m (menu_bytes pre r)) =
      (if ?L \<le> m then Some (length pre) else None)"
    using menu_textD(2) [OF assms(1)] by (simp add: find_sub_take)
  consider "m < ?L" | "n < ?L" "?L \<le> m" | "?L \<le> n" "n - ?L \<le> e" | "?L \<le> n" "e < n - ?L"
    by linarith
  then show ?thesis
  proof cases
    case 1
    then have "accumulatedBytes b @ drop n (take m (menu_bytes pre r)) = take m (menu_bytes pre r)"
      using b assms(2) by (simp add: menu_state_def append_drop_take flip: menu_bytes_def)
    then show ?thesis
      using 1 b assms(2) hdr
      by (simp add: blp_parse_header_def blp_parse_version_def menu_state_def flip: menu_bytes_def)
  next
    case 2
    then have "accumulatedBytes b @ drop n (take m (menu_bytes pre r)) = take m (menu_bytes pre r)"
      using b assms(2) by (simp add: menu_state_def append_drop_take flip: menu_bytes_def)
    moreover have "drop ?L (take m (menu_bytes pre r)) = take (m - ?L) r"
      by (simp add: menu_drop_take)
    ultimately show ?thesis
      using 2 hdr menu_parse_version [OF assms(1), where b = b and k = "m - ?L"]
      by (simp add: blp_parse_header_def menu_state_def Let_def)
  next
    case 3
    then have "accumulatedBytes b @ drop n (take m (menu_bytes pre r)) = take (m - ?L) r"
      using b assms(2) by (simp add: menu_state_def menu_drop_take append_drop_take)
    moreover have "blp_parse_version (b\<lparr>accumulatedBytes := take (m - ?L) r\<rparr>) =
        Inr (if m - ?L \<le> e
          then b\<lparr>blp_state := TOPLEVEL_MENU_HEADER, accumulatedBytes := take (m - ?L) r\<rparr>
          else b\<lparr>blp_state := TOPLEVEL_MENU_CONTENT, accumulatedBytes := drop e (take (m - ?L) r)\<rparr>)"
    proof -
      have "b\<lparr>accumulatedBytes := x\<rparr> = b\<lparr>blp_state := TOPLEVEL_MENU_HEADER, accumulatedBytes := x\<rparr>" for x
        using 3 b by (cases b) (simp add: menu_state_def)
      then show ?thesis
        by (metis menu_parse_version [OF assms(1)])
    qed
    ultimately show ?thesis
      using 3 b assms(2) menu_no_header [OF assms(1), where i = 0]
      by (simp add: blp_parse_header_def menu_state_def Let_def)
  next
    case 4
    then have "accumulatedBytes b @ drop n (take m (menu_bytes pre r)) = drop e (take (m - ?L) r)"
      using b assms(2) by (simp add: menu_state_def menu_drop_take append_drop_take2)
    then show ?thesis
      using 4 b assms(2) menu_no_header [OF assms(1)]
      by (simp add: blp_parse_header_def blp_parse_version_def menu_state_def Let_def)
  qed
qed

lemma menu_prompt:
  assumes "menu_text pre r e" "m \<le> length (menu_bytes pre r)"
    and b: "blp_state b = fst (menu_state pre r e m)" "accumulatedBytes b = snd (menu_state pre r e m)"
    and "promptDetectCallback b = Some p"
  shows "blp_parse_prompt env b w =
    (if m < length (menu_bytes pre r) then Inr (b, w)
     else env p (b\<lparr>blp_state := TOPLEVEL_MENU_PROMPT, accumulatedBytes := GECKO_BOOTLOADER_PROMPT\<rparr>) w)"
proof (cases "m < length (menu_bytes pre r)")
  case True
  have "find_sub GECKO_BOOTLOADER_PROMPT (drop i (take (m - (length pre + 16)) r)) = None"
    if "length pre + 16 \<le> m" for i
    using True that menu_textD(6,8) [OF assms(1)]
    by (intro find_sub_drop_None) (auto simp: find_sub_take)
  from this [of 0] this [of e] show ?thesis
    using True b by (auto simp: blp_parse_prompt_def menu_state_def Let_def split: if_splits)
next
  case False
  then have m: "m = length pre + 16 + length r" using assms(2) by simp
  have "find_sub GECKO_BOOTLOADER_PROMPT (drop e r) = Some (length r - 4 - e)"
    using find_sub_drop_Some [OF menu_textD(6,7) [OF assms(1)]] .
  moreover have "drop (length r - 4) r = GECKO_BOOTLOADER_PROMPT"
    using find_sub_Some [OF menu_textD(6) [OF assms(1)]] menu_textD(8) [OF assms(1)] by simp
  moreover have "length r - (4 + e) + e = length r - 4"
    using menu_textD(7) [OF assms(1)] by simp
  moreover have "e < length r" using menu_textD(7,8) [OF assms(1)] by simp
  ultimately show ?thesis
    using b m assms(5) menu_textD(7) [OF assms(1)]
    by (simp add: blp_parse_prompt_def menu_state_def Let_def)
qed

fun blp_feed ::
    "('p, 'w) blp_env \<Rightarrow> byte_buffer list \<Rightarrow> 'p blp_driver \<Rightarrow> 'w \<Rightarrow> ('p blp_driver \<times> 'w) result" where
  "blp_feed env [] b w = Inr (b, w)"
| "blp_feed env (c # cs) b w =
     bindR (blp_handleInputData env c b w) (\<lambda>(b, w). blp_feed env cs b w)"

lemma blp_handle_empty [simp]: "blp_handleInputData env [] b w = Inr (b, w)"
  by (simp add: blp_handleInputData_def blp_appendIncoming_def)

lemma blp_feed_empty: "concat cs = [] \<Longrightarrow> blp_feed env cs b w = Inr (b, w)"
  by (induction cs) simp_all

lemma menu_chunk:
  assumes "menu_text pre r e" "n < m" "m \<le> length (menu_bytes pre r)"
    and b: "blp_state b = fst (menu_state pre r e n)" "accumulatedBytes b = snd (menu_state pre r e n)"
    and "promptDetectCallback b = Some p" "blp_enabled b"
  shows "blp_handleInputData env (drop n (take m (menu_bytes pre r))) b w =
    (if m < length (menu_bytes pre r)
     then Inr (b\<lparr>blp_state := fst (menu_state pre r e m),
                 accumulatedBytes := snd (menu_state pre r e m)\<rparr>, w)
     else env p (b\<lparr>blp_state := TOPLEVEL_MENU_PROMPT, accumulatedBytes := GECKO_BOOTLOADER_PROMPT\<rparr>) w)"
proof -
  let ?d = "drop n (take m (menu_bytes pre r))"
  let ?b = "b\<lparr>blp_state := fst (menu_state pre r e m), accumulatedBytes := snd (menu_state pre r e m)\<rparr>"
  have "0 \<notin> set ?d"
    using menu_textD(1) [OF assms(1)] by (auto dest: in_set_dropD in_set_takeD)
  then have "blp_accumulate ?d (accumulatedBytes b) False = (accumulatedBytes b @ ?d, False)"
    by (rule blp_accumulate_plain)
  moreover have "blp_state b \<noteq> RX_FLUSH" "blp_state b \<noteq> XMODEM_READY_CHAR_WAIT"
    using b by (auto simp: menu_state_def Let_def)
  moreover have "?d \<noteq> []" using assms(2,3) by simp
  ultimately have "blp_handleInputData env ?d b w =
      bindR (blp_parse_prompt env ?b w) (\<lambda>(b, w). Inr (b, w))"
    using assms(7) menu_parse_step [OF assms(1-3) b]
    by (simp add: blp_handleInputData_def blp_appendIncoming_def blp_ready_char_def)
  then show ?thesis
    using menu_prompt [OF assms(1,3), of ?b p env w] assms(6) by (simp add: split_def)
qed

lemma menu_feed:
  assumes "menu_text pre r e"
  shows "\<lbrakk>n < length (menu_bytes pre r); concat cs = drop n (menu_bytes pre r);
      blp_state b = fst (menu_state pre r e n); accumulatedBytes b = snd (menu_state pre r e n);
      promptDetectCallback b = Some p; blp_enabled b\<rbrakk> \<Longrightarrow>
    blp_feed env cs b w =
      env p (b\<lparr>blp_state := TOPLEVEL_MENU_PROMPT, accumulatedBytes := GECKO_BOOTLOADER_PROMPT\<rparr>) w"
proof (induction cs arbitrary: n b)
  case (Cons c cs)
  show ?case
  proof (cases "c = []")
    case True
    then show ?thesis using Cons by simp
  next
    case False
    define m where "m = n + length c"
    have len: "m \<le> length (menu_bytes pre r)"
      using arg_cong [OF Cons.prems(2), of length] Cons.prems(1) by (simp add: m_def)
    have c: "c = drop n (take m (menu_bytes pre r))"
      using arg_cong [OF Cons.prems(2), of "take (length c)"] by (simp add: m_def drop_take)
    have cs: "concat cs = drop m (menu_bytes pre r)"
      using arg_cong [OF Cons.prems(2), of "drop (length c)"] by (simp add: m_def add.commute)
    have nm: "n < m" using False by (simp add: m_def)
    note step = menu_chunk [OF assms nm len Cons.prems(3-6), of env w, folded c]
    show ?thesis
    proof (cases "m < length (menu_bytes pre r)")
      case True
      show ?thesis
        using True Cons.IH [OF True cs, of "b\<lparr>blp_state := fst (menu_state pre r e m),
            accumulatedBytes := snd (menu_state pre r e m)\<rparr>"] Cons.prems(5,6)
        by (simp add: step)
    next
      case last: False
      then have "concat cs = []" using cs by simp
      then have "blp_feed env cs b' w' = Inr (b', w')" for b' w'
        by (rule blp_feed_empty)
      then show ?thesis using last by (simp add: step split_def)
    qed
  qed
qed simp

section \<open>Properties\<close>

text \<open>An owner that records each call with the stage in which it got it.\<close>

definition log_env :: "('p, ('p \<times> stage) list) blp_env" where
  "log_env p b w = Inr (b, w @ [(p, blp_state b)])"

text \<open>The prompt of the bootloader menu is detected however the serial port cuts the menu
  into chunks: once the driver has probed, any noise, the header, a version line, the menu
  and the prompt make it call its owner exactly once, at the end of the prompt, in the
  prompt stage and holding just the prompt.\<close>

theorem bootloader_menu_detected:
  assumes "menu_text pre r e" "concat chunks = pre @ GECKO_BOOTLOADER_HEADER @ r"
    and "blp_enabled b" "blp_state b = PROBE" "accumulatedBytes b = []"
    and "promptDetectCallback b = Some p"
  shows "blp_feed log_env chunks b w =
    Inr (b\<lparr>blp_state := TOPLEVEL_MENU_PROMPT, accumulatedBytes := GECKO_BOOTLOADER_PROMPT\<rparr>,
         w @ [(p, TOPLEVEL_MENU_PROMPT)])"
  using menu_feed [OF assms(1), of 0 chunks b p log_env w] assms(2-6)
  by (simp add: menu_state_def menu_bytes_def log_env_def)

theorem bootloader_menu_detected_witness:
  "\<exists>b'. blp_feed log_env
      [[0x0D], [0x0A, 0x47, 0x65, 0x63, 0x6B], [0x6F, 0x20, 0x42, 0x6F, 0x6F, 0x74, 0x6C, 0x6F, 0x61],
       [0x64, 0x65, 0x72, 0x20, 0x76, 0x31, 0x0D], [0x0A, 0x31, 0x2E, 0x0A, 0x42], [0x4C, 0x20], [0x3E]]
      ((new_blp True)\<lparr>blp_state := PROBE, promptDetectCallback := Some ()\<rparr>) [] =
    Inr (b', [((), TOPLEVEL_MENU_PROMPT)])"
proof -
  have "menu_text [0x0D, 0x0A] [0x20, 0x76, 0x31, 0x0D, 0x0A, 0x31, 0x2E, 0x0A, 0x42, 0x4C, 0x20, 0x3E] 4"
    by code_simp
  from bootloader_menu_detected [OF this, of
      "[[0x0D], [0x0A, 0x47, 0x65, 0x63, 0x6B], [0x6F, 0x20, 0x42, 0x6F, 0x6F, 0x74, 0x6C, 0x6F, 0x61],
       [0x64, 0x65, 0x72, 0x20, 0x76, 0x31, 0x0D], [0x0A, 0x31, 0x2E, 0x0A, 0x42], [0x4C, 0x20], [0x3E]]"
      "(new_blp True)\<lparr>blp_state := PROBE, promptDetectCallback := Some ()\<rparr>" "()" "[]"]
  show ?thesis
    by (simp add: GECKO_BOOTLOADER_HEADER_def new_blp_def del: blp_feed.simps)
qed

text \<open>The driver stays quiet until the line is quiet. While it flushes, any input is thrown
  away and restarts the timeout of 100 milliseconds, nothing is written and no callback is
  run; and a menu choice is written only in answer to a detected prompt.\<close>

theorem bootloader_flush_quiet:
  assumes "blp_state b = RX_FLUSH" "d \<noteq> []" "blp_enabled b" "\<not> in_callback (blp_timer b)"
  shows "\<exists>t. blp_handleInputData env d b w = Inr (b\<lparr>blp_timer := t\<rparr>, w)
      \<and> timer_isRunning t \<and> duration t = GECKO_QUIET_RX_TIMEOUT
    \<and> selectModeRun wr b = (False, b) \<and> selectModeUpgradeFw wr cb b = (False, b)"
proof -
  obtain t where "bindR (stop_timer (blp_timer b)) (start_visitor GECKO_QUIET_RX_TIMEOUT) = Inr t"
    "timer_isRunning t" "duration t = GECKO_QUIET_RX_TIMEOUT"
    using cpp.restart [of GECKO_QUIET_RX_TIMEOUT "blp_timer b"] assms(4)
    by (auto simp: GECKO_QUIET_RX_TIMEOUT_def)
  then show ?thesis
    using assms(1-3)
    by (auto simp: blp_handleInputData_def blp_appendIncoming_def selectModeRun_def selectModeUpgradeFw_def)
qed

theorem bootloader_flush_quiet_witness:
  "\<exists>t. blp_handleInputData log_env [0x42, 0x4C, 0x20, 0x3E] (new_blp True :: unit blp_driver) [] =
      Inr ((new_blp True)\<lparr>blp_timer := t\<rparr>, []) \<and> duration t = 100"
  using bootloader_flush_quiet [of "new_blp True :: unit blp_driver" "[0x42, 0x4C, 0x20, 0x3E]" log_env "[]"]
  by (auto simp: new_blp_def in_callback_def new_timer_def GECKO_QUIET_RX_TIMEOUT_def)

text \<open>A header whose line is empty is undefined behaviour: if the end of line follows the
  header at once, or after one character, the version text is taken from an invalid range or
  trimming it moves an iterator before the start of an empty string.\<close>

theorem bootloader_empty_version_undefined:
  assumes "blp_enabled b" "blp_state b = PROBE" "accumulatedBytes b = []" "cr \<in> {[], [0x0D]}"
  shows "blp_handleInputData env (GECKO_BOOTLOADER_HEADER @ cr @ [0x0A]) b w = Inl Undefined"
proof -
  let ?d = "GECKO_BOOTLOADER_HEADER @ cr @ [0x0A]"
  have "0 \<notin> set ?d" "find_sub GECKO_BOOTLOADER_HEADER ?d = Some 0"
    "find_sub [0x0A] (cr @ [0x0A]) = Some (length cr)"
    using assms(4) by (auto simp: GECKO_BOOTLOADER_HEADER_def find_sub.simps)
  then show ?thesis
    using assms blp_accumulate_plain [of ?d "[]"]
    by (auto simp: blp_handleInputData_def blp_appendIncoming_def blp_ready_char_def
        blp_parse_header_def blp_parse_version_def trim_def)
qed

theorem bootloader_empty_version_undefined_witness:
  "blp_handleInputData log_env (GECKO_BOOTLOADER_HEADER @ [0x0D] @ [0x0A])
     ((new_blp True :: unit blp_driver)\<lparr>blp_state := PROBE\<rparr>) [] = Inl Undefined"
  by (rule bootloader_empty_version_undefined) (simp_all add: new_blp_def)

end
