(* ===== verification/AdapterVersion.thy ===== *)
theory AdapterVersion
  imports ByteManip "HOL-Library.List_Lexorder"
begin

text \<open>
  The version of an adapter, \<open>NSEZSP::EzspAdapterVersion\<close> of
  \<open>src/ezsp/ezsp-adapter-version.cpp\<close>: filled in from the integers which the adapter
  reports, printed, and compared. The lemmas relate the comparison with a lexicographic
  order where all its fields are known.
\<close>

section \<open>State\<close>

record adapter_version =
  ezspProtocolVersion :: u32
  ezspStackType :: u8
  ezspStackMajorVersion :: u32
  ezspStackMinorVersion :: u32
  ezspStackRevisionVersion :: u32
  ezspStackBugfixVersion :: u32
  xncpManufacturerId :: u16
  xncpAdapterHardwareVersion :: u32
  xncpAdapterMajorVersion :: u32
  xncpAdapterMinorVersion :: u32
  xncpAdapterRevisionVersion :: u32

definition MANUFACTURER_UNKNOWN :: u16 where "MANUFACTURER_UNKNOWN = 0"
definition MANUFACTURER_LEGRAND :: u16 where "MANUFACTURER_LEGRAND = 0x1021"

definition new_version :: adapter_version where
  "new_version = \<lparr>ezspProtocolVersion = 0, ezspStackType = 0, ezspStackMajorVersion = 0,
     ezspStackMinorVersion = 0, ezspStackRevisionVersion = 0, ezspStackBugfixVersion = 0,
     xncpManufacturerId = MANUFACTURER_UNKNOWN, xncpAdapterHardwareVersion = 0,
     xncpAdapterMajorVersion = 0, xncpAdapterMinorVersion = 0, xncpAdapterRevisionVersion = 0\<rparr>"

section \<open>Operations\<close>

definition setEzspStackVersion :: "u16 \<Rightarrow> adapter_version \<Rightarrow> adapter_version" where
  "setEzspStackVersion sv v = v\<lparr>
     ezspStackMajorVersion := ucast (u8_get_hi_nibble (u16_get_hi_u8 sv)),
     ezspStackMinorVersion := ucast (u8_get_lo_nibble (u16_get_hi_u8 sv)),
     ezspStackRevisionVersion := ucast (u8_get_hi_nibble (u16_get_lo_u8 sv)),
     ezspStackBugfixVersion := ucast (u8_get_lo_nibble (u16_get_lo_u8 sv))\<rparr>"

definition setEzspVersionInfo :: "u16 \<Rightarrow> u8 \<Rightarrow> u8 \<Rightarrow> adapter_version \<Rightarrow> adapter_version" where
  "setEzspVersionInfo sv protocolVersion stackType v =
     (setEzspStackVersion sv v)\<lparr>ezspProtocolVersion := ucast protocolVersion,
        ezspStackType := stackType\<rparr>"

definition setXncpData :: "u16 \<Rightarrow> u16 \<Rightarrow> adapter_version \<Rightarrow> adapter_version" where
  "setXncpData manufacturerId versionNumber v = v\<lparr>
     xncpManufacturerId := manufacturerId,
     xncpAdapterHardwareVersion := ucast (u8_get_hi_nibble (u16_get_hi_u8 versionNumber)),
     xncpAdapterMajorVersion := ucast (u8_get_lo_nibble (u16_get_hi_u8 versionNumber)),
     xncpAdapterMinorVersion := ucast (u8_get_hi_nibble (u16_get_lo_u8 versionNumber)),
     xncpAdapterRevisionVersion := ucast (u8_get_lo_nibble (u16_get_lo_u8 versionNumber))\<rparr>"

text \<open>Printing of an unsigned integer by an \<open>std::ostream\<close>, in base 10 or 16.\<close>

definition digit_char :: "nat \<Rightarrow> char" where
  "digit_char d = ''0123456789abcdef'' ! d"

fun print_base :: "nat \<Rightarrow> nat \<Rightarrow> string" where
  "print_base b n =
     (if b < 2 \<or> n < b then [digit_char (n mod 16)]
      else print_base b (n div b) @ [digit_char (n mod b)])"

declare print_base.simps [simp del]

abbreviation dec :: "u32 \<Rightarrow> string" where
  "dec w \<equiv> print_base 10 (unat w)"

definition pad4 :: "string \<Rightarrow> string" where
  "pad4 s = replicate (4 - length s) (CHR ''0'') @ s"

definition getFirmwareVersionAsString :: "adapter_version \<Rightarrow> string" where
  "getFirmwareVersionAsString v =
     dec (xncpAdapterMajorVersion v) @ ''.'' @ dec (xncpAdapterMinorVersion v) @ ''.''
     @ dec (xncpAdapterRevisionVersion v)"

definition getStackVersionAsString :: "adapter_version \<Rightarrow> string" where
  "getStackVersionAsString v =
     dec (ezspStackMajorVersion v) @ ''.'' @ dec (ezspStackMinorVersion v) @ ''.''
     @ dec (ezspStackRevisionVersion v) @ ''.'' @ dec (ezspStackBugfixVersion v)"

text \<open>\<open>std::hex\<close>, once set by the manufacturer, stays in force on the stream until \<open>std::dec\<close>.\<close>

definition version_toString :: "adapter_version \<Rightarrow> string" where
  "version_toString v =
     (let known = xncpManufacturerId v \<noteq> MANUFACTURER_UNKNOWN;
          legrand = xncpManufacturerId v = MANUFACTURER_LEGRAND;
          hw_base = (if known \<and> ezspProtocolVersion v = 0 then 16 else 10)
      in ''EzspAdapterVersion : { ''
         @ (if known then ''[Manufacturer: 0x'' @ pad4 (print_base 16 (unat (xncpManufacturerId v)))
                          @ (if legrand then '' (LEGRAND)'' else []) @ '']'' else [])
         @ (if ezspProtocolVersion v \<noteq> 0
            then ''[EZSPv'' @ dec (ezspProtocolVersion v) @ '' running stack type ''
                 @ print_base 10 (unat (ezspStackType v))
                 @ (if ezspStackType v = 2 then '' (mesh)'' else []) @ '']'' else [])
         @ (if ezspStackMajorVersion v \<noteq> 0 \<or> ezspStackMinorVersion v \<noteq> 0
               \<or> ezspStackRevisionVersion v \<noteq> 0 \<or> ezspStackBugfixVersion v \<noteq> 0
            then ''[stack v'' @ getStackVersionAsString v @ '']'' else [])
         @ (if legrand \<and> (xncpAdapterHardwareVersion v \<noteq> 0 \<or> xncpAdapterMajorVersion v \<noteq> 0
               \<or> xncpAdapterMinorVersion v \<noteq> 0 \<or> xncpAdapterRevisionVersion v \<noteq> 0)
            then ''[hw v'' @ print_base hw_base (unat (xncpAdapterHardwareVersion v))
                 @ '', fw v'' @ getFirmwareVersionAsString v @ '']'' else [])
         @ '' }'')"

text \<open>The pattern \<open>if (x > y) return 1; else if (x < y) return -1;\<close> followed by the rest.\<close>

definition cmp_then :: "'a::linorder \<Rightarrow> 'a \<Rightarrow> int \<Rightarrow> int" where
  "cmp_then x y rest = (if x > y then 1 else if x < y then - 1 else rest)"

definition version_cmp :: "adapter_version \<Rightarrow> adapter_version \<Rightarrow> int" where
  "version_cmp l r =
     (let versions =
            (if xncpManufacturerId l = MANUFACTURER_LEGRAND
                \<and> xncpManufacturerId r = MANUFACTURER_LEGRAND
             then cmp_then (xncpAdapterMajorVersion l) (xncpAdapterMajorVersion r)
                 (cmp_then (xncpAdapterMinorVersion l) (xncpAdapterMinorVersion r)
                 (cmp_then (xncpAdapterRevisionVersion l) (xncpAdapterRevisionVersion r) 0))
             else cmp_then (ezspStackMajorVersion l) (ezspStackMajorVersion r)
                 (cmp_then (ezspStackMinorVersion l) (ezspStackMinorVersion r)
                 (cmp_then (ezspStackRevisionVersion l) (ezspStackRevisionVersion r)
                 (cmp_then (ezspStackBugfixVersion l) (ezspStackBugfixVersion r) 0))));
          stack_type =
            (if ezspStackType l \<noteq> 0 \<and> ezspStackType r \<noteq> 0
             then cmp_then (ezspStackType l) (ezspStackType r) versions else versions)
      in if ezspProtocolVersion l \<noteq> 0 \<and> ezspProtocolVersion r \<noteq> 0
         then cmp_then (ezspProtocolVersion l) (ezspProtocolVersion r) stack_type
         else stack_type)"

definition version_eq :: "adapter_version \<Rightarrow> adapter_version \<Rightarrow> bool" where
  "version_eq l r \<longleftrightarrow> version_cmp l r = 0"

definition version_ne :: "adapter_version \<Rightarrow> adapter_version \<Rightarrow> bool" where
  "version_ne l r \<longleftrightarrow> version_cmp l r \<noteq> 0"

definition version_gt :: "adapter_version \<Rightarrow> adapter_version \<Rightarrow> bool" where
  "version_gt l r \<longleftrightarrow> version_cmp l r > 0"

definition version_ge :: "adapter_version \<Rightarrow> adapter_version \<Rightarrow> bool" where
  "version_ge l r \<longleftrightarrow> version_cmp l r \<ge> 0"

definition version_lt :: "adapter_version \<Rightarrow> adapter_version \<Rightarrow> bool" where
  "version_lt l r \<longleftrightarrow> version_cmp l r < 0"

definition version_le :: "adapter_version \<Rightarrow> adapter_version \<Rightarrow> bool" where
  "version_le l r \<longleftrightarrow> version_cmp l r \<le> 0"

lemmas version_ops = version_eq_def version_ne_def version_gt_def version_ge_def
  version_lt_def version_le_def

section \<open>Comparison and order\<close>

lemma cmp_then_eq_0 [simp]: "cmp_then x y c = 0 \<longleftrightarrow> x = y \<and> c = 0"
  by (auto simp: cmp_then_def)

lemma cmp_then_neg [simp]: "cmp_then x y c < 0 \<longleftrightarrow> x < y \<or> x = y \<and> c < 0"
  by (auto simp: cmp_then_def)

lemma version_cmp_flip: "version_cmp r l = - version_cmp l r"
proof -
  have flip: "- cmp_then x y c = cmp_then y x (- c)" for x y :: "'a::linorder" and c
    by (auto simp: cmp_then_def)
  show ?thesis
    by (simp add: version_cmp_def Let_def flip conj_commute if_distrib [of uminus])
qed

text \<open>The fields that decide between versions of one kind, most significant first.\<close>

definition version_key :: "adapter_version \<Rightarrow> u32 list" where
  "version_key v =
     [ezspProtocolVersion v, ucast (ezspStackType v)] @
     (if xncpManufacturerId v = MANUFACTURER_LEGRAND
      then [xncpAdapterMajorVersion v, xncpAdapterMinorVersion v, xncpAdapterRevisionVersion v]
      else [ezspStackMajorVersion v, ezspStackMinorVersion v, ezspStackRevisionVersion v,
            ezspStackBugfixVersion v])"

definition comparable :: "adapter_version \<Rightarrow> adapter_version \<Rightarrow> bool" where
  "comparable l r \<longleftrightarrow>
     ezspProtocolVersion l \<noteq> 0 \<and> ezspProtocolVersion r \<noteq> 0 \<and>
     ezspStackType l \<noteq> 0 \<and> ezspStackType r \<noteq> 0 \<and>
     (xncpManufacturerId l = MANUFACTURER_LEGRAND \<longleftrightarrow> xncpManufacturerId r = MANUFACTURER_LEGRAND)"

lemma unat_ucast_u8_u32: "unat (ucast (x :: u8) :: u32) = unat x"
proof -
  have "unat x < 2 ^ 8" using unsigned_less [of x] by simp
  then have "unat x < 2 ^ LENGTH(32)" by simp
  then show ?thesis by (simp only: unsigned_ucast_eq take_bit_nat_eq_self)
qed

lemma ucast_u8_u32_less: "(ucast (x :: u8) :: u32) < ucast y \<longleftrightarrow> x < y"
  by (simp only: word_less_nat_alt unat_ucast_u8_u32)

lemma ucast_u8_u32_eq: "(ucast (x :: u8) :: u32) = ucast y \<longleftrightarrow> x = y"
  by (metis ucast_u8_u32_less linorder_neq_iff)

lemma cmp_less_key: "comparable l r \<Longrightarrow> version_cmp l r < 0 \<longleftrightarrow> version_key l < version_key r"
  by (auto simp: version_cmp_def Let_def version_key_def comparable_def ucast_u8_u32_less
      ucast_u8_u32_eq)

lemma cmp_eq_key: "comparable l r \<Longrightarrow> version_cmp l r = 0 \<longleftrightarrow> version_key l = version_key r"
  by (auto simp: version_cmp_def Let_def version_key_def comparable_def ucast_u8_u32_eq)

section \<open>Properties\<close>

text \<open>Versions of one kind are ordered like their fields. Between two adapters whose
  protocol version and stack type are both known and which are both Legrand adapters or both
  not, all six comparison operators agree with the lexicographic order of protocol version,
  stack type and firmware (or stack) version numbers.\<close>

theorem version_order_lexicographic:
  assumes "comparable l r"
  shows "(version_lt l r \<longleftrightarrow> version_key l < version_key r)
    \<and> (version_eq l r \<longleftrightarrow> version_key l = version_key r)
    \<and> (version_gt l r \<longleftrightarrow> version_key l > version_key r)
    \<and> (version_le l r \<longleftrightarrow> version_key l \<le> version_key r)
    \<and> (version_ge l r \<longleftrightarrow> version_key l \<ge> version_key r)
    \<and> (version_ne l r \<longleftrightarrow> version_key l \<noteq> version_key r)"
proof -
  note less = cmp_less_key [OF assms] and eq = cmp_eq_key [OF assms]
  have gt: "0 < version_cmp l r \<longleftrightarrow> version_key r < version_key l"
    using less eq by (metis linorder_neq_iff order_less_asym)
  have "version_cmp l r \<le> 0 \<longleftrightarrow> version_key l \<le> version_key r"
    "0 \<le> version_cmp l r \<longleftrightarrow> version_key r \<le> version_key l"
    using less gt by (simp_all only: not_less [symmetric])
  then show ?thesis
    using less eq gt by (simp add: version_ops)
qed

theorem version_order_lexicographic_witness:
  "version_lt (setEzspVersionInfo 0x6710 7 2 new_version) (setEzspVersionInfo 0x6720 7 2 new_version)
   \<and> \<not> version_eq (setEzspVersionInfo 0x6710 7 2 new_version) (setEzspVersionInfo 0x6720 7 2 new_version)"
proof -
  have "comparable (setEzspVersionInfo 0x6710 7 2 new_version) (setEzspVersionInfo 0x6720 7 2 new_version)"
    by code_simp
  moreover have "version_key (setEzspVersionInfo 0x6710 7 2 new_version)
      < version_key (setEzspVersionInfo 0x6720 7 2 new_version)"
    by code_simp
  ultimately show ?thesis
    using version_order_lexicographic by auto
qed

text \<open>Where a field is unknown the comparison is not an order: equality of versions is not
  transitive, since an adapter whose protocol version is unknown equals adapters of
  different protocol versions; but the comparison is always antisymmetric.\<close>

theorem version_eq_not_transitive:
  "(\<exists>a b c. version_eq a b \<and> version_eq b c \<and> version_lt a c)
   \<and> (\<forall>l r. version_lt l r = version_gt r l \<and> version_eq l r = version_eq r l)"
proof (intro conjI allI exI)
  let ?a = "setEzspVersionInfo 0 7 2 new_version"
  let ?c = "setEzspVersionInfo 0 8 2 new_version"
  show "version_eq ?a new_version" "version_eq new_version ?c" "version_lt ?a ?c"
    by code_simp+
next
  fix l r
  show "version_lt l r = version_gt r l" "version_eq l r = version_eq r l"
    using version_cmp_flip [of l r] by (auto simp: version_ops)
qed

end
