(* ===== verification/EzspDongle.thy ===== *)
theory EzspDongle
  imports AshDriver BootloaderPrompt AdapterVersion
begin

text \<open>
  The EZSP dongle, \<open>NSEZSP::CEzspDongle\<close> of \<open>src/ezsp/ezsp-dongle.cpp\<close>: it owns the ASH and
  bootloader drivers, queues EZSP commands so that one at a time is in flight, and gives
  the EZSP messages it receives to its observers. The observers, all of them in their
  order, are one argument, a function that may use the dongle again; the serial port is
  the writer of the drivers.
\<close>

section \<open>State\<close>

datatype dongle_mode =
  UNKNOWN | EZSP_NCP | BOOTLOADER_FIRMWARE_UPGRADE | BOOTLOADER_EXIT_TO_EZSP_NCP

datatype dongle_state = DONGLE_READY | DONGLE_REMOVE | DONGLE_NOT_RESPONDING | DONGLE_VERSION_RETRIEVED

text \<open>The lambda expressions which \<open>setMode\<close> registers on the bootloader driver.\<close>

datatype blp_callback = PromptExitToEzsp | PromptFirmwareUpgrade | FirmwareTransferStart

text \<open>A command is the byte of its \<open>EEzspCmd\<close>; a queued message is a command with its payload.\<close>

type_synonym ezsp_cmd = u8
type_synonym ezsp_msg = "ezsp_cmd \<times> byte_buffer"

definition EZSP_VERSION :: ezsp_cmd where "EZSP_VERSION = 0x00"
definition EZSP_LAUNCH_STANDALONE_BOOTLOADER :: ezsp_cmd where
  "EZSP_LAUNCH_STANDALONE_BOOTLOADER = 0x8F"

record dongle =
  firstStartup :: bool
  version :: adapter_version
  lastKnownMode :: dongle_mode
  switchToFirmwareUpgradeOnInitTimeout :: bool
  uartHandle :: bool
  ezspSeqNum :: u8
  ash :: ash_driver
  blp :: "blp_callback blp_driver"
  sendingMsgQueue :: "ezsp_msg list"
  wait_rsp :: bool

text \<open>What an observer can be told.\<close>

datatype dongle_note =
    DongleState dongle_state | EzspRx ezsp_cmd byte_buffer | BootloaderPrompt | FirmwareXModemXfr

type_synonym 'u dongle_obs = "dongle_note \<Rightarrow> dongle \<Rightarrow> 'u \<Rightarrow> (dongle \<times> 'u) result"

definition new_dongle :: dongle where
  "new_dongle =
     \<lparr>firstStartup = True, version = new_version, lastKnownMode = UNKNOWN,
      switchToFirmwareUpgradeOnInitTimeout = False, uartHandle = False, ezspSeqNum = 0,
      ash = ash_disable (new_ash_driver True False), blp = blp_disable (new_blp False),
      sendingMsgQueue = [], wait_rsp = False\<rparr>"

definition setUart :: "dongle \<Rightarrow> dongle" where
  "setUart d = d\<lparr>uartHandle := True,
     ash := registerSerialWriter True (registerSerialReadObservable True (ash d)),
     blp := blp_registerSerialWriter True (blp_registerSerialReadObservable True (blp d))\<rparr>"

definition forceFirmwareUpgradeOnInitTimeout :: "dongle \<Rightarrow> dongle" where
  "forceFirmwareUpgradeOnInitTimeout d = d\<lparr>switchToFirmwareUpgradeOnInitTimeout := True\<rparr>"

definition knownEzspProtocolVersion :: "dongle \<Rightarrow> bool" where
  "knownEzspProtocolVersion d \<longleftrightarrow> ezspProtocolVersion (version d) \<noteq> 0"

definition knownEzspProtocolVersionGE :: "u8 \<Rightarrow> dongle \<Rightarrow> bool" where
  "knownEzspProtocolVersionGE v d \<longleftrightarrow>
     (if \<not> knownEzspProtocolVersion d then False else ucast v \<le> ezspProtocolVersion (version d))"

definition knownEzspProtocolVersionLT :: "u8 \<Rightarrow> dongle \<Rightarrow> bool" where
  "knownEzspProtocolVersionLT v d \<longleftrightarrow>
     (if \<not> knownEzspProtocolVersion d then False else ezspProtocolVersion (version d) < ucast v)"

section \<open>EZSP headers\<close>

text \<open>The message which \<open>sendNextMsg\<close> builds, and what \<open>handleInputData\<close> takes out of one.\<close>

definition build_message :: "dongle \<Rightarrow> ezsp_msg \<Rightarrow> byte_buffer" where
  "build_message d m =
     (case m of (cmd, payload) \<Rightarrow>
        [ezspSeqNum d, 0x00]
        @ (if knownEzspProtocolVersionGE 8 d then [0x01] else [])
        @ (if cmd \<noteq> EZSP_VERSION \<and> knownEzspProtocolVersionLT 8 d then [0xFF, 0x00] else [])
        @ [cmd]
        @ (if knownEzspProtocolVersionGE 8 d then [0x00] else [])
        @ payload)"

definition parse_message :: "dongle \<Rightarrow> byte_buffer \<Rightarrow> ezsp_msg option" where
  "parse_message d m =
     (if knownEzspProtocolVersionGE 8 d then
        (if length m < 5 then None
         else if m ! 4 \<noteq> 0 then None
         else Some (m ! 3, drop 5 m))
      else if length m < 4 then None
      else let m = (if 3 \<le> length m \<and> m ! 2 = 0xFF then take 2 m @ drop 4 m else m) in
        if length m < 3 then None else Some (m ! 2, drop 3 m))"

section \<open>Sending\<close>

definition in_ezsp_mode :: "dongle \<Rightarrow> bool" where
  "in_ezsp_mode d \<longleftrightarrow> lastKnownMode d = EZSP_NCP \<or> lastKnownMode d = UNKNOWN"

definition sendNextMsg :: "writer \<Rightarrow> dongle \<Rightarrow> dongle result" where
  "sendNextMsg wr d =
     (if \<not> in_ezsp_mode d then Inr d
      else if \<not> wait_rsp d \<and> sendingMsgQueue d \<noteq> [] then
        let ezspMessage = build_message d (hd (sendingMsgQueue d));
            d = d\<lparr>ezspSeqNum := ezspSeqNum d + 1\<rparr>
        in bindR (sendDataFrame wr ezspMessage (ash d)) (\<lambda>(ok, a).
             Inr (d\<lparr>ash := a, wait_rsp := (if ok then True else wait_rsp d)\<rparr>))
      else Inr d)"

definition sendCommand :: "writer \<Rightarrow> ezsp_cmd \<Rightarrow> byte_buffer \<Rightarrow> dongle \<Rightarrow> dongle result" where
  "sendCommand wr i_cmd i_cmd_payload d =
     sendNextMsg wr (d\<lparr>sendingMsgQueue := sendingMsgQueue d @ [(i_cmd, i_cmd_payload)]\<rparr>)"

definition handleResponse :: "writer \<Rightarrow> ezsp_cmd \<Rightarrow> dongle \<Rightarrow> dongle result" where
  "handleResponse wr i_cmd d =
     (case sendingMsgQueue d of
        [] \<Rightarrow> Inr d
      | m # ms \<Rightarrow>
          if fst m = i_cmd then sendNextMsg wr (d\<lparr>sendingMsgQueue := ms, wait_rsp := False\<rparr>)
          else Inr d)"

section \<open>Modes and callbacks\<close>

definition setMode :: "dongle_mode \<Rightarrow> dongle \<Rightarrow> dongle result" where
  "setMode requestedMode d =
     (if lastKnownMode d \<noteq> EZSP_NCP
         \<and> (requestedMode = EZSP_NCP \<or> requestedMode = BOOTLOADER_EXIT_TO_EZSP_NCP) then
        bindR (blp_reset (blp_enable (registerPromptDetectCallback (Some PromptExitToEzsp) (blp d))))
          (\<lambda>b. Inr (d\<lparr>lastKnownMode := requestedMode, blp := b\<rparr>))
      else if (lastKnownMode d = EZSP_NCP \<or> lastKnownMode d = UNKNOWN)
         \<and> requestedMode = BOOTLOADER_FIRMWARE_UPGRADE then
        bindR (blp_reset (registerPromptDetectCallback (Some PromptFirmwareUpgrade) (blp_enable (blp d))))
          (\<lambda>b. Inr (d\<lparr>lastKnownMode := requestedMode, ash := ash_disable (ash d), blp := b\<rparr>))
      else Inr d)"

definition ashCbInfo ::
    "writer \<Rightarrow> 'u dongle_obs \<Rightarrow> ash_info \<Rightarrow> dongle \<Rightarrow> 'u \<Rightarrow> (dongle \<times> 'u) result" where
  "ashCbInfo wr obs info d u =
     (case info of
        ASH_STATE_CONNECTED \<Rightarrow>
          bindR (obs (DongleState DONGLE_READY) d u) (\<lambda>(d, u). Inr (d\<lparr>lastKnownMode := EZSP_NCP\<rparr>, u))
      | ASH_STATE_DISCONNECTED \<Rightarrow> obs (DongleState DONGLE_REMOVE) d u
      | ASH_NACK \<Rightarrow> bindR (sendNextMsg wr (d\<lparr>wait_rsp := False\<rparr>)) (\<lambda>d. Inr (d, u))
      | ASH_RESET_FAILED \<Rightarrow>
          if firstStartup d then
            bindR (setMode (if switchToFirmwareUpgradeOnInitTimeout d then BOOTLOADER_FIRMWARE_UPGRADE
                            else BOOTLOADER_EXIT_TO_EZSP_NCP) d)
              (\<lambda>d. Inr (d\<lparr>firstStartup := False\<rparr>, u))
          else obs (DongleState DONGLE_NOT_RESPONDING) d u
      | ASH_ACK \<Rightarrow> Inr (d, u))"

text \<open>The dongle as the owner of its ASH driver.\<close>

definition ash_owner :: "writer \<Rightarrow> 'u dongle_obs \<Rightarrow> (dongle \<times> 'u) ash_owner" where
  "ash_owner wr obs info a du =
     (case du of (d, u) \<Rightarrow>
        bindR (ashCbInfo wr obs info (d\<lparr>ash := a\<rparr>) u) (\<lambda>(d, u). Inr (ash d, d, u)))"

definition dongle_reset ::
    "writer \<Rightarrow> 'u dongle_obs \<Rightarrow> dongle \<Rightarrow> 'u \<Rightarrow> (bool \<times> dongle \<times> 'u) result" where
  "dongle_reset wr obs d u =
     (let d = d\<lparr>ezspSeqNum := 0\<rparr> in
      if \<not> uartHandle d then Inr (False, d, u)
      else let d = d\<lparr>blp := blp_disable (blp d), ash := ash_enable (ash d)\<rparr> in
        bindR (sendResetNCPFrame wr (ash_owner wr obs) (ash d) (d, u))
          (\<lambda>(ok, a, d, u). Inr (ok, d\<lparr>ash := a\<rparr>, u)))"

text \<open>The dongle as the owner of its bootloader driver.\<close>

definition blp_owner :: "writer \<Rightarrow> 'u dongle_obs \<Rightarrow> (blp_callback, dongle \<times> 'u) blp_env" where
  "blp_owner wr obs p b du =
     (case du of (d, u) \<Rightarrow> let d = d\<lparr>blp := b\<rparr> in
       bindR
        (case p of
           PromptExitToEzsp \<Rightarrow>
             bindR (obs BootloaderPrompt d u) (\<lambda>(d, u).
               let (ok, b) = selectModeRun wr (blp d);
                   d = d\<lparr>blp := blp_disable b, lastKnownMode := EZSP_NCP, ash := ash_enable (ash d)\<rparr>
               in bindR (dongle_reset wr obs d u) (\<lambda>(ok, d, u). Inr (d, u)))
         | PromptFirmwareUpgrade \<Rightarrow>
             bindR (obs BootloaderPrompt d u) (\<lambda>(d, u).
               let (ok, b) = selectModeUpgradeFw wr (Some FirmwareTransferStart) (blp d)
               in Inr (d\<lparr>blp := b, lastKnownMode := BOOTLOADER_FIRMWARE_UPGRADE\<rparr>, u))
         | FirmwareTransferStart \<Rightarrow> obs FirmwareXModemXfr d u)
        (\<lambda>(d, u). Inr (blp d, d, u)))"

section \<open>Receiving\<close>

definition dongle_handleInputData ::
    "writer \<Rightarrow> 'u dongle_obs \<Rightarrow> byte_buffer \<Rightarrow> dongle \<Rightarrow> 'u \<Rightarrow> (dongle \<times> 'u) result" where
  "dongle_handleInputData wr obs ezspMessage d u =
     (if \<not> in_ezsp_mode d then Inr (d, u)
      else case parse_message d ezspMessage of
        None \<Rightarrow> Inr (d, u)
      | Some (l_cmd, payload) \<Rightarrow>
          bindR (if l_cmd \<noteq> EZSP_LAUNCH_STANDALONE_BOOTLOADER
                 then handleResponse wr l_cmd (d\<lparr>ash := snd (sendAckFrame wr (ash d))\<rparr>)
                 else Inr d)
            (\<lambda>d. obs (EzspRx l_cmd payload) d u))"

text \<open>The dongle as the observer of its ASH driver.\<close>

definition ash_listener :: "writer \<Rightarrow> 'u dongle_obs \<Rightarrow> (dongle \<times> 'u) ash_observer" where
  "ash_listener wr obs p a du =
     (case du of (d, u) \<Rightarrow>
        bindR (dongle_handleInputData wr obs p (d\<lparr>ash := a\<rparr>) u) (\<lambda>(d, u). Inr (ash d, d, u)))"

text \<open>Bytes from the serial port go to the ASH driver and then to the bootloader driver.\<close>

definition uart_input ::
    "writer \<Rightarrow> 'u dongle_obs \<Rightarrow> byte_buffer \<Rightarrow> dongle \<Rightarrow> 'u \<Rightarrow> (dongle \<times> 'u) result" where
  "uart_input wr obs bytes d u =
     bindR (ash_handleInputData (ash_owner wr obs) (ash_listener wr obs) bytes (ash d) (d, u))
       (\<lambda>(a, d, u). let d = d\<lparr>ash := a\<rparr> in
         bindR (blp_handleInputData (blp_owner wr obs) bytes (blp d) (d, u))
           (\<lambda>(b, d, u). Inr (d\<lparr>blp := b\<rparr>, u)))"

definition dongle_ash_timeout ::
    "writer \<Rightarrow> 'u dongle_obs \<Rightarrow> dongle \<Rightarrow> 'u \<Rightarrow> (dongle \<times> 'u) result" where
  "dongle_ash_timeout wr obs d u =
     bindR (ash_timeout (ash_owner wr obs) (ash d) (d, u)) (\<lambda>(a, d, u). Inr (d\<lparr>ash := a\<rparr>, u))"

definition dongle_blp_timeout :: "writer \<Rightarrow> dongle \<Rightarrow> dongle" where
  "dongle_blp_timeout wr d = d\<lparr>blp := blp_timeout wr (blp d)\<rparr>"

section \<open>Versions\<close>

definition setFetchedXncpData ::
    "'u dongle_obs \<Rightarrow> u16 \<Rightarrow> u16 \<Rightarrow> dongle \<Rightarrow> 'u \<Rightarrow> (dongle \<times> 'u) result" where
  "setFetchedXncpData obs manufacturerId versionNumber d u =
     obs (DongleState DONGLE_VERSION_RETRIEVED)
       (d\<lparr>version := setXncpData manufacturerId versionNumber (version d)\<rparr>) u"

definition setFetchedEzspStackVersion ::
    "'u dongle_obs \<Rightarrow> u16 \<Rightarrow> dongle \<Rightarrow> 'u \<Rightarrow> (dongle \<times> 'u) result" where
  "setFetchedEzspStackVersion obs stackVersion d u =
     obs (DongleState DONGLE_VERSION_RETRIEVED)
       (d\<lparr>version := setEzspStackVersion stackVersion (version d)\<rparr>) u"

definition setFetchedEzspVersionData ::
    "'u dongle_obs \<Rightarrow> u16 \<Rightarrow> u8 \<Rightarrow> u8 \<Rightarrow> dongle \<Rightarrow> 'u \<Rightarrow> (dongle \<times> 'u) result" where
  "setFetchedEzspVersionData obs stackVersion protocolVersion stackType d u =
     obs (DongleState DONGLE_VERSION_RETRIEVED)
       (d\<lparr>version := setEzspVersionInfo stackVersion protocolVersion stackType (version d)\<rparr>) u"

definition getVersion :: "dongle \<Rightarrow> adapter_version" where
  "getVersion d = version d"

section \<open>The queue as a specification\<close>

text \<open>
  The abstract outbox: the messages not answered yet, oldest first, and whether the oldest
  is in flight. Its operations give the messages which they put on the wire.
\<close>

type_synonym outbox = "ezsp_msg list \<times> bool"

datatype outbox_op = Submit ezsp_msg | Answer ezsp_cmd

fun outbox_push :: "outbox \<Rightarrow> ezsp_msg list \<times> outbox" where
  "outbox_push (q, busy) = (if \<not> busy \<and> q \<noteq> [] then ([hd q], (q, True)) else ([], (q, busy)))"

fun outbox_step :: "outbox_op \<Rightarrow> outbox \<Rightarrow> ezsp_msg list \<times> outbox" where
  "outbox_step (Submit m) (q, busy) = outbox_push (q @ [m], busy)"
| "outbox_step (Answer c) ([], busy) = ([], ([], busy))"
| "outbox_step (Answer c) (m # ms, busy) =
     (if fst m = c then outbox_push (ms, False) else ([], (m # ms, busy)))"

fun outbox_run :: "outbox_op list \<Rightarrow> outbox \<Rightarrow> ezsp_msg list \<times> outbox" where
  "outbox_run [] b = ([], b)"
| "outbox_run (op # ops) b =
     (let (out, b) = outbox_step op b; (outs, b) = outbox_run ops b in (out @ outs, b))"

fun submitted :: "outbox_op list \<Rightarrow> ezsp_msg list" where
  "submitted [] = []"
| "submitted (Submit m # ops) = m # submitted ops"
| "submitted (Answer c # ops) = submitted ops"

text \<open>What is not on the wire yet.\<close>

fun unsent :: "outbox \<Rightarrow> ezsp_msg list" where
  "unsent (q, busy) = (if busy then tl q else q)"

fun outbox_wf :: "outbox \<Rightarrow> bool" where
  "outbox_wf (q, busy) \<longleftrightarrow> (busy \<longleftrightarrow> q \<noteq> [])"

lemma outbox_push_wf: "(busy \<longrightarrow> q \<noteq> []) \<Longrightarrow> outbox_wf (snd (outbox_push (q, busy)))"
  by auto

lemma outbox_push_fifo: "(busy \<longrightarrow> q \<noteq> []) \<Longrightarrow>
    fst (outbox_push (q, busy)) @ unsent (snd (outbox_push (q, busy))) = unsent (q, busy)"
  by (cases q) auto

lemma outbox_step_wf: "outbox_wf b \<Longrightarrow> outbox_wf (snd (outbox_step op b))"
  by (cases "(op, b)" rule: outbox_step.cases) auto

lemma outbox_step_fifo:
  "outbox_wf b \<Longrightarrow>
     fst (outbox_step op b) @ unsent (snd (outbox_step op b)) = unsent b @ submitted [op]"
proof (cases "(op, b)" rule: outbox_step.cases)
  case (3 c m ms busy)
  assume "outbox_wf b"
  then show ?thesis using 3 by (cases ms) auto
qed auto

lemma outbox_fifo:
  "outbox_wf b \<Longrightarrow> outbox_run ops b = (outs, b') \<Longrightarrow>
     outbox_wf b' \<and> outs @ unsent b' = unsent b @ submitted ops"
proof (induction ops arbitrary: b outs b')
  case (Cons op ops)
  obtain out b1 where 1: "outbox_step op b = (out, b1)" by (metis surj_pair)
  obtain outs' b2 where 2: "outbox_run ops b1 = (outs', b2)" by (metis surj_pair)
  have "outbox_wf b1" "out @ unsent b1 = unsent b @ submitted [op]"
    using outbox_step_wf [OF Cons.prems(1), of op] outbox_step_fifo [OF Cons.prems(1), of op] 1
    by auto
  moreover have "outs = out @ outs'" "b' = b2"
    using Cons.prems(2) 1 2 by auto
  moreover have "submitted (op # ops) = submitted [op] @ submitted ops"
    by (cases op) auto
  ultimately show ?case
    using Cons.IH [OF _ 2] by auto
qed simp

section \<open>The dongle implements the outbox\<close>

definition outbox_of :: "dongle \<Rightarrow> outbox" where
  "outbox_of d = (sendingMsgQueue d, wait_rsp d)"

fun dongle_step :: "writer \<Rightarrow> outbox_op \<Rightarrow> dongle \<Rightarrow> dongle result" where
  "dongle_step wr (Submit m) d = sendCommand wr (fst m) (snd m) d"
| "dongle_step wr (Answer c) d = handleResponse wr c d"

fun dongle_run :: "writer \<Rightarrow> outbox_op list \<Rightarrow> dongle \<Rightarrow> dongle result" where
  "dongle_run wr [] d = Inr d"
| "dongle_run wr (op # ops) d = bindR (dongle_step wr op d) (dongle_run wr ops)"

text \<open>The EZSP messages for a list of commands, numbered from the dongle's next number.\<close>

fun wire_messages :: "dongle \<Rightarrow> ezsp_msg list \<Rightarrow> byte_buffer list" where
  "wire_messages d [] = []"
| "wire_messages d (m # ms) =
     build_message d m # wire_messages (d\<lparr>ezspSeqNum := ezspSeqNum d + 1\<rparr>) ms"

text \<open>A dongle that can send: in EZSP mode, with an enabled driver that has a serial port.\<close>

definition can_send :: "dongle \<Rightarrow> bool" where
  "can_send d \<longleftrightarrow> in_ezsp_mode d \<and> serialWriteFunc (ash d) \<and> enabled (ash d)
     \<and> \<not> in_callback (ackTimer (ash d))"

definition short_msg :: "ezsp_msg \<Rightarrow> bool" where
  "short_msg m \<longleftrightarrow> length (snd m) < 240"

lemma build_message_cong:
  "ezspSeqNum d = ezspSeqNum d' \<Longrightarrow> version d = version d' \<Longrightarrow> build_message d m = build_message d' m"
  by (simp add: build_message_def knownEzspProtocolVersionGE_def knownEzspProtocolVersionLT_def
      knownEzspProtocolVersion_def split: prod.split)

lemma wire_messages_cong:
  "ezspSeqNum d = ezspSeqNum d' \<Longrightarrow> version d = version d' \<Longrightarrow> wire_messages d ms = wire_messages d' ms"
proof (induction ms arbitrary: d d')
  case (Cons m ms)
  then show ?case
    using Cons.IH [of "d\<lparr>ezspSeqNum := ezspSeqNum d + 1\<rparr>" "d'\<lparr>ezspSeqNum := ezspSeqNum d' + 1\<rparr>"]
      build_message_cong [of d d' m] by simp
qed simp

lemma length_build_message: "length (build_message d m) \<le> 7 + length (snd m)"
  by (auto simp: build_message_def split: prod.split)

lemma forge_frames_append:
  "forge_frames (ps @ qs) c =
     bindR (forge_frames ps c) (\<lambda>(fs, c). bindR (forge_frames qs c) (\<lambda>(gs, c). Inr (fs @ gs, c)))"
  by (induction ps arbitrary: c) (auto simp: bindR_assoc split_def intro!: bindR_cong)

text \<open>The simulation: concrete and abstract outbox agree, and exactly the frames of the messages
  which the abstract one puts on the wire are added to what was written.\<close>

definition sent_frames :: "dongle \<Rightarrow> ezsp_msg list \<Rightarrow> dongle \<Rightarrow> bool" where
  "sent_frames d outs d' \<longleftrightarrow>
     (\<exists>fs. forge_frames (wire_messages d outs) (ashCodec (ash d)) = Inr (fs, ashCodec (ash d'))
        \<and> ash_tx (ash d') = ash_tx (ash d) @ fs)
   \<and> ezspSeqNum d' = ezspSeqNum d + of_nat (length outs) \<and> version d' = version d"

lemma sent_frames_refl: "sent_frames d [] d"
  by (simp add: sent_frames_def)

lemma wire_messages_append:
  "wire_messages d (xs @ ys) =
     wire_messages d xs @ wire_messages (d\<lparr>ezspSeqNum := ezspSeqNum d + of_nat (length xs)\<rparr>) ys"
proof (induction xs arbitrary: d)
  case Nil
  have "wire_messages d ys = wire_messages (d\<lparr>ezspSeqNum := ezspSeqNum d + of_nat 0\<rparr>) ys"
    by (rule wire_messages_cong) simp_all
  then show ?case by simp
next
  case (Cons x xs)
  then show ?case by (simp add: add_ac)
qed

lemma sent_frames_trans:
  assumes "sent_frames d xs d1" "sent_frames d1 ys d2"
  shows "sent_frames d (xs @ ys) d2"
proof -
  have "wire_messages (d\<lparr>ezspSeqNum := ezspSeqNum d + of_nat (length xs)\<rparr>) ys = wire_messages d1 ys"
    using assms(1) by (intro wire_messages_cong) (simp_all add: sent_frames_def)
  then show ?thesis
    using assms by (auto simp: sent_frames_def wire_messages_append forge_frames_append add_ac)
qed

lemma sendNextMsg_push:
  assumes "can_send d" "\<forall>m \<in> set (sendingMsgQueue d). short_msg m"
  shows "\<exists>d'. sendNextMsg good_port d = Inr d' \<and> can_send d'
    \<and> outbox_of d' = snd (outbox_push (outbox_of d))
    \<and> sent_frames d (fst (outbox_push (outbox_of d))) d'"
proof (cases "wait_rsp d \<or> sendingMsgQueue d = []")
  case True
  then show ?thesis
    using assms(1) by (auto simp: sendNextMsg_def outbox_of_def sent_frames_refl)
next
  case False
  let ?m = "hd (sendingMsgQueue d)"
  let ?e = "build_message d ?m"
  have "short_msg ?m" using False assms(2) by simp
  then have "length ?e < 256"
    using length_build_message [of d ?m] by (simp add: short_msg_def)
  then obtain ok a where run: "sendDataFrame good_port ?e (ash d) = Inr (ok, a)"
    using sendDataFrame_fault [of good_port ?e "ash d"] assms(1)
    by (cases "sendDataFrame good_port ?e (ash d)") (auto simp: can_send_def)
  from sendDataFrame_outcome [OF run] obtain f
    where f: "forgeDataFrame ?e (ashCodec (ash d)) = Inr (f, ashCodec a)"
      and a: "ok" "ash_tx a = ash_tx (ash d) @ [f]" "enabled a" "serialWriteFunc a"
        "\<not> in_callback (ackTimer a)"
    using assms(1) by (auto simp: can_send_def good_port_def)
  let ?d = "d\<lparr>ezspSeqNum := ezspSeqNum d + 1, ash := a, wait_rsp := True\<rparr>"
  have "sendNextMsg good_port d = Inr ?d"
    using False assms(1) run a(1) by (simp add: sendNextMsg_def can_send_def Let_def)
  moreover have "can_send ?d"
    using assms(1) a by (simp add: can_send_def in_ezsp_mode_def)
  moreover have "sent_frames d [?m] ?d"
    using f a by (simp add: sent_frames_def)
  ultimately show ?thesis
    using False by (auto simp: outbox_of_def)
qed

lemma sent_frames_update:
  assumes "sent_frames (d\<lparr>sendingMsgQueue := q, wait_rsp := w\<rparr>) outs d'"
  shows "sent_frames d outs d'"
  using assms wire_messages_cong [of "d\<lparr>sendingMsgQueue := q, wait_rsp := w\<rparr>" d outs]
  by (simp add: sent_frames_def)

lemma dongle_step_refines:
  assumes "can_send d" "\<forall>m \<in> set (sendingMsgQueue d). short_msg m" "\<forall>m \<in> set (submitted [op]). short_msg m"
  shows "\<exists>d'. dongle_step good_port op d = Inr d' \<and> can_send d'
    \<and> outbox_of d' = snd (outbox_step op (outbox_of d))
    \<and> sent_frames d (fst (outbox_step op (outbox_of d))) d'"
proof -
  have push: "\<exists>d'. sendNextMsg good_port (d\<lparr>sendingMsgQueue := q, wait_rsp := w\<rparr>) = Inr d' \<and> can_send d'
      \<and> outbox_of d' = snd (outbox_push (q, w)) \<and> sent_frames d (fst (outbox_push (q, w))) d'"
    if "\<forall>m \<in> set q. short_msg m" for q w
    using sendNextMsg_push [of "d\<lparr>sendingMsgQueue := q, wait_rsp := w\<rparr>"] assms(1) that
    by (auto simp: can_send_def in_ezsp_mode_def outbox_of_def simp del: outbox_push.simps
        dest: sent_frames_update)
  show ?thesis
  proof (cases op)
    case (Submit m)
    have "d\<lparr>sendingMsgQueue := sendingMsgQueue d @ [m]\<rparr> =
        d\<lparr>sendingMsgQueue := sendingMsgQueue d @ [m], wait_rsp := wait_rsp d\<rparr>"
      by (cases d) simp
    then show ?thesis
      using push [of "sendingMsgQueue d @ [m]" "wait_rsp d"] assms(2,3) Submit
      by (simp add: sendCommand_def outbox_of_def del: outbox_push.simps)
  next
    case (Answer c)
    show ?thesis
    proof (cases "sendingMsgQueue d")
      case Nil
      then show ?thesis
        using Answer assms(1) by (simp add: handleResponse_def outbox_of_def sent_frames_refl)
    next
      case (Cons m ms)
      then show ?thesis
        using Answer assms(1,2) push [of ms False]
        by (simp add: handleResponse_def outbox_of_def sent_frames_refl del: outbox_push.simps)
    qed
  qed
qed

lemma outbox_step_short:
  "\<forall>m \<in> set (fst b). short_msg m \<Longrightarrow> \<forall>m \<in> set (submitted [op]). short_msg m \<Longrightarrow>
     \<forall>m \<in> set (fst (snd (outbox_step op b))). short_msg m"
  by (cases "(op, b)" rule: outbox_step.cases) auto

lemma dongle_run_refines:
  "\<lbrakk>can_send d; \<forall>m \<in> set (sendingMsgQueue d). short_msg m; \<forall>m \<in> set (submitted ops). short_msg m\<rbrakk> \<Longrightarrow>
   \<exists>d'. dongle_run good_port ops d = Inr d' \<and> can_send d'
     \<and> outbox_of d' = snd (outbox_run ops (outbox_of d))
     \<and> sent_frames d (fst (outbox_run ops (outbox_of d))) d'"
proof (induction ops arbitrary: d)
  case Nil
  then show ?case by (simp add: sent_frames_refl)
next
  case (Cons op ops)
  have sub: "submitted (op # ops) = submitted [op] @ submitted ops" by (cases op) auto
  obtain d1 where 1: "dongle_step good_port op d = Inr d1" "can_send d1"
      "outbox_of d1 = snd (outbox_step op (outbox_of d))"
      "sent_frames d (fst (outbox_step op (outbox_of d))) d1"
    using dongle_step_refines [OF Cons.prems(1,2), of op] Cons.prems(3) sub by auto
  have "\<forall>m \<in> set (sendingMsgQueue d1). short_msg m"
    using outbox_step_short [of "outbox_of d" op] Cons.prems(2,3) sub arg_cong [OF 1(3), of fst]
    by (simp add: outbox_of_def)
  then obtain d2 where "dongle_run good_port ops d1 = Inr d2" "can_send d2"
      "outbox_of d2 = snd (outbox_run ops (outbox_of d1))"
      "sent_frames d1 (fst (outbox_run ops (outbox_of d1))) d2"
    using Cons.IH [OF 1(2)] Cons.prems(3) sub by auto
  then show ?case
    using 1 sent_frames_trans by (auto simp: split_def Let_def)
qed

section \<open>Headers\<close>

lemma parse_build:
  assumes "knownEzspProtocolVersion d \<or> cmd \<noteq> 0xFF"
    and "knownEzspProtocolVersionGE 8 d \<or> knownEzspProtocolVersionLT 8 d \<and> cmd \<noteq> EZSP_VERSION
         \<or> payload \<noteq> []"
  shows "parse_message d (build_message d (cmd, payload)) = Some (cmd, payload)"
proof (cases "knownEzspProtocolVersionGE 8 d")
  case True
  then have "\<not> knownEzspProtocolVersionLT 8 d"
    by (auto simp: knownEzspProtocolVersionGE_def knownEzspProtocolVersionLT_def split: if_splits)
  then show ?thesis
    using True by (simp add: parse_message_def build_message_def)
next
  case False
  then have known: "knownEzspProtocolVersionLT 8 d \<longleftrightarrow> knownEzspProtocolVersion d"
    by (auto simp: knownEzspProtocolVersionGE_def knownEzspProtocolVersionLT_def split: if_splits)
  show ?thesis
    using False known assms
    by (cases payload) (auto simp: parse_message_def build_message_def EZSP_VERSION_def Let_def)
qed

section \<open>Properties\<close>

text \<open>C16: Commands go on the wire in the order in which they were submitted, at most one
  waiting for its response. For any sequence of submitted commands and received responses,
  the dongle writes one data frame for each command it takes from its queue, with
  consecutive EZSP sequence numbers; what it has written and what it still holds are together
  exactly what was submitted; and it waits for a response exactly if its queue is not empty.\<close>

theorem dongle_commands_fifo:
  assumes "can_send d" "outbox_wf (outbox_of d)"
    and "\<forall>m \<in> set (sendingMsgQueue d) \<union> set (submitted ops). short_msg m"
  shows "\<exists>d' outs. dongle_run good_port ops d = Inr d' \<and> sent_frames d outs d'
    \<and> outs @ unsent (outbox_of d') = unsent (outbox_of d) @ submitted ops
    \<and> (wait_rsp d' \<longleftrightarrow> sendingMsgQueue d' \<noteq> [])"
proof -
  obtain outs b' where run: "outbox_run ops (outbox_of d) = (outs, b')"
    by (metis surj_pair)
  obtain d' where "dongle_run good_port ops d = Inr d'" "outbox_of d' = b'" "sent_frames d outs d'"
    using dongle_run_refines [OF assms(1), of ops] assms(3) run by auto
  then show ?thesis
    using outbox_fifo [OF assms(2) run] by (intro exI [of _ d'] exI [of _ outs]) (auto simp: outbox_of_def)
qed

definition ready_dongle :: dongle where
  "ready_dongle = (let d = setUart new_dongle in d\<lparr>ash := ash_enable (ash d)\<rparr>)"

lemma ready_dongle_fields [simp]:
  "sendingMsgQueue ready_dongle = []" "wait_rsp ready_dongle = False"
  "lastKnownMode ready_dongle = UNKNOWN" "version ready_dongle = new_version"
  "uartHandle ready_dongle = True" "ezspSeqNum ready_dongle = 0"
  by (simp_all add: ready_dongle_def setUart_def new_dongle_def)

lemma ready_dongle_can_send: "can_send ready_dongle \<and> outbox_wf (outbox_of ready_dongle)"
  by (simp add: can_send_def ready_dongle_def setUart_def new_dongle_def in_ezsp_mode_def
      outbox_of_def registerSerialWriter_def registerSerialReadObservable_def ash_enable_def
      ash_disable_def new_ash_driver_def in_callback_def new_timer_def)

theorem dongle_commands_fifo_witness:
  "\<exists>d' outs. dongle_run good_port
      [Submit (0x00, [4]), Submit (0x17, []), Answer 0x00, Submit (0x18, [1])] ready_dongle = Inr d'
    \<and> sent_frames ready_dongle outs d'
    \<and> outs @ unsent (outbox_of d') = [(0x00, [4]), (0x17, []), (0x18, [1])]"
proof -
  let ?ops = "[Submit (0x00, [4]), Submit (0x17, []), Answer 0x00, Submit (0x18, [1])]"
  have "\<exists>d' outs. dongle_run good_port ?ops ready_dongle = Inr d' \<and> sent_frames ready_dongle outs d'
    \<and> outs @ unsent (outbox_of d') = unsent (outbox_of ready_dongle) @ submitted ?ops
    \<and> (wait_rsp d' \<longleftrightarrow> sendingMsgQueue d' \<noteq> [])"
    by (rule dongle_commands_fifo) (simp_all add: ready_dongle_can_send short_msg_def)
  moreover have "unsent (outbox_of ready_dongle) @ submitted ?ops = [(0x00, [4]), (0x17, []), (0x18, [1])]"
    by (simp add: outbox_of_def)
  ultimately show ?thesis by (metis (no_types))
qed

text \<open>EZSP headers round trip. What a dongle builds for a command is parsed, under the same
  protocol version, as that command and payload, except in two cases: the command whose byte
  is 0xFF while the version is unknown, and messages of three bytes in the legacy format.\<close>

theorem ezsp_header_roundtrip:
  assumes "knownEzspProtocolVersion d \<or> cmd \<noteq> 0xFF"
    and "knownEzspProtocolVersionGE 8 d \<or> knownEzspProtocolVersionLT 8 d \<and> cmd \<noteq> EZSP_VERSION
         \<or> payload \<noteq> []"
  shows "parse_message d (build_message d (cmd, payload)) = Some (cmd, payload)"
  using assms by (rule parse_build)

theorem ezsp_header_roundtrip_witness:
  "parse_message (new_dongle\<lparr>version := setEzspVersionInfo 0x6710 7 2 new_version\<rparr>)
     [0, 0, 0xFF, 0, 0x17] = Some (0x17, [])"
proof -
  let ?d = "new_dongle\<lparr>version := setEzspVersionInfo 0x6710 7 2 new_version\<rparr>"
  have v: "ezspProtocolVersion (version ?d) = 7"
    by (simp add: setEzspVersionInfo_def setEzspStackVersion_def)
  then have k: "knownEzspProtocolVersion ?d" "knownEzspProtocolVersionLT 8 ?d"
    "\<not> knownEzspProtocolVersionGE 8 ?d"
    by (simp_all add: knownEzspProtocolVersion_def knownEzspProtocolVersionLT_def
        knownEzspProtocolVersionGE_def)
  then have "build_message ?d (0x17, []) = [0, 0, 0xFF, 0, 0x17]"
    by (simp add: build_message_def EZSP_VERSION_def new_dongle_def)
  then show ?thesis
    using ezsp_header_roundtrip [of ?d "0x17" "[]"] k by (simp add: EZSP_VERSION_def)
qed

text \<open>A legacy message of three bytes, sequence number, frame control and frame id, is always
  refused below protocol version 8, though the comments allow it and the check that follows
  accepts it.\<close>

theorem ezsp_legacy_without_parameters_refused:
  assumes "\<not> knownEzspProtocolVersionGE 8 d"
  shows "dongle_handleInputData wr obs [sq, fc, frame_id] d u = Inr (d, u)"
  using assms by (simp add: dongle_handleInputData_def parse_message_def)

theorem ezsp_legacy_without_parameters_refused_witness:
  "dongle_handleInputData good_port (\<lambda>n d u. Inr (d, u @ [n])) [0, 0x80, 0x17] ready_dongle [] =
     Inr (ready_dongle, [])"
  by (rule ezsp_legacy_without_parameters_refused)
    (simp add: knownEzspProtocolVersionGE_def knownEzspProtocolVersion_def new_version_def)

text \<open>In the bootloader modes no EZSP traffic passes: a submitted command is only queued, a
  response is not awaited, and a message from the adapter reaches no observer.\<close>

theorem dongle_bootloader_mode_silent:
  assumes "\<not> in_ezsp_mode d"
  shows "sendCommand wr cmd payload d =
      Inr (d\<lparr>sendingMsgQueue := sendingMsgQueue d @ [(cmd, payload)]\<rparr>)
    \<and> dongle_handleInputData wr obs msg d u = Inr (d, u)
    \<and> ashCbInfo wr obs ASH_NACK d u = Inr (d\<lparr>wait_rsp := False\<rparr>, u)"
  using assms by (simp add: sendCommand_def sendNextMsg_def in_ezsp_mode_def
      dongle_handleInputData_def ashCbInfo_def)

theorem dongle_bootloader_mode_silent_witness:
  "sendCommand good_port 0x17 [] (ready_dongle\<lparr>lastKnownMode := BOOTLOADER_FIRMWARE_UPGRADE\<rparr>) =
     Inr (ready_dongle\<lparr>lastKnownMode := BOOTLOADER_FIRMWARE_UPGRADE, sendingMsgQueue := [(0x17, [])]\<rparr>)"
proof -
  let ?d = "ready_dongle\<lparr>lastKnownMode := BOOTLOADER_FIRMWARE_UPGRADE\<rparr>"
  have "sendCommand good_port 0x17 [] ?d = Inr (?d\<lparr>sendingMsgQueue := sendingMsgQueue ?d @ [(0x17, [])]\<rparr>)"
    by (rule conjunct1 [OF dongle_bootloader_mode_silent]) (simp add: in_ezsp_mode_def)
  then show ?thesis by simp
qed

text \<open>An observer that only keeps what it is told.\<close>

definition note_log :: "dongle_note list dongle_obs" where
  "note_log n d u = Inr (d, u @ [n])"

lemma forgeReset_note_log:
  "forgeResetNCPFrame (codec_env (ash_owner wr note_log)) c (a, d, u) = Inr (f, c', a', d', u') \<Longrightarrow>
     wait_rsp d' = wait_rsp d \<and> sendingMsgQueue d' = sendingMsgQueue d"
  by (auto simp: forgeResetNCPFrame_def cancel_ack_timer_def ash_callback_def codec_env_def
      ash_owner_def ashCbInfo_def note_log_def Let_def split: if_splits)

lemma dongle_reset_note_log:
  assumes "dongle_reset wr note_log d u = Inr (ok, d', u')"
  shows "wait_rsp d' = wait_rsp d \<and> sendingMsgQueue d' = sendingMsgQueue d"
proof (cases "uartHandle d")
  case True
  let ?d = "d\<lparr>ezspSeqNum := 0, blp := blp_disable (blp d), ash := ash_enable (ash d)\<rparr>"
  obtain a e where r: "sendResetNCPFrame wr (ash_owner wr note_log) (ash_enable (ash d)) (?d, u) =
      Inr (ok, a, e, u')" and d': "d' = e\<lparr>ash := a\<rparr>"
    using True assms by (auto simp: dongle_reset_def Let_def)
  obtain t f c b where
    g: "forgeResetNCPFrame (codec_env (ash_owner wr note_log)) (ashCodec (ash_enable (ash d)))
      ((ash_enable (ash d))\<lparr>ackTimer := t\<rparr>, ?d, u) = Inr (f, c, b, e, u')"
    using sendResetNCPFrame_forges [OF r] by auto
  then show ?thesis using forgeReset_note_log [OF g] d' by simp
next
  case False
  then show ?thesis using assms by (auto simp: dongle_reset_def Let_def)
qed

text \<open>A reset forgets nothing. If a response is awaited when the dongle is reset, it is
  still awaited afterwards, also once the link is connected again: the unanswered command
  stays at the front of the queue, and every command submitted from then on is only queued
  behind it, nothing being written.\<close>

theorem dongle_reset_keeps_waiting:
  assumes "wait_rsp d" "dongle_reset wr note_log d u = Inr (ok, d', u')"
  shows "wait_rsp d' \<and> sendingMsgQueue d' = sendingMsgQueue d
    \<and> sendCommand wr c p d' = Inr (d'\<lparr>sendingMsgQueue := sendingMsgQueue d @ [(c, p)]\<rparr>)
    \<and> ashCbInfo wr note_log ASH_STATE_CONNECTED d' u' =
        Inr (d'\<lparr>lastKnownMode := EZSP_NCP\<rparr>, u' @ [DongleState DONGLE_READY])"
proof -
  have "wait_rsp d' = wait_rsp d \<and> sendingMsgQueue d' = sendingMsgQueue d"
    using dongle_reset_note_log [OF assms(2)] .
  then show ?thesis
    using assms(1) by (simp add: sendCommand_def sendNextMsg_def ashCbInfo_def note_log_def)
qed

theorem dongle_reset_keeps_waiting_witness:
  "\<exists>d' u'. dongle_reset good_port note_log
       (ready_dongle\<lparr>wait_rsp := True, sendingMsgQueue := [(0x17, [])]\<rparr>) [] = Inr (True, d', u')
     \<and> wait_rsp d' \<and> sendingMsgQueue d' = [(0x17, [])]"
proof -
  let ?d = "ready_dongle\<lparr>wait_rsp := True, sendingMsgQueue := [(0x17, [])]\<rparr>"
  have "\<exists>d' u'. dongle_reset good_port note_log ?d [] = Inr (True, d', u')"
    by (simp add: dongle_reset_def sendResetNCPFrame_def forgeResetNCPFrame_def cancel_ack_timer_def
        ash_callback_def codec_env_def ash_owner_def ashCbInfo_def note_log_def Let_def
        ready_dongle_def setUart_def new_dongle_def registerSerialWriter_def ash_enable_def
        registerSerialReadObservable_def ash_disable_def new_ash_driver_def new_codec_def
        setAckTimeoutCancelFunc_def new_timer_def stop_timer_def timer_stop_def sendAshFrame_def
        good_port_def start_visitor_def timer_start_def T_ACK_ASH_RESET_def)
  then show ?thesis
    using dongle_reset_keeps_waiting [of ?d good_port "[]"] by fastforce
qed

text \<open>A negative acknowledgement makes the dongle send its oldest unanswered message again,
  as a new data frame with a new EZSP sequence number, and wait for its response.\<close>

theorem dongle_nack_resends:
  assumes "can_send d" "sendingMsgQueue d = m # ms" "\<forall>m \<in> set (sendingMsgQueue d). short_msg m"
  shows "\<exists>d'. ashCbInfo good_port obs ASH_NACK d u = Inr (d', u) \<and> sent_frames d [m] d'
    \<and> sendingMsgQueue d' = m # ms \<and> wait_rsp d' \<and> can_send d'"
proof -
  let ?d = "d\<lparr>sendingMsgQueue := m # ms, wait_rsp := False\<rparr>"
  have same: "d\<lparr>wait_rsp := False\<rparr> = ?d"
    using assms(2) by (cases d) simp
  have "can_send ?d" using assms(1) by (simp add: can_send_def in_ezsp_mode_def)
  then obtain d' where "sendNextMsg good_port ?d = Inr d'" "can_send d'"
      "outbox_of d' = (m # ms, True)" "sent_frames ?d [m] d'"
    using sendNextMsg_push [of ?d] assms(2,3) by (auto simp: outbox_of_def)
  then show ?thesis
    using same sent_frames_update [where d = d and q = "m # ms" and w = False]
    by (auto simp: ashCbInfo_def outbox_of_def)
qed

theorem dongle_nack_resends_witness:
  "\<exists>d'. ashCbInfo good_port note_log ASH_NACK
       (ready_dongle\<lparr>wait_rsp := True, sendingMsgQueue := [(0x17, [])]\<rparr>) [] = Inr (d', [])
     \<and> length (ash_tx (ash d')) = 1 \<and> wait_rsp d'"
proof -
  let ?d = "ready_dongle\<lparr>wait_rsp := True, sendingMsgQueue := [(0x17, [])]\<rparr>"
  have "can_send ?d"
    using ready_dongle_can_send by (simp add: can_send_def in_ezsp_mode_def)
  then obtain d' where d': "ashCbInfo good_port note_log ASH_NACK ?d [] = Inr (d', [])"
      "sent_frames ?d [(0x17, [])] d'" "wait_rsp d'"
    using dongle_nack_resends [of ?d "(0x17, [])" "[]" note_log "[]"] by (auto simp: short_msg_def)
  moreover have "ash_tx (ash ?d) = []"
    by (simp add: ready_dongle_def setUart_def new_dongle_def registerSerialWriter_def
        registerSerialReadObservable_def ash_enable_def ash_disable_def new_ash_driver_def)
  ultimately have "length (ash_tx (ash d')) = 1"
    by (auto simp: sent_frames_def dest: sym)
  then show ?thesis using d' by blast
qed

lemma reset_frame: "addByteStuffing (with_crc [0xC0]) = [0xC0, 0x38, 0xBC, 0x7E]"
  by code_simp

lemma dongle_reset_good:
  assumes "uartHandle d" "serialWriteFunc (ash d)" "\<not> in_callback (ackTimer (ash d))"
    and "pCb (ashCodec (ash d))" "ackTimerCancelFunc (ashCodec (ash d))"
  shows "\<exists>d'. dongle_reset good_port note_log d u = Inr (True, d', u @ [DongleState DONGLE_REMOVE])
    \<and> blp d' = blp_disable (blp d) \<and> lastKnownMode d' = lastKnownMode d \<and> enabled (ash d')
    \<and> ash_tx (ash d') = ash_tx (ash d) @ [[0x1A, 0xC0, 0x38, 0xBC, 0x7E]]
    \<and> timer_isRunning (ackTimer (ash d')) \<and> duration (ackTimer (ash d')) = T_ACK_ASH_RESET
    \<and> \<not> isConnected (ash d') \<and> ezspSeqNum d' = 0"
proof -
  obtain t where t: "stop_timer (ackTimer (ash d)) = Inr t" "\<not> in_callback t"
    using cpp.stop_ok [OF assms(3)] by blast
  obtain t1 where t1: "stop_timer t = Inr t1" "\<not> in_callback t1"
    using cpp.stop_ok [OF t(2)] by blast
  obtain t2 where t2: "start_visitor T_ACK_ASH_RESET t1 = Inr t2" "timer_isRunning t2"
      "duration t2 = T_ACK_ASH_RESET"
    using cpp.start_ok [of T_ACK_ASH_RESET t1] t1(2) by (auto simp: T_ACK_ASH_RESET_def)
  show ?thesis
    using assms t t1 t2
    by (simp add: dongle_reset_def sendResetNCPFrame_def forgeResetNCPFrame_def cancel_ack_timer_def
        ash_callback_def codec_env_def ash_owner_def ashCbInfo_def note_log_def Let_def ash_enable_def
        sendAshFrame_def good_port_def reset_frame ASH_CANCEL_BYTE_def isConnected_def
        isInConnectedState_def)
qed

text \<open>When the adapter does not answer the very first reset, the dongle turns to the
  bootloader and tells nobody: it registers for a prompt, enables the bootloader driver and
  flushes the line for 100 milliseconds, in exit mode, or in upgrade mode with the ASH driver
  disabled if that was asked for.\<close>

theorem dongle_first_reset_failed:
  assumes "firstStartup d" "lastKnownMode d = UNKNOWN" "\<not> isConnected (ash d)" "pCb (ashCodec (ash d))"
    and "timer_elapse (ackTimer (ash d)) = Some t" "\<not> in_callback (blp_timer (blp d))"
  shows "\<exists>d'. dongle_ash_timeout wr obs d u = Inr (d', u) \<and> \<not> firstStartup d'
    \<and> lastKnownMode d' = (if switchToFirmwareUpgradeOnInitTimeout d then BOOTLOADER_FIRMWARE_UPGRADE
                          else BOOTLOADER_EXIT_TO_EZSP_NCP)
    \<and> promptDetectCallback (blp d') = Some (if switchToFirmwareUpgradeOnInitTimeout d
                                           then PromptFirmwareUpgrade else PromptExitToEzsp)
    \<and> enabled (ash d') = (enabled (ash d) \<and> \<not> switchToFirmwareUpgradeOnInitTimeout d)
    \<and> blp_enabled (blp d') \<and> blp_state (blp d') = RX_FLUSH \<and> timer_isRunning (blp_timer (blp d'))
    \<and> duration (blp_timer (blp d')) = GECKO_QUIET_RX_TIMEOUT"
proof -
  obtain t' where t': "start_visitor GECKO_QUIET_RX_TIMEOUT (blp_timer (blp d)) = Inr t'"
      "timer_isRunning t'" "duration t' = GECKO_QUIET_RX_TIMEOUT"
    using cpp.start_ok [of GECKO_QUIET_RX_TIMEOUT "blp_timer (blp d)"] assms(6)
    by (auto simp: GECKO_QUIET_RX_TIMEOUT_def)
  show ?thesis
    using assms t' by (simp add: dongle_ash_timeout_def ash_timeout_def ash_trigger_def isConnected_def
        ash_owner_def ashCbInfo_def setMode_def blp_reset_def blp_enable_def
        registerPromptDetectCallback_def ash_disable_def isInConnectedState_def)
qed

theorem dongle_first_reset_failed_witness:
  "\<exists>d'. dongle_ash_timeout good_port note_log (ready_dongle\<lparr>ash := (ash ready_dongle)\<lparr>ackTimer :=
      \<lparr>started = True, waitingThread = Waiting, duration = 5000\<rparr>\<rparr>\<rparr>) [] = Inr (d', [])
    \<and> lastKnownMode d' = BOOTLOADER_EXIT_TO_EZSP_NCP \<and> blp_enabled (blp d')"
  using dongle_first_reset_failed [of "ready_dongle\<lparr>ash := (ash ready_dongle)\<lparr>ackTimer :=
      \<lparr>started = True, waitingThread = Waiting, duration = 5000\<rparr>\<rparr>\<rparr>" _ good_port note_log "[]"]
  by (auto simp: timer_elapse_def ready_dongle_def setUart_def new_dongle_def isConnected_def
      isInConnectedState_def in_callback_def new_timer_def registerSerialWriter_def
      registerSerialReadObservable_def ash_enable_def ash_disable_def new_ash_driver_def
      setAckTimeoutCancelFunc_def new_codec_def blp_registerSerialWriter_def blp_disable_def
      blp_registerSerialReadObservable_def new_blp_def)

text \<open>The way out of the bootloader. In exit mode, whatever the chunks in which a menu text
  arrives, its prompt makes the dongle choose to run the application, go back to EZSP mode
  with the ASH driver enabled and the bootloader driver disabled, and send one reset frame
  whose confirmation it awaits for five seconds; its observers learn of the prompt and then of
  the disconnection.\<close>

theorem dongle_leaves_bootloader:
  assumes "menu_text pre r e" "concat chunks = pre @ GECKO_BOOTLOADER_HEADER @ r"
    and "blp_enabled (blp d)" "blp_state (blp d) = PROBE" "accumulatedBytes (blp d) = []"
    and "promptDetectCallback (blp d) = Some PromptExitToEzsp" "blp_writeFunc (blp d)"
    and "uartHandle d" "serialWriteFunc (ash d)" "\<not> in_callback (ackTimer (ash d))"
    and "pCb (ashCodec (ash d))" "ackTimerCancelFunc (ashCodec (ash d))"
  shows "\<exists>b' d'. blp_feed (blp_owner good_port note_log) chunks (blp d) (d, u) =
      Inr (b', d', u @ [BootloaderPrompt, DongleState DONGLE_REMOVE])
    \<and> lastKnownMode d' = EZSP_NCP \<and> enabled (ash d') \<and> \<not> blp_enabled b'
    \<and> blp_tx b' = blp_tx (blp d) @ [[0x32]]
    \<and> ash_tx (ash d') = ash_tx (ash d) @ [[0x1A, 0xC0, 0x38, 0xBC, 0x7E]]
    \<and> timer_isRunning (ackTimer (ash d')) \<and> duration (ackTimer (ash d')) = T_ACK_ASH_RESET"
proof -
  let ?b = "(blp d)\<lparr>blp_state := TOPLEVEL_MENU_PROMPT, accumulatedBytes := GECKO_BOOTLOADER_PROMPT\<rparr>"
  let ?b2 = "?b\<lparr>blp_state := RX_FLUSH, blp_tx := blp_tx (blp d) @ [[0x32]]\<rparr>"
  let ?d = "d\<lparr>blp := blp_disable ?b2, lastKnownMode := EZSP_NCP, ash := ash_enable (ash d)\<rparr>"
  obtain d' where d': "dongle_reset good_port note_log ?d (u @ [BootloaderPrompt]) =
        Inr (True, d', u @ [BootloaderPrompt, DongleState DONGLE_REMOVE])"
      "blp d' = blp_disable (blp ?d)" "lastKnownMode d' = EZSP_NCP" "enabled (ash d')"
      "ash_tx (ash d') = ash_tx (ash d) @ [[0x1A, 0xC0, 0x38, 0xBC, 0x7E]]"
      "timer_isRunning (ackTimer (ash d'))" "duration (ackTimer (ash d')) = T_ACK_ASH_RESET"
    using dongle_reset_good [of ?d "u @ [BootloaderPrompt]"] assms(8-12)
    by (auto simp: ash_enable_def)
  have feed: "blp_feed (blp_owner good_port note_log) chunks (blp d) (d, u) =
      blp_owner good_port note_log PromptExitToEzsp ?b (d, u)"
    using menu_feed [OF assms(1), of 0 chunks "blp d" PromptExitToEzsp] assms(2-6)
    by (simp add: menu_state_def menu_bytes_def)
  have "selectModeRun good_port ?b = (True, ?b2)"
    using assms(3,7) by (simp add: selectModeRun_def blp_sendBytes_def good_port_def)
  then have "blp_owner good_port note_log PromptExitToEzsp ?b (d, u) =
      Inr (blp d', d', u @ [BootloaderPrompt, DongleState DONGLE_REMOVE])"
    using d'(1) by (simp add: blp_owner_def note_log_def Let_def)
  then show ?thesis
    using feed d' by (simp add: blp_disable_def)
qed

theorem dongle_leaves_bootloader_witness:
  "\<exists>b' d'. blp_feed (blp_owner good_port note_log)
      [[0x47, 0x65, 0x63, 0x6B, 0x6F, 0x20, 0x42, 0x6F, 0x6F, 0x74, 0x6C, 0x6F, 0x61, 0x64, 0x65, 0x72, 0x20],
       [0x76, 0x31, 0x0D, 0x0A, 0x42, 0x4C], [0x20, 0x3E]]
      ((blp_enable (blp ready_dongle))\<lparr>blp_state := PROBE, promptDetectCallback := Some PromptExitToEzsp\<rparr>)
      (ready_dongle\<lparr>blp := (blp_enable (blp ready_dongle))\<lparr>blp_state := PROBE,
         promptDetectCallback := Some PromptExitToEzsp\<rparr>\<rparr>, []) =
    Inr (b', d', [BootloaderPrompt, DongleState DONGLE_REMOVE])
   \<and> blp_tx b' = [[0x32]] \<and> ash_tx (ash d') = [[0x1A, 0xC0, 0x38, 0xBC, 0x7E]]"
proof -
  let ?b = "(blp_enable (blp ready_dongle))\<lparr>blp_state := PROBE, promptDetectCallback := Some PromptExitToEzsp\<rparr>"
  let ?chunks = "[[0x47, 0x65, 0x63, 0x6B, 0x6F, 0x20, 0x42, 0x6F, 0x6F, 0x74, 0x6C, 0x6F, 0x61, 0x64, 0x65, 0x72, 0x20],
       [0x76, 0x31, 0x0D, 0x0A, 0x42, 0x4C], [0x20, 0x3E]]"
  have menu: "menu_text [] [0x20, 0x76, 0x31, 0x0D, 0x0A, 0x42, 0x4C, 0x20, 0x3E] 4"
    by code_simp
  have chunks: "concat ?chunks = [] @ GECKO_BOOTLOADER_HEADER @ [0x20, 0x76, 0x31, 0x0D, 0x0A, 0x42, 0x4C, 0x20, 0x3E]"
    by (simp add: GECKO_BOOTLOADER_HEADER_def)
  show ?thesis
    using dongle_leaves_bootloader [OF menu chunks, of "ready_dongle\<lparr>blp := ?b\<rparr>" "[]"]
    by (auto simp: ready_dongle_def setUart_def new_dongle_def in_callback_def new_timer_def
        registerSerialWriter_def registerSerialReadObservable_def ash_enable_def ash_disable_def
        new_ash_driver_def setAckTimeoutCancelFunc_def new_codec_def blp_registerSerialWriter_def
        blp_disable_def blp_enable_def blp_registerSerialReadObservable_def new_blp_def
        simp del: blp_feed.simps)
qed

end
