(* ===== verification/Aes.thy ===== *)
theory Aes
  imports ByteManip
begin

text \<open>
  \<open>spi/custom-aes/custom-aes.cpp\<close> (class \<open>CustomAes\<close>, the only implementation of
  \<open>NSSPI::IAes\<close>): the table-driven AES-128 used for green power keys and message integrity
  codes. Blocks and keys are lists of bytes; the context is the record \<open>aes_context\<close>.

  The derived tables are shown to be the products they stand for, the combined round functions to be the composition of the FIPS-197
  steps, and the whole of \<open>set_key\<close> and \<open>encrypt\<close> to compute the cipher of FIPS-197. The
  inverse round functions, which the file keeps for a decryption that is commented out, undo the
  forward ones.
\<close>

section \<open>Tables\<close>

text \<open>The macros work on C's \<open>int\<close>; no intermediate value exceeds 16 bits.\<close>

definition WPOLY :: u32 where "WPOLY = 0x011b"

definition f1 :: "u32 \<Rightarrow> u32" where "f1 x = x"

definition f2 :: "u32 \<Rightarrow> u32" where
  "f2 x = push_bit 1 x XOR ((drop_bit 7 x AND 1) * WPOLY)"

definition f4 :: "u32 \<Rightarrow> u32" where
  "f4 x = push_bit 2 x XOR ((drop_bit 6 x AND 1) * WPOLY) XOR ((drop_bit 6 x AND 2) * WPOLY)"

definition f8 :: "u32 \<Rightarrow> u32" where
  "f8 x = push_bit 3 x XOR ((drop_bit 5 x AND 1) * WPOLY) XOR ((drop_bit 5 x AND 2) * WPOLY)
     XOR ((drop_bit 5 x AND 4) * WPOLY)"

definition f3 :: "u32 \<Rightarrow> u32" where "f3 x = f2 x XOR x"
definition f9 :: "u32 \<Rightarrow> u32" where "f9 x = f8 x XOR x"
definition fb :: "u32 \<Rightarrow> u32" where "fb x = f8 x XOR f2 x XOR x"
definition fd :: "u32 \<Rightarrow> u32" where "fd x = f8 x XOR f4 x XOR x"
definition fe :: "u32 \<Rightarrow> u32" where "fe x = f8 x XOR f4 x XOR f2 x"

definition sb_values :: "u32 list" where
  "sb_values = [
      0x63, 0x7c, 0x77, 0x7b, 0xf2, 0x6b, 0x6f, 0xc5, 0x30, 0x01, 0x67, 0x2b, 0xfe, 0xd7, 0xab, 0x76,
      0xca, 0x82, 0xc9, 0x7d, 0xfa, 0x59, 0x47, 0xf0, 0xad, 0xd4, 0xa2, 0xaf, 0x9c, 0xa4, 0x72, 0xc0,
      0xb7, 0xfd, 0x93, 0x26, 0x36, 0x3f, 0xf7, 0xcc, 0x34, 0xa5, 0xe5, 0xf1, 0x71, 0xd8, 0x31, 0x15,
      0x04, 0xc7, 0x23, 0xc3, 0x18, 0x96, 0x05, 0x9a, 0x07, 0x12, 0x80, 0xe2, 0xeb, 0x27, 0xb2, 0x75,
      0x09, 0x83, 0x2c, 0x1a, 0x1b, 0x6e, 0x5a, 0xa0, 0x52, 0x3b, 0xd6, 0xb3, 0x29, 0xe3, 0x2f, 0x84,
      0x53, 0xd1, 0x00, 0xed, 0x20, 0xfc, 0xb1, 0x5b, 0x6a, 0xcb, 0xbe, 0x39, 0x4a, 0x4c, 0x58, 0xcf,
      0xd0, 0xef, 0xaa, 0xfb, 0x43, 0x4d, 0x33, 0x85, 0x45, 0xf9, 0x02, 0x7f, 0x50, 0x3c, 0x9f, 0xa8,
      0x51, 0xa3, 0x40, 0x8f, 0x92, 0x9d, 0x38, 0xf5, 0xbc, 0xb6, 0xda, 0x21, 0x10, 0xff, 0xf3, 0xd2,
      0xcd, 0x0c, 0x13, 0xec, 0x5f, 0x97, 0x44, 0x17, 0xc4, 0xa7, 0x7e, 0x3d, 0x64, 0x5d, 0x19, 0x73,
      0x60, 0x81, 0x4f, 0xdc, 0x22, 0x2a, 0x90, 0x88, 0x46, 0xee, 0xb8, 0x14, 0xde, 0x5e, 0x0b, 0xdb,
      0xe0, 0x32, 0x3a, 0x0a, 0x49, 0x06, 0x24, 0x5c, 0xc2, 0xd3, 0xac, 0x62, 0x91, 0x95, 0xe4, 0x79,
      0xe7, 0xc8, 0x37, 0x6d, 0x8d, 0xd5, 0x4e, 0xa9, 0x6c, 0x56, 0xf4, 0xea, 0x65, 0x7a, 0xae, 0x08,
      0xba, 0x78, 0x25, 0x2e, 0x1c, 0xa6, 0xb4, 0xc6, 0xe8, 0xdd, 0x74, 0x1f, 0x4b, 0xbd, 0x8b, 0x8a,
      0x70, 0x3e, 0xb5, 0x66, 0x48, 0x03, 0xf6, 0x0e, 0x61, 0x35, 0x57, 0xb9, 0x86, 0xc1, 0x1d, 0x9e,
      0xe1, 0xf8, 0x98, 0x11, 0x69, 0xd9, 0x8e, 0x94, 0x9b, 0x1e, 0x87, 0xe9, 0xce, 0x55, 0x28, 0xdf,
      0x8c, 0xa1, 0x89, 0x0d, 0xbf, 0xe6, 0x42, 0x68, 0x41, 0x99, 0x2d, 0x0f, 0xb0, 0x54, 0xbb, 0x16]"

definition isb_values :: "u32 list" where
  "isb_values = [
      0x52, 0x09, 0x6a, 0xd5, 0x30, 0x36, 0xa5, 0x38, 0xbf, 0x40, 0xa3, 0x9e, 0x81, 0xf3, 0xd7, 0xfb,
      0x7c, 0xe3, 0x39, 0x82, 0x9b, 0x2f, 0xff, 0x87, 0x34, 0x8e, 0x43, 0x44, 0xc4, 0xde, 0xe9, 0xcb,
      0x54, 0x7b, 0x94, 0x32, 0xa6, 0xc2, 0x23, 0x3d, 0xee, 0x4c, 0x95, 0x0b, 0x42, 0xfa, 0xc3, 0x4e,
      0x08, 0x2e, 0xa1, 0x66, 0x28, 0xd9, 0x24, 0xb2, 0x76, 0x5b, 0xa2, 0x49, 0x6d, 0x8b, 0xd1, 0x25,
      0x72, 0xf8, 0xf6, 0x64, 0x86, 0x68, 0x98, 0x16, 0xd4, 0xa4, 0x5c, 0xcc, 0x5d, 0x65, 0xb6, 0x92,
      0x6c, 0x70, 0x48, 0x50, 0xfd, 0xed, 0xb9, 0xda, 0x5e, 0x15, 0x46, 0x57, 0xa7, 0x8d, 0x9d, 0x84,
      0x90, 0xd8, 0xab, 0x00, 0x8c, 0xbc, 0xd3, 0x0a, 0xf7, 0xe4, 0x58, 0x05, 0xb8, 0xb3, 0x45, 0x06,
      0xd0, 0x2c, 0x1e, 0x8f, 0xca, 0x3f, 0x0f, 0x02, 0xc1, 0xaf, 0xbd, 0x03, 0x01, 0x13, 0x8a, 0x6b,
      0x3a, 0x91, 0x11, 0x41, 0x4f, 0x67, 0xdc, 0xea, 0x97, 0xf2, 0xcf, 0xce, 0xf0, 0xb4, 0xe6, 0x73,
      0x96, 0xac, 0x74, 0x22, 0xe7, 0xad, 0x35, 0x85, 0xe2, 0xf9, 0x37, 0xe8, 0x1c, 0x75, 0xdf, 0x6e,
      0x47, 0xf1, 0x1a, 0x71, 0x1d, 0x29, 0xc5, 0x89, 0x6f, 0xb7, 0x62, 0x0e, 0xaa, 0x18, 0xbe, 0x1b,
      0xfc, 0x56, 0x3e, 0x4b, 0xc6, 0xd2, 0x79, 0x20, 0x9a, 0xdb, 0xc0, 0xfe, 0x78, 0xcd, 0x5a, 0xf4,
      0x1f, 0xdd, 0xa8, 0x33, 0x88, 0x07, 0xc7, 0x31, 0xb1, 0x12, 0x10, 0x59, 0x27, 0x80, 0xec, 0x5f,
      0x60, 0x51, 0x7f, 0xa9, 0x19, 0xb5, 0x4a, 0x0d, 0x2d, 0xe5, 0x7a, 0x9f, 0x93, 0xc9, 0x9c, 0xef,
      0xa0, 0xe0, 0x3b, 0x4d, 0xae, 0x2a, 0xf5, 0xb0, 0xc8, 0xeb, 0xbb, 0x3c, 0x83, 0x53, 0x99, 0x61,
      0x17, 0x2b, 0x04, 0x7e, 0xba, 0x77, 0xd6, 0x26, 0xe1, 0x69, 0x14, 0x63, 0x55, 0x21, 0x0c, 0x7d]"

definition mm_values :: "u32 list" where
  "mm_values = [
      0x00, 0x01, 0x02, 0x03, 0x04, 0x05, 0x06, 0x07, 0x08, 0x09, 0x0a, 0x0b, 0x0c, 0x0d, 0x0e, 0x0f,
      0x10, 0x11, 0x12, 0x13, 0x14, 0x15, 0x16, 0x17, 0x18, 0x19, 0x1a, 0x1b, 0x1c, 0x1d, 0x1e, 0x1f,
      0x20, 0x21, 0x22, 0x23, 0x24, 0x25, 0x26, 0x27, 0x28, 0x29, 0x2a, 0x2b, 0x2c, 0x2d, 0x2e, 0x2f,
      0x30, 0x31, 0x32, 0x33, 0x34, 0x35, 0x36, 0x37, 0x38, 0x39, 0x3a, 0x3b, 0x3c, 0x3d, 0x3e, 0x3f,
      0x40, 0x41, 0x42, 0x43, 0x44, 0x45, 0x46, 0x47, 0x48, 0x49, 0x4a, 0x4b, 0x4c, 0x4d, 0x4e, 0x4f,
      0x50, 0x51, 0x52, 0x53, 0x54, 0x55, 0x56, 0x57, 0x58, 0x59, 0x5a, 0x5b, 0x5c, 0x5d, 0x5e, 0x5f,
      0x60, 0x61, 0x62, 0x63, 0x64, 0x65, 0x66, 0x67, 0x68, 0x69, 0x6a, 0x6b, 0x6c, 0x6d, 0x6e, 0x6f,
      0x70, 0x71, 0x72, 0x73, 0x74, 0x75, 0x76, 0x77, 0x78, 0x79, 0x7a, 0x7b, 0x7c, 0x7d, 0x7e, 0x7f,
      0x80, 0x81, 0x82, 0x83, 0x84, 0x85, 0x86, 0x87, 0x88, 0x89, 0x8a, 0x8b, 0x8c, 0x8d, 0x8e, 0x8f,
      0x90, 0x91, 0x92, 0x93, 0x94, 0x95, 0x96, 0x97, 0x98, 0x99, 0x9a, 0x9b, 0x9c, 0x9d, 0x9e, 0x9f,
      0xa0, 0xa1, 0xa2, 0xa3, 0xa4, 0xa5, 0xa6, 0xa7, 0xa8, 0xa9, 0xaa, 0xab, 0xac, 0xad, 0xae, 0xaf,
      0xb0, 0xb1, 0xb2, 0xb3, 0xb4, 0xb5, 0xb6, 0xb7, 0xb8, 0xb9, 0xba, 0xbb, 0xbc, 0xbd, 0xbe, 0xbf,
      0xc0, 0xc1, 0xc2, 0xc3, 0xc4, 0xc5, 0xc6, 0xc7, 0xc8, 0xc9, 0xca, 0xcb, 0xcc, 0xcd, 0xce, 0xcf,
      0xd0, 0xd1, 0xd2, 0xd3, 0xd4, 0xd5, 0xd6, 0xd7, 0xd8, 0xd9, 0xda, 0xdb, 0xdc, 0xdd, 0xde, 0xdf,
      0xe0, 0xe1, 0xe2, 0xe3, 0xe4, 0xe5, 0xe6, 0xe7, 0xe8, 0xe9, 0xea, 0xeb, 0xec, 0xed, 0xee, 0xef,
      0xf0, 0xf1, 0xf2, 0xf3, 0xf4, 0xf5, 0xf6, 0xf7, 0xf8, 0xf9, 0xfa, 0xfb, 0xfc, 0xfd, 0xfe, 0xff]"

definition sb_data :: "(u32 \<Rightarrow> u32) \<Rightarrow> u8 list" where
  "sb_data w = map (\<lambda>x. ucast (w x)) sb_values"

definition isb_data :: "(u32 \<Rightarrow> u32) \<Rightarrow> u8 list" where
  "isb_data w = map (\<lambda>x. ucast (w x)) isb_values"

definition mm_data :: "(u32 \<Rightarrow> u32) \<Rightarrow> u8 list" where
  "mm_data w = map (\<lambda>x. ucast (w x)) mm_values"

definition s_box :: "u8 \<Rightarrow> u8" where "s_box x = sb_data f1 ! unat x"
definition is_box :: "u8 \<Rightarrow> u8" where "is_box x = isb_data f1 ! unat x"
definition gfm2_sb :: "u8 \<Rightarrow> u8" where "gfm2_sb x = sb_data f2 ! unat x"
definition gfm3_sb :: "u8 \<Rightarrow> u8" where "gfm3_sb x = sb_data f3 ! unat x"
definition gfm_9 :: "u8 \<Rightarrow> u8" where "gfm_9 x = mm_data f9 ! unat x"
definition gfm_b :: "u8 \<Rightarrow> u8" where "gfm_b x = mm_data fb ! unat x"
definition gfm_d :: "u8 \<Rightarrow> u8" where "gfm_d x = mm_data fd ! unat x"
definition gfm_e :: "u8 \<Rightarrow> u8" where "gfm_e x = mm_data fe ! unat x"

section \<open>The cipher as the code has it\<close>

record aes_context =
  ksch :: "u8 list"
  rnd :: u8

text \<open>\<open>N_MAX_ROUNDS\<close> is 14; the constructor value-initialises the context.\<close>

definition new_aes :: aes_context where
  "new_aes = \<lparr>ksch = replicate ((14 + 1) * 16) 0, rnd = 0\<rparr>"

definition xor_block :: "u8 list \<Rightarrow> u8 list \<Rightarrow> u8 list" where
  "xor_block d s = map2 (XOR) d s"

definition copy_and_key :: "u8 list \<Rightarrow> u8 list \<Rightarrow> u8 list" where
  "copy_and_key s k = map2 (XOR) s k"

definition add_round_key :: "u8 list \<Rightarrow> u8 list \<Rightarrow> u8 list" where
  "add_round_key d k = xor_block d k"

definition shift_sub_rows :: "u8 list \<Rightarrow> u8 list" where
  "shift_sub_rows st0 =
     (let st = st0[0 := s_box (st0 ! 0), 4 := s_box (st0 ! 4),
                   8 := s_box (st0 ! 8), 12 := s_box (st0 ! 12)];
          tt = st ! 1;
          st = st[1 := s_box (st ! 5)];
          st = st[5 := s_box (st ! 9)];
          st = st[9 := s_box (st ! 13)];
          st = st[13 := s_box tt];
          tt = st ! 2;
          st = st[2 := s_box (st ! 10)];
          st = st[10 := s_box tt];
          tt = st ! 6;
          st = st[6 := s_box (st ! 14)];
          st = st[14 := s_box tt];
          tt = st ! 15;
          st = st[15 := s_box (st ! 11)];
          st = st[11 := s_box (st ! 7)];
          st = st[7 := s_box (st ! 3)]
      in st[3 := s_box tt])"

definition inv_shift_sub_rows :: "u8 list \<Rightarrow> u8 list" where
  "inv_shift_sub_rows st0 =
     (let st = st0[0 := is_box (st0 ! 0), 4 := is_box (st0 ! 4),
                   8 := is_box (st0 ! 8), 12 := is_box (st0 ! 12)];
          tt = st ! 13;
          st = st[13 := is_box (st ! 9)];
          st = st[9 := is_box (st ! 5)];
          st = st[5 := is_box (st ! 1)];
          st = st[1 := is_box tt];
          tt = st ! 2;
          st = st[2 := is_box (st ! 10)];
          st = st[10 := is_box tt];
          tt = st ! 6;
          st = st[6 := is_box (st ! 14)];
          st = st[14 := is_box tt];
          tt = st ! 3;
          st = st[3 := is_box (st ! 7)];
          st = st[7 := is_box (st ! 11)];
          st = st[11 := is_box (st ! 15)]
      in st[15 := is_box tt])"

text \<open>The sixteen assignments read a copy \<open>st\<close> of the block and write all of \<open>dt\<close>.\<close>

definition mix_sub_columns :: "u8 list \<Rightarrow> u8 list" where
  "mix_sub_columns st = [
     gfm2_sb (st ! 0) XOR gfm3_sb (st ! 5) XOR s_box (st ! 10) XOR s_box (st ! 15),
     s_box (st ! 0) XOR gfm2_sb (st ! 5) XOR gfm3_sb (st ! 10) XOR s_box (st ! 15),
     s_box (st ! 0) XOR s_box (st ! 5) XOR gfm2_sb (st ! 10) XOR gfm3_sb (st ! 15),
     gfm3_sb (st ! 0) XOR s_box (st ! 5) XOR s_box (st ! 10) XOR gfm2_sb (st ! 15),

     gfm2_sb (st ! 4) XOR gfm3_sb (st ! 9) XOR s_box (st ! 14) XOR s_box (st ! 3),
     s_box (st ! 4) XOR gfm2_sb (st ! 9) XOR gfm3_sb (st ! 14) XOR s_box (st ! 3),
     s_box (st ! 4) XOR s_box (st ! 9) XOR gfm2_sb (st ! 14) XOR gfm3_sb (st ! 3),
     gfm3_sb (st ! 4) XOR s_box (st ! 9) XOR s_box (st ! 14) XOR gfm2_sb (st ! 3),

     gfm2_sb (st ! 8) XOR gfm3_sb (st ! 13) XOR s_box (st ! 2) XOR s_box (st ! 7),
     s_box (st ! 8) XOR gfm2_sb (st ! 13) XOR gfm3_sb (st ! 2) XOR s_box (st ! 7),
     s_box (st ! 8) XOR s_box (st ! 13) XOR gfm2_sb (st ! 2) XOR gfm3_sb (st ! 7),
     gfm3_sb (st ! 8) XOR s_box (st ! 13) XOR s_box (st ! 2) XOR gfm2_sb (st ! 7),

     gfm2_sb (st ! 12) XOR gfm3_sb (st ! 1) XOR s_box (st ! 6) XOR s_box (st ! 11),
     s_box (st ! 12) XOR gfm2_sb (st ! 1) XOR gfm3_sb (st ! 6) XOR s_box (st ! 11),
     s_box (st ! 12) XOR s_box (st ! 1) XOR gfm2_sb (st ! 6) XOR gfm3_sb (st ! 11),
     gfm3_sb (st ! 12) XOR s_box (st ! 1) XOR s_box (st ! 6) XOR gfm2_sb (st ! 11)]"

text \<open>The same for the inverse, the assignments listed by the index they write.\<close>

definition inv_mix_sub_columns :: "u8 list \<Rightarrow> u8 list" where
  "inv_mix_sub_columns st = [
     is_box (gfm_e (st ! 0) XOR gfm_b (st ! 1) XOR gfm_d (st ! 2) XOR gfm_9 (st ! 3)),
     is_box (gfm_9 (st ! 12) XOR gfm_e (st ! 13) XOR gfm_b (st ! 14) XOR gfm_d (st ! 15)),
     is_box (gfm_d (st ! 8) XOR gfm_9 (st ! 9) XOR gfm_e (st ! 10) XOR gfm_b (st ! 11)),
     is_box (gfm_b (st ! 4) XOR gfm_d (st ! 5) XOR gfm_9 (st ! 6) XOR gfm_e (st ! 7)),

     is_box (gfm_e (st ! 4) XOR gfm_b (st ! 5) XOR gfm_d (st ! 6) XOR gfm_9 (st ! 7)),
     is_box (gfm_9 (st ! 0) XOR gfm_e (st ! 1) XOR gfm_b (st ! 2) XOR gfm_d (st ! 3)),
     is_box (gfm_d (st ! 12) XOR gfm_9 (st ! 13) XOR gfm_e (st ! 14) XOR gfm_b (st ! 15)),
     is_box (gfm_b (st ! 8) XOR gfm_d (st ! 9) XOR gfm_9 (st ! 10) XOR gfm_e (st ! 11)),

     is_box (gfm_e (st ! 8) XOR gfm_b (st ! 9) XOR gfm_d (st ! 10) XOR gfm_9 (st ! 11)),
     is_box (gfm_9 (st ! 4) XOR gfm_e (st ! 5) XOR gfm_b (st ! 6) XOR gfm_d (st ! 7)),
     is_box (gfm_d (st ! 0) XOR gfm_9 (st ! 1) XOR gfm_e (st ! 2) XOR gfm_b (st ! 3)),
     is_box (gfm_b (st ! 12) XOR gfm_d (st ! 13) XOR gfm_9 (st ! 14) XOR gfm_e (st ! 15)),

     is_box (gfm_e (st ! 12) XOR gfm_b (st ! 13) XOR gfm_d (st ! 14) XOR gfm_9 (st ! 15)),
     is_box (gfm_9 (st ! 8) XOR gfm_e (st ! 9) XOR gfm_b (st ! 10) XOR gfm_d (st ! 11)),
     is_box (gfm_d (st ! 4) XOR gfm_9 (st ! 5) XOR gfm_e (st ! 6) XOR gfm_b (st ! 7)),
     is_box (gfm_b (st ! 0) XOR gfm_d (st ! 1) XOR gfm_9 (st ! 2) XOR gfm_e (st ! 3))]"

text \<open>
  One turn of the loop of \<open>set_key\<close>, and the loop, which ends because \<open>cc\<close> grows by 4. The
  arithmetic on \<open>cc\<close> stays below 256 (\<open>hi\<close> is 176), so \<open>cc\<close> is a natural number here.
  The branch for keys longer than 24 bytes is dead for 128-bit keys.
\<close>

definition expand_step :: "nat \<Rightarrow> nat \<Rightarrow> u8 \<Rightarrow> u8 list \<Rightarrow> u8 list \<times> u8" where
  "expand_step keylen cc rc k =
     (let t0 = k ! (cc - 4); t1 = k ! (cc - 3); t2 = k ! (cc - 2); t3 = k ! (cc - 1);
          (t0, t1, t2, t3, rc) =
            (if cc mod keylen = 0 then
               (s_box t1 XOR rc, s_box t2, s_box t3, s_box t0, ucast (f2 (ucast rc)))
             else if 24 < keylen \<and> cc mod keylen = 16 then
               (s_box t0, s_box t1, s_box t2, s_box t3, rc)
             else (t0, t1, t2, t3, rc));
          tt = cc - keylen;
          k = k[cc := (k ! tt) XOR t0];
          k = k[cc + 1 := (k ! (tt + 1)) XOR t1];
          k = k[cc + 2 := (k ! (tt + 2)) XOR t2];
          k = k[cc + 3 := (k ! (tt + 3)) XOR t3]
      in (k, rc))"

function expand_key :: "nat \<Rightarrow> nat \<Rightarrow> nat \<Rightarrow> u8 \<Rightarrow> u8 list \<Rightarrow> u8 list" where
  "expand_key keylen hi cc rc k =
     (if cc < hi then
        (case expand_step keylen cc rc k of (k', rc') \<Rightarrow> expand_key keylen hi (cc + 4) rc' k')
      else k)"
  by pat_completeness auto
termination
  by (relation "measure (\<lambda>(keylen, hi, cc, rc, k). hi - cc)") auto

definition aes_set_key :: "u8 list \<Rightarrow> aes_context \<Rightarrow> aes_context" where
  "aes_set_key key ctx =
     (let keylen = 16 :: nat;
          k = key @ drop keylen (ksch ctx);
          hi = (keylen + 28) * 4
      in ctx\<lparr>rnd := of_nat (hi div 16 - 1), ksch := expand_key keylen hi keylen 1 k\<rparr>)"

text \<open>The 16 bytes at \<open>ksch + r * AES_BLOCK_SIZE\<close>.\<close>

definition ksch_block :: "aes_context \<Rightarrow> nat \<Rightarrow> u8 list" where
  "ksch_block ctx r = take 16 (drop (r * 16) (ksch ctx))"

fun encrypt_rounds :: "aes_context \<Rightarrow> nat \<Rightarrow> nat \<Rightarrow> u8 list \<Rightarrow> u8 list" where
  "encrypt_rounds ctx r 0 s1 = s1"
| "encrypt_rounds ctx r (Suc n) s1 =
     encrypt_rounds ctx (Suc r) n (add_round_key (mix_sub_columns s1) (ksch_block ctx r))"

text \<open>
  \<open>for (r = 1; r < rnd; ++r)\<close> makes \<open>rnd - 1\<close> turns and leaves \<open>r = rnd\<close>. The
  result is the output block, or \<open>None\<close> where the C++ returns \<open>false\<close>.
\<close>

definition aes_encrypt :: "aes_context \<Rightarrow> u8 list \<Rightarrow> u8 list option" where
  "aes_encrypt ctx inp =
     (if rnd ctx \<noteq> 0 then
        (let s1 = copy_and_key inp (ksch_block ctx 0);
             s1 = encrypt_rounds ctx 1 (unat (rnd ctx) - 1) s1;
             s1 = shift_sub_rows s1
         in Some (copy_and_key s1 (ksch_block ctx (unat (rnd ctx)))))
      else None)"

text \<open>\<open>cbc_encrypt\<close> gives its verdict, the bytes written to \<open>out\<close> and the new \<open>iv\<close>.\<close>

fun cbc_blocks :: "aes_context \<Rightarrow> nat \<Rightarrow> u8 list \<Rightarrow> u8 list \<Rightarrow> u8 list \<Rightarrow> bool \<times> u8 list \<times> u8 list" where
  "cbc_blocks ctx 0 inp out iv = (True, out, iv)"
| "cbc_blocks ctx (Suc n) inp out iv =
     (let iv' = xor_block iv (take 16 inp)
      in case aes_encrypt ctx iv' of
           None \<Rightarrow> (False, out, iv')
         | Some e \<Rightarrow> cbc_blocks ctx n (drop 16 inp) (out @ e) e)"

definition cbc_encrypt :: "aes_context \<Rightarrow> u8 list \<Rightarrow> u8 list \<Rightarrow> bool \<times> u8 list \<times> u8 list" where
  "cbc_encrypt ctx inp iv =
     (if length inp mod 16 \<noteq> 0 then (False, [], iv)
      else cbc_blocks ctx (length inp div 16) inp [] iv)"

section \<open>FIPS-197\<close>

text \<open>\<open>xtime\<close> is the product by 2, so \<open>xtime x XOR x\<close> is the product by 3.\<close>

definition xtime :: "u8 \<Rightarrow> u8" where
  "xtime x = push_bit 1 x XOR (if bit x 7 then 0x1b else 0)"

definition fips_shift_rows :: "u8 list \<Rightarrow> u8 list" where
  "fips_shift_rows st = map (\<lambda>i. st ! (i mod 4 + 4 * ((i div 4 + i mod 4) mod 4))) [0..<16]"

fun fips_mix_column :: "u8 list \<Rightarrow> u8 list" where
  "fips_mix_column [a, b, c, d] =
     [xtime a XOR (xtime b XOR b) XOR c XOR d,
      a XOR xtime b XOR (xtime c XOR c) XOR d,
      a XOR b XOR xtime c XOR (xtime d XOR d),
      (xtime a XOR a) XOR b XOR c XOR xtime d]"
| "fips_mix_column _ = []"

definition fips_mix_columns :: "u8 list \<Rightarrow> u8 list" where
  "fips_mix_columns st = concat (map (\<lambda>c. fips_mix_column (take 4 (drop (4 * c) st))) [0..<4])"

fun rcon :: "nat \<Rightarrow> u8" where
  "rcon 0 = 1"
| "rcon (Suc n) = xtime (rcon n)"

text \<open>The word \<open>w[i]\<close> of the key expansion, a list of four bytes.\<close>

fun fips_word :: "u8 list \<Rightarrow> nat \<Rightarrow> u8 list" where
  "fips_word key i =
     (if i < 4 then take 4 (drop (4 * i) key)
      else
        let temp = fips_word key (i - 1);
            temp = (if i mod 4 = 0
                    then map2 (XOR) (map s_box (rotate1 temp)) [rcon (i div 4 - 1), 0, 0, 0]
                    else temp)
        in map2 (XOR) (fips_word key (i - 4)) temp)"

definition fips_round_key :: "u8 list \<Rightarrow> nat \<Rightarrow> u8 list" where
  "fips_round_key key r = concat (map (fips_word key) [4 * r..<4 * r + 4])"

definition fips_round :: "u8 list \<Rightarrow> nat \<Rightarrow> u8 list \<Rightarrow> u8 list" where
  "fips_round key r st =
     map2 (XOR) (fips_mix_columns (fips_shift_rows (map s_box st))) (fips_round_key key r)"

definition fips_cipher :: "u8 list \<Rightarrow> u8 list \<Rightarrow> u8 list" where
  "fips_cipher key inp =
     map2 (XOR)
       (fips_shift_rows (map s_box
          (fold (fips_round key) [1..<10] (map2 (XOR) inp (fips_round_key key 0)))))
       (fips_round_key key 10)"

section \<open>The tables\<close>

lemma unat_u8_less_256 [simp]: "unat (x :: u8) < 256"
  using unsigned_less [of x] by simp

lemma length_tables [simp]:
  "length sb_values = 256" "length isb_values = 256" "length mm_values = 256"
  by (simp_all add: sb_values_def isb_values_def mm_values_def)

lemma nth_bytes_from_0: "xs = map of_nat [0..<n] \<Longrightarrow> i < n \<Longrightarrow> xs ! i = of_nat i"
  by simp

lemma mm_values_identity: "mm_values ! unat (x :: u8) = ucast x"
proof -
  have "mm_values = map of_nat [0..<256]"
    unfolding mm_values_def by code_simp
  then have "mm_values ! unat x = of_nat (unat x)"
    by (rule nth_bytes_from_0) simp
  then show ?thesis by simp
qed

lemma s_box_inverse_values: "\<forall>v \<in> set mm_values. is_box (s_box (ucast v)) = ucast v"
  unfolding mm_values_def by code_simp

lemma ucast_ucast_u8 [simp]: "ucast (ucast (y :: u8) :: u32) = y"
  by (rule bit_word_eqI) (auto simp: bit_simps)

lemma is_box_s_box [simp]: "is_box (s_box x) = x"
proof -
  have "mm_values ! unat x \<in> set mm_values" by (rule nth_mem) simp
  then have "is_box (s_box (ucast (mm_values ! unat x))) = ucast (mm_values ! unat x)"
    using s_box_inverse_values by blast
  then show ?thesis by (simp add: mm_values_identity)
qed

lemma ucast_xor: "ucast (a XOR b :: u32) = (ucast a XOR ucast b :: u8)"
  by (rule bit_word_eqI) (simp add: bit_simps)

lemma and_exp_if: "x AND 2 ^ k = (if bit x k then 2 ^ k else (0 :: u32))"
  by (rule bit_word_eqI) (auto simp: bit_simps)

lemma and_ifs:
  "x AND 1 = (if bit x 0 then 1 else (0 :: u32))"
  "x AND 2 = (if bit x 1 then 2 else (0 :: u32))"
  "x AND 4 = (if bit x 2 then 4 else (0 :: u32))"
  using and_exp_if [of x 0] and_exp_if [of x 1] and_exp_if [of x 2] by simp_all

lemma ucast_push_bit:
  "ucast (push_bit n (ucast (y :: u8) :: u32)) = push_bit n y"
  by (rule bit_word_eqI) (auto simp: bit_simps)

lemma bit_xtime_7: "bit (xtime y) 7 = bit y 6"
  unfolding xtime_def by (simp add: bit_simps del: push_bit_Suc One_nat_def)

lemma xtime_xor: "xtime (x XOR y) = xtime x XOR xtime y"
  by (simp add: xtime_def bit_simps push_bit_xor xor.assoc xor.left_commute)

lemma double_xor: "(x XOR y) * 2 = (x * 2 XOR y * 2 :: u8)"
  using push_bit_xor [of 1 x y] by (simp add: push_bit_eq_mult del: push_bit_xor)

lemma byte_functions:
  fixes y :: u8
  shows "ucast (f2 (ucast y)) = xtime y"
    "ucast (f4 (ucast y)) = xtime (xtime y)"
    "ucast (f8 (ucast y)) = xtime (xtime (xtime y))"
proof -
  have 7: "bit (ucast y :: u32) 7 = bit y 7" "bit (ucast y :: u32) 6 = bit y 6"
    "bit (ucast y :: u32) 5 = bit y 5"
    by (simp_all add: bit_simps)
  have reduced: "(283 :: u8) = 27" "(566 :: u8) = 54" "(813 :: u8) = 45" "(1132 :: u8) = 108"
    "(1399 :: u8) = 119" "(1626 :: u8) = 90" "(1857 :: u8) = 65"
    by simp_all
  have t2: "xtime (xtime y) = push_bit 2 y XOR (if bit y 6 then 0x1b else 0)
      XOR (if bit y 7 then 0x36 else 0)"
    unfolding xtime_def [of "xtime y"] bit_xtime_7
    by (simp add: xtime_def numeral_2_eq_2 mult.assoc ac_simps)
  have 6: "bit (xtime y) 6 = bit y 5"
    unfolding xtime_def by (simp add: bit_simps del: push_bit_Suc One_nat_def)
  have t3: "xtime (xtime (xtime y)) = push_bit 3 y XOR (if bit y 5 then 0x1b else 0)
      XOR (if bit y 6 then 0x36 else 0) XOR (if bit y 7 then 0x6c else 0)"
    unfolding xtime_def [of "xtime (xtime y)"] bit_xtime_7 6
    by (simp add: t2 push_bit_eq_mult double_xor xor.assoc mult.commute [of y])
  show "ucast (f2 (ucast y)) = xtime y"
    using ucast_push_bit [of 1 y]
    by (simp add: f2_def WPOLY_def xtime_def and_ifs ucast_xor bit_simps 7 reduced)
  show "ucast (f4 (ucast y)) = xtime (xtime y)"
    by (simp add: f4_def WPOLY_def t2 and_ifs ucast_xor ucast_push_bit bit_simps 7 reduced)
  show "ucast (f8 (ucast y)) = xtime (xtime (xtime y))"
    by (simp add: f8_def WPOLY_def t3 and_ifs ucast_xor ucast_push_bit bit_simps 7 reduced
        xor.assoc)
qed

lemma table_nth:
  fixes x :: u8
  shows "sb_data w ! unat x = ucast (w (sb_values ! unat x))"
  "isb_data w ! unat x = ucast (w (isb_values ! unat x))"
  "mm_data w ! unat x = ucast (w (ucast x))"
  unfolding sb_data_def isb_data_def mm_data_def
  by (simp_all only: nth_map length_tables unat_u8_less_256 mm_values_identity)

lemma sb_values_bytes: "sb_values ! unat x = ucast (s_box x)"
proof -
  have "\<forall>v \<in> set sb_values. ucast (ucast v :: u8) = v"
    unfolding sb_values_def by code_simp
  then have "ucast (ucast (sb_values ! unat x) :: u8) = sb_values ! unat x"
    by (simp add: nth_mem)
  then show ?thesis by (simp add: s_box_def table_nth f1_def)
qed

lemma table_xtime:
  "gfm2_sb x = xtime (s_box x)"
  "gfm3_sb x = xtime (s_box x) XOR s_box x"
  "gfm_9 x = xtime (xtime (xtime x)) XOR x"
  "gfm_b x = xtime (xtime (xtime x)) XOR xtime x XOR x"
  "gfm_d x = xtime (xtime (xtime x)) XOR xtime (xtime x) XOR x"
  "gfm_e x = xtime (xtime (xtime x)) XOR xtime (xtime x) XOR xtime x"
  by (simp_all add: gfm2_sb_def gfm3_sb_def gfm_9_def gfm_b_def gfm_d_def gfm_e_def table_nth
      sb_values_bytes f3_def f9_def fb_def fd_def fe_def ucast_xor byte_functions)

section \<open>Blocks of sixteen bytes\<close>

lemma block_cases:
  assumes "length st = 16"
  obtains a0 a1 a2 a3 a4 a5 a6 a7 a8 a9 a10 a11 a12 a13 a14 a15
  where "st = [a0, a1, a2, a3, a4, a5, a6, a7, a8, a9, a10, a11, a12, a13, a14, a15]"
proof -
  have "st = map (\<lambda>i. st ! i) [0..<16]"
    using assms by (metis map_nth)
  then show ?thesis
    using that by (simp add: upt_rec)
qed

lemma xor_cancel [simp]: "x XOR (x XOR y) = (y :: u8)"
  by (simp add: xor.assoc [symmetric])

lemma xtime_0 [simp]: "xtime 0 = 0"
  by (simp add: xtime_def)

lemma shift_sub_rows_fips:
  assumes "length st = 16"
  shows "shift_sub_rows st = fips_shift_rows (map s_box st)"
  using assms by (elim block_cases) (simp add: shift_sub_rows_def fips_shift_rows_def upt_rec)

lemma mix_sub_columns_fips:
  assumes "length st = 16"
  shows "mix_sub_columns st = fips_mix_columns (fips_shift_rows (map s_box st))"
  using assms
  by (elim block_cases)
    (simp add: mix_sub_columns_def fips_mix_columns_def fips_shift_rows_def upt_rec table_xtime
      xor.assoc)

lemma inv_shift_sub_rows_inverse:
  assumes "length st = 16"
  shows "inv_shift_sub_rows (shift_sub_rows st) = st"
  using assms by (elim block_cases) (simp add: shift_sub_rows_def inv_shift_sub_rows_def)

lemma column_inverse:
  fixes a b c d :: u8
  defines "p \<equiv> xtime a XOR (xtime b XOR b) XOR c XOR d"
    and "q \<equiv> a XOR xtime b XOR (xtime c XOR c) XOR d"
    and "r \<equiv> a XOR b XOR xtime c XOR (xtime d XOR d)"
    and "s \<equiv> (xtime a XOR a) XOR b XOR c XOR xtime d"
  shows "gfm_e p XOR gfm_b q XOR gfm_d r XOR gfm_9 s = a"
    "gfm_9 p XOR gfm_e q XOR gfm_b r XOR gfm_d s = b"
    "gfm_d p XOR gfm_9 q XOR gfm_e r XOR gfm_b s = c"
    "gfm_b p XOR gfm_d q XOR gfm_9 r XOR gfm_e s = d"
  unfolding p_def q_def r_def s_def table_xtime xtime_xor
  by (simp_all add: ac_simps)

lemma length_shift_sub_rows [simp]: "length (shift_sub_rows st) = length st"
  by (simp add: shift_sub_rows_def Let_def)

lemma length_mix_sub_columns [simp]: "length (mix_sub_columns st) = 16"
  by (simp add: mix_sub_columns_def)

lemma inv_mix_sub_columns_inverse:
  assumes "length st = 16"
  shows "inv_mix_sub_columns (mix_sub_columns st) = st"
  using assms
proof (elim block_cases)
  fix a0 a1 a2 a3 a4 a5 a6 a7 a8 a9 a10 a11 a12 a13 a14 a15
  assume st: "st = [a0, a1, a2, a3, a4, a5, a6, a7, a8, a9, a10, a11, a12, a13, a14, a15]"
  show ?thesis
    unfolding st mix_sub_columns_def inv_mix_sub_columns_def
    using column_inverse [of "s_box a0" "s_box a5" "s_box a10" "s_box a15"]
      column_inverse [of "s_box a4" "s_box a9" "s_box a14" "s_box a3"]
      column_inverse [of "s_box a8" "s_box a13" "s_box a2" "s_box a7"]
      column_inverse [of "s_box a12" "s_box a1" "s_box a6" "s_box a11"]
    by (simp add: table_xtime(1,2) xor.assoc)
qed

section \<open>The key schedule\<close>

declare fips_word.simps [simp del] expand_key.simps [simp del]

text \<open>The four bytes of the word at index \<open>i\<close> of the schedule.\<close>

definition key_word :: "u8 list \<Rightarrow> nat \<Rightarrow> u8 list" where
  "key_word k i = [k ! (4 * i), k ! (4 * i + 1), k ! (4 * i + 2), k ! (4 * i + 3)]"

lemma take4_drop: "n + 4 \<le> length k \<Longrightarrow> take 4 (drop n k) = [k ! n, k ! (n + 1), k ! (n + 2), k ! (n + 3)]"
  by (rule nth_equalityI) (auto simp: less_Suc_eq numeral_eq_Suc nth_Cons split: nat.splits)

lemma key_word_take: "4 * i + 4 \<le> length k \<Longrightarrow> key_word k i = take 4 (drop (4 * i) k)"
  by (simp add: key_word_def take4_drop)

lemma expand_step_words:
  assumes "4 \<le> i" "4 * i + 4 \<le> length k" and s: "expand_step 16 (4 * i) rc k = (k', rc')"
  shows "length k' = length k"
    and "j < i \<Longrightarrow> key_word k' j = key_word k j"
    and "i mod 4 = 0 \<Longrightarrow> key_word k' i =
      map2 (XOR) (key_word k (i - 4))
        (map2 (XOR) (map s_box (rotate1 (key_word k (i - 1)))) [rc, 0, 0, 0])"
    and "i mod 4 \<noteq> 0 \<Longrightarrow> key_word k' i = map2 (XOR) (key_word k (i - 4)) (key_word k (i - 1))"
    and "rc' = (if i mod 4 = 0 then xtime rc else rc)"
proof -
  have m: "(4 * i mod 16 = 0) = (i mod 4 = 0)"
    by presburger
  obtain m where i: "i = m + 4" using assms(1) by (metis add.commute le_Suc_ex)
  show "length k' = length k"
    using s by (auto simp: expand_step_def Let_def split: if_splits)
  show "j < i \<Longrightarrow> key_word k' j = key_word k j"
    using s by (auto simp: expand_step_def Let_def key_word_def split: if_splits)
  show "i mod 4 = 0 \<Longrightarrow> key_word k' i =
      map2 (XOR) (key_word k (i - 4))
        (map2 (XOR) (map s_box (rotate1 (key_word k (i - 1)))) [rc, 0, 0, 0])"
    using s assms(2) m
    by (auto simp: expand_step_def Let_def key_word_def i algebra_simps)
  show "i mod 4 \<noteq> 0 \<Longrightarrow> key_word k' i = map2 (XOR) (key_word k (i - 4)) (key_word k (i - 1))"
    using s assms(2) m
    by (auto simp: expand_step_def Let_def key_word_def i algebra_simps)
  show "rc' = (if i mod 4 = 0 then xtime rc else rc)"
    using s m by (auto simp: expand_step_def Let_def byte_functions)
qed

lemma rcon_index:
  assumes "4 \<le> (i :: nat)"
  shows "(Suc i + 3) div 4 - 1 = (if i mod 4 = 0 then Suc ((i + 3) div 4 - 1) else (i + 3) div 4 - 1)"
proof -
  define q r where "q = i div 4" and "r = i mod 4"
  have i: "i = 4 * q + r" and "r < 4" by (simp_all add: q_def r_def)
  then have "1 \<le> q" and r: "r = 0 \<or> r = 1 \<or> r = 2 \<or> r = 3" using assms by auto
  then have "(Suc i + 3) div 4 = Suc q" "(i + 3) div 4 = (if r = 0 then q else Suc q)"
    by (auto simp: i)
  then show ?thesis using \<open>1 \<le> q\<close> by (simp add: r_def)
qed

lemma expand_key_words:
  assumes "4 \<le> i" "i \<le> 44" "length k = 240"
    and "\<And>j. j < i \<Longrightarrow> key_word k j = fips_word key j"
    and "rc = rcon ((i + 3) div 4 - 1)"
  shows "length (expand_key 16 176 (4 * i) rc k) = 240
    \<and> (\<forall>j < 44. key_word (expand_key 16 176 (4 * i) rc k) j = fips_word key j)"
  using assms
proof (induction "44 - i" arbitrary: i k rc)
  case 0
  then show ?case by (simp add: expand_key.simps)
next
  case (Suc n)
  obtain k' rc' where s: "expand_step 16 (4 * i) rc k = (k', rc')" by (metis surj_pair)
  note w = expand_step_words [OF Suc.prems(1) _ s]
  have i: "i < 44" using Suc by simp
  have new: "key_word k' i = fips_word key i"
    using Suc.prems i w(3,4) by (subst fips_word.simps) (simp add: Let_def, fastforce)
  have old: "key_word k' j = fips_word key j" if "j < Suc i" for j
    using that new w(2) [of j] Suc.prems i by (cases "j = i") auto
  have "(Suc i + 3) div 4 - 1 =
      (if i mod 4 = 0 then Suc ((i + 3) div 4 - 1) else (i + 3) div 4 - 1)"
    using Suc.prems(1) by (rule rcon_index)
  then have "rc' = rcon ((Suc i + 3) div 4 - 1)"
    using w(5) Suc.prems(2-5) i by (simp del: add_Suc One_nat_def)
  moreover have "expand_key 16 176 (4 * i) rc k = expand_key 16 176 (4 * Suc i) rc' k'"
    using s i by (subst expand_key.simps) (simp add: add.commute)
  ultimately show ?case
    using Suc.hyps(1) [of "Suc i" k' rc'] Suc.hyps(2) Suc.prems i w(1) old by simp
qed

lemma length_fips_word: "length key = 16 \<Longrightarrow> length (fips_word key i) = 4"
  by (induction key i rule: fips_word.induct) (subst fips_word.simps, auto simp: Let_def)

lemma set_key_words:
  assumes "length key = 16" "length (ksch ctx) = 240"
  shows "rnd (aes_set_key key ctx) = 10"
    and "length (ksch (aes_set_key key ctx)) = 240"
    and "i < 44 \<Longrightarrow> key_word (ksch (aes_set_key key ctx)) i = fips_word key i"
proof -
  let ?k = "key @ drop 16 (ksch ctx)"
  have "key_word ?k j = fips_word key j" if "j < 4" for j
    using that assms fips_word.simps [of key j]
    by (simp add: key_word_def take4_drop nth_append)
  then have "length (expand_key 16 176 (4 * 4) 1 ?k) = 240
    \<and> (\<forall>j < 44. key_word (expand_key 16 176 (4 * 4) 1 ?k) j = fips_word key j)"
    using assms by (intro expand_key_words) auto
  then show "length (ksch (aes_set_key key ctx)) = 240"
    "i < 44 \<Longrightarrow> key_word (ksch (aes_set_key key ctx)) i = fips_word key i"
    by (simp_all add: aes_set_key_def Let_def)
  show "rnd (aes_set_key key ctx) = 10"
    by (simp add: aes_set_key_def Let_def)
qed

lemma take16_drop:
  assumes "n + 16 \<le> length k"
  shows "take 16 (drop n k) = take 4 (drop n k) @ take 4 (drop (n + 4) k)
    @ take 4 (drop (n + 8) k) @ take 4 (drop (n + 12) k)"
  using take_add [of 4 12 "drop n k"] take_add [of 4 8 "drop (n + 4) k"]
    take_add [of 4 4 "drop (n + 8) k"]
  by (simp add: add.commute)

lemma ksch_block_fips:
  assumes "length key = 16" "length (ksch ctx) = 240" "r \<le> 10"
  shows "ksch_block (aes_set_key key ctx) r = fips_round_key key r"
proof -
  let ?k = "ksch (aes_set_key key ctx)"
  note w = set_key_words [OF assms(1,2)]
  have "ksch_block (aes_set_key key ctx) r
      = key_word ?k (4 * r) @ key_word ?k (4 * r + 1) @ key_word ?k (4 * r + 2)
        @ key_word ?k (4 * r + 3)"
    using assms(3) w(2)
    by (simp add: ksch_block_def take16_drop key_word_take algebra_simps)
  also have "\<dots> = fips_round_key key r"
    using assms(3) w(3) [of "4 * r"] w(3) [of "4 * r + 1"] w(3) [of "4 * r + 2"]
      w(3) [of "4 * r + 3"]
    by (simp add: fips_round_key_def upt_rec numeral_3_eq_3)
  finally show ?thesis .
qed

lemma length_round_key: "length key = 16 \<Longrightarrow> length (fips_round_key key r) = 16"
  by (simp add: fips_round_key_def length_fips_word upt_rec)

lemma encrypt_rounds_fips:
  assumes "length key = 16" "length (ksch ctx) = 240" "length st = 16" "r + n \<le> 11"
  shows "encrypt_rounds (aes_set_key key ctx) r n st = fold (fips_round key) [r..<r + n] st
    \<and> length (encrypt_rounds (aes_set_key key ctx) r n st) = 16"
  using assms(3,4)
proof (induction n arbitrary: r st)
  case (Suc n)
  let ?st = "add_round_key (mix_sub_columns st) (ksch_block (aes_set_key key ctx) r)"
  have st: "?st = fips_round key r st"
    using Suc.prems assms(1,2)
    by (simp add: add_round_key_def xor_block_def fips_round_def mix_sub_columns_fips
        ksch_block_fips)
  have "length ?st = 16"
    using Suc.prems assms(1,2)
    by (simp add: add_round_key_def xor_block_def ksch_block_fips length_round_key)
  then show ?case
    using Suc.IH [of ?st "Suc r"] Suc.prems
    by (auto simp: st upt_conv_Cons simp del: upt_Suc)
qed simp

lemma aes_encrypt_cipher:
  assumes "length key = 16" "length (ksch ctx) = 240" "length inp = 16"
  shows "aes_encrypt (aes_set_key key ctx) inp = Some (fips_cipher key inp)"
proof -
  let ?ctx = "aes_set_key key ctx"
  let ?s0 = "copy_and_key inp (ksch_block ?ctx 0)"
  note w = set_key_words [OF assms(1,2)]
  have s0: "?s0 = map2 (XOR) inp (fips_round_key key 0)" "length ?s0 = 16"
    using assms by (simp_all add: copy_and_key_def ksch_block_fips length_round_key)
  have "encrypt_rounds ?ctx 1 9 ?s0 = fold (fips_round key) [1..<10] ?s0"
    "length (encrypt_rounds ?ctx 1 9 ?s0) = 16"
    using encrypt_rounds_fips [OF assms(1,2) s0(2), of 1 9] by auto
  then show ?thesis
    using assms(1,2) s0(1)
    by (simp add: aes_encrypt_def Let_def w fips_cipher_def shift_sub_rows_fips ksch_block_fips
        copy_and_key_def del: upt_Suc)
qed

lemma length_new_aes [simp]: "length (ksch new_aes) = 240"
  by (simp add: new_aes_def)

lemma length_map2_xor [simp]: "length (map2 (XOR) a b) = min (length a) (length b)"
  by simp

lemma length_fips_cipher:
  assumes "length key = 16"
  shows "length (fips_cipher key inp) = 16"
  using assms by (simp add: fips_cipher_def fips_shift_rows_def length_round_key del: upt_Suc)

section \<open>CBC\<close>

text \<open>
  The interface the green power code relies on: a block cipher \<open>E\<close> which a context computes.
  The chaining of \<open>cbc_encrypt\<close> is proved over it.
\<close>

locale block_cipher =
  fixes E :: "u8 list \<Rightarrow> u8 list \<Rightarrow> u8 list"
    and keyed :: "u8 list \<Rightarrow> aes_context"
  assumes encrypt_E: "length key = 16 \<Longrightarrow> length x = 16 \<Longrightarrow> aes_encrypt (keyed key) x = Some (E key x)"
    and length_E: "length key = 16 \<Longrightarrow> length (E key x) = 16"
begin

definition cbc_mac :: "u8 list \<Rightarrow> u8 list list \<Rightarrow> u8 list \<Rightarrow> u8 list" where
  "cbc_mac key bs iv = fold (\<lambda>b x. E key (map2 (XOR) x b)) bs iv"

lemma cbc_blocks_fold:
  assumes "length key = 16" "length iv = 16" "\<forall>b \<in> set bs. length b = 16"
  shows "fst (cbc_blocks (keyed key) (length bs) (concat bs) out iv)"
    and "snd (snd (cbc_blocks (keyed key) (length bs) (concat bs) out iv)) = cbc_mac key bs iv"
  using assms
  by (induction bs arbitrary: iv out)
    (auto simp: xor_block_def encrypt_E length_E Let_def cbc_mac_def)

lemma cbc_encrypt_fold:
  assumes "length key = 16" "length iv = 16" and bs: "\<forall>b \<in> set bs. length b = 16"
  shows "\<exists>out. cbc_encrypt (keyed key) (concat bs) iv = (True, out, cbc_mac key bs iv)"
proof -
  have "length (concat bs) = 16 * length bs"
    using bs by (induction bs) auto
  then show ?thesis
    using cbc_blocks_fold [OF assms, of "[]"] by (auto simp: cbc_encrypt_def prod_eq_iff)
qed

lemma cbc_single:
  assumes "length key = 16" "length iv = 16" "length b = 16"
  shows "cbc_encrypt (keyed key) b iv = (True, E key (map2 (XOR) iv b), E key (map2 (XOR) iv b))"
  using assms by (simp add: cbc_encrypt_def xor_block_def encrypt_E Let_def)

end

interpretation aes: block_cipher fips_cipher "\<lambda>key. aes_set_key key new_aes"
  by unfold_locales (simp_all add: aes_encrypt_cipher length_fips_cipher)

section \<open>Properties\<close>



text \<open>CBC encryption of a whole number of blocks succeeds and leaves in the initialisation
  vector the chained FIPS-197 cipher of the blocks; a length that is not a multiple of 16 is
  refused with the vector untouched.\<close>

theorem aes_cbc_chains:
  assumes "length key = 16" "length iv = 16"
  shows "(\<forall>b \<in> set bs. length b = 16) \<Longrightarrow>
      \<exists>out. cbc_encrypt (aes_set_key key new_aes) (concat bs) iv
        = (True, out, fold (\<lambda>b x. fips_cipher key (map2 (XOR) x b)) bs iv)"
    and "length inp mod 16 \<noteq> 0 \<Longrightarrow> cbc_encrypt (aes_set_key key new_aes) inp iv = (False, [], iv)"
  using aes.cbc_encrypt_fold [OF assms]
  by (simp_all add: aes.cbc_mac_def) (simp add: cbc_encrypt_def)

theorem aes_cbc_chains_witness:
  "cbc_encrypt (aes_set_key (replicate 16 1) new_aes) [1, 2, 3] (replicate 16 0)
     = (False, [], replicate 16 0)"
  by (rule aes_cbc_chains(2) [OF length_replicate length_replicate]) simp

text \<open>The inverse round functions undo the forward ones on every block.\<close>

theorem aes_rounds_invertible:
  assumes "length st = 16"
  shows "inv_shift_sub_rows (shift_sub_rows st) = st
    \<and> inv_mix_sub_columns (mix_sub_columns st) = st
    \<and> add_round_key (add_round_key st k) k = take (length k) st"
proof (intro conjI)
  show "inv_shift_sub_rows (shift_sub_rows st) = st"
    "inv_mix_sub_columns (mix_sub_columns st) = st"
    using assms by (rule inv_shift_sub_rows_inverse inv_mix_sub_columns_inverse)+
  show "add_round_key (add_round_key st k) k = take (length k) st"
    unfolding add_round_key_def xor_block_def
    by (induction st k rule: list_induct2') (auto simp: xor.assoc)
qed

theorem aes_rounds_invertible_witness:
  "inv_mix_sub_columns (mix_sub_columns (replicate 16 0x5A)) = replicate 16 0x5A"
  using aes_rounds_invertible [of "replicate 16 0x5A"] by simp

end
