(* ===== verification/WireFormat.thy ===== *)
theory WireFormat
  imports ByteManip
begin

text \<open>
  Reading and writing of fixed-size structures, as the constructors from a
  \<open>NSSPI::ByteBuffer\<close> and the \<open>getRaw\<close> methods of \<open>src/ezsp/ezsp-protocol/struct/\<close> do
  it: little-endian integers and byte arrays read with \<open>vector::at\<close>, which throws
  \<open>std::out_of_range\<close> behind the end. The locale \<open>wire_format\<close> is the contract of a structure
  which is both written and read: what is written is read back, whatever follows it.
\<close>

definition le16_at :: "byte_buffer \<Rightarrow> nat \<Rightarrow> u16 result" where
  "le16_at raw i = bindR (byte_at raw (i + 1)) (\<lambda>h. bindR (byte_at raw i) (\<lambda>l.
     Inr (dble_u8_to_u16 h l)))"

definition le32_at :: "byte_buffer \<Rightarrow> nat \<Rightarrow> u32 result" where
  "le32_at raw i = bindR (byte_at raw (i + 3)) (\<lambda>b3. bindR (byte_at raw (i + 2)) (\<lambda>b2.
     bindR (byte_at raw (i + 1)) (\<lambda>b1. bindR (byte_at raw i) (\<lambda>b0.
     Inr (quad_u8_to_u32 b3 b2 b1 b0)))))"

text \<open>\<open>for (loop = 0; loop < n; loop++) dst.at(loop) = raw.at(off + loop)\<close>.\<close>

fun bytes_at :: "byte_buffer \<Rightarrow> nat \<Rightarrow> nat \<Rightarrow> byte_buffer result" where
  "bytes_at raw off 0 = Inr []"
| "bytes_at raw off (Suc n) = bindR (byte_at raw off) (\<lambda>b.
     bindR (bytes_at raw (Suc off) n) (\<lambda>bs. Inr (b # bs)))"

definition le16 :: "u16 \<Rightarrow> byte_buffer" where
  "le16 w = [u16_get_lo_u8 w, u16_get_hi_u8 w]"

definition le32 :: "u32 \<Rightarrow> byte_buffer" where
  "le32 w = [u32_get_byte0 w, u32_get_byte1 w, u32_get_byte2 w, u32_get_byte3 w]"

section \<open>Lemmas\<close>

lemma length_le [simp]: "length (le16 w) = 2" "length (le32 v) = 4"
  by (simp_all add: le16_def le32_def)

lemma bindR_at: "bindR (byte_at raw i) k = (if i < length raw then k (raw ! i) else Inl OutOfRange)"
  by (simp add: byte_at_def)

lemma le16_at_eq:
  "le16_at raw i = (if i + 1 < length raw then Inr (dble_u8_to_u16 (raw ! (i + 1)) (raw ! i))
     else Inl OutOfRange)"
  by (simp add: le16_at_def bindR_at)

lemma le32_at_eq:
  "le32_at raw i = (if i + 3 < length raw
     then Inr (quad_u8_to_u32 (raw ! (i + 3)) (raw ! (i + 2)) (raw ! (i + 1)) (raw ! i))
     else Inl OutOfRange)"
  by (simp add: le32_at_def bindR_at)

lemma bytes_at_eq:
  "bytes_at raw off n = (if off + n \<le> length raw \<or> n = 0 then Inr (take n (drop off raw))
     else Inl OutOfRange)"
proof (induction n arbitrary: off)
  case (Suc n)
  then show ?case
    by (cases "off < length raw")
      (auto simp: bindR_at Cons_nth_drop_Suc [symmetric])
qed simp

lemma bindR_if: "bindR (if b then m else m') k = (if b then bindR m k else bindR m' k)"
  by simp

lemmas read_simps = bindR_at le16_at_eq le32_at_eq bytes_at_eq bindR_if

lemma byte_at_append: "length a \<le> i \<Longrightarrow> byte_at (a @ b) i = byte_at b (i - length a)"
  by (auto simp: byte_at_def nth_append)

lemma le16_at_append: "length a \<le> i \<Longrightarrow> le16_at (a @ b) i = le16_at b (i - length a)"
  by (auto simp: le16_at_def byte_at_append Suc_diff_le)

lemma le32_at_append: "length a \<le> i \<Longrightarrow> le32_at (a @ b) i = le32_at b (i - length a)"
  by (auto simp: le32_at_eq nth_append Suc_diff_le)

lemma bytes_at_append: "length a \<le> i \<Longrightarrow> bytes_at (a @ b) i n = bytes_at b (i - length a) n"
  by (auto simp: bytes_at_eq)

lemma read_written [simp]:
  "byte_at (b # r) 0 = Inr b"
  "le16_at (le16 w @ r) 0 = Inr w"
  "le32_at (le32 v @ r) 0 = Inr v"
  by (simp_all add: le16_at_def le16_def le32_at_def le32_def byte_simps)

lemma bytes_at_written [simp]: "length bs = n \<Longrightarrow> bytes_at (bs @ r) 0 n = Inr bs"
  by (simp add: bytes_at_eq)

text \<open>Moving a read over the bytes written before it.\<close>

lemmas read_append = byte_at_append le16_at_append le32_at_append bytes_at_append

section \<open>The contract of a structure\<close>

locale wire_format =
  fixes put :: "'a \<Rightarrow> byte_buffer"
    and get :: "byte_buffer \<Rightarrow> 'a result"
    and valid :: "'a \<Rightarrow> bool"
    and size :: nat
  assumes length_put: "valid x \<Longrightarrow> length (put x) = size"
    and get_put_append: "valid x \<Longrightarrow> get (put x @ rest) = Inr x"
    and get_short: "length raw < size \<Longrightarrow> get raw = Inl OutOfRange"
begin

lemma get_put: "valid x \<Longrightarrow> get (put x) = Inr x"
  using get_put_append [of x "[]"] by simp

lemma put_inject:
  assumes "valid x" "valid y" and eq: "put x @ r = put y @ s"
  shows "x = y \<and> r = s"
proof -
  have "Inr x = (Inr y :: 'a result)"
    using get_put_append [OF assms(1), of r] get_put_append [OF assms(2), of s] eq by simp
  then show ?thesis using eq by simp
qed

lemma get_prefix_throws:
  assumes "valid x" "n < size"
  shows "get (take n (put x)) = Inl OutOfRange"
  using assms by (intro get_short) (simp add: length_put)

text \<open>A table of entries written one after the other is read back entry by entry.\<close>

lemma get_nth_record:
  assumes "\<forall>x \<in> set xs. valid x" "i < length xs"
  shows "get (drop (size * i) (concat (map put xs))) = Inr (xs ! i)"
  using assms
proof (induction xs arbitrary: i)
  case (Cons x xs)
  then show ?case
    by (cases i) (simp_all add: length_put get_put_append)
qed simp

end

end
