(* ===== verification/GpCommissioning.thy ===== *)
theory GpCommissioning
  imports Aes WireFormat
begin

text \<open>
  \<open>zbmessage/gpd-commissioning-command-payload.cpp\<close> (class \<open>CGpdCommissioningPayload\<close>): the
  payload of a green power commissioning command, whose optional fields are announced by three
  bit fields, with the recovery of a key that was sent encrypted under the well-known link key.

  The lemmas: the decoder either throws \<open>std::out_of_range\<close> or succeeds and never forms an
  iterator outside the buffer; every well-formed payload is read back from its encoding.
\<close>

section \<open>Data\<close>

definition COM_OPTION_MAC_SEQ_CAPABILITY_BIT :: nat where "COM_OPTION_MAC_SEQ_CAPABILITY_BIT = 0"
definition COM_OPTION_RX_ON_CAPABILITY_BIT :: nat where "COM_OPTION_RX_ON_CAPABILITY_BIT = 1"
definition COM_OPTION_APPLICATION_INFORMATION_BIT :: nat where "COM_OPTION_APPLICATION_INFORMATION_BIT = 2"
definition COM_OPTION_FIXED_LOCATION_BIT :: nat where "COM_OPTION_FIXED_LOCATION_BIT = 6"
definition COM_OPTION_EXTENDED_OPTION_FIELD_BIT :: nat where "COM_OPTION_EXTENDED_OPTION_FIELD_BIT = 7"
definition COM_EXT_OPTION_GPD_KEY_PRESENT_BIT :: nat where "COM_EXT_OPTION_GPD_KEY_PRESENT_BIT = 5"
definition COM_EXT_OPTION_GPD_KEY_ENCRYPTION_BIT :: nat where "COM_EXT_OPTION_GPD_KEY_ENCRYPTION_BIT = 6"
definition COM_EXT_OPTION_GPD_OUT_COUNTER_PRESENT_BIT :: nat where "COM_EXT_OPTION_GPD_OUT_COUNTER_PRESENT_BIT = 7"
definition COM_APP_INFO_MANUFACTURER_ID_PRESENT_BIT :: nat where "COM_APP_INFO_MANUFACTURER_ID_PRESENT_BIT = 0"
definition COM_APP_INFO_MODEL_ID_PRESENT_BIT :: nat where "COM_APP_INFO_MODEL_ID_PRESENT_BIT = 1"
definition COM_APP_INFO_GPD_COMMANDS_PRESENT_BIT :: nat where "COM_APP_INFO_GPD_COMMANDS_PRESENT_BIT = 2"
definition COM_APP_INFO_CLUSTER_LIST_PRESENT_BIT :: nat where "COM_APP_INFO_CLUSTER_LIST_PRESENT_BIT = 3"

lemmas com_bits =
  COM_OPTION_MAC_SEQ_CAPABILITY_BIT_def COM_OPTION_RX_ON_CAPABILITY_BIT_def
  COM_OPTION_APPLICATION_INFORMATION_BIT_def COM_OPTION_FIXED_LOCATION_BIT_def
  COM_OPTION_EXTENDED_OPTION_FIELD_BIT_def COM_EXT_OPTION_GPD_KEY_PRESENT_BIT_def
  COM_EXT_OPTION_GPD_KEY_ENCRYPTION_BIT_def COM_EXT_OPTION_GPD_OUT_COUNTER_PRESENT_BIT_def
  COM_APP_INFO_MANUFACTURER_ID_PRESENT_BIT_def COM_APP_INFO_MODEL_ID_PRESENT_BIT_def
  COM_APP_INFO_GPD_COMMANDS_PRESENT_BIT_def COM_APP_INFO_CLUSTER_LIST_PRESENT_BIT_def

record commissioning_payload =
  com_device_id :: u8
  com_options :: u8
  com_extended_options :: u8
  com_key :: byte_buffer
  com_key_mic :: u32
  com_out_frame_counter :: u32
  com_app_information :: u8
  com_manufacturer_id :: u16
  com_model_id :: u16
  com_gpd_command_list :: byte_buffer
  com_gpd_cluster_list :: byte_buffer

text \<open>\<open>bits & (1 << n)\<close> as a condition.\<close>

definition flag :: "u8 \<Rightarrow> nat \<Rightarrow> bool" where
  "flag bits n = (bits AND push_bit n 1 \<noteq> 0)"

definition isMACsequenceNumberCapability :: "commissioning_payload \<Rightarrow> bool" where
  "isMACsequenceNumberCapability p = flag (com_options p) COM_OPTION_MAC_SEQ_CAPABILITY_BIT"

definition isRxOnCapability :: "commissioning_payload \<Rightarrow> bool" where
  "isRxOnCapability p = flag (com_options p) COM_OPTION_RX_ON_CAPABILITY_BIT"

definition isFixedLocation :: "commissioning_payload \<Rightarrow> bool" where
  "isFixedLocation p = flag (com_options p) COM_OPTION_FIXED_LOCATION_BIT"

definition isExtendedOptionsFieldPresent :: "commissioning_payload \<Rightarrow> bool" where
  "isExtendedOptionsFieldPresent p = flag (com_options p) COM_OPTION_EXTENDED_OPTION_FIELD_BIT"

section \<open>Recovery of an encrypted key\<close>

definition TC_LK :: byte_buffer where
  "TC_LK = [0x5A, 0x69, 0x67, 0x42, 0x65, 0x65, 0x41, 0x6C, 0x6C, 0x69, 0x61, 0x6E, 0x63, 0x65,
            0x30, 0x39]"

text \<open>The source identifier is copied with \<open>memcpy\<close>: little-endian, as on the supported hosts.\<close>

definition com_nonce :: "u32 \<Rightarrow> byte_buffer" where
  "com_nonce src_id = [0x01] @ le32 src_id @ le32 src_id @ le32 src_id @ [0x05, 0x00, 0x01]"

definition com_decrypt_key :: "u32 \<Rightarrow> byte_buffer \<Rightarrow> byte_buffer" where
  "com_decrypt_key src_id in_key =
     (let out_key = replicate 16 0;
          aes = aes_set_key TC_LK new_aes;
          out_key = map2 (XOR) out_key (com_nonce src_id);
          out_key = (case aes_encrypt aes out_key of Some e \<Rightarrow> e | None \<Rightarrow> out_key)
      in map2 (XOR) out_key in_key)"

section \<open>The decoder\<close>

text \<open>Each group of fields takes the index \<open>l_idx\<close> and gives it back behind what it has read.\<close>

definition com_read_extended :: "byte_buffer \<Rightarrow> u8 \<Rightarrow> nat \<Rightarrow> (u8 \<times> nat) result" where
  "com_read_extended raw options l_idx =
     (if flag options COM_OPTION_EXTENDED_OPTION_FIELD_BIT
      then bindR (byte_at raw l_idx) (\<lambda>e. Inr (e, l_idx + 1))
      else Inr (0, l_idx))"

definition com_read_key :: "byte_buffer \<Rightarrow> u32 \<Rightarrow> u8 \<Rightarrow> nat \<Rightarrow> (byte_buffer \<times> u32 \<times> nat) result" where
  "com_read_key raw src_id ext l_idx =
     (if flag ext COM_EXT_OPTION_GPD_KEY_PRESENT_BIT then
        bindR (bytes_at raw l_idx 16) (\<lambda>key.
          let l_idx = l_idx + 16 in
          if flag ext COM_EXT_OPTION_GPD_KEY_ENCRYPTION_BIT then
            bindR (le32_at raw l_idx) (\<lambda>mic. Inr (com_decrypt_key src_id key, mic, l_idx + 4))
          else Inr (key, 0, l_idx))
      else Inr (replicate 16 0, 0, l_idx))"

definition com_read_counter :: "byte_buffer \<Rightarrow> u8 \<Rightarrow> nat \<Rightarrow> (u32 \<times> nat) result" where
  "com_read_counter raw ext l_idx =
     (if flag ext COM_EXT_OPTION_GPD_OUT_COUNTER_PRESENT_BIT
      then bindR (le32_at raw l_idx) (\<lambda>c. Inr (c, l_idx + 4))
      else Inr (0, l_idx))"

definition com_read_app_information :: "byte_buffer \<Rightarrow> u8 \<Rightarrow> nat \<Rightarrow> (u8 \<times> nat) result" where
  "com_read_app_information raw options l_idx =
     (if flag options COM_OPTION_APPLICATION_INFORMATION_BIT
      then bindR (byte_at raw l_idx) (\<lambda>a. Inr (a, l_idx + 1))
      else Inr (0, l_idx))"

definition com_read_id :: "nat \<Rightarrow> byte_buffer \<Rightarrow> u8 \<Rightarrow> nat \<Rightarrow> (u16 \<times> nat) result" where
  "com_read_id b raw app l_idx =
     (if flag app b then bindR (le16_at raw l_idx) (\<lambda>w. Inr (w, l_idx + 2))
      else Inr (0, l_idx))"

definition com_read_commands :: "byte_buffer \<Rightarrow> u8 \<Rightarrow> nat \<Rightarrow> (byte_buffer \<times> nat) result" where
  "com_read_commands raw app l_idx =
     (if flag app COM_APP_INFO_GPD_COMMANDS_PRESENT_BIT then
        bindR (byte_at raw l_idx) (\<lambda>n.
          bindR (bytes_at raw (l_idx + 1) (unat n)) (\<lambda>cs. Inr (cs, l_idx + 1 + unat n)))
      else Inr ([], l_idx))"

text \<open>\<open>insert(begin, raw.begin() + l_idx, raw.end())\<close>.\<close>

definition com_read_clusters :: "byte_buffer \<Rightarrow> u8 \<Rightarrow> nat \<Rightarrow> byte_buffer result" where
  "com_read_clusters raw app l_idx =
     (if flag app COM_APP_INFO_CLUSTER_LIST_PRESENT_BIT
      then (if l_idx \<le> length raw then Inr (drop l_idx raw) else Inl Undefined)
      else Inr [])"

definition new_commissioning_payload :: "byte_buffer \<Rightarrow> u32 \<Rightarrow> commissioning_payload result" where
  "new_commissioning_payload raw src_id =
     bindR (byte_at raw 0) (\<lambda>device_id.
     bindR (byte_at raw 1) (\<lambda>options.
     bindR (com_read_extended raw options 2) (\<lambda>(ext, l_idx).
     bindR (com_read_key raw src_id ext l_idx) (\<lambda>(key, mic, l_idx).
     bindR (com_read_counter raw ext l_idx) (\<lambda>(counter, l_idx).
     bindR (com_read_app_information raw options l_idx) (\<lambda>(app, l_idx).
     bindR (com_read_id COM_APP_INFO_MANUFACTURER_ID_PRESENT_BIT raw app l_idx) (\<lambda>(man, l_idx).
     bindR (com_read_id COM_APP_INFO_MODEL_ID_PRESENT_BIT raw app l_idx) (\<lambda>(model, l_idx).
     bindR (com_read_commands raw app l_idx) (\<lambda>(commands, l_idx).
     bindR (com_read_clusters raw app l_idx) (\<lambda>clusters.
     Inr \<lparr>com_device_id = device_id, com_options = options, com_extended_options = ext,
          com_key = key, com_key_mic = mic, com_out_frame_counter = counter,
          com_app_information = app, com_manufacturer_id = man, com_model_id = model,
          com_gpd_command_list = commands, com_gpd_cluster_list = clusters\<rparr>))))))))))"

section \<open>The encoding it reads\<close>

text \<open>Specification: the bytes a device sends for a payload, and the payloads that have one.\<close>

definition com_encode :: "u32 \<Rightarrow> commissioning_payload \<Rightarrow> byte_buffer" where
  "com_encode src_id p =
     (let ext = com_extended_options p; app = com_app_information p;
          pad = fips_cipher TC_LK (com_nonce src_id)
      in [com_device_id p, com_options p]
         @ (if flag (com_options p) 7 then [ext] else [])
         @ (if flag ext 5 then
              (if flag ext 6 then map2 (XOR) (com_key p) pad @ le32 (com_key_mic p) else com_key p)
            else [])
         @ (if flag ext 7 then le32 (com_out_frame_counter p) else [])
         @ (if flag (com_options p) 2 then [app] else [])
         @ (if flag app 0 then le16 (com_manufacturer_id p) else [])
         @ (if flag app 1 then le16 (com_model_id p) else [])
         @ (if flag app 2 then of_nat (length (com_gpd_command_list p)) # com_gpd_command_list p
            else [])
         @ (if flag app 3 then com_gpd_cluster_list p else []))"

definition com_valid :: "commissioning_payload \<Rightarrow> bool" where
  "com_valid p \<longleftrightarrow>
     (let ext = com_extended_options p; app = com_app_information p
      in (flag (com_options p) 7 \<or> ext = 0)
         \<and> length (com_key p) = 16
         \<and> (flag ext 5 \<or> com_key p = replicate 16 0)
         \<and> (flag ext 5 \<and> flag ext 6 \<or> com_key_mic p = 0)
         \<and> (flag ext 7 \<or> com_out_frame_counter p = 0)
         \<and> (flag (com_options p) 2 \<or> app = 0)
         \<and> (flag app 0 \<or> com_manufacturer_id p = 0)
         \<and> (flag app 1 \<or> com_model_id p = 0)
         \<and> length (com_gpd_command_list p) < 256
         \<and> (flag app 2 \<or> com_gpd_command_list p = [])
         \<and> (flag app 3 \<or> com_gpd_cluster_list p = []))"

section \<open>Lemmas\<close>

lemma length_TC_LK [simp]: "length TC_LK = 16"
  by (simp add: TC_LK_def)

lemma length_com_nonce [simp]: "length (com_nonce src_id) = 16"
  by (simp add: com_nonce_def)

lemma xor_zeros: "map2 (XOR) (replicate n 0) xs = take n (xs :: u8 list)"
  by (induction n arbitrary: xs) (auto simp: zip_Cons1 split: list.splits)

lemma com_decrypt_key_eq:
  "com_decrypt_key src_id k = map2 (XOR) (fips_cipher TC_LK (com_nonce src_id)) k"
  unfolding com_decrypt_key_def Let_def
  by (simp add: xor_zeros aes.encrypt_E)

lemma xor_pad_cancel:
  "length p = length k \<Longrightarrow> map2 (XOR) p (map2 (XOR) k p) = (k :: u8 list)"
  by (induction p k rule: list_induct2) (auto simp: xor.commute xor.left_commute)

lemma com_decrypt_encrypt:
  "length k = 16 \<Longrightarrow>
   com_decrypt_key src_id (map2 (XOR) k (fips_cipher TC_LK (com_nonce src_id))) = k"
  by (simp add: com_decrypt_key_eq xor_pad_cancel aes.length_E)

lemmas com_read_defs =
  com_read_extended_def com_read_key_def com_read_counter_def com_read_app_information_def
  com_read_id_def com_read_commands_def com_read_clusters_def

lemma read_here:
  "byte_at (pre @ r) (length pre) = byte_at r 0"
  "le16_at (pre @ r) (length pre) = le16_at r 0"
  "le32_at (pre @ r) (length pre) = le32_at r 0"
  "bytes_at (pre @ r) (length pre) n = bytes_at r 0 n"
  by (simp_all add: read_append)

lemma com_read_extended_encoded:
  "flag opts 7 \<or> e = 0 \<Longrightarrow>
   com_read_extended (pre @ (if flag opts 7 then [e] else []) @ r) opts (length pre)
     = Inr (e, length (pre @ (if flag opts 7 then [e] else [])))"
  by (auto simp: com_read_extended_def com_bits read_here)

lemma com_read_key_encoded:
  assumes "length k = 16" "flag e 5 \<or> k = replicate 16 0" "flag e 5 \<and> flag e 6 \<or> mic = 0"
    and enc: "enc = (if flag e 5 then
      (if flag e 6 then map2 (XOR) k (fips_cipher TC_LK (com_nonce s)) @ le32 mic else k) else [])"
  shows "com_read_key (pre @ enc @ r) s e (length pre) = Inr (k, mic, length (pre @ enc))"
proof -
  let ?c = "map2 (XOR) k (fips_cipher TC_LK (com_nonce s))"
  have c: "length ?c = 16" using assms(1) by (simp add: aes.length_E)
  have "le32_at ((pre @ ?c) @ le32 mic @ r) (length (pre @ ?c)) = Inr mic"
    unfolding read_here by simp
  then have "le32_at (pre @ ?c @ le32 mic @ r) (length pre + 16) = Inr mic"
    using c by simp
  then show ?thesis
    using assms c by (auto simp: com_read_key_def com_bits read_here com_decrypt_encrypt)
qed

lemma com_read_counter_encoded:
  "flag e 7 \<or> c = 0 \<Longrightarrow>
   com_read_counter (pre @ (if flag e 7 then le32 c else []) @ r) e (length pre)
     = Inr (c, length (pre @ (if flag e 7 then le32 c else [])))"
  by (auto simp: com_read_counter_def com_bits read_here)

lemma com_read_app_information_encoded:
  "flag opts 2 \<or> a = 0 \<Longrightarrow>
   com_read_app_information (pre @ (if flag opts 2 then [a] else []) @ r) opts (length pre)
     = Inr (a, length (pre @ (if flag opts 2 then [a] else [])))"
  by (auto simp: com_read_app_information_def com_bits read_here)

lemma com_read_id_encoded:
  "flag app b \<or> w = 0 \<Longrightarrow>
   com_read_id b (pre @ (if flag app b then le16 w else []) @ r) app (length pre)
     = Inr (w, length (pre @ (if flag app b then le16 w else [])))"
  by (auto simp: com_read_id_def read_here)

lemma com_read_commands_encoded:
  assumes "length cs < 256" "flag app 2 \<or> cs = []"
    and enc: "enc = (if flag app 2 then of_nat (length cs) # cs else [])"
  shows "com_read_commands (pre @ enc @ r) app (length pre) = Inr (cs, length (pre @ enc))"
proof -
  have n: "unat (of_nat (length cs) :: u8) = length cs"
    using assms(1) by (simp add: unat_of_nat)
  have "bytes_at ((pre @ [of_nat (length cs)]) @ cs @ r) (length (pre @ [of_nat (length cs) :: u8]))
      (length cs) = Inr cs"
    unfolding read_here by simp
  then show ?thesis
    using assms n by (auto simp: com_read_commands_def com_bits read_here)
qed

lemma com_read_clusters_encoded:
  "flag app 3 \<or> cs = [] \<Longrightarrow>
   com_read_clusters (pre @ (if flag app 3 then cs else [])) app (length pre) = Inr cs"
  by (auto simp: com_read_clusters_def com_bits)

lemma com_roundtrip:
  assumes v: "com_valid p"
  shows "new_commissioning_payload (com_encode s p) s = Inr p"
proof -
  let ?o = "com_options p" and ?e = "com_extended_options p" and ?a = "com_app_information p"
  define f0 where "f0 = [com_device_id p, ?o]"
  define f1 where "f1 = (if flag ?o 7 then [?e] else [])"
  define f2 where "f2 = (if flag ?e 5 then
    (if flag ?e 6 then map2 (XOR) (com_key p) (fips_cipher TC_LK (com_nonce s))
       @ le32 (com_key_mic p) else com_key p) else [])"
  define f3 where "f3 = (if flag ?e 7 then le32 (com_out_frame_counter p) else [])"
  define f4 where "f4 = (if flag ?o 2 then [?a] else [])"
  define f5 where "f5 = (if flag ?a 0 then le16 (com_manufacturer_id p) else [])"
  define f6 where "f6 = (if flag ?a 1 then le16 (com_model_id p) else [])"
  define f7 where "f7 = (if flag ?a 2 then of_nat (length (com_gpd_command_list p))
    # com_gpd_command_list p else [])"
  define f8 where "f8 = (if flag ?a 3 then com_gpd_cluster_list p else [])"
  let ?raw = "f0 @ f1 @ f2 @ f3 @ f4 @ f5 @ f6 @ f7 @ f8"
  note v = v [unfolded com_valid_def Let_def]
  have raw: "com_encode s p = ?raw"
    unfolding com_encode_def Let_def f0_def f1_def f2_def f3_def f4_def f5_def f6_def f7_def f8_def
    by simp
  have 0: "byte_at ?raw 0 = Inr (com_device_id p)" "byte_at ?raw 1 = Inr ?o" "length f0 = 2"
    by (simp_all add: f0_def)
  have 1: "com_read_extended ?raw ?o (length f0) = Inr (?e, length (f0 @ f1))"
    unfolding f1_def using v by (intro com_read_extended_encoded) blast
  have 2: "com_read_key ((f0 @ f1) @ f2 @ f3 @ f4 @ f5 @ f6 @ f7 @ f8) s ?e (length (f0 @ f1))
      = Inr (com_key p, com_key_mic p, length ((f0 @ f1) @ f2))"
    by (rule com_read_key_encoded [OF _ _ _ f2_def]) (use v in blast)+
  have 3: "com_read_counter ((f0 @ f1 @ f2) @ f3 @ f4 @ f5 @ f6 @ f7 @ f8) ?e (length (f0 @ f1 @ f2))
      = Inr (com_out_frame_counter p, length ((f0 @ f1 @ f2) @ f3))"
    unfolding f3_def using v by (intro com_read_counter_encoded) blast
  have 4: "com_read_app_information ((f0 @ f1 @ f2 @ f3) @ f4 @ f5 @ f6 @ f7 @ f8) ?o
      (length (f0 @ f1 @ f2 @ f3)) = Inr (?a, length ((f0 @ f1 @ f2 @ f3) @ f4))"
    unfolding f4_def using v by (intro com_read_app_information_encoded) blast
  have 5: "com_read_id 0 ((f0 @ f1 @ f2 @ f3 @ f4) @ f5 @ f6 @ f7 @ f8) ?a
      (length (f0 @ f1 @ f2 @ f3 @ f4))
      = Inr (com_manufacturer_id p, length ((f0 @ f1 @ f2 @ f3 @ f4) @ f5))"
    unfolding f5_def using v by (intro com_read_id_encoded) blast
  have 6: "com_read_id 1 ((f0 @ f1 @ f2 @ f3 @ f4 @ f5) @ f6 @ f7 @ f8) ?a
      (length (f0 @ f1 @ f2 @ f3 @ f4 @ f5))
      = Inr (com_model_id p, length ((f0 @ f1 @ f2 @ f3 @ f4 @ f5) @ f6))"
    unfolding f6_def using v by (intro com_read_id_encoded) blast
  have 7: "com_read_commands ((f0 @ f1 @ f2 @ f3 @ f4 @ f5 @ f6) @ f7 @ f8) ?a
      (length (f0 @ f1 @ f2 @ f3 @ f4 @ f5 @ f6))
      = Inr (com_gpd_command_list p, length ((f0 @ f1 @ f2 @ f3 @ f4 @ f5 @ f6) @ f7))"
    by (rule com_read_commands_encoded [OF _ _ f7_def]) (use v in blast)+
  have 8: "com_read_clusters ((f0 @ f1 @ f2 @ f3 @ f4 @ f5 @ f6 @ f7) @ f8) ?a
      (length (f0 @ f1 @ f2 @ f3 @ f4 @ f5 @ f6 @ f7)) = Inr (com_gpd_cluster_list p)"
    unfolding f8_def using v by (intro com_read_clusters_encoded) blast
  note steps = 1 2 3 4 5 6 7 8
  show ?thesis
    unfolding raw new_commissioning_payload_def
    using 0 steps
    by (simp add: com_bits(9,10) del: length_append)
qed

text \<open>A reader that leaves the index inside the buffer and fails only by throwing.\<close>

definition com_reader_ok :: "byte_buffer \<Rightarrow> ('a \<times> nat) result \<Rightarrow> bool" where
  "com_reader_ok raw m \<longleftrightarrow>
     (case m of Inl e \<Rightarrow> e = OutOfRange | Inr (_, l_idx) \<Rightarrow> l_idx \<le> length raw)"

lemma com_readers_ok:
  assumes "i \<le> length raw"
  shows "com_reader_ok raw (com_read_extended raw opts i)"
    and "com_reader_ok raw (com_read_counter raw e i)"
    and "com_reader_ok raw (com_read_app_information raw opts i)"
    and "com_reader_ok raw (com_read_id b raw app i)"
    and "com_reader_ok raw (com_read_commands raw app i)"
    and "com_reader_ok raw (map_sum id (\<lambda>(k, mic, l). ((k, mic), l)) (com_read_key raw s e i))"
  using assms by (auto simp: com_reader_ok_def com_read_defs read_simps Let_def)

lemma com_read_key_ok:
  assumes "i \<le> length raw"
  shows "com_read_key raw s e i = Inl x \<Longrightarrow> x = OutOfRange"
    and "com_read_key raw s e i = Inr (k, mic, l) \<Longrightarrow> l \<le> length raw \<and> length k = 16
      \<and> (flag e 5 \<or> k = replicate 16 0) \<and> (flag e 5 \<and> flag e 6 \<or> mic = 0)"
  using assms
  by (auto simp: com_read_key_def com_bits read_simps Let_def com_decrypt_key_eq aes.length_E
      split: if_splits)

lemma com_reader_okD:
  assumes "com_reader_ok raw m"
  shows "m = Inl e \<Longrightarrow> e = OutOfRange" and "m = Inr (x, l) \<Longrightarrow> l \<le> length raw"
  using assms by (auto simp: com_reader_ok_def)

lemma com_absent_fields:
  "com_read_extended raw opts i = Inr (e, l) \<Longrightarrow> flag opts 7 \<or> e = 0"
  "com_read_counter raw e i = Inr (c, l) \<Longrightarrow> flag e 7 \<or> c = 0"
  "com_read_app_information raw opts i = Inr (a, l) \<Longrightarrow> flag opts 2 \<or> a = 0"
  "com_read_id b raw a i = Inr (w, l) \<Longrightarrow> flag a b \<or> w = 0"
  "com_read_commands raw a i = Inr (cs, l) \<Longrightarrow> length cs < 256 \<and> (flag a 2 \<or> cs = [])"
  "com_read_clusters raw a i = Inr ls \<Longrightarrow> flag a 3 \<or> ls = []"
  by (auto simp: com_read_defs com_bits read_simps min_def split: if_splits
      intro: le_less_trans [OF _ unat_u8_less_256])

lemma com_decoded_valid:
  assumes "new_commissioning_payload raw s = Inr p"
  shows "com_valid p"
proof -
  from assms obtain opts e i2 k mic i3 c i4 a i5 w1 i6 w2 i7 cs i8 ls where
    len: "1 < length raw"
    and r: "com_read_extended raw opts 2 = Inr (e, i2)"
      "com_read_key raw s e i2 = Inr (k, mic, i3)"
      "com_read_counter raw e i3 = Inr (c, i4)"
      "com_read_app_information raw opts i4 = Inr (a, i5)"
      "com_read_id 0 raw a i5 = Inr (w1, i6)"
      "com_read_id 1 raw a i6 = Inr (w2, i7)"
      "com_read_commands raw a i7 = Inr (cs, i8)"
      "com_read_clusters raw a i8 = Inr ls"
    and p: "p = \<lparr>com_device_id = raw ! 0, com_options = opts, com_extended_options = e,
          com_key = k, com_key_mic = mic, com_out_frame_counter = c,
          com_app_information = a, com_manufacturer_id = w1, com_model_id = w2,
          com_gpd_command_list = cs, com_gpd_cluster_list = ls\<rparr>"
    unfolding new_commissioning_payload_def com_bits(9,10) bindR_eq_Inr byte_at_Inr_iff
    by (elim exE conjE, clarsimp simp only: split_beta bindR_eq_Inr prod.case) force
  have "i2 \<le> length raw" using com_reader_okD(2) [OF com_readers_ok(1) r(1)] len by simp
  then show ?thesis
    unfolding com_valid_def Let_def p
    using com_read_key_ok(2) [OF _ r(2)] com_absent_fields(1) [OF r(1)] com_absent_fields(2) [OF r(3)]
      com_absent_fields(3) [OF r(4)] com_absent_fields(4) [OF r(5)] com_absent_fields(4) [OF r(6)]
      com_absent_fields(5) [OF r(7)] com_absent_fields(6) [OF r(8)]
    by simp
qed

text \<open>Failures of a chain of such readers are exceptions only.\<close>

definition throws_only :: "'a result \<Rightarrow> bool" where
  "throws_only m \<longleftrightarrow> (\<forall>f. m = Inl f \<longrightarrow> f = OutOfRange)"

lemma throws_only_bind:
  assumes "com_reader_ok raw m" "\<And>x l. l \<le> length raw \<Longrightarrow> throws_only (k x l)"
  shows "throws_only (bindR m (\<lambda>(x, l). k x l))"
  using assms by (cases m) (auto simp: com_reader_ok_def throws_only_def)

lemma throws_only_key:
  assumes "i \<le> length raw" "\<And>x y l. l \<le> length raw \<Longrightarrow> throws_only (k x y l)"
  shows "throws_only (bindR (com_read_key raw s e i) (\<lambda>(x, y, l). k x y l))"
  using assms com_read_key_ok [OF assms(1), of s e]
  by (cases "com_read_key raw s e i") (auto simp: throws_only_def)

lemmas throws_only_readers =
  throws_only_key throws_only_bind [OF com_readers_ok(1)] throws_only_bind [OF com_readers_ok(2)]
  throws_only_bind [OF com_readers_ok(3)] throws_only_bind [OF com_readers_ok(4)]
  throws_only_bind [OF com_readers_ok(5)]

lemma com_decoder_throws: "throws_only (new_commissioning_payload raw s)"
proof (cases "1 < length raw")
  case True
  then have "raw \<noteq> []" by auto
  with True show ?thesis
    unfolding new_commissioning_payload_def
    by (simp add: bindR_at split del: if_split)
      (intro throws_only_readers,
        auto simp: throws_only_def com_read_clusters_def split: if_splits)
qed (auto simp: new_commissioning_payload_def read_simps throws_only_def split: if_splits)

section \<open>Properties\<close>

text \<open>C26: Every well-formed commissioning payload, its key sent in clear or encrypted under the
  link key, is recovered exactly from the bytes a device sends for it.\<close>

theorem commissioning_roundtrip:
  assumes "com_valid p"
  shows "new_commissioning_payload (com_encode src_id p) src_id = Inr p"
  using assms by (rule com_roundtrip)

theorem commissioning_roundtrip_witness:
  "new_commissioning_payload
     (com_encode 0x12345678
       \<lparr>com_device_id = 2, com_options = 0x85, com_extended_options = 0xF2,
        com_key = [0,1,2,3,4,5,6,7,8,9,10,11,12,13,14,15], com_key_mic = 0xCAFE,
        com_out_frame_counter = 77, com_app_information = 5, com_manufacturer_id = 0x1021,
        com_model_id = 0, com_gpd_command_list = [0x10, 0x11], com_gpd_cluster_list = []\<rparr>)
     0x12345678
   = Inr \<lparr>com_device_id = 2, com_options = 0x85, com_extended_options = 0xF2,
        com_key = [0,1,2,3,4,5,6,7,8,9,10,11,12,13,14,15], com_key_mic = 0xCAFE,
        com_out_frame_counter = 77, com_app_information = 5, com_manufacturer_id = 0x1021,
        com_model_id = 0, com_gpd_command_list = [0x10, 0x11], com_gpd_cluster_list = []\<rparr>"
  by (rule commissioning_roundtrip) (simp add: com_valid_def flag_def)

text \<open>Decoding a commissioning payload, whatever the bytes, either throws out-of-range or gives
  a well-formed payload; it never forms an iterator behind the end of the buffer.\<close>

theorem commissioning_decoder_safe:
  "case new_commissioning_payload raw src_id of
     Inl e \<Rightarrow> e = OutOfRange
   | Inr p \<Rightarrow> com_valid p \<and> 2 \<le> length raw \<and> length (com_key p) = 16"
  using com_decoder_throws [of raw src_id] com_decoded_valid [of raw src_id]
  by (auto simp: throws_only_def com_valid_def Let_def new_commissioning_payload_def
      split: sum.split)

end
