(* ===== verification/EmberStructs.thy ===== *)
theory EmberStructs
  imports GpCommissioning
begin

text \<open>
  The data structures of the EZSP protocol: \<open>src/ezsp/ezsp-protocol/struct/\<close>,
  \<open>get-network-parameters-response.cpp\<close> and \<open>zbmessage/gp-pairing-command-option-struct.cpp\<close>.
  A class is a record, its constructor from a buffer a function into results, \<open>getRaw\<close> or
  \<open>get\<close> a function to bytes or to a word. Enumerations read by a \<open>static_cast\<close> stay bytes.

  The structures which are both read and written are interpretations of \<open>wire_format\<close>, option
  fields of \<open>bit_field\<close>; the decoders that are only read throw exactly on short buffers.
\<close>

section \<open>Bit fields\<close>

text \<open>A class that packs its fields into a word and unpacks them again.\<close>

locale bit_field =
  fixes pack :: "'a \<Rightarrow> 'w::len word"
    and unpack :: "'w word \<Rightarrow> 'a"
    and valid :: "'a \<Rightarrow> bool"
    and used :: "'w word"
  assumes unpack_pack: "valid x \<Longrightarrow> unpack (pack x) = x"
    and pack_unpack: "pack (unpack w) = w AND used"
    and valid_unpack: "valid (unpack w)"
begin

lemma pack_inject: "valid x \<Longrightarrow> valid y \<Longrightarrow> pack x = pack y \<longleftrightarrow> x = y"
  by (metis unpack_pack)

lemma pack_used: "valid x \<Longrightarrow> pack x AND used = pack x"
  by (metis pack_unpack unpack_pack)

lemma unpack_masked: "unpack (w AND used) = unpack w"
  by (metis pack_unpack unpack_pack valid_unpack)

end

section \<open>Sink table options\<close>

record sink_option =
  opt_application_id :: u8
  opt_communication_mode :: u8
  opt_sequence_number_capabilities :: bool
  opt_rx_on_capability :: bool
  opt_fixed_location :: bool
  opt_assigned_alias :: bool
  opt_security_use :: bool

definition new_sink_option :: sink_option where
  "new_sink_option = \<lparr>opt_application_id = 0, opt_communication_mode = 0,
     opt_sequence_number_capabilities = False, opt_rx_on_capability = False,
     opt_fixed_location = False, opt_assigned_alias = False, opt_security_use = False\<rparr>"

definition sink_option_of :: "u16 \<Rightarrow> sink_option" where
  "sink_option_of i_options =
     \<lparr>opt_application_id = ucast (i_options AND 0x7),
      opt_communication_mode = ucast (drop_bit 3 i_options) AND 0x3,
      opt_sequence_number_capabilities = (i_options AND 0x20 \<noteq> 0),
      opt_rx_on_capability = (i_options AND 0x40 \<noteq> 0),
      opt_fixed_location = (i_options AND 0x80 \<noteq> 0),
      opt_assigned_alias = (i_options AND 0x100 \<noteq> 0),
      opt_security_use = (i_options AND 0x200 \<noteq> 0)\<rparr>"

definition sink_option_commissioned :: "u8 \<Rightarrow> commissioning_payload \<Rightarrow> sink_option" where
  "sink_option_commissioned i_application_id payload =
     \<lparr>opt_application_id = i_application_id, opt_communication_mode = 1,
      opt_sequence_number_capabilities = isMACsequenceNumberCapability payload,
      opt_rx_on_capability = isRxOnCapability payload,
      opt_fixed_location = isFixedLocation payload,
      opt_assigned_alias = False,
      opt_security_use = isExtendedOptionsFieldPresent payload\<rparr>"

definition sink_option_get :: "sink_option \<Rightarrow> u16" where
  "sink_option_get opt =
     ucast (opt_application_id opt) OR push_bit 3 (ucast (opt_communication_mode opt))
     OR push_bit 5 (of_bool (opt_sequence_number_capabilities opt))
     OR push_bit 6 (of_bool (opt_rx_on_capability opt))
     OR push_bit 7 (of_bool (opt_fixed_location opt))
     OR push_bit 8 (of_bool (opt_assigned_alias opt))
     OR push_bit 9 (of_bool (opt_security_use opt))"

definition sink_option_valid :: "sink_option \<Rightarrow> bool" where
  "sink_option_valid opt \<longleftrightarrow> opt_application_id opt < 8 \<and> opt_communication_mode opt < 4"

section \<open>Addresses of green power devices\<close>

record gp_address =
  addr_applicationId :: u8
  gpdIeeeAddress :: byte_buffer
  addr_endpoint :: u8

definition new_gp_address :: gp_address where
  "new_gp_address = \<lparr>addr_applicationId = 0, gpdIeeeAddress = replicate 8 0, addr_endpoint = 0\<rparr>"

definition parse_gp_address :: "byte_buffer \<Rightarrow> gp_address result" where
  "parse_gp_address raw =
     bindR (byte_at raw 0) (\<lambda>app.
     bindR (byte_at raw (8 + 1)) (\<lambda>ep.
     bindR (bytes_at raw 1 8) (\<lambda>ieee.
     Inr \<lparr>addr_applicationId = app, gpdIeeeAddress = ieee, addr_endpoint = ep\<rparr>)))"

definition gp_address_of :: "u32 \<Rightarrow> gp_address" where
  "gp_address_of i_srcId = \<lparr>addr_applicationId = 0,
     gpdIeeeAddress = [u32_get_byte0 i_srcId, u32_get_byte1 i_srcId, u32_get_byte2 i_srcId,
       u32_get_byte3 i_srcId, u32_get_byte0 i_srcId, u32_get_byte1 i_srcId, u32_get_byte2 i_srcId,
       u32_get_byte3 i_srcId],
     addr_endpoint = 0\<rparr>"

definition address_source_id :: "gp_address \<Rightarrow> u32" where
  "address_source_id a = (let i = gpdIeeeAddress a in quad_u8_to_u32 (i ! 3) (i ! 2) (i ! 1) (i ! 0))"

definition gp_address_raw :: "gp_address \<Rightarrow> byte_buffer" where
  "gp_address_raw a = [addr_applicationId a] @ gpdIeeeAddress a @ [addr_endpoint a]"

text \<open>\<open>EmberEUI64\<close> is an array of eight bytes.\<close>

definition gp_address_valid :: "gp_address \<Rightarrow> bool" where
  "gp_address_valid a \<longleftrightarrow> length (gpdIeeeAddress a) = 8"

section \<open>Sink table entries\<close>

record sink_table_entry =
  ste_status :: u8
  ste_options :: sink_option
  ste_gpd :: gp_address
  ste_device_id :: u8
  ste_sink_list :: "byte_buffer list"
  ste_assigned_alias :: u16
  ste_groupcast_radius :: u8
  ste_security_options :: u8
  ste_frame_counter :: u32
  ste_gpd_key :: byte_buffer

definition new_sink_table_entry :: sink_table_entry where
  "new_sink_table_entry =
     \<lparr>ste_status = 0xFF, ste_options = new_sink_option, ste_gpd = new_gp_address,
      ste_device_id = 0, ste_sink_list = [[0xFF], [0xFF]], ste_assigned_alias = 0,
      ste_groupcast_radius = 0, ste_security_options = 0, ste_frame_counter = 0,
      ste_gpd_key = replicate 16 0\<rparr>"

definition parse_sink_table_entry :: "byte_buffer \<Rightarrow> sink_table_entry result" where
  "parse_sink_table_entry raw =
     bindR (byte_at raw 0) (\<lambda>status.
     bindR (le16_at raw 1) (\<lambda>options.
     bindR (if 3 \<le> length raw then parse_gp_address (drop 3 raw) else Inl Undefined) (\<lambda>gpd.
     bindR (byte_at raw 13) (\<lambda>device_id.
     bindR (le16_at raw 36) (\<lambda>alias.
     bindR (byte_at raw 38) (\<lambda>radius.
     bindR (byte_at raw 39) (\<lambda>security.
     bindR (le32_at raw 40) (\<lambda>counter.
     bindR (bytes_at raw 44 16) (\<lambda>key.
     Inr \<lparr>ste_status = status, ste_options = sink_option_of options, ste_gpd = gpd,
          ste_device_id = device_id, ste_sink_list = [[0xFF], [0xFF]], ste_assigned_alias = alias,
          ste_groupcast_radius = radius, ste_security_options = security,
          ste_frame_counter = counter, ste_gpd_key = key\<rparr>)))))))))"

definition sink_table_entry_of ::
    "u8 \<Rightarrow> sink_option \<Rightarrow> gp_address \<Rightarrow> u8 \<Rightarrow> u16 \<Rightarrow> u8 \<Rightarrow> u32 \<Rightarrow> byte_buffer \<Rightarrow> sink_table_entry" where
  "sink_table_entry_of i_status i_options i_gpd i_device_id i_alias i_security i_counter i_key =
     \<lparr>ste_status = i_status, ste_options = i_options, ste_gpd = i_gpd,
      ste_device_id = i_device_id, ste_sink_list = [[0xFF], [0xFF]], ste_assigned_alias = i_alias,
      ste_groupcast_radius = 0, ste_security_options = i_security,
      ste_frame_counter = i_counter, ste_gpd_key = i_key\<rparr>"

definition sink_table_entry_raw :: "sink_table_entry \<Rightarrow> byte_buffer" where
  "sink_table_entry_raw e =
     [ste_status e]
     @ le16 (sink_option_get (ste_options e))
     @ gp_address_raw (ste_gpd e)
     @ [ste_device_id e]
     @ concat (ste_sink_list e)
     @ le16 (ste_assigned_alias e)
     @ [ste_groupcast_radius e]
     @ [ste_security_options e]
     @ le32 (ste_frame_counter e)
     @ ste_gpd_key e"

definition ste_getSecurityLevel :: "sink_table_entry \<Rightarrow> u8" where
  "ste_getSecurityLevel e = ste_security_options e AND 0x03"

definition ste_getSecurityKeyType :: "sink_table_entry \<Rightarrow> u8" where
  "ste_getSecurityKeyType e = drop_bit 2 (ste_security_options e) AND 0x07"

definition ste_isActive :: "sink_table_entry \<Rightarrow> bool" where
  "ste_isActive e \<longleftrightarrow> ste_status e = 0x01"

definition ste_setEntryActive :: "bool \<Rightarrow> sink_table_entry \<Rightarrow> sink_table_entry" where
  "ste_setEntryActive i_active e = e\<lparr>ste_status := if i_active then 0x01 else 0xFF\<rparr>"

definition ste_setOptions :: "sink_option \<Rightarrow> sink_table_entry \<Rightarrow> sink_table_entry" where
  "ste_setOptions i_options e = e\<lparr>ste_options := i_options\<rparr>"

definition ste_setGpdAddress :: "gp_address \<Rightarrow> sink_table_entry \<Rightarrow> sink_table_entry" where
  "ste_setGpdAddress i_gpd e = e\<lparr>ste_gpd := i_gpd\<rparr>"

definition ste_setDeviceId :: "u8 \<Rightarrow> sink_table_entry \<Rightarrow> sink_table_entry" where
  "ste_setDeviceId i_device_id e = e\<lparr>ste_device_id := i_device_id\<rparr>"

definition ste_setAlias :: "u16 \<Rightarrow> sink_table_entry \<Rightarrow> sink_table_entry" where
  "ste_setAlias i_alias e = e\<lparr>ste_assigned_alias := i_alias\<rparr>"

definition ste_setSecurityOption :: "u8 \<Rightarrow> sink_table_entry \<Rightarrow> sink_table_entry" where
  "ste_setSecurityOption i_security e = e\<lparr>ste_security_options := i_security\<rparr>"

definition ste_setFrameCounter :: "u32 \<Rightarrow> sink_table_entry \<Rightarrow> sink_table_entry" where
  "ste_setFrameCounter i_counter e = e\<lparr>ste_frame_counter := i_counter\<rparr>"

definition ste_setKey :: "byte_buffer \<Rightarrow> sink_table_entry \<Rightarrow> sink_table_entry" where
  "ste_setKey i_key e = e\<lparr>ste_gpd_key := i_key\<rparr>"

section \<open>Pairing commands\<close>

record pairing_option =
  po_application_id :: u8
  po_add_sink :: bool
  po_remove_gpd :: bool
  po_communication_mode :: u8
  po_gpd_fixed :: bool
  po_mac_seq_number_capability :: bool
  po_security_level :: u8
  po_security_key_type :: u8
  po_frame_counter_present :: bool
  po_key_present :: bool
  po_assigned_alias_present :: bool
  po_forwarding_radius_present :: bool

definition new_pairing_option ::
    "sink_option \<Rightarrow> bool \<Rightarrow> bool \<Rightarrow> u8 \<Rightarrow> u8 \<Rightarrow> bool \<Rightarrow> bool \<Rightarrow> bool \<Rightarrow> pairing_option" where
  "new_pairing_option opt add_sink remove_gpd level key_type counter_present key_present radius_present =
     \<lparr>po_application_id = opt_application_id opt, po_add_sink = add_sink,
      po_remove_gpd = remove_gpd, po_communication_mode = opt_communication_mode opt,
      po_gpd_fixed = opt_fixed_location opt,
      po_mac_seq_number_capability = opt_sequence_number_capabilities opt,
      po_security_level = level, po_security_key_type = key_type,
      po_frame_counter_present = counter_present, po_key_present = key_present,
      po_assigned_alias_present = opt_assigned_alias opt,
      po_forwarding_radius_present = radius_present\<rparr>"

definition pairing_option_get :: "pairing_option \<Rightarrow> u32" where
  "pairing_option_get o' =
     ucast (po_application_id o')
     OR push_bit 3 (of_bool (po_add_sink o'))
     OR push_bit 4 (of_bool (po_remove_gpd o'))
     OR push_bit 5 (ucast (po_communication_mode o'))
     OR push_bit 7 (of_bool (po_gpd_fixed o'))
     OR push_bit 8 (of_bool (po_mac_seq_number_capability o'))
     OR push_bit 9 (ucast (po_security_level o'))
     OR push_bit 11 (ucast (po_security_key_type o'))
     OR push_bit 14 (of_bool (po_frame_counter_present o'))
     OR push_bit 15 (of_bool (po_key_present o'))
     OR push_bit 16 (of_bool (po_assigned_alias_present o'))
     OR push_bit 17 (of_bool (po_forwarding_radius_present o'))"

record gp_pairing =
  gpp_options :: pairing_option
  gpp_addr :: gp_address
  gpp_commMode :: u8
  gpp_sinkNetworkAddress :: u16
  gpp_sinkGroupId :: u16
  gpp_assignedAlias :: u16
  gpp_sinkIeeeAddress :: byte_buffer
  gpp_gpdKey :: byte_buffer
  gpp_frameCounter :: u32
  gpp_forwardingRadius :: u8

text \<open>Pairing with only a source identifier asks the adapter to remove the device.\<close>

definition gp_pairing_remove :: "u32 \<Rightarrow> gp_pairing" where
  "gp_pairing_remove source_id =
     \<lparr>gpp_options = new_pairing_option (sink_option_of 0) False True 0 0 False False False,
      gpp_addr = gp_address_of source_id, gpp_commMode = 0, gpp_sinkNetworkAddress = 0,
      gpp_sinkGroupId = 0, gpp_assignedAlias = 0, gpp_sinkIeeeAddress = replicate 8 0,
      gpp_gpdKey = replicate 16 0, gpp_frameCounter = 0, gpp_forwardingRadius = 0\<rparr>"

definition gp_pairing_of_entry ::
    "sink_table_entry \<Rightarrow> bool \<Rightarrow> bool \<Rightarrow> u16 \<Rightarrow> byte_buffer \<Rightarrow> gp_pairing" where
  "gp_pairing_of_entry e add_sink remove_gpd nwk_address ieee_address =
     \<lparr>gpp_options = new_pairing_option (ste_options e) add_sink remove_gpd
        (ste_getSecurityLevel e) (ste_getSecurityKeyType e) True True True,
      gpp_addr = ste_gpd e, gpp_commMode = opt_communication_mode (ste_options e),
      gpp_sinkNetworkAddress = nwk_address,
      gpp_sinkGroupId = ucast (address_source_id (ste_gpd e) AND 0xFFFF),
      gpp_assignedAlias = ste_assigned_alias e, gpp_sinkIeeeAddress = ieee_address,
      gpp_gpdKey = ste_gpd_key e, gpp_frameCounter = ste_frame_counter e,
      gpp_forwardingRadius = ste_groupcast_radius e\<rparr>"

definition gp_pairing_get :: "gp_pairing \<Rightarrow> byte_buffer" where
  "gp_pairing_get g =
     le32 (pairing_option_get (gpp_options g))
     @ gp_address_raw (gpp_addr g)
     @ [gpp_commMode g]
     @ le16 (gpp_sinkNetworkAddress g)
     @ le16 (gpp_sinkGroupId g)
     @ le16 (gpp_assignedAlias g)
     @ gpp_sinkIeeeAddress g
     @ gpp_gpdKey g
     @ le32 (gpp_frameCounter g)
     @ [gpp_forwardingRadius g]"

section \<open>Network parameters\<close>

record network_parameters =
  np_extend_pan_id :: u64
  np_pan_id :: u16
  np_radio_tx_power :: u8
  np_radio_channel :: u8
  np_join_method :: u8
  np_nwk_manager_id :: u16
  np_nwk_update_id :: u8
  np_channels :: u32

text \<open>\<open>EMBER_USE_MAC_ASSOCIATION\<close> is 0.\<close>

definition new_network_parameters :: network_parameters where
  "new_network_parameters =
     \<lparr>np_extend_pan_id = 0, np_pan_id = 0, np_radio_tx_power = 3, np_radio_channel = 11,
      np_join_method = 0, np_nwk_manager_id = 0, np_nwk_update_id = 0, np_channels = 0\<rparr>"

definition le64_at :: "byte_buffer \<Rightarrow> nat \<Rightarrow> u64 result" where
  "le64_at raw i =
     bindR (byte_at raw i) (\<lambda>b0. bindR (byte_at raw (i + 1)) (\<lambda>b1.
     bindR (byte_at raw (i + 2)) (\<lambda>b2. bindR (byte_at raw (i + 3)) (\<lambda>b3.
     bindR (byte_at raw (i + 4)) (\<lambda>b4. bindR (byte_at raw (i + 5)) (\<lambda>b5.
     bindR (byte_at raw (i + 6)) (\<lambda>b6. bindR (byte_at raw (i + 7)) (\<lambda>b7.
     Inr (ucast b0 OR push_bit 8 (ucast b1) OR push_bit 16 (ucast b2) OR push_bit 24 (ucast b3)
       OR push_bit 32 (ucast b4) OR push_bit 40 (ucast b5) OR push_bit 48 (ucast b6)
       OR push_bit 56 (ucast b7))))))))))"

definition le64 :: "u64 \<Rightarrow> byte_buffer" where
  "le64 w = [ucast (w AND 0xFF), ucast (drop_bit 8 w AND 0xFF), ucast (drop_bit 16 w AND 0xFF),
     ucast (drop_bit 24 w AND 0xFF), ucast (drop_bit 32 w AND 0xFF), ucast (drop_bit 40 w AND 0xFF),
     ucast (drop_bit 48 w AND 0xFF), ucast (drop_bit 56 w AND 0xFF)]"

text \<open>The last field is read without \<open>skip\<close>, as the source has it.\<close>

definition parse_network_parameters :: "byte_buffer \<Rightarrow> nat \<Rightarrow> network_parameters result" where
  "parse_network_parameters raw skip =
     bindR (le64_at raw skip) (\<lambda>extend_pan_id.
     bindR (le16_at raw (8 + skip)) (\<lambda>pan_id.
     bindR (byte_at raw (10 + skip)) (\<lambda>power.
     bindR (byte_at raw (11 + skip)) (\<lambda>channel.
     bindR (byte_at raw (12 + skip)) (\<lambda>join_method.
     bindR (le16_at raw (13 + skip)) (\<lambda>manager_id.
     bindR (byte_at raw (15 + skip)) (\<lambda>update_id.
     bindR (le32_at raw 16) (\<lambda>channels.
     Inr \<lparr>np_extend_pan_id = extend_pan_id, np_pan_id = pan_id, np_radio_tx_power = power,
          np_radio_channel = channel, np_join_method = join_method, np_nwk_manager_id = manager_id,
          np_nwk_update_id = update_id, np_channels = channels\<rparr>))))))))"

definition network_parameters_raw :: "network_parameters \<Rightarrow> byte_buffer" where
  "network_parameters_raw p =
     le64 (np_extend_pan_id p) @ le16 (np_pan_id p) @ [np_radio_tx_power p] @ [np_radio_channel p]
     @ [np_join_method p] @ le16 (np_nwk_manager_id p) @ [np_nwk_update_id p]
     @ le32 (np_channels p)"

record network_parameters_response =
  npr_status :: u8
  npr_node_type :: u8
  npr_parameters :: network_parameters

definition parse_network_parameters_response :: "byte_buffer \<Rightarrow> network_parameters_response result" where
  "parse_network_parameters_response raw =
     bindR (byte_at raw 0) (\<lambda>status.
     bindR (byte_at raw 1) (\<lambda>node_type.
     bindR (parse_network_parameters raw 2) (\<lambda>parameters.
     Inr \<lparr>npr_status = status, npr_node_type = node_type, npr_parameters = parameters\<rparr>)))"

record zigbee_network =
  zn_channel :: u8
  zn_panId :: u16
  zn_extendedPanId :: u64
  zn_allowingJoin :: bool
  zn_stackProfile :: u8
  zn_nwkUpdateId :: u8

text \<open>The loop over \<open>3 + (7 - loop)\<close> shifts the bytes in from the last one.\<close>

fun shift_in :: "u64 \<Rightarrow> byte_buffer \<Rightarrow> u64" where
  "shift_in acc [] = acc"
| "shift_in acc (b # bs) = shift_in (push_bit 8 acc OR ucast b) bs"

definition parse_zigbee_network :: "byte_buffer \<Rightarrow> zigbee_network result" where
  "parse_zigbee_network raw =
     bindR (byte_at raw 0) (\<lambda>channel.
     bindR (le16_at raw 1) (\<lambda>panId.
     bindR (byte_at raw 11) (\<lambda>join.
     bindR (byte_at raw 12) (\<lambda>profile.
     bindR (byte_at raw 13) (\<lambda>update_id.
     bindR (bytes_at raw 3 8) (\<lambda>bs.
     Inr \<lparr>zn_channel = channel, zn_panId = panId, zn_extendedPanId = shift_in 0 (rev bs),
          zn_allowingJoin = (join \<noteq> 0), zn_stackProfile = profile,
          zn_nwkUpdateId = update_id\<rparr>))))))"

section \<open>Keys, children and proxy table entries\<close>

record key_struct =
  ks_bitmask :: u16
  ks_type :: u8
  ks_key :: byte_buffer
  ks_outgoingFrameCounter :: u32
  ks_incomingFrameCounter :: u32
  ks_sequenceNumber :: u8
  ks_partnerEUI64 :: byte_buffer

definition parse_key_struct :: "byte_buffer \<Rightarrow> key_struct result" where
  "parse_key_struct raw =
     bindR (le16_at raw 0) (\<lambda>bitmask.
     bindR (byte_at raw 2) (\<lambda>type.
     bindR (le32_at raw 19) (\<lambda>outgoing.
     bindR (le32_at raw 23) (\<lambda>incoming.
     bindR (byte_at raw 27) (\<lambda>seq.
     bindR (bytes_at raw 3 16) (\<lambda>key.
     bindR (bytes_at raw 28 8) (\<lambda>partner.
     Inr \<lparr>ks_bitmask = bitmask, ks_type = type, ks_key = key, ks_outgoingFrameCounter = outgoing,
          ks_incomingFrameCounter = incoming, ks_sequenceNumber = seq,
          ks_partnerEUI64 = partner\<rparr>)))))))"

record child_data =
  cd_eui64 :: byte_buffer
  cd_type :: u8
  cd_id :: u16
  cd_phy :: u8
  cd_power :: u8
  cd_timeout :: u8

definition parse_child_data :: "byte_buffer \<Rightarrow> child_data result" where
  "parse_child_data raw =
     bindR (byte_at raw 8) (\<lambda>type.
     bindR (le16_at raw (8 + 1)) (\<lambda>nid.
     bindR (byte_at raw (8 + 3)) (\<lambda>phy.
     bindR (byte_at raw (8 + 4)) (\<lambda>power.
     bindR (byte_at raw (8 + 5)) (\<lambda>timeout.
     bindR (bytes_at raw 0 8) (\<lambda>eui64.
     Inr \<lparr>cd_eui64 = eui64, cd_type = type, cd_id = nid, cd_phy = phy, cd_power = power,
          cd_timeout = timeout\<rparr>))))))"

record proxy_table_entry =
  pte_status :: u8
  pte_options :: u32
  pte_gpd :: gp_address
  pte_assigned_alias :: u16
  pte_security_options :: u8
  pte_frame_counter :: u32
  pte_gpd_key :: byte_buffer
  pte_groupcast_radius :: u8
  pte_search_counter :: u8

definition parse_proxy_table_entry :: "byte_buffer \<Rightarrow> proxy_table_entry result" where
  "parse_proxy_table_entry raw =
     bindR (byte_at raw 0) (\<lambda>status.
     bindR (le32_at raw 1) (\<lambda>options.
     bindR (if 5 \<le> length raw then parse_gp_address (drop 5 raw) else Inl Undefined) (\<lambda>gpd.
     bindR (le16_at raw 15) (\<lambda>alias.
     bindR (byte_at raw 17) (\<lambda>security.
     bindR (le32_at raw 18) (\<lambda>counter.
     bindR (byte_at raw 60) (\<lambda>radius.
     bindR (byte_at raw 61) (\<lambda>search.
     bindR (bytes_at raw 22 16) (\<lambda>key.
     Inr \<lparr>pte_status = status, pte_options = options, pte_gpd = gpd, pte_assigned_alias = alias,
          pte_security_options = security, pte_frame_counter = counter, pte_gpd_key = key,
          pte_groupcast_radius = radius, pte_search_counter = search\<rparr>)))))))))"

section \<open>Lemmas on bits\<close>

lemma and_bit_16:
  fixes w :: u16
  shows "w AND 0x20 \<noteq> 0 \<longleftrightarrow> bit w 5" "w AND 0x40 \<noteq> 0 \<longleftrightarrow> bit w 6" "w AND 0x80 \<noteq> 0 \<longleftrightarrow> bit w 7"
    "w AND 0x100 \<noteq> 0 \<longleftrightarrow> bit w 8" "w AND 0x200 \<noteq> 0 \<longleftrightarrow> bit w 9" "w AND 0x400 \<noteq> 0 \<longleftrightarrow> bit w 10"
    "w AND 0x800 \<noteq> 0 \<longleftrightarrow> bit w 11" "w AND 0x1000 \<noteq> 0 \<longleftrightarrow> bit w 12" "w AND 0x4000 \<noteq> 0 \<longleftrightarrow> bit w 14"
    "w AND 0x8000 \<noteq> 0 \<longleftrightarrow> bit w 15"
  using and_exp_eq_0_iff_not_bit [of w 5] and_exp_eq_0_iff_not_bit [of w 6]
    and_exp_eq_0_iff_not_bit [of w 7] and_exp_eq_0_iff_not_bit [of w 8]
    and_exp_eq_0_iff_not_bit [of w 9] and_exp_eq_0_iff_not_bit [of w 10]
    and_exp_eq_0_iff_not_bit [of w 11] and_exp_eq_0_iff_not_bit [of w 12]
    and_exp_eq_0_iff_not_bit [of w 14] and_exp_eq_0_iff_not_bit [of w 15]
  by simp_all

lemma small_u8:
  fixes x :: u8
  shows "x < 8 \<longleftrightarrow> take_bit 3 x = x" "x < 4 \<longleftrightarrow> take_bit 2 x = x"
  by (simp_all add: word_less_nat_alt word_unat_eq_iff unsigned_take_bit_eq take_bit_nat_eq_self_iff)

lemma and_masks:
  "x AND 7 = take_bit 3 (x :: 'a::len word)" "x AND 3 = take_bit 2 x"
  "w AND 0x3FF = take_bit 10 (w :: u16)"
  by (simp_all add: take_bit_eq_mask mask_eq_exp_minus_1)

lemma u16_bit_cases:
  assumes "n < LENGTH(16)"
  obtains "n = 0" | "n = 1" | "n = 2" | "n = 3" | "n = 4" | "n = 5" | "n = 6" | "n = 7" | "n = 8"
    | "n = 9" | "n = 10" | "n = 11" | "n = 12" | "n = 13" | "n = 14" | "n = 15"
  using assms by (auto simp: less_Suc_eq eval_nat_numeral)

lemma bit_take_bit_eq: "take_bit k x = (x :: u8) \<Longrightarrow> bit x n \<Longrightarrow> n < k"
  by (metis bit_take_bit_iff)

lemma sink_option_pack_unpack: "sink_option_get (sink_option_of w) = w AND 0x3FF"
proof (rule bit_word_eqI)
  fix n :: nat assume "n < LENGTH(16)"
  then show "bit (sink_option_get (sink_option_of w)) n = bit (w AND 0x3FF) n"
    by (cases rule: u16_bit_cases)
      (simp_all add: sink_option_get_def sink_option_of_def and_masks and_bit_16 bit_simps)
qed

lemma sink_option_unpack_pack:
  assumes "sink_option_valid opt"
  shows "sink_option_of (sink_option_get opt) = opt"
proof -
  have v: "take_bit 3 (opt_application_id opt) = opt_application_id opt"
    "take_bit 2 (opt_communication_mode opt) = opt_communication_mode opt"
    using assms by (simp_all add: sink_option_valid_def small_u8)
  note b = bit_take_bit_eq [OF v(1)] bit_take_bit_eq [OF v(2)]
  have "ucast (sink_option_get opt AND 7) = opt_application_id opt"
    unfolding and_masks
    by (rule bit_word_eqI) (auto simp: sink_option_get_def bit_simps dest: b)
  moreover have "ucast (drop_bit 3 (sink_option_get opt)) AND 3 = opt_communication_mode opt"
    unfolding and_masks
    by (rule bit_word_eqI) (auto simp: sink_option_get_def bit_simps dest: b)
  moreover have "bit (sink_option_get opt) 5 = opt_sequence_number_capabilities opt"
    "bit (sink_option_get opt) 6 = opt_rx_on_capability opt"
    "bit (sink_option_get opt) 7 = opt_fixed_location opt"
    "bit (sink_option_get opt) 8 = opt_assigned_alias opt"
    "bit (sink_option_get opt) 9 = opt_security_use opt"
    by (auto simp: sink_option_get_def bit_simps dest: b)
  ultimately show ?thesis
    by (simp add: sink_option_of_def and_bit_16)
qed

interpretation sink_option_bits: bit_field sink_option_get sink_option_of sink_option_valid "0x3FF"
proof
  show "sink_option_valid (sink_option_of w)" for w
    unfolding sink_option_valid_def sink_option_of_def small_u8 sink_option.simps and_masks
    by (auto intro!: bit_word_eqI simp: bit_simps)
qed (simp_all add: sink_option_unpack_pack sink_option_pack_unpack)

section \<open>Fixed-size structures\<close>

interpretation gp_address: wire_format gp_address_raw parse_gp_address gp_address_valid 10
  by unfold_locales
    (auto simp: gp_address_raw_def parse_gp_address_def gp_address_valid_def read_simps nth_append)

lemma source_id_of_address [simp]: "address_source_id (gp_address_of s) = s"
  by (simp add: address_source_id_def gp_address_of_def Let_def byte_simps)

lemma gp_address_of_valid [simp]: "gp_address_valid (gp_address_of s)"
  by (simp add: gp_address_valid_def gp_address_of_def)

lemma length_le64 [simp]: "length (le64 w) = 8"
  by (simp add: le64_def)

lemma le64_at_eq:
  "le64_at raw i = (if i + 7 < length raw then
     Inr (ucast (raw ! i) OR push_bit 8 (ucast (raw ! (i + 1))) OR push_bit 16 (ucast (raw ! (i + 2)))
       OR push_bit 24 (ucast (raw ! (i + 3))) OR push_bit 32 (ucast (raw ! (i + 4)))
       OR push_bit 40 (ucast (raw ! (i + 5))) OR push_bit 48 (ucast (raw ! (i + 6)))
       OR push_bit 56 (ucast (raw ! (i + 7))))
     else Inl OutOfRange)"
  by (auto simp: le64_at_def bindR_at)

lemma le64_at_bytes:
  "le64_at ([b0, b1, b2, b3, b4, b5, b6, b7] @ r) 0 =
     Inr (ucast b0 OR push_bit 8 (ucast b1) OR push_bit 16 (ucast b2) OR push_bit 24 (ucast b3)
       OR push_bit 32 (ucast b4) OR push_bit 40 (ucast b5) OR push_bit 48 (ucast b6)
       OR push_bit 56 (ucast b7))"
  by (simp add: le64_at_eq)

lemma ucast_byte: "ucast (ucast (x AND 0xFF :: u64) :: u8) = take_bit 8 x"
proof -
  have "x AND 0xFF = take_bit 8 x" by (simp add: take_bit_eq_mask mask_eq_exp_minus_1)
  then show ?thesis by (simp only:) (rule bit_word_eqI, auto simp: bit_simps)
qed

lemma take_bit_byte:
  "take_bit n w OR push_bit n (take_bit 8 (drop_bit n w)) = take_bit (n + 8) (w :: u64)"
  by (rule bit_word_eqI) (auto simp: bit_simps)

lemma le64_written [simp]: "le64_at (le64 w @ r) 0 = Inr w"
proof -
  have "take_bit 64 w = w" by (rule bit_word_eqI) (simp add: bit_simps)
  then have "take_bit 8 w OR push_bit 8 (take_bit 8 (drop_bit 8 w))
      OR push_bit 16 (take_bit 8 (drop_bit 16 w)) OR push_bit 24 (take_bit 8 (drop_bit 24 w))
      OR push_bit 32 (take_bit 8 (drop_bit 32 w)) OR push_bit 40 (take_bit 8 (drop_bit 40 w))
      OR push_bit 48 (take_bit 8 (drop_bit 48 w)) OR push_bit 56 (take_bit 8 (drop_bit 56 w)) = w"
    using take_bit_byte [of 8 w] take_bit_byte [of 16 w] take_bit_byte [of 24 w]
      take_bit_byte [of 32 w] take_bit_byte [of 40 w] take_bit_byte [of 48 w]
      take_bit_byte [of 56 w]
    by (simp add: or.assoc [symmetric])
  then show ?thesis
    by (simp only: le64_def le64_at_bytes ucast_byte)
qed

lemma le64_at_append: "length a \<le> i \<Longrightarrow> le64_at (a @ b) i = le64_at b (i - length a)"
  by (auto simp: le64_at_eq nth_append Suc_diff_le)

text \<open>Reads of a structure through everything written before, from the front.\<close>

lemma read_Cons:
  assumes "0 < i"
  shows "byte_at (b # r) i = byte_at r (i - 1)" "le16_at (b # r) i = le16_at r (i - 1)"
    "le32_at (b # r) i = le32_at r (i - 1)" "bytes_at (b # r) i n = bytes_at r (i - 1) n"
    "le64_at (b # r) i = le64_at r (i - 1)"
  using assms read_append [of "[b]" i r] le64_at_append [of "[b]" i r] by simp_all

lemmas struct_reads = read_append le64_at_append read_Cons

lemma network_parameters_written:
  "parse_network_parameters (network_parameters_raw p @ rest) 0 = Inr p"
  by (simp add: parse_network_parameters_def network_parameters_raw_def struct_reads nth_append)

lemma parse_network_parameters_short:
  "length raw < 20 \<Longrightarrow> parse_network_parameters raw 0 = Inl OutOfRange"
  by (auto simp: parse_network_parameters_def read_simps le64_at_eq)

interpretation network_parameters:
  wire_format network_parameters_raw "\<lambda>raw. parse_network_parameters raw 0" "\<lambda>p. True" 20
  by unfold_locales
    (simp_all add: network_parameters_written parse_network_parameters_short,
      simp add: network_parameters_raw_def)

lemma length_gp_address_raw [simp]:
  "gp_address_valid a \<Longrightarrow> length (gp_address_raw a) = 10"
  by (rule gp_address.length_put)

lemma parse_gp_address_eq:
  "parse_gp_address raw = (if 10 \<le> length raw
     then Inr \<lparr>addr_applicationId = raw ! 0, gpdIeeeAddress = take 8 (drop 1 raw),
            addr_endpoint = raw ! 9\<rparr>
     else Inl OutOfRange)"
  by (auto simp: parse_gp_address_def read_simps)

text \<open>A decoder which needs \<open>n\<close> bytes and throws without them.\<close>

definition needs :: "nat \<Rightarrow> (byte_buffer \<Rightarrow> 'a result) \<Rightarrow> bool" where
  "needs n get \<longleftrightarrow> (\<forall>raw. get raw = Inl OutOfRange \<and> length raw < n
                      \<or> (\<exists>x. get raw = Inr x) \<and> n \<le> length raw)"

lemma needs_shortD: "needs n get \<Longrightarrow> length raw < n \<Longrightarrow> get raw = Inl OutOfRange"
  unfolding needs_def by (metis linorder_not_less)

lemma needs_gp_address: "needs 10 parse_gp_address"
  by (auto simp: needs_def parse_gp_address_eq)

lemma needs_sink_table_entry: "needs 60 parse_sink_table_entry"
  by (auto simp: needs_def parse_sink_table_entry_def parse_gp_address_eq read_simps)

lemma needs_proxy_table_entry: "needs 62 parse_proxy_table_entry"
  by (auto simp: needs_def parse_proxy_table_entry_def parse_gp_address_eq read_simps)

lemma needs_key_struct: "needs 36 parse_key_struct"
  by (auto simp: needs_def parse_key_struct_def read_simps)

lemma needs_child_data: "needs 14 parse_child_data"
  by (auto simp: needs_def parse_child_data_def read_simps)

lemma needs_zigbee_network: "needs 14 parse_zigbee_network"
  by (auto simp: needs_def parse_zigbee_network_def read_simps)

lemma needs_network_parameters_response: "needs 20 parse_network_parameters_response"
  by (auto simp: needs_def parse_network_parameters_response_def parse_network_parameters_def
      le64_at_eq read_simps)

lemma network_parameters_response_20:
  assumes "length raw = 20"
  shows "\<exists>r. parse_network_parameters_response raw = Inr r
    \<and> np_channels (npr_parameters r) = quad_u8_to_u32 (raw ! 19) (raw ! 18) (raw ! 17) (raw ! 16)"
  using assms
  by (simp add: parse_network_parameters_response_def parse_network_parameters_def
      le64_at_eq read_simps)

lemma take8_drop:
  "n + 8 \<le> length k \<Longrightarrow> take 8 (drop n k) = [k ! n, k ! (n + 1), k ! (n + 2), k ! (n + 3),
     k ! (n + 4), k ! (n + 5), k ! (n + 6), k ! (n + 7)]"
  by (rule nth_equalityI) (auto simp: less_Suc_eq numeral_eq_Suc nth_Cons split: nat.splits)

lemma shift_in_bytes:
  "shift_in 0 [b7, b6, b5, b4, b3, b2, b1, b0] =
     ucast b0 OR push_bit 8 (ucast b1) OR push_bit 16 (ucast b2) OR push_bit 24 (ucast b3)
       OR push_bit 32 (ucast b4) OR push_bit 40 (ucast b5) OR push_bit 48 (ucast b6)
       OR push_bit 56 (ucast b7)"
  by (simp add: push_bit_or push_bit_push_bit or.assoc or.commute or.left_commute)

section \<open>Properties\<close>



text \<open>Every decoder of a received structure succeeds exactly on buffers of its size or longer
  and throws on shorter ones, with no other failure. The decoder of the network parameters
  response is content with 20 bytes, two less than its fields take, because it reads the channel
  mask two bytes early.\<close>

theorem ember_decoders_need:
  "needs 10 parse_gp_address \<and> needs 60 parse_sink_table_entry \<and> needs 62 parse_proxy_table_entry
   \<and> needs 36 parse_key_struct \<and> needs 14 parse_child_data \<and> needs 14 parse_zigbee_network
   \<and> needs 20 parse_network_parameters_response"
  by (intro conjI needs_gp_address needs_sink_table_entry needs_proxy_table_entry needs_key_struct
      needs_child_data needs_zigbee_network needs_network_parameters_response)

text \<open>The channel mask inside a network parameters response is taken from bytes 16 to 19, the
  update identifier and manager identifier of the network among them: a response that carries the
  written parameters behind its two status bytes is decoded with all fields right except the
  channel mask, which comes out as a mixture.\<close>

theorem network_response_channels_shifted:
  "parse_network_parameters_response ([status, node_type] @ network_parameters_raw p)
     = Inr \<lparr>npr_status = status, npr_node_type = node_type,
           npr_parameters = p\<lparr>np_channels :=
             quad_u8_to_u32 (u32_get_byte1 (np_channels p)) (u32_get_byte0 (np_channels p))
               (np_nwk_update_id p) (u16_get_hi_u8 (np_nwk_manager_id p))\<rparr>\<rparr>"
  unfolding parse_network_parameters_response_def
  by (simp add: parse_network_parameters_def network_parameters_raw_def struct_reads nth_append)
    (simp add: le16_def le32_def le32_at_eq)

text \<open>The extended network identifier in a scan result is the same little-endian integer as in
  the network parameters, the reversed loop of the scan decoder notwithstanding.\<close>

theorem scan_pan_id_little_endian:
  assumes "parse_zigbee_network raw = Inr z"
  shows "le64_at raw 3 = Inr (zn_extendedPanId z)"
  using assms
  by (auto simp: parse_zigbee_network_def bytes_at_eq le64_at_eq take8_drop shift_in_bytes
      simp del: shift_in.simps split: if_splits)

theorem scan_pan_id_little_endian_witness:
  "le64_at [11, 0x34, 0x12, 1, 2, 3, 4, 5, 6, 7, 8, 1, 2, 0] 3 = Inr 0x0807060504030201
   \<and> parse_zigbee_network [11, 0x34, 0x12, 1, 2, 3, 4, 5, 6, 7, 8, 1, 2, 0]
       = Inr \<lparr>zn_channel = 11, zn_panId = 0x1234, zn_extendedPanId = 0x0807060504030201,
              zn_allowingJoin = True, zn_stackProfile = 2, zn_nwkUpdateId = 0\<rparr>"
proof -
  have p: "parse_zigbee_network [11, 0x34, 0x12, 1, 2, 3, 4, 5, 6, 7, 8, 1, 2, 0]
       = Inr \<lparr>zn_channel = 11, zn_panId = 0x1234, zn_extendedPanId = 0x0807060504030201,
              zn_allowingJoin = True, zn_stackProfile = 2, zn_nwkUpdateId = 0\<rparr>"
    by code_simp
  show ?thesis
    using scan_pan_id_little_endian [OF p] p by simp
qed

text \<open>A sink table entry, whether made by the host or read before, is written with 40 bytes and cannot be read back by its own
  decoder, which wants the 60 bytes of the adapter's format.\<close>

theorem sink_entry_formats_differ:
  assumes "gp_address_valid (ste_gpd e)" "length (ste_gpd_key e) = 16"
    and "ste_sink_list e = [[0xFF], [0xFF]]"
  shows "length (sink_table_entry_raw e) = 40
    \<and> parse_sink_table_entry (sink_table_entry_raw e) = Inl OutOfRange"
proof
  show l: "length (sink_table_entry_raw e) = 40"
    using assms by (simp add: sink_table_entry_raw_def)
  show "parse_sink_table_entry (sink_table_entry_raw e) = Inl OutOfRange"
    by (rule needs_shortD [OF needs_sink_table_entry]) (simp add: l)
qed

theorem sink_entry_formats_differ_witness:
  "length (sink_table_entry_raw new_sink_table_entry) = 40"
  by (rule sink_entry_formats_differ [THEN conjunct1])
    (simp_all add: new_sink_table_entry_def gp_address_valid_def new_gp_address_def)

end
