(* ===== verification/ZigbeeMsg.thy ===== *)
theory ZigbeeMsg
  imports EmberStructs
begin

text \<open>
  Zigbee messages: \<open>zbmessage/apsoption.cpp\<close>, \<open>aps.cpp\<close>, \<open>zclframecontrol.cpp\<close>,
  \<open>zclheader.cpp\<close> and \<open>zigbee-message.cpp\<close>. The APS header is always eleven bytes, the ZCL
  header three or five as its frame control byte says, and a message is a ZCL header (none for
  ZDO messages) followed by a payload.

  Frame type and software code are kept as the bits which the \<open>static_cast\<close> of the source
  stores in the enumeration.
\<close>

section \<open>APS option and header\<close>

record aps_option =
  apo_dest_ieee :: bool
  apo_enable_addr_discovery :: bool
  apo_enable_route_discovery :: bool
  apo_encryption :: bool
  apo_force_route_discovery :: bool
  apo_fragment :: bool
  apo_retry :: bool
  apo_src_ieee :: bool
  apo_zdo_rsp_requiered :: bool

definition new_aps_option :: aps_option where
  "new_aps_option =
     \<lparr>apo_dest_ieee = False, apo_enable_addr_discovery = True, apo_enable_route_discovery = True,
      apo_encryption = False, apo_force_route_discovery = False, apo_fragment = False,
      apo_retry = True, apo_src_ieee = True, apo_zdo_rsp_requiered = False\<rparr>"

definition GetEmberApsOption :: "aps_option \<Rightarrow> u16" where
  "GetEmberApsOption o' =
     (let opt = 0;
          opt = (if apo_encryption o' then opt OR 0x0020 else opt);
          opt = (if apo_retry o' then opt OR 0x0040 else opt);
          opt = (if apo_enable_route_discovery o' then opt OR 0x0100 else opt);
          opt = (if apo_force_route_discovery o' then opt OR 0x0200 else opt);
          opt = (if apo_src_ieee o' then opt OR 0x0400 else opt);
          opt = (if apo_dest_ieee o' then opt OR 0x0800 else opt);
          opt = (if apo_enable_addr_discovery o' then opt OR 0x1000 else opt);
          opt = (if apo_zdo_rsp_requiered o' then opt OR 0x4000 else opt);
          opt = (if apo_fragment o' then opt OR 0x8000 else opt)
      in opt)"

definition SetEmberApsOption :: "u16 \<Rightarrow> aps_option" where
  "SetEmberApsOption i_option =
     \<lparr>apo_dest_ieee = (0 \<noteq> i_option AND 0x0800),
      apo_enable_addr_discovery = (0 \<noteq> i_option AND 0x1000),
      apo_enable_route_discovery = (0 \<noteq> i_option AND 0x0100),
      apo_encryption = (0 \<noteq> i_option AND 0x0020),
      apo_force_route_discovery = (0 \<noteq> i_option AND 0x0200),
      apo_fragment = (0 \<noteq> i_option AND 0x8000),
      apo_retry = (0 \<noteq> i_option AND 0x0040),
      apo_src_ieee = (0 \<noteq> i_option AND 0x0400),
      apo_zdo_rsp_requiered = (0 \<noteq> i_option AND 0x4000)\<rparr>"

record aps_frame =
  aps_cluster_id :: u16
  aps_dest_ep :: u8
  aps_group_id :: u16
  aps_opt :: aps_option
  aps_profile_id :: u16
  aps_sequence :: u8
  aps_src_ep :: u8

definition new_aps_frame :: aps_frame where
  "new_aps_frame = \<lparr>aps_cluster_id = 0, aps_dest_ep = 0, aps_group_id = 0,
     aps_opt = new_aps_option, aps_profile_id = 0, aps_sequence = 0, aps_src_ep = 0\<rparr>"

definition SetDefaultAPS :: "u16 \<Rightarrow> u16 \<Rightarrow> u8 \<Rightarrow> u16 \<Rightarrow> aps_frame \<Rightarrow> aps_frame" where
  "SetDefaultAPS i_profile_id i_cluster_id i_dest_ep i_grp_id a =
     a\<lparr>aps_profile_id := i_profile_id, aps_cluster_id := i_cluster_id, aps_dest_ep := i_dest_ep,
       aps_group_id := i_grp_id, aps_sequence := 0, aps_src_ep := 1\<rparr>"

definition APS_SIZE :: nat where "APS_SIZE = 11"

definition GetEmberAPS :: "aps_frame \<Rightarrow> byte_buffer" where
  "GetEmberAPS a =
     le16 (aps_profile_id a) @ le16 (aps_cluster_id a) @ [aps_src_ep a] @ [aps_dest_ep a]
     @ le16 (GetEmberApsOption (aps_opt a)) @ le16 (aps_group_id a) @ [aps_sequence a]"

definition SetEmberAPS :: "byte_buffer \<Rightarrow> aps_frame result" where
  "SetEmberAPS i_data =
     bindR (le16_at i_data 0) (\<lambda>profile_id.
     bindR (le16_at i_data 2) (\<lambda>cluster_id.
     bindR (byte_at i_data 4) (\<lambda>src_ep.
     bindR (byte_at i_data 5) (\<lambda>dest_ep.
     bindR (le16_at i_data 6) (\<lambda>opt.
     bindR (le16_at i_data 8) (\<lambda>group_id.
     bindR (byte_at i_data 10) (\<lambda>sequence.
     Inr \<lparr>aps_cluster_id = cluster_id, aps_dest_ep = dest_ep, aps_group_id = group_id,
          aps_opt = SetEmberApsOption opt, aps_profile_id = profile_id,
          aps_sequence = sequence, aps_src_ep = src_ep\<rparr>)))))))"

section \<open>ZCL frame control and header\<close>

datatype zcl_direction = E_DIR_CLIENT_TO_SERVER | E_DIR_SERVER_TO_CLIENT

definition E_FRM_TYPE_GENERAL :: u8 where "E_FRM_TYPE_GENERAL = 0"
definition E_FRM_TYPE_SPECIFIC :: u8 where "E_FRM_TYPE_SPECIFIC = 1"
definition E_SW_CODE_SHORT :: u8 where "E_SW_CODE_SHORT = 0"
definition E_SW_CODE_EVO2 :: u8 where "E_SW_CODE_EVO2 = 1"

record zcl_frame_control =
  zfc_frame_type :: u8
  zfc_manufacturer_code_present :: bool
  zfc_direction :: zcl_direction
  zfc_disable_default_rsp :: bool
  zfc_software_code :: u8

definition new_zcl_frame_control :: zcl_frame_control where
  "new_zcl_frame_control =
     \<lparr>zfc_frame_type = E_FRM_TYPE_SPECIFIC, zfc_manufacturer_code_present = True,
      zfc_direction = E_DIR_CLIENT_TO_SERVER, zfc_disable_default_rsp = True,
      zfc_software_code = E_SW_CODE_SHORT\<rparr>"

definition zcl_frame_control_of :: "u8 \<Rightarrow> zcl_frame_control" where
  "zcl_frame_control_of i_byte =
     \<lparr>zfc_frame_type = i_byte AND 0x03,
      zfc_manufacturer_code_present = (drop_bit 2 i_byte AND 0x01 \<noteq> 0),
      zfc_direction = (if drop_bit 3 i_byte AND 0x01 = 0
                       then E_DIR_CLIENT_TO_SERVER else E_DIR_SERVER_TO_CLIENT),
      zfc_disable_default_rsp = (drop_bit 4 i_byte AND 0x01 \<noteq> 0),
      zfc_software_code = drop_bit 5 i_byte AND 0x07\<rparr>"

definition GetFrmCtrlByte :: "zcl_frame_control \<Rightarrow> u8" where
  "GetFrmCtrlByte f =
     (let b = zfc_frame_type f AND 0x03;
          b = (if zfc_manufacturer_code_present f then b OR 0x04 else b);
          b = (if zfc_direction f = E_DIR_SERVER_TO_CLIENT then b OR 0x08 else b);
          b = (if zfc_disable_default_rsp f then b OR 0x10 else b);
          b = (if zfc_software_code f = E_SW_CODE_EVO2 then b OR 0x20 else b)
      in b)"

definition LG_MAN_CODE :: u16 where "LG_MAN_CODE = 0x1021"

record zcl_header =
  zh_frm_ctrl :: zcl_frame_control
  zh_manufacturer_code :: u16
  zh_transaction_number :: u8
  zh_cmd_id :: u8

definition new_zcl_header :: zcl_header where
  "new_zcl_header = \<lparr>zh_frm_ctrl = new_zcl_frame_control, zh_manufacturer_code = LG_MAN_CODE,
     zh_transaction_number = 0, zh_cmd_id = 0\<rparr>"

text \<open>The constructor from bytes also sets the index behind the header.\<close>

definition parse_zcl_header :: "byte_buffer \<Rightarrow> (zcl_header \<times> nat) result" where
  "parse_zcl_header i_data =
     bindR (byte_at i_data 0) (\<lambda>b.
       let frm_ctrl = zcl_frame_control_of b; present = zfc_manufacturer_code_present frm_ctrl in
       bindR (if present then le16_at i_data 1 else Inr 0) (\<lambda>man.
       bindR (if present then byte_at i_data 3 else byte_at i_data 1) (\<lambda>transaction.
       bindR (if present then byte_at i_data 4 else byte_at i_data 2) (\<lambda>cmd.
       Inr (\<lparr>zh_frm_ctrl = frm_ctrl, zh_manufacturer_code = man,
             zh_transaction_number = transaction, zh_cmd_id = cmd\<rparr>,
            if present then 5 else 3)))))"

definition SetMSPSpecific :: "u16 \<Rightarrow> u8 \<Rightarrow> zcl_direction \<Rightarrow> u8 \<Rightarrow> zcl_header \<Rightarrow> zcl_header" where
  "SetMSPSpecific i_profile_id i_cmd_id i_direction i_transaction h =
     h\<lparr>zh_cmd_id := i_cmd_id,
       zh_frm_ctrl := (zh_frm_ctrl h)\<lparr>zfc_direction := i_direction\<rparr>,
       zh_transaction_number := i_transaction\<rparr>"

definition SetMSPGeneral :: "u16 \<Rightarrow> u8 \<Rightarrow> zcl_direction \<Rightarrow> u8 \<Rightarrow> zcl_header \<Rightarrow> zcl_header" where
  "SetMSPGeneral i_profile_id i_cmd_id i_direction i_transaction h =
     h\<lparr>zh_cmd_id := i_cmd_id,
       zh_frm_ctrl := (zh_frm_ctrl h)\<lparr>zfc_direction := i_direction,
                                     zfc_frame_type := E_FRM_TYPE_GENERAL\<rparr>,
       zh_transaction_number := i_transaction\<rparr>"

text \<open>The presence bit is cleared for the code 0xFFFF and never set again.\<close>

definition set_manufacturer :: "u16 \<Rightarrow> zcl_header \<Rightarrow> zcl_header" where
  "set_manufacturer i_manufacturer_id h =
     (let h = (if i_manufacturer_id = 0xFFFF
               then h\<lparr>zh_frm_ctrl := (zh_frm_ctrl h)\<lparr>zfc_manufacturer_code_present := False\<rparr>\<rparr>
               else h)
      in h\<lparr>zh_manufacturer_code := i_manufacturer_id\<rparr>)"

definition SetPublicSpecific :: "u16 \<Rightarrow> u8 \<Rightarrow> zcl_direction \<Rightarrow> u8 \<Rightarrow> zcl_header \<Rightarrow> zcl_header" where
  "SetPublicSpecific i_manufacturer_id i_cmd_id i_direction i_transaction h =
     set_manufacturer i_manufacturer_id
       (h\<lparr>zh_cmd_id := i_cmd_id,
          zh_frm_ctrl := (zh_frm_ctrl h)\<lparr>zfc_direction := i_direction\<rparr>,
          zh_transaction_number := i_transaction\<rparr>)"

definition SetPublicGeneral :: "u16 \<Rightarrow> u8 \<Rightarrow> zcl_direction \<Rightarrow> u8 \<Rightarrow> zcl_header \<Rightarrow> zcl_header" where
  "SetPublicGeneral i_manufacturer_id i_cmd_id i_direction i_transaction h =
     set_manufacturer i_manufacturer_id
       (h\<lparr>zh_cmd_id := i_cmd_id,
          zh_frm_ctrl := (zh_frm_ctrl h)\<lparr>zfc_direction := i_direction,
                                        zfc_frame_type := E_FRM_TYPE_GENERAL\<rparr>,
          zh_transaction_number := i_transaction\<rparr>)"

definition GetZCLHeader :: "zcl_header \<Rightarrow> byte_buffer" where
  "GetZCLHeader h =
     [GetFrmCtrlByte (zh_frm_ctrl h)]
     @ (if zfc_manufacturer_code_present (zh_frm_ctrl h) then le16 (zh_manufacturer_code h) else [])
     @ [zh_transaction_number h] @ [zh_cmd_id h]"

section \<open>Messages\<close>

record zigbee_msg =
  zm_aps :: aps_frame
  zm_zcl_header :: zcl_header
  zm_use_zcl_header :: bool
  zm_payload :: byte_buffer

definition new_zigbee_msg :: zigbee_msg where
  "new_zigbee_msg = \<lparr>zm_aps = new_aps_frame, zm_zcl_header = new_zcl_header,
     zm_use_zcl_header = False, zm_payload = []\<rparr>"

definition msg_SetSpecific ::
    "u16 \<Rightarrow> u16 \<Rightarrow> u8 \<Rightarrow> u16 \<Rightarrow> u8 \<Rightarrow> zcl_direction \<Rightarrow> byte_buffer \<Rightarrow> u64 \<Rightarrow> u8 \<Rightarrow> u16
     \<Rightarrow> zigbee_msg \<Rightarrow> zigbee_msg" where
  "msg_SetSpecific profile_id manufacturer endpoint cluster cmd direction payload src_ieee
       transaction grp m =
     m\<lparr>zm_aps := SetDefaultAPS profile_id cluster endpoint grp (zm_aps m),
       zm_zcl_header := SetPublicSpecific manufacturer cmd direction transaction new_zcl_header,
       zm_use_zcl_header := True, zm_payload := payload\<rparr>"

definition msg_SetGeneral ::
    "u16 \<Rightarrow> u16 \<Rightarrow> u8 \<Rightarrow> u16 \<Rightarrow> u8 \<Rightarrow> zcl_direction \<Rightarrow> byte_buffer \<Rightarrow> u64 \<Rightarrow> u8 \<Rightarrow> u16
     \<Rightarrow> zigbee_msg \<Rightarrow> zigbee_msg" where
  "msg_SetGeneral profile_id manufacturer endpoint cluster cmd direction payload src_ieee
       transaction grp m =
     m\<lparr>zm_aps := SetDefaultAPS profile_id cluster endpoint grp (zm_aps m),
       zm_zcl_header := SetPublicGeneral manufacturer cmd direction transaction new_zcl_header,
       zm_use_zcl_header := True, zm_payload := payload\<rparr>"

definition msg_SetZdo :: "u16 \<Rightarrow> byte_buffer \<Rightarrow> u8 \<Rightarrow> zigbee_msg \<Rightarrow> zigbee_msg" where
  "msg_SetZdo cmd payload transaction m =
     m\<lparr>zm_aps := SetDefaultAPS 0x0000 cmd 0x00 0 (zm_aps m),
       zm_zcl_header := new_zcl_header, zm_use_zcl_header := False,
       zm_payload := transaction # payload\<rparr>"

text \<open>
  \<open>Set\<close> appends the bytes behind the header to the payload that is already there. Its loop
  counter is a \<open>uint16_t\<close>, so it never reaches the size of a message longer than 65535.
\<close>

definition msg_Set :: "byte_buffer \<Rightarrow> byte_buffer \<Rightarrow> zigbee_msg \<Rightarrow> zigbee_msg result" where
  "msg_Set i_aps i_msg m =
     bindR (SetEmberAPS i_aps) (\<lambda>aps.
     bindR (if aps_src_ep aps \<noteq> 0
            then bindR (parse_zcl_header i_msg) (\<lambda>(h, l_idx).
                   Inr (m\<lparr>zm_aps := aps, zm_zcl_header := h, zm_use_zcl_header := True\<rparr>, l_idx))
            else Inr (m\<lparr>zm_aps := aps, zm_use_zcl_header := False\<rparr>, 0)) (\<lambda>(m', l_idx).
     if 0xFFFF < length i_msg then Inl Diverges
     else Inr (m'\<lparr>zm_payload := zm_payload m' @ drop l_idx i_msg\<rparr>)))"

definition msg_Get :: "zigbee_msg \<Rightarrow> byte_buffer" where
  "msg_Get m = (if zm_use_zcl_header m then GetZCLHeader (zm_zcl_header m) else []) @ zm_payload m"

section \<open>Lemmas\<close>

lemma aps_option_bits_or:
  "GetEmberApsOption o' =
     push_bit 5 (of_bool (apo_encryption o')) OR push_bit 6 (of_bool (apo_retry o'))
     OR push_bit 8 (of_bool (apo_enable_route_discovery o'))
     OR push_bit 9 (of_bool (apo_force_route_discovery o'))
     OR push_bit 10 (of_bool (apo_src_ieee o')) OR push_bit 11 (of_bool (apo_dest_ieee o'))
     OR push_bit 12 (of_bool (apo_enable_addr_discovery o'))
     OR push_bit 14 (of_bool (apo_zdo_rsp_requiered o')) OR push_bit 15 (of_bool (apo_fragment o'))"
  by (simp add: GetEmberApsOption_def Let_def or.assoc)

lemma aps_option_get_bits:
  "bit (GetEmberApsOption o') 5 = apo_encryption o'"
  "bit (GetEmberApsOption o') 6 = apo_retry o'"
  "bit (GetEmberApsOption o') 8 = apo_enable_route_discovery o'"
  "bit (GetEmberApsOption o') 9 = apo_force_route_discovery o'"
  "bit (GetEmberApsOption o') 10 = apo_src_ieee o'"
  "bit (GetEmberApsOption o') 11 = apo_dest_ieee o'"
  "bit (GetEmberApsOption o') 12 = apo_enable_addr_discovery o'"
  "bit (GetEmberApsOption o') 14 = apo_zdo_rsp_requiered o'"
  "bit (GetEmberApsOption o') 15 = apo_fragment o'"
  by (simp_all add: aps_option_bits_or bit_simps)

lemma aps_option_unpack_pack: "SetEmberApsOption (GetEmberApsOption o') = o'"
  unfolding SetEmberApsOption_def
  by (simp add: and_bit_16 aps_option_get_bits eq_commute [of 0])

interpretation aps_option_bits:
  bit_field GetEmberApsOption SetEmberApsOption "\<lambda>o'. True" "0xDF60"
proof
  fix w :: u16
  have m: "bit (0xDF60 :: u16) n \<longleftrightarrow> n \<in> {5, 6, 8, 9, 10, 11, 12, 14, 15}" if "n < LENGTH(16)" for n
    using that by (cases rule: u16_bit_cases) simp_all
  show "GetEmberApsOption (SetEmberApsOption w) = w AND 0xDF60"
  proof (rule bit_word_eqI)
    fix n :: nat assume n: "n < LENGTH(16)"
    then show "bit (GetEmberApsOption (SetEmberApsOption w)) n = bit (w AND 0xDF60) n"
      unfolding bit_and_iff m [OF n]
      by (cases rule: u16_bit_cases)
        (simp_all add: aps_option_bits_or SetEmberApsOption_def and_bit_16 eq_commute [of 0] bit_simps)
  qed
qed (simp_all add: aps_option_unpack_pack)

lemma SetEmberAPS_written: "SetEmberAPS (GetEmberAPS a @ rest) = Inr a"
  by (simp add: SetEmberAPS_def GetEmberAPS_def struct_reads nth_append aps_option_unpack_pack)

interpretation aps: wire_format GetEmberAPS SetEmberAPS "\<lambda>a. True" APS_SIZE
  by unfold_locales
    (simp_all add: SetEmberAPS_written, simp add: GetEmberAPS_def APS_SIZE_def,
      auto simp: SetEmberAPS_def APS_SIZE_def read_simps)

text \<open>A frame control the byte can carry: known software codes only.\<close>

definition frame_control_valid :: "zcl_frame_control \<Rightarrow> bool" where
  "frame_control_valid f \<longleftrightarrow> zfc_frame_type f < 4
     \<and> (zfc_software_code f = E_SW_CODE_SHORT \<or> zfc_software_code f = E_SW_CODE_EVO2)"

lemma frame_control_bits:
  "GetFrmCtrlByte f =
     take_bit 2 (zfc_frame_type f) OR push_bit 2 (of_bool (zfc_manufacturer_code_present f))
     OR push_bit 3 (of_bool (zfc_direction f = E_DIR_SERVER_TO_CLIENT))
     OR push_bit 4 (of_bool (zfc_disable_default_rsp f))
     OR push_bit 5 (of_bool (zfc_software_code f = E_SW_CODE_EVO2))"
  by (simp add: GetFrmCtrlByte_def Let_def or.assoc and_masks)

lemma frame_control_byte_bits:
  "take_bit 2 (GetFrmCtrlByte f) = take_bit 2 (zfc_frame_type f)"
  "bit (GetFrmCtrlByte f) 2 = zfc_manufacturer_code_present f"
  "bit (GetFrmCtrlByte f) 3 = (zfc_direction f = E_DIR_SERVER_TO_CLIENT)"
  "bit (GetFrmCtrlByte f) 4 = zfc_disable_default_rsp f"
  "drop_bit 5 (GetFrmCtrlByte f) = of_bool (zfc_software_code f = E_SW_CODE_EVO2)"
  by (auto intro!: bit_word_eqI simp: frame_control_bits bit_simps)

lemma drop_and_1: "drop_bit k x AND 1 = (0 :: u8) \<longleftrightarrow> \<not> bit x k"
  by (simp add: and_one_eq bit_iff_odd_drop_bit odd_iff_mod_2_eq_one)

lemma frame_control_roundtrip:
  assumes "frame_control_valid f"
  shows "zcl_frame_control_of (GetFrmCtrlByte f) = f"
proof -
  have "take_bit 2 (zfc_frame_type f) = zfc_frame_type f"
    using assms by (simp add: frame_control_valid_def small_u8)
  then show ?thesis
    using assms unfolding frame_control_valid_def
    by (cases "zfc_direction f")
      (auto simp: zcl_frame_control_of_def and_masks drop_and_1 frame_control_byte_bits
        E_SW_CODE_EVO2_def E_SW_CODE_SHORT_def)
qed

lemma length_GetZCLHeader:
  "length (GetZCLHeader h) = (if zfc_manufacturer_code_present (zh_frm_ctrl h) then 5 else 3)"
  by (simp add: GetZCLHeader_def)

lemma parse_zcl_header_written:
  assumes "frame_control_valid (zh_frm_ctrl h)"
  shows "parse_zcl_header (GetZCLHeader h @ rest) =
    Inr (if zfc_manufacturer_code_present (zh_frm_ctrl h) then h else h\<lparr>zh_manufacturer_code := 0\<rparr>,
         length (GetZCLHeader h))"
  using assms frame_control_roundtrip [OF assms]
  by (simp add: parse_zcl_header_def length_GetZCLHeader Let_def)
    (auto simp: GetZCLHeader_def struct_reads nth_append)

lemma default_frame_control_valid: "frame_control_valid new_zcl_frame_control"
  by (simp add: frame_control_valid_def new_zcl_frame_control_def E_FRM_TYPE_SPECIFIC_def
      E_SW_CODE_SHORT_def)

lemma built_header_valid:
  "frame_control_valid (zh_frm_ctrl (SetPublicSpecific man cmd dir tr new_zcl_header))"
  "frame_control_valid (zh_frm_ctrl (SetPublicGeneral man cmd dir tr new_zcl_header))"
  by (simp_all add: SetPublicSpecific_def SetPublicGeneral_def set_manufacturer_def Let_def
      new_zcl_header_def frame_control_valid_def new_zcl_frame_control_def E_FRM_TYPE_SPECIFIC_def
      E_FRM_TYPE_GENERAL_def E_SW_CODE_SHORT_def)

lemma msg_Set_zcl:
  assumes "zm_use_zcl_header m" "aps_src_ep (zm_aps m) \<noteq> 0"
    and h: "frame_control_valid (zh_frm_ctrl (zm_zcl_header m))"
    and "length (zm_payload m) \<le> 65530"
  shows "msg_Set (GetEmberAPS (zm_aps m)) (msg_Get m) new_zigbee_msg =
    Inr (m\<lparr>zm_zcl_header :=
      (if zfc_manufacturer_code_present (zh_frm_ctrl (zm_zcl_header m)) then zm_zcl_header m
       else (zm_zcl_header m)\<lparr>zh_manufacturer_code := 0\<rparr>)\<rparr>)"
proof -
  let ?h = "zm_zcl_header m"
  have "length (GetZCLHeader ?h @ zm_payload m) \<le> 0xFFFF"
    using assms(4) by (simp add: length_GetZCLHeader)
  then show ?thesis
    using assms aps.get_put [of "zm_aps m"]
      parse_zcl_header_written [OF h, of "zm_payload m"]
    by (simp add: msg_Set_def msg_Get_def new_zigbee_msg_def)
qed

section \<open>Properties\<close>

text \<open>C28: A cluster message built for sending is decoded on the other side, from its APS header and
  its bytes, to the same message: same profile, cluster, group, header fields and payload; only a
  manufacturer code that is not transmitted comes back as zero.\<close>

theorem zigbee_message_roundtrip:
  assumes "length payload \<le> 65530"
    and m: "m = msg_SetSpecific profile man ep cluster cmd dir payload ieee tr grp new_zigbee_msg
      \<or> m = msg_SetGeneral profile man ep cluster cmd dir payload ieee tr grp new_zigbee_msg"
  shows "msg_Set (GetEmberAPS (zm_aps m)) (msg_Get m) new_zigbee_msg =
    Inr (if man = 0xFFFF then m\<lparr>zm_zcl_header := (zm_zcl_header m)\<lparr>zh_manufacturer_code := 0\<rparr>\<rparr> else m)"
proof -
  have "zm_use_zcl_header m" "aps_src_ep (zm_aps m) \<noteq> 0" "zm_payload m = payload"
    "frame_control_valid (zh_frm_ctrl (zm_zcl_header m))"
    "zfc_manufacturer_code_present (zh_frm_ctrl (zm_zcl_header m)) \<longleftrightarrow> man \<noteq> 0xFFFF"
    using m built_header_valid
    by (auto simp: msg_SetSpecific_def msg_SetGeneral_def SetDefaultAPS_def SetPublicSpecific_def
        SetPublicGeneral_def set_manufacturer_def Let_def new_zcl_header_def new_zcl_frame_control_def)
  then show ?thesis
    using msg_Set_zcl [of m] assms(1) by simp
qed

theorem zigbee_message_roundtrip_witness:
  "let m = msg_SetSpecific 0xA1E0 0xFFFF 242 0x0021 0 E_DIR_SERVER_TO_CLIENT [1, 2, 3] 0 0 0
             new_zigbee_msg
   in msg_Set (GetEmberAPS (zm_aps m)) (msg_Get m) new_zigbee_msg
        = Inr (m\<lparr>zm_zcl_header := (zm_zcl_header m)\<lparr>zh_manufacturer_code := 0\<rparr>\<rparr>)"
  using zigbee_message_roundtrip [where payload = "[1, 2, 3]" and profile = "0xA1E0"
      and man = "0xFFFF" and ep = 242 and cluster = "0x0021" and cmd = 0
      and dir = E_DIR_SERVER_TO_CLIENT and ieee = 0 and tr = 0 and grp = 0]
  by (simp add: Let_def)

text \<open>A ZDO message built by the host is not recognised as one by the host's own decoder: it is
  sent from endpoint 1, so the decoder takes its first payload bytes for a ZCL header.\<close>

theorem zdo_message_misread:
  assumes "length payload = 2"
  shows "\<exists>m. msg_Set (GetEmberAPS (zm_aps (msg_SetZdo cmd payload 0 new_zigbee_msg)))
        (msg_Get (msg_SetZdo cmd payload 0 new_zigbee_msg)) new_zigbee_msg = Inr m
      \<and> zm_use_zcl_header m \<and> zm_payload m = []"
proof -
  obtain a b where p: "payload = [a, b]"
    using assms by (auto simp: length_Suc_conv numeral_2_eq_2)
  have "zcl_frame_control_of 0 = \<lparr>zfc_frame_type = 0, zfc_manufacturer_code_present = False,
      zfc_direction = E_DIR_CLIENT_TO_SERVER, zfc_disable_default_rsp = False,
      zfc_software_code = 0\<rparr>"
    by (simp add: zcl_frame_control_of_def)
  then show ?thesis
    using aps.get_put [of "zm_aps (msg_SetZdo cmd payload 0 new_zigbee_msg)"]
    by (simp add: msg_Set_def msg_Get_def msg_SetZdo_def SetDefaultAPS_def parse_zcl_header_def
        Let_def p new_zigbee_msg_def)
qed

theorem zdo_message_misread_witness:
  "\<exists>m. msg_Set (GetEmberAPS (zm_aps (msg_SetZdo 0x0036 [60, 1] 0 new_zigbee_msg)))
        (msg_Get (msg_SetZdo 0x0036 [60, 1] 0 new_zigbee_msg)) new_zigbee_msg = Inr m
      \<and> zm_use_zcl_header m \<and> zm_payload m = []"
  by (rule zdo_message_misread) simp

end
