(* ===== verification/GpFrame.thy ===== *)
theory GpFrame
  imports ZigbeeMsg
begin

text \<open>
  \<open>zbmessage/green-power-frame.cpp\<close> (class \<open>CGpFrame\<close>): a green power frame as the adapter
  reports it, and the check of its message integrity code (AES-CCM with a 13-byte nonce, a 4-byte
  code and no encrypted data).

  The code computes the code by hand on top of \<open>IAes\<close>. It is compared with CCM as RFC 3610 defines
  it: \<open>ccm_mic\<close> below. One loop of the code reads 16 bytes behind the end of a buffer; these
  bytes are an argument \<open>oob\<close> of the model, and each function says whether it read them.
\<close>

section \<open>The frame\<close>

definition GPD_NO_SECURITY :: u8 where "GPD_NO_SECURITY = 0x0"
definition GPD_FRM_COUNTER_MIC_SECURITY :: u8 where "GPD_FRM_COUNTER_MIC_SECURITY = 0x2"
definition GPD_KEY_TYPE_NO_KEY :: u8 where "GPD_KEY_TYPE_NO_KEY = 0x0"

record gp_frame =
  gf_application_id :: u8
  gf_link_value :: u8
  gf_sequence_number :: u8
  gf_source_id :: u32
  gf_security :: u8
  gf_key_type :: u8
  gf_auto_commissioning :: bool
  gf_rx_after_tx :: bool
  gf_security_frame_counter :: u32
  gf_command_id :: u8
  gf_mic :: u32
  gf_proxy_table_entry :: u8
  gf_payload :: byte_buffer

definition new_gp_frame :: gp_frame where
  "new_gp_frame =
     \<lparr>gf_application_id = 0, gf_link_value = 0, gf_sequence_number = 0, gf_source_id = 0,
      gf_security = GPD_NO_SECURITY, gf_key_type = GPD_KEY_TYPE_NO_KEY,
      gf_auto_commissioning = False, gf_rx_after_tx = False, gf_security_frame_counter = 0,
      gf_command_id = 0xFF, gf_mic = 0, gf_proxy_table_entry = 0xFF, gf_payload = []\<rparr>"

text \<open>An iterator \<open>begin() + 3\<close> behind \<open>end()\<close> is undefined.\<close>

definition parse_gp_frame :: "byte_buffer \<Rightarrow> gp_frame result" where
  "parse_gp_frame raw =
     bindR (if 3 \<le> length raw then parse_gp_address (drop 3 raw) else Inl Undefined) (\<lambda>gp_address.
     let f = new_gp_frame\<lparr>gf_application_id := addr_applicationId gp_address\<rparr> in
     if gf_application_id f = 0 then
       bindR (byte_at raw 1) (\<lambda>link.
       bindR (byte_at raw 2) (\<lambda>seq.
       bindR (byte_at raw 13) (\<lambda>security.
       bindR (byte_at raw 14) (\<lambda>key_type.
       bindR (byte_at raw 15) (\<lambda>auto_com.
       bindR (byte_at raw 16) (\<lambda>rx.
       bindR (le32_at raw 17) (\<lambda>counter.
       bindR (byte_at raw 21) (\<lambda>cmd.
       bindR (le32_at raw 22) (\<lambda>mic.
       bindR (byte_at raw 26) (\<lambda>proxy.
       bindR (byte_at raw 27) (\<lambda>n.
       bindR (bytes_at raw 28 (unat n)) (\<lambda>payload.
       Inr (f\<lparr>gf_link_value := link, gf_sequence_number := seq,
              gf_source_id := address_source_id gp_address, gf_security := security,
              gf_key_type := key_type, gf_auto_commissioning := (auto_com \<noteq> 0),
              gf_rx_after_tx := (rx \<noteq> 0), gf_security_frame_counter := counter,
              gf_command_id := cmd, gf_mic := mic, gf_proxy_table_entry := proxy,
              gf_payload := payload\<rparr>)))))))))))))
     else Inr f)"

definition toNwkFCByteField :: "gp_frame \<Rightarrow> u8" where
  "toNwkFCByteField f =
     (let nwkFC = 0 OR 0x00;
          nwkFC = nwkFC OR 0x0c;
          nwkFC = (if gf_auto_commissioning f then nwkFC OR 0x40 else nwkFC)
      in nwkFC OR 0x80)"

definition toExtNwkFCByteField :: "gp_frame \<Rightarrow> u8" where
  "toExtNwkFCByteField f =
     (let x = gf_application_id f AND 0x07;
          x = x OR push_bit 3 (gf_security f AND 0x03);
          x = (if gf_key_type f \<noteq> GPD_KEY_TYPE_NO_KEY then x OR 0x20 else x)
      in if gf_rx_after_tx f then x OR 0x40 else x)"

section \<open>Validation of the integrity code\<close>

definition computeNonce :: "u32 \<Rightarrow> u32 \<Rightarrow> byte_buffer" where
  "computeNonce sourceId frameCounter = le32 sourceId @ le32 sourceId @ le32 frameCounter @ [0x05]"

text \<open>The loop that fills \<open>Bi_1buf\<close> from \<open>B[i + (index - 1) * 16]\<close>.\<close>

definition next_block :: "byte_buffer \<Rightarrow> (nat \<Rightarrow> u8) \<Rightarrow> nat \<Rightarrow> byte_buffer \<times> bool" where
  "next_block B oob index =
     (map (\<lambda>i. let j = i + (index - 1) * 16 in if j < length B then B ! j else oob j) [0..<16],
      length B < 16 + (index - 1) * 16)"

text \<open>\<open>last_xi_loop ctx B oob n index X Xi Bi out\<close>: the \<open>n\<close> turns that remain, from \<open>index\<close>.\<close>

fun last_xi_loop :: "aes_context \<Rightarrow> byte_buffer \<Rightarrow> (nat \<Rightarrow> u8) \<Rightarrow> nat \<Rightarrow> nat \<Rightarrow> byte_buffer
    \<Rightarrow> byte_buffer \<Rightarrow> byte_buffer \<Rightarrow> bool \<Rightarrow> byte_buffer \<times> nat \<times> bool" where
  "last_xi_loop ctx B oob 0 index X0buf Xibuf Bi beyond = (Xibuf, index - 1, beyond)"
| "last_xi_loop ctx B oob (Suc n) index X0buf Xibuf Bi beyond =
     (let (ok, Xibuf, X0buf) = cbc_encrypt ctx Bi X0buf;
          (Bi, b) = next_block B oob index
      in last_xi_loop ctx B oob n (Suc index) X0buf Xibuf Bi (beyond \<or> b))"

definition getLastXiAESCBC :: "byte_buffer \<Rightarrow> byte_buffer \<Rightarrow> byte_buffer \<Rightarrow> byte_buffer
    \<Rightarrow> (nat \<Rightarrow> u8) \<Rightarrow> byte_buffer \<times> nat \<times> bool" where
  "getLastXiAESCBC i_gpd_key X0 B0 B oob =
     (if length B mod 16 \<noteq> 0 then ([], 0, False)
      else if length B0 \<noteq> 16 then ([], 0, False)
      else if length X0 \<noteq> 16 then ([], 0, False)
      else last_xi_loop (aes_set_key i_gpd_key new_aes) B oob (length B div 16 + 1) 1
             X0 (replicate 16 0) B0 False)"

definition pad_block :: "byte_buffer \<Rightarrow> byte_buffer" where
  "pad_block b =
     (let padTo = length b mod 16
      in if 0 < padTo then b @ replicate (16 - padTo) 0 else b)"

text \<open>The verdict, and whether bytes behind the end of \<open>B\<close> were read.\<close>

definition validateMIC :: "byte_buffer \<Rightarrow> (nat \<Rightarrow> u8) \<Rightarrow> gp_frame \<Rightarrow> (bool \<times> bool) result" where
  "validateMIC i_gpd_key oob f =
     (if gf_security f \<noteq> GPD_FRM_COUNTER_MIC_SECURITY then Inr (False, False)
      else
       let nonce = computeNonce (gf_source_id f) (gf_security_frame_counter f) in
       if gf_application_id f \<noteq> 0 then Inr (False, False)
       else
        let header = [toNwkFCByteField f, toExtNwkFCByteField f]
              @ le32 (gf_source_id f) @ le32 (gf_security_frame_counter f);
            a = header @ [gf_command_id f] @ gf_payload f;
            La = (of_nat (length a) :: u16);
            add_auth_data = [u16_get_hi_u8 La] @ [u16_get_lo_u8 La] @ a;
            aes = aes_set_key i_gpd_key new_aes;
            padded_add_auth_data = pad_block add_auth_data;
            plain_text_data = [];
            auth_data = padded_add_auth_data @ plain_text_data;
            flags = (0x49 :: u8);
            Lm = (of_nat (length plain_text_data) :: u16);
            B0 = [flags] @ nonce @ [u16_get_lo_u8 Lm] @ [u16_get_hi_u8 Lm];
            B = pad_block auth_data;
            X0 = replicate 16 0;
            (Xi, lastIndex, beyond) = getLastXiAESCBC i_gpd_key X0 B0 B oob
        in bindR (byte_at Xi 3) (\<lambda>x3. bindR (byte_at Xi 2) (\<lambda>x2. bindR (byte_at Xi 1) (\<lambda>x1.
           bindR (byte_at Xi 0) (\<lambda>x0.
             let T = quad_u8_to_u32 x3 x2 x1 x0;
                 A0 = [flags AND 0x03] @ nonce @ [0x00] @ [0x00]
             in if length A0 \<noteq> 16 then Inr (False, beyond)
                else
                  (case aes_encrypt aes A0 of
                     None \<Rightarrow> Inl Undefined
                   | Some r \<Rightarrow>
                       let U = quad_u8_to_u32 (r ! 3) (r ! 2) (r ! 1) (r ! 0) XOR T
                       in Inr (gf_mic f = U, beyond)))))))"

section \<open>RFC 3610\<close>

function blocks16 :: "byte_buffer \<Rightarrow> byte_buffer list" where
  "blocks16 bs = (if bs = [] then [] else take 16 bs # blocks16 (drop 16 bs))"
  by pat_completeness auto
termination by (relation "measure length") auto

declare blocks16.simps [simp del]

definition cbc_mac_fips :: "byte_buffer \<Rightarrow> byte_buffer list \<Rightarrow> byte_buffer" where
  "cbc_mac_fips key bs = fold (\<lambda>b x. fips_cipher key (map2 (XOR) x b)) bs (replicate 16 0)"

text \<open>CCM with L = 2 and M = 4 on authenticated data only, as a little-endian integer.\<close>

definition ccm_mic :: "byte_buffer \<Rightarrow> byte_buffer \<Rightarrow> byte_buffer \<Rightarrow> u32" where
  "ccm_mic key nonce adata =
     (let L = 2; M = 4;
          flags = (of_nat (64 + 8 * ((M - 2) div 2) + (L - 1)) :: u8);
          B0 = flags # nonce @ [0, 0];
          la = (of_nat (length adata) :: u16);
          Bs = blocks16 (pad_block (u16_get_hi_u8 la # u16_get_lo_u8 la # adata));
          T = cbc_mac_fips key (B0 # Bs);
          S0 = fips_cipher key (of_nat (L - 1) # nonce @ [0, 0]);
          U = map2 (XOR) (take M T) (take M S0)
      in quad_u8_to_u32 (U ! 3) (U ! 2) (U ! 1) (U ! 0))"

section \<open>Lemmas\<close>

declare last_xi_loop.simps(2) [simp del]

lemma length_computeNonce [simp]: "length (computeNonce s c) = 13"
  by (simp add: computeNonce_def)

lemma pad_block_mod [simp]: "length (pad_block b) mod 16 = 0"
proof (cases "length b mod 16 = 0")
  case False
  have "length b + (16 - length b mod 16) = 16 * (length b div 16) + 16"
    using mult_div_mod_eq [of 16 "length b"] mod_less_divisor [of 16 "length b"] by linarith
  then show ?thesis using False by (simp add: pad_block_def Let_def)
qed (simp add: pad_block_def)

lemma pad_block_id [simp]: "length b mod 16 = 0 \<Longrightarrow> pad_block b = b"
  by (simp add: pad_block_def)

lemma pad_block_twice [simp]: "pad_block (pad_block b) = pad_block b"
  by simp

lemma blocks16_length:
  assumes "length bs = 16 * n"
  shows "length (blocks16 bs) = n \<and> (\<forall>b \<in> set (blocks16 bs). length b = 16)
    \<and> (\<forall>k < n. blocks16 bs ! k = take 16 (drop (16 * k) bs))"
  using assms
proof (induction n arbitrary: bs)
  case 0
  then show ?case by (simp add: blocks16.simps)
next
  case (Suc n)
  have "length (drop 16 bs) = 16 * n" using Suc.prems by simp
  note IH = Suc.IH [OF this]
  have bs: "blocks16 bs = take 16 bs # blocks16 (drop 16 bs)"
    using Suc.prems by (subst blocks16.simps) auto
  have "blocks16 bs ! k = take 16 (drop (16 * k) bs)" if "k < Suc n" for k
    using that IH by (cases k) (auto simp: bs add.commute)
  then show ?case using IH Suc.prems by (simp add: bs)
qed

lemma next_block_inside:
  assumes "16 * Suc k \<le> length B"
  shows "next_block B oob (Suc k) = (take 16 (drop (16 * k) B), False)"
proof -
  have "map (\<lambda>i. let j = i + k * 16 in if j < length B then B ! j else oob j) [0..<16]
      = take 16 (drop (16 * k) B)"
    by (rule nth_equalityI) (use assms in \<open>auto simp: Let_def ac_simps\<close>)
  then show ?thesis
    using assms by (simp add: next_block_def)
qed

lemma last_xi_loop_mac:
  assumes "length key = 16" "length B = 16 * n" "length X = 16" "length Bi = 16" "k \<le> n"
  shows "last_xi_loop (aes_set_key key new_aes) B oob (Suc (n - k)) (Suc k) X Xi Bi beyond
    = (fold (\<lambda>b x. fips_cipher key (map2 (XOR) x b)) (Bi # drop k (blocks16 B)) X, Suc n, True)"
  using assms(3-5)
proof (induction "n - k" arbitrary: k X Xi Bi beyond)
  case 0
  then have k: "k = n" by simp
  have "drop n (blocks16 B) = []" using blocks16_length [OF assms(2)] by simp
  then show ?case
    using 0 assms(1,2) k by (simp add: last_xi_loop.simps(2) aes.cbc_single next_block_def)
next
  case (Suc d)
  let ?X = "fips_cipher key (map2 (XOR) X Bi)"
  note b = blocks16_length [OF assms(2)]
  have k: "k < n" using Suc.hyps(2) by simp
  have d: "drop k (blocks16 B) = take 16 (drop (16 * k) B) # drop (Suc k) (blocks16 B)"
    using b k by (metis Cons_nth_drop_Suc)
  have nb: "next_block B oob (Suc k) = (take 16 (drop (16 * k) B), False)"
    using k assms(2) by (intro next_block_inside) simp
  have IH: "last_xi_loop (aes_set_key key new_aes) B oob (Suc (n - Suc k)) (Suc (Suc k)) ?X ?X
      (take 16 (drop (16 * k) B)) beyond
    = (fold (\<lambda>b x. fips_cipher key (map2 (XOR) x b))
        (take 16 (drop (16 * k) B) # drop (Suc k) (blocks16 B)) ?X, Suc n, True)"
    using Suc.hyps(2) k assms(1,2) by (intro Suc.hyps(1)) (auto simp: aes.length_E)
  have "n - k = Suc (n - Suc k)" using k by simp
  then show ?case
    using Suc.prems assms(1) IH
    by (simp only:) (subst last_xi_loop.simps(2), simp add: aes.cbc_single nb d)
qed

lemma getLastXi_mac:
  assumes "length key = 16" "length X0 = 16" "length B0 = 16" "length B mod 16 = 0"
  shows "getLastXiAESCBC key X0 B0 B oob
    = (fold (\<lambda>b x. fips_cipher key (map2 (XOR) x b)) (B0 # blocks16 B) X0,
       length B div 16 + 1, True)"
proof -
  have "length B = 16 * (length B div 16)" using assms(4) by auto
  then show ?thesis
    using last_xi_loop_mac [OF assms(1) _ assms(2,3), of B "length B div 16" 0] assms
    by (simp add: getLastXiAESCBC_def)
qed

lemma length_cbc_mac:
  assumes "length key = 16"
  shows "length (cbc_mac_fips key bs) = 16"
proof -
  have "length (fold (\<lambda>b x. fips_cipher key (map2 (XOR) x b)) bs x) = 16" if "length x = 16" for x
    using that assms by (induction bs arbitrary: x) (simp_all add: aes.length_E)
  then show ?thesis by (simp add: cbc_mac_fips_def)
qed

lemma quad_xor:
  "quad_u8_to_u32 a b c d XOR quad_u8_to_u32 a' b' c' d'
     = quad_u8_to_u32 (a XOR a') (b XOR b') (c XOR c') (d XOR d')"
proof (rule bit_word_eqI)
  fix n :: nat assume "n < LENGTH(32)"
  then consider "n < 8" | "8 \<le> n" "n < 16" | "16 \<le> n" "n < 24" | "24 \<le> n" "n < 32"
    by fastforce
  then show "bit (quad_u8_to_u32 a b c d XOR quad_u8_to_u32 a' b' c' d') n
      = bit (quad_u8_to_u32 (a XOR a') (b XOR b') (c XOR c') (d XOR d')) n"
    by cases (auto simp: byte_defs bit_simps dest: bit_imp_le_length)
qed

text \<open>The bytes a frame authenticates: its header, the command and the payload.\<close>

definition gp_auth_bytes :: "gp_frame \<Rightarrow> byte_buffer" where
  "gp_auth_bytes f = [toNwkFCByteField f, toExtNwkFCByteField f]
     @ le32 (gf_source_id f) @ le32 (gf_security_frame_counter f) @ [gf_command_id f] @ gf_payload f"

lemma validateMIC_ccm:
  assumes key: "length key = 16"
    and "gf_security f = GPD_FRM_COUNTER_MIC_SECURITY" "gf_application_id f = 0"
  shows "validateMIC key oob f
    = Inr (gf_mic f = ccm_mic key (computeNonce (gf_source_id f) (gf_security_frame_counter f))
             (gp_auth_bytes f), True)"
proof -
  let ?n = "computeNonce (gf_source_id f) (gf_security_frame_counter f)"
  let ?la = "of_nat (length (gp_auth_bytes f)) :: u16"
  let ?B = "pad_block (u16_get_hi_u8 ?la # u16_get_lo_u8 ?la # gp_auth_bytes f)"
  let ?T = "cbc_mac_fips key ((0x49 # ?n @ [0, 0]) # blocks16 ?B)"
  let ?S = "fips_cipher key (1 # ?n @ [0, 0])"
  have T: "length ?T = 16" by (rule length_cbc_mac [OF key])
  have S: "length ?S = 16" by (rule aes.length_E [OF key])
  have xi: "getLastXiAESCBC key (replicate 16 0) (0x49 # ?n @ [0, 0]) ?B oob
      = (?T, length ?B div 16 + 1, True)"
    using getLastXi_mac [OF key, of "replicate 16 0" "0x49 # ?n @ [0, 0]" ?B oob]
    by (simp add: cbc_mac_fips_def del: fold.simps(2))
  have e: "aes_encrypt (aes_set_key key new_aes) (1 # ?n @ [0, 0]) = Some ?S"
    by (rule aes.encrypt_E [OF key]) simp
  have ccm: "ccm_mic key ?n (gp_auth_bytes f)
      = quad_u8_to_u32 (?T ! 3) (?T ! 2) (?T ! 1) (?T ! 0)
        XOR quad_u8_to_u32 (?S ! 3) (?S ! 2) (?S ! 1) (?S ! 0)"
    using T S by (simp add: ccm_mic_def Let_def quad_xor)
  have a: "gp_auth_bytes f = [toNwkFCByteField f, toExtNwkFCByteField f] @ le32 (gf_source_id f)
      @ le32 (gf_security_frame_counter f) @ [gf_command_id f] @ gf_payload f"
    by (simp add: gp_auth_bytes_def)
  have zero: "u16_get_lo_u8 0 = 0" "u16_get_hi_u8 0 = 0"
    by (simp_all add: u16_get_lo_u8_def u16_get_hi_u8_def)
  show ?thesis
    unfolding validateMIC_def Let_def ccm
    using assms(2,3) T
    by (simp add: a [symmetric, simplified] xi e zero xor.commute)
qed

section \<open>Properties\<close>



text \<open>Only the security level with a frame counter and an integrity code is ever accepted, and
  only for devices addressed by source identifier.\<close>

theorem gp_mic_rejects_other_levels:
  assumes "validateMIC key oob f = Inr (True, b)"
  shows "gf_security f = GPD_FRM_COUNTER_MIC_SECURITY \<and> gf_application_id f = 0"
  using assms
  by (cases "gf_security f = GPD_FRM_COUNTER_MIC_SECURITY"; cases "gf_application_id f = 0")
    (simp_all add: validateMIC_def)

lemma parse_gp_frame_payload:
  assumes "parse_gp_frame raw = Inr f" "gf_application_id f = 0"
  shows "gf_payload f = take (unat (raw ! 27)) (drop 28 raw) \<and> 28 + unat (raw ! 27) \<le> length raw
    \<and> gf_source_id f = quad_u8_to_u32 (raw ! 7) (raw ! 6) (raw ! 5) (raw ! 4)
    \<and> gf_command_id f = raw ! 21 \<and> gf_security f = raw ! 13"
  using assms
  by (auto simp: parse_gp_frame_def parse_gp_address_eq bytes_at_eq address_source_id_def Let_def
      new_gp_frame_def split: if_splits)

end
