(* ===== verification/EzspCommands.thy ===== *)
theory EzspCommands
  imports EzspDongle GpFrame
begin

text \<open>
  The part of \<open>include/ezsp/ezsp-protocol/ezsp-enum.h\<close> which the library's own logic uses: the
  identifiers of the EZSP commands it sends or handles, statuses and policies; and what the
  components above the dongle do to the world, as an ordered list of effects. These components
  never read back what a command has done to the dongle within one of their operations, and
  \<open>sendCommand\<close> calls none of them, so carrying the effects out after the operation is what the
  code does.
\<close>

named_theorems ezsp_ids \<open>values of the protocol constants\<close>

section \<open>Commands\<close>

definition EZSP_SET_CONFIGURATION_VALUE :: ezsp_cmd where [ezsp_ids]: "EZSP_SET_CONFIGURATION_VALUE = 0x53"
definition EZSP_ADD_ENDPOINT :: ezsp_cmd where [ezsp_ids]: "EZSP_ADD_ENDPOINT = 0x02"
definition EZSP_SET_POLICY :: ezsp_cmd where [ezsp_ids]: "EZSP_SET_POLICY = 0x55"
definition EZSP_GET_XNCP_INFO :: ezsp_cmd where [ezsp_ids]: "EZSP_GET_XNCP_INFO = 0x13"
definition EZSP_NETWORK_INIT :: ezsp_cmd where [ezsp_ids]: "EZSP_NETWORK_INIT = 0x17"
definition EZSP_NETWORK_STATE :: ezsp_cmd where [ezsp_ids]: "EZSP_NETWORK_STATE = 0x18"
definition EZSP_STACK_STATUS_HANDLER :: ezsp_cmd where [ezsp_ids]: "EZSP_STACK_STATUS_HANDLER = 0x19"
definition EZSP_START_SCAN :: ezsp_cmd where [ezsp_ids]: "EZSP_START_SCAN = 0x1A"
definition EZSP_ENERGY_SCAN_RESULT_HANDLER :: ezsp_cmd where [ezsp_ids]: "EZSP_ENERGY_SCAN_RESULT_HANDLER = 0x48"
definition EZSP_NETWORK_FOUND_HANDLER :: ezsp_cmd where [ezsp_ids]: "EZSP_NETWORK_FOUND_HANDLER = 0x1B"
definition EZSP_SCAN_COMPLETE_HANDLER :: ezsp_cmd where [ezsp_ids]: "EZSP_SCAN_COMPLETE_HANDLER = 0x1C"
definition EZSP_FORM_NETWORK :: ezsp_cmd where [ezsp_ids]: "EZSP_FORM_NETWORK = 0x1E"
definition EZSP_JOIN_NETWORK :: ezsp_cmd where [ezsp_ids]: "EZSP_JOIN_NETWORK = 0x1F"
definition EZSP_LEAVE_NETWORK :: ezsp_cmd where [ezsp_ids]: "EZSP_LEAVE_NETWORK = 0x20"
definition EZSP_PERMIT_JOINING :: ezsp_cmd where [ezsp_ids]: "EZSP_PERMIT_JOINING = 0x22"
definition EZSP_GET_NETWORK_PARAMETERS :: ezsp_cmd where [ezsp_ids]: "EZSP_GET_NETWORK_PARAMETERS = 0x28"
definition EZSP_GET_CHILD_DATA :: ezsp_cmd where [ezsp_ids]: "EZSP_GET_CHILD_DATA = 0x4A"
definition EZSP_SET_RADIO_CHANNEL :: ezsp_cmd where [ezsp_ids]: "EZSP_SET_RADIO_CHANNEL = 0x9A"
definition EZSP_SEND_UNICAST :: ezsp_cmd where [ezsp_ids]: "EZSP_SEND_UNICAST = 0x34"
definition EZSP_SEND_BROADCAST :: ezsp_cmd where [ezsp_ids]: "EZSP_SEND_BROADCAST = 0x36"
definition EZSP_MESSAGE_SENT_HANDLER :: ezsp_cmd where [ezsp_ids]: "EZSP_MESSAGE_SENT_HANDLER = 0x3F"
definition EZSP_SEND_RAW_MESSAGE :: ezsp_cmd where [ezsp_ids]: "EZSP_SEND_RAW_MESSAGE = 0x96"
definition EZSP_RAW_TRANSMIT_COMPLETE_HANDLER :: ezsp_cmd where [ezsp_ids]: "EZSP_RAW_TRANSMIT_COMPLETE_HANDLER = 0x98"
definition EZSP_SET_INITIAL_SECURITY_STATE :: ezsp_cmd where [ezsp_ids]: "EZSP_SET_INITIAL_SECURITY_STATE = 0x68"
definition EZSP_GET_KEY :: ezsp_cmd where [ezsp_ids]: "EZSP_GET_KEY = 0x6a"
definition EZSP_GP_PROXY_TABLE_PROCESS_GP_PAIRING :: ezsp_cmd where [ezsp_ids]: "EZSP_GP_PROXY_TABLE_PROCESS_GP_PAIRING = 0xC9"
definition EZSP_D_GP_SEND :: ezsp_cmd where [ezsp_ids]: "EZSP_D_GP_SEND = 0xC6"
definition EZSP_D_GP_SENT_HANDLER :: ezsp_cmd where [ezsp_ids]: "EZSP_D_GP_SENT_HANDLER = 0xC7"
definition EZSP_GPEP_INCOMING_MESSAGE_HANDLER :: ezsp_cmd where [ezsp_ids]: "EZSP_GPEP_INCOMING_MESSAGE_HANDLER = 0xC5"
definition EZSP_GP_PROXY_TABLE_GET_ENTRY :: ezsp_cmd where [ezsp_ids]: "EZSP_GP_PROXY_TABLE_GET_ENTRY = 0xC8"
definition EZSP_GP_PROXY_TABLE_LOOKUP :: ezsp_cmd where [ezsp_ids]: "EZSP_GP_PROXY_TABLE_LOOKUP = 0xC0"
definition EZSP_GP_SINK_TABLE_GET_ENTRY :: ezsp_cmd where [ezsp_ids]: "EZSP_GP_SINK_TABLE_GET_ENTRY = 0xDD"
definition EZSP_GP_SINK_TABLE_LOOKUP :: ezsp_cmd where [ezsp_ids]: "EZSP_GP_SINK_TABLE_LOOKUP = 0xDE"
definition EZSP_GP_SINK_TABLE_SET_ENTRY :: ezsp_cmd where [ezsp_ids]: "EZSP_GP_SINK_TABLE_SET_ENTRY = 0xDF"
definition EZSP_GP_SINK_TABLE_REMOVE_ENTRY :: ezsp_cmd where [ezsp_ids]: "EZSP_GP_SINK_TABLE_REMOVE_ENTRY = 0xE0"
definition EZSP_GP_SINK_TABLE_FIND_OR_ALLOCATE_ENTRY :: ezsp_cmd where [ezsp_ids]: "EZSP_GP_SINK_TABLE_FIND_OR_ALLOCATE_ENTRY = 0xE1"
definition EZSP_GP_SINK_TABLE_CLEAR_ALL :: ezsp_cmd where [ezsp_ids]: "EZSP_GP_SINK_TABLE_CLEAR_ALL = 0xE2"
definition EZSP_GP_SINK_TABLE_INIT :: ezsp_cmd where [ezsp_ids]: "EZSP_GP_SINK_TABLE_INIT = 0x70"

section \<open>Statuses, policies and options\<close>

definition EMBER_SUCCESS :: u8 where [ezsp_ids]: "EMBER_SUCCESS = 0x00"
definition UNDOCUMENTED_WRONG_MIC_FOR_SOURCE_ID :: u8 where
  [ezsp_ids]: "UNDOCUMENTED_WRONG_MIC_FOR_SOURCE_ID = 0x7E"
definition EMBER_NETWORK_UP :: u8 where [ezsp_ids]: "EMBER_NETWORK_UP = 0x90"
definition EMBER_NO_NETWORK :: u8 where [ezsp_ids]: "EMBER_NO_NETWORK = 0x00"
definition EZSP_ENERGY_SCAN :: u8 where [ezsp_ids]: "EZSP_ENERGY_SCAN = 0x00"
definition EZSP_ACTIVE_SCAN :: u8 where [ezsp_ids]: "EZSP_ACTIVE_SCAN = 0x01"
definition EMBER_USE_MAC_ASSOCIATION :: u8 where [ezsp_ids]: "EMBER_USE_MAC_ASSOCIATION = 0x00"
definition EMBER_ROUTER :: u8 where [ezsp_ids]: "EMBER_ROUTER = 0x02"
definition EMBER_CURRENT_NETWORK_KEY :: u8 where [ezsp_ids]: "EMBER_CURRENT_NETWORK_KEY = 0x03"
definition EZSP_TRUST_CENTER_POLICY :: u8 where [ezsp_ids]: "EZSP_TRUST_CENTER_POLICY = 0x0000"
definition EZSP_TC_KEY_REQUEST_POLICY :: u8 where [ezsp_ids]: "EZSP_TC_KEY_REQUEST_POLICY = 0x0005"
definition EZSP_BINDING_MODIFICATION_POLICY :: u8 where
  [ezsp_ids]: "EZSP_BINDING_MODIFICATION_POLICY = 0x0001"
definition EZSP_POLL_HANDLER_POLICY :: u8 where [ezsp_ids]: "EZSP_POLL_HANDLER_POLICY = 0x0003"
definition EZSP_MESSAGE_CONTENTS_IN_CALLBACK_POLICY :: u8 where
  [ezsp_ids]: "EZSP_MESSAGE_CONTENTS_IN_CALLBACK_POLICY = 0x0004"
definition EZSP_ALLOW_PRECONFIGURED_KEY_JOINS :: u8 where
  [ezsp_ids]: "EZSP_ALLOW_PRECONFIGURED_KEY_JOINS = 0x0001"
definition EZSP_CHECK_BINDING_MODIFICATIONS_ARE_VALID_ENDPOINT_CLUSTERS :: u8 where
  [ezsp_ids]: "EZSP_CHECK_BINDING_MODIFICATIONS_ARE_VALID_ENDPOINT_CLUSTERS = 0x0012"
definition EZSP_POLL_HANDLER_IGNORE :: u8 where [ezsp_ids]: "EZSP_POLL_HANDLER_IGNORE = 0x0030"
definition EZSP_MESSAGE_TAG_ONLY_IN_CALLBACK :: u8 where
  [ezsp_ids]: "EZSP_MESSAGE_TAG_ONLY_IN_CALLBACK = 0x0040"
definition EMBER_OUTGOING_DIRECT :: u8 where [ezsp_ids]: "EMBER_OUTGOING_DIRECT = 0"
definition E_OUT_MSG_BR_DEST_ALL_DEVICES :: u16 where [ezsp_ids]:
  "E_OUT_MSG_BR_DEST_ALL_DEVICES = 0xFFFF"

section \<open>Configuration identifiers\<close>

text \<open>The identifiers fit the \<open>unsigned char\<close> of \<open>SEzspConfig\<close>.\<close>

definition EZSP_CONFIG_NEIGHBOR_TABLE_SIZE :: u8 where
  [ezsp_ids]: "EZSP_CONFIG_NEIGHBOR_TABLE_SIZE = 0x2"
definition EZSP_CONFIG_APS_UNICAST_MESSAGE_COUNT :: u8 where
  [ezsp_ids]: "EZSP_CONFIG_APS_UNICAST_MESSAGE_COUNT = 0x3"
definition EZSP_CONFIG_BINDING_TABLE_SIZE :: u8 where
  [ezsp_ids]: "EZSP_CONFIG_BINDING_TABLE_SIZE = 0x4"
definition EZSP_CONFIG_ADDRESS_TABLE_SIZE :: u8 where
  [ezsp_ids]: "EZSP_CONFIG_ADDRESS_TABLE_SIZE = 0x5"
definition EZSP_CONFIG_MULTICAST_TABLE_SIZE :: u8 where
  [ezsp_ids]: "EZSP_CONFIG_MULTICAST_TABLE_SIZE = 0x6"
definition EZSP_CONFIG_ROUTE_TABLE_SIZE :: u8 where [ezsp_ids]: "EZSP_CONFIG_ROUTE_TABLE_SIZE = 0x7"
definition EZSP_CONFIG_DISCOVERY_TABLE_SIZE :: u8 where
  [ezsp_ids]: "EZSP_CONFIG_DISCOVERY_TABLE_SIZE = 0x8"
definition EZSP_CONFIG_STACK_PROFILE :: u8 where [ezsp_ids]: "EZSP_CONFIG_STACK_PROFILE = 0xc"
definition EZSP_CONFIG_SECURITY_LEVEL :: u8 where [ezsp_ids]: "EZSP_CONFIG_SECURITY_LEVEL = 0xd"
definition EZSP_CONFIG_MAX_HOPS :: u8 where [ezsp_ids]: "EZSP_CONFIG_MAX_HOPS = 0x10"
definition EZSP_CONFIG_MAX_END_DEVICE_CHILDREN :: u8 where
  [ezsp_ids]: "EZSP_CONFIG_MAX_END_DEVICE_CHILDREN = 0x11"
definition EZSP_CONFIG_INDIRECT_TRANSMISSION_TIMEOUT :: u8 where
  [ezsp_ids]: "EZSP_CONFIG_INDIRECT_TRANSMISSION_TIMEOUT = 0x12"
definition EZSP_CONFIG_END_DEVICE_POLL_TIMEOUT :: u8 where
  [ezsp_ids]: "EZSP_CONFIG_END_DEVICE_POLL_TIMEOUT = 0x13"
definition EZSP_CONFIG_MOBILE_NODE_POLL_TIMEOUT :: u8 where
  [ezsp_ids]: "EZSP_CONFIG_MOBILE_NODE_POLL_TIMEOUT = 0x14"
definition EZSP_CONFIG_RESERVED_MOBILE_CHILD_ENTRIES :: u8 where
  [ezsp_ids]: "EZSP_CONFIG_RESERVED_MOBILE_CHILD_ENTRIES = 0x15"
definition EZSP_CONFIG_TX_POWER_MODE :: u8 where [ezsp_ids]: "EZSP_CONFIG_TX_POWER_MODE = 0x17"
definition EZSP_CONFIG_DISABLE_RELAY :: u8 where [ezsp_ids]: "EZSP_CONFIG_DISABLE_RELAY = 0x18"
definition EZSP_CONFIG_TRUST_CENTER_ADDRESS_CACHE_SIZE :: u8 where
  [ezsp_ids]: "EZSP_CONFIG_TRUST_CENTER_ADDRESS_CACHE_SIZE = 0x19"
definition EZSP_CONFIG_SOURCE_ROUTE_TABLE_SIZE :: u8 where
  [ezsp_ids]: "EZSP_CONFIG_SOURCE_ROUTE_TABLE_SIZE = 0x1a"
definition EZSP_CONFIG_END_DEVICE_POLL_TIMEOUT_SHIFT :: u8 where
  [ezsp_ids]: "EZSP_CONFIG_END_DEVICE_POLL_TIMEOUT_SHIFT = 0x1b"
definition EZSP_CONFIG_FRAGMENT_WINDOW_SIZE :: u8 where
  [ezsp_ids]: "EZSP_CONFIG_FRAGMENT_WINDOW_SIZE = 0x1c"
definition EZSP_CONFIG_FRAGMENT_DELAY_MS :: u8 where
  [ezsp_ids]: "EZSP_CONFIG_FRAGMENT_DELAY_MS = 0x1d"
definition EZSP_CONFIG_KEY_TABLE_SIZE :: u8 where [ezsp_ids]: "EZSP_CONFIG_KEY_TABLE_SIZE = 0x1e"
definition EZSP_CONFIG_APS_ACK_TIMEOUT :: u8 where [ezsp_ids]: "EZSP_CONFIG_APS_ACK_TIMEOUT = 0x1f"
definition EZSP_CONFIG_BEACON_JITTER_DURATION :: u8 where
  [ezsp_ids]: "EZSP_CONFIG_BEACON_JITTER_DURATION = 0x20"
definition EZSP_CONFIG_END_DEVICE_BIND_TIMEOUT :: u8 where
  [ezsp_ids]: "EZSP_CONFIG_END_DEVICE_BIND_TIMEOUT = 0x21"
definition EZSP_CONFIG_PAN_ID_CONFLICT_REPORT_THRESHOLD :: u8 where
  [ezsp_ids]: "EZSP_CONFIG_PAN_ID_CONFLICT_REPORT_THRESHOLD = 0x22"
definition EZSP_CONFIG_REQUEST_KEY_TIMEOUT :: u8 where
  [ezsp_ids]: "EZSP_CONFIG_REQUEST_KEY_TIMEOUT = 0x24"
definition EZSP_CONFIG_APPLICATION_ZDO_FLAGS :: u8 where
  [ezsp_ids]: "EZSP_CONFIG_APPLICATION_ZDO_FLAGS = 0x2a"
definition EZSP_CONFIG_BROADCAST_TABLE_SIZE :: u8 where
  [ezsp_ids]: "EZSP_CONFIG_BROADCAST_TABLE_SIZE = 0x2b"
definition EZSP_CONFIG_MAC_FILTER_TABLE_SIZE :: u8 where
  [ezsp_ids]: "EZSP_CONFIG_MAC_FILTER_TABLE_SIZE = 0x2c"
definition EZSP_CONFIG_SUPPORTED_NETWORKS :: u8 where
  [ezsp_ids]: "EZSP_CONFIG_SUPPORTED_NETWORKS = 0x2d"
definition EZSP_CONFIG_SEND_MULTICASTS_TO_SLEEPY_ADDRESS :: u8 where
  [ezsp_ids]: "EZSP_CONFIG_SEND_MULTICASTS_TO_SLEEPY_ADDRESS = 0x2e"
definition EZSP_CONFIG_ZLL_GROUP_ADDRESSES :: u8 where
  [ezsp_ids]: "EZSP_CONFIG_ZLL_GROUP_ADDRESSES = 0x2f"
definition EZSP_CONFIG_MTORR_FLOW_CONTROL :: u8 where
  [ezsp_ids]: "EZSP_CONFIG_MTORR_FLOW_CONTROL = 0x33"
definition EZSP_CONFIG_RETRY_QUEUE_SIZE :: u8 where
  [ezsp_ids]: "EZSP_CONFIG_RETRY_QUEUE_SIZE = 0x34"
definition EZSP_CONFIG_NEW_BROADCAST_ENTRY_THRESHOLD :: u8 where
  [ezsp_ids]: "EZSP_CONFIG_NEW_BROADCAST_ENTRY_THRESHOLD = 0x35"
definition EZSP_CONFIG_TRANSIENT_KEY_TIMEOUT_S :: u8 where
  [ezsp_ids]: "EZSP_CONFIG_TRANSIENT_KEY_TIMEOUT_S = 0x36"
definition EZSP_CONFIG_BROADCAST_MIN_ACKS_NEEDED :: u8 where
  [ezsp_ids]: "EZSP_CONFIG_BROADCAST_MIN_ACKS_NEEDED = 0x37"
definition EZSP_CONFIG_TC_REJOINS_USING_WELL_KNOWN_KEY_TIMEOUT_S :: u8 where
  [ezsp_ids]: "EZSP_CONFIG_TC_REJOINS_USING_WELL_KNOWN_KEY_TIMEOUT_S = 0x38"
definition EZSP_CONFIG_PACKET_BUFFER_COUNT :: u8 where
  [ezsp_ids]: "EZSP_CONFIG_PACKET_BUFFER_COUNT = 0x1"

section \<open>Effects\<close>

text \<open>\<open>CGpdKeyStatus\<close>, the states of the sink, and the public states of the library.\<close>

datatype key_status = KeyUndefined | KeyValid | KeyInvalid

datatype sink_state =
    SINK_NOT_INIT | SINK_READY | SINK_ERROR | SINK_COM_OPEN | SINK_COM_IN_PROGRESS
  | SINK_COM_OFFLINE_IN_PROGRESS | SINK_AUTHORIZE_ANSWER_CH_RQST | SINK_CLEAR_ALL
  | SINK_REMOVE_IN_PROGRESS

datatype public_state =
    PubUNINITIALIZED | PubREADY | PubINIT_FAILED | PubSINK_BUSY | PubIN_XMODEM_XFR | PubTERMINATING

text \<open>A network found by a scan, with the link quality and strength of its last hop.\<close>

record scan_result =
  sr_network :: zigbee_network
  sr_lastHopLqi :: u8
  sr_lastHopRssi :: u8

text \<open>The calls of functions which the application has registered.\<close>

datatype app_event =
    LibState public_state
  | GpFrameRecv gp_frame
  | GpSourceId u32 bool key_status
  | EnergyScan "u8 \<rightharpoonup> u8"
  | ActiveScan "u8 \<rightharpoonup> scan_result list"
  | NetworkKey u8 byte_buffer
  | Discovered u8 byte_buffer u16

datatype effect =
    Send ezsp_cmd byte_buffer             \<comment> \<open>\<open>CEzspDongle::sendCommand\<close>\<close>
  | SetMode dongle_mode                   \<comment> \<open>\<open>CEzspDongle::setMode\<close>\<close>
  | FetchedStack u16                      \<comment> \<open>\<open>setFetchedEzspVersionData\<close> with a stack version\<close>
  | FetchedVersion u16 u8 u8              \<comment> \<open>\<open>setFetchedEzspVersionData\<close> with all fields\<close>
  | FetchedXncp u16 u16                   \<comment> \<open>\<open>setFetchedXncpData\<close>\<close>
  | SinkGpFrame gp_frame                  \<comment> \<open>the sink to its observer: \<open>handleRxGpFrame\<close>\<close>
  | SinkGpdId u32 bool key_status         \<comment> \<open>the sink to its observer: \<open>handleRxGpdId\<close>\<close>
  | SinkStateIs sink_state                \<comment> \<open>the sink to its state callback\<close>
  | App app_event

text \<open>The commands among the effects, in order.\<close>

fun sent :: "effect list \<Rightarrow> ezsp_msg list" where
  "sent [] = []"
| "sent (Send c p # es) = (c, p) # sent es"
| "sent (_ # es) = sent es"

lemma sent_append [simp]: "sent (xs @ ys) = sent xs @ sent ys"
  by (induction xs rule: sent.induct) simp_all

text \<open>The application events among the effects.\<close>

fun app_events :: "effect list \<Rightarrow> app_event list" where
  "app_events [] = []"
| "app_events (App e # es) = e # app_events es"
| "app_events (_ # es) = app_events es"

lemma app_events_append [simp]: "app_events (xs @ ys) = app_events xs @ app_events ys"
  by (induction xs rule: app_events.induct) simp_all

section \<open>Operations\<close>

text \<open>
  An operation of a component changes its state, has effects and may fail; a failure is an
  exception that leaves through the thread which reads the serial port, or undefined behaviour.
\<close>

type_synonym 's step = "'s \<Rightarrow> ('s \<times> effect list) result"

definition skip :: "'s step" where
  "skip s = Inr (s, [])"

definition emit :: "effect list \<Rightarrow> 's step" where
  "emit es s = Inr (s, es)"

definition modify :: "('s \<Rightarrow> 's) \<Rightarrow> 's step" where
  "modify f s = Inr (f s, [])"

fun steps :: "'s step list \<Rightarrow> 's step" where
  "steps [] s = Inr (s, [])"
| "steps (a # as) s = bindR (a s) (\<lambda>(s, es). bindR (steps as s) (\<lambda>(s, es'). Inr (s, es @ es')))"

text \<open>An operation with a result.\<close>

definition returning :: "'r \<Rightarrow> 's step \<Rightarrow> 's \<Rightarrow> ('r \<times> 's \<times> effect list) result" where
  "returning r a s = bindR (a s) (\<lambda>(s, es). Inr (r, s, es))"

lemmas step_simps = skip_def emit_def modify_def returning_def

lemma steps_append:
  "steps (as @ bs) s = bindR (steps as s) (\<lambda>(s, es). bindR (steps bs s) (\<lambda>(s, es'). Inr (s, es @ es')))"
proof (induction as arbitrary: s)
  case Nil
  show ?case by (cases "steps bs s") auto
next
  case (Cons a as)
  show ?case
  proof (cases "a s")
    case (Inr r)
    obtain s1 es1 where r: "r = (s1, es1)" by fastforce
    show ?thesis
    proof (cases "steps as s1")
      case Inl
      then show ?thesis using Inr r Cons.IH [of s1] by simp
    next
      case (Inr r')
      then show ?thesis
        using \<open>a s = Inr r\<close> r Cons.IH [of s1]
        by (cases r'; cases "steps bs (fst r')") auto
    qed
  qed simp
qed

end
