(* ===== verification/GpDeviceDb.thy ===== *)
theory GpDeviceDb
  imports EzspCommands
begin

text \<open>
  Green power devices, \<open>NSEZSP::CGpDevice\<close>, sink table entries \<open>NSEZSP::CGpSinkTableEntry\<close> and
  the database of device keys, \<open>NSEZSP::CGPDeviceDb\<close> of
  \<open>src/ezsp/zigbee-tools/green-power-device-db.cpp\<close>, a \<open>std::map\<close> from source identifiers to
  keys. The locale \<open>key_store\<close> is what the sink relies on when it validates frames itself.
\<close>

section \<open>Devices\<close>

record gp_device =
  gd_source_id :: u32
  gd_key :: byte_buffer
  gd_option :: sink_option
  gd_security_option :: u8

definition new_gp_device :: "u32 \<Rightarrow> byte_buffer \<Rightarrow> gp_device" where
  "new_gp_device i_source_id i_key = \<lparr>gd_source_id = i_source_id, gd_key = i_key,
     gd_option = sink_option_of 0x02A8, gd_security_option = 0x12\<rparr>"

definition UNKNOWN_KEY :: byte_buffer where
  "UNKNOWN_KEY = [0, 0, 0, 0, 0, 0, 0, 0, 0, 0, 0, 0, 0, 0, 0, 0]"

datatype application_id = E_GPD_APPLICATION_SOURCE_ID | E_GPD_APPLICATION_IEEE

definition GP_INVALID_SOURCE_ID :: u32 where "GP_INVALID_SOURCE_ID = 0xFFFFFFFF"

record gp_sink_table_entry =
  gte_application_id :: application_id
  gte_source_id :: u32

definition new_gp_sink_table_entry :: "u32 \<Rightarrow> gp_sink_table_entry" where
  "new_gp_sink_table_entry i_source_id =
     \<lparr>gte_application_id = E_GPD_APPLICATION_SOURCE_ID, gte_source_id = i_source_id\<rparr>"

definition gte_getSourceId :: "gp_sink_table_entry \<Rightarrow> u32" where
  "gte_getSourceId e = (if gte_application_id e = E_GPD_APPLICATION_SOURCE_ID
     then gte_source_id e else GP_INVALID_SOURCE_ID)"

section \<open>The database\<close>

type_synonym gp_dev_db = "u32 \<rightharpoonup> byte_buffer"

definition new_db :: gp_dev_db where
  "new_db = Map.empty"

definition db_clear :: "gp_dev_db \<Rightarrow> gp_dev_db" where
  "db_clear db = Map.empty"

text \<open>\<open>std::map::insert\<close> leaves an entry that exists as it is.\<close>

definition insertDevice :: "u32 \<Rightarrow> byte_buffer \<Rightarrow> gp_dev_db \<Rightarrow> gp_dev_db" where
  "insertDevice i_source_id i_key db =
     (if db i_source_id = None then db(i_source_id \<mapsto> i_key) else db)"

definition insertGpDevice :: "gp_device \<Rightarrow> gp_dev_db \<Rightarrow> gp_dev_db" where
  "insertGpDevice d db = insertDevice (gd_source_id d) (gd_key d) db"

definition removeDevice :: "u32 \<Rightarrow> gp_dev_db \<Rightarrow> bool \<times> gp_dev_db" where
  "removeDevice i_source_id db = (db i_source_id \<noteq> None, db(i_source_id := None))"

definition setDb :: "gp_device list \<Rightarrow> gp_dev_db \<Rightarrow> gp_dev_db" where
  "setDb devices db = fold insertGpDevice devices (db_clear db)"

definition getKeyForSourceId :: "u32 \<Rightarrow> gp_dev_db \<Rightarrow> byte_buffer option" where
  "getKeyForSourceId i_source_id db = db i_source_id"

definition isSourceIdInDb :: "u32 \<Rightarrow> gp_dev_db \<Rightarrow> bool" where
  "isSourceIdInDb i_source_id db \<longleftrightarrow> db i_source_id \<noteq> None"

section \<open>The interface\<close>

text \<open>
  A store of keys: an insertion is visible unless the identifier was there, a removal takes the
  identifier away, and other identifiers are left alone.
\<close>

locale key_store =
  fixes empty :: 'db
    and ins :: "u32 \<Rightarrow> byte_buffer \<Rightarrow> 'db \<Rightarrow> 'db"
    and del :: "u32 \<Rightarrow> 'db \<Rightarrow> bool \<times> 'db"
    and look :: "u32 \<Rightarrow> 'db \<Rightarrow> byte_buffer option"
  assumes look_empty: "look i empty = None"
    and look_ins: "look i (ins j k db) = (if i = j \<and> look j db = None then Some k else look i db)"
    and look_del: "look i (snd (del j db)) = (if i = j then None else look i db)"
    and del_found: "fst (del j db) \<longleftrightarrow> look j db \<noteq> None"
begin

text \<open>Loading a list keeps the first key of every identifier.\<close>

lemma look_load:
  "look i (fold (\<lambda>d. ins (gd_source_id d) (gd_key d)) ds db)
     = (case look i db of Some k \<Rightarrow> Some k
        | None \<Rightarrow> map_of (map (\<lambda>d. (gd_source_id d, gd_key d)) ds) i)"
  by (induction ds arbitrary: db) (auto simp: look_ins split: option.splits)

lemma look_load_empty:
  "look i (fold (\<lambda>d. ins (gd_source_id d) (gd_key d)) ds empty)
     = map_of (map (\<lambda>d. (gd_source_id d, gd_key d)) ds) i"
  by (simp add: look_load look_empty)

text \<open>Removing identifiers one after the other removes exactly these.\<close>

lemma look_remove_all:
  "look i (fold (\<lambda>j db. snd (del j db)) js db) = (if i \<in> set js then None else look i db)"
  by (induction js arbitrary: db) (auto simp: look_del)

lemma second_removal_fails: "\<not> fst (del j (snd (del j db)))"
  by (simp add: del_found look_del)

end

interpretation db: key_store new_db insertDevice removeDevice getKeyForSourceId
  by unfold_locales
    (auto simp: new_db_def insertDevice_def removeDevice_def getKeyForSourceId_def)

lemma setDb_lookup:
  "getKeyForSourceId i (setDb ds db) = map_of (map (\<lambda>d. (gd_source_id d, gd_key d)) ds) i"
proof -
  have "setDb ds db = fold (\<lambda>d. insertDevice (gd_source_id d) (gd_key d)) ds new_db"
    by (simp add: setDb_def db_clear_def new_db_def insertGpDevice_def [abs_def])
  then show ?thesis by (simp add: db.look_load_empty)
qed

section \<open>Property\<close>

text \<open>Loading a list of devices forgets everything known before and gives each identifier the key
  of its first device in the list, later devices with the same identifier being ignored, though
  the log announces that they overwrite it; removing a device tells whether it was known, and
  afterwards exactly the other devices are.\<close>

theorem device_db_contents:
  "getKeyForSourceId i (setDb ds db) = map_of (map (\<lambda>d. (gd_source_id d, gd_key d)) ds) i
   \<and> isSourceIdInDb i (setDb ds db) = (i \<in> gd_source_id ` set ds)
   \<and> fst (removeDevice j (setDb ds db)) = (j \<in> gd_source_id ` set ds)
   \<and> isSourceIdInDb i (snd (removeDevice j (setDb ds db))) = (i \<noteq> j \<and> i \<in> gd_source_id ` set ds)"
proof -
  have eq: "isSourceIdInDb i' d \<longleftrightarrow> getKeyForSourceId i' d \<noteq> None" for i' d
    by (simp add: isSourceIdInDb_def getKeyForSourceId_def)
  have known: "getKeyForSourceId i' (setDb ds db) \<noteq> None \<longleftrightarrow> i' \<in> gd_source_id ` set ds" for i'
    by (auto simp: setDb_lookup map_of_eq_None_iff image_image)
  show ?thesis
    unfolding eq db.del_found db.look_del using known by (auto simp: setDb_lookup)
qed

end
