(* ===== verification/StateMachine.thy ===== *)
theory StateMachine
  imports EzspCommands
begin

text \<open>
  Components as state machines: an operation on the state for every event, runs over lists of
  events, the states that can be reached, and the locale \<open>component\<close> of machines that keep an
  invariant. The sink, the library and the driver of the whole system are instances.
\<close>

fun run_ops :: "('e \<Rightarrow> 's step) \<Rightarrow> 'e list \<Rightarrow> 's step" where
  "run_ops f [] s = Inr (s, [])"
| "run_ops f (e # es) s =
     bindR (f e s) (\<lambda>(s, out). bindR (run_ops f es s) (\<lambda>(s, out'). Inr (s, out @ out')))"

lemma run_ops_steps: "run_ops f es = steps (map f es)"
  by (induction es) (simp_all add: fun_eq_iff)

lemma run_ops_append:
  "run_ops f (xs @ ys) s =
     bindR (run_ops f xs s) (\<lambda>(s, out). bindR (run_ops f ys s) (\<lambda>(s, out'). Inr (s, out @ out')))"
  by (simp add: run_ops_steps steps_append)

text \<open>A run that is known to succeed is put in front of another one.\<close>

lemma run_ops_appendI:
  "run_ops f xs s = Inr (s1, o1) \<Longrightarrow> run_ops f ys s1 = Inr (s2, o2) \<Longrightarrow>
     run_ops f (xs @ ys) s = Inr (s2, o1 @ o2)"
  by (simp add: run_ops_append)

lemma run_ops_ConsI:
  "f e s = Inr (s1, o1) \<Longrightarrow> run_ops f es s1 = Inr (s2, o2) \<Longrightarrow>
     run_ops f (e # es) s = Inr (s2, o1 @ o2)"
  by simp

inductive reaches :: "('e \<Rightarrow> 's step) \<Rightarrow> 's \<Rightarrow> 's \<Rightarrow> bool" for f where
  start: "reaches f s s"
| more: "reaches f s s2" if "reaches f s s1" and "f e s1 = Inr (s2, out)"

lemma run_ops_reaches: "run_ops f es s = Inr (s', out) \<Longrightarrow> reaches f s s'"
proof (induction es arbitrary: s' out rule: rev_induct)
  case Nil
  then show ?case by (auto intro: reaches.start)
next
  case (snoc e es)
  then obtain s1 o1 o2 where "run_ops f es s = Inr (s1, o1)" "f e s1 = Inr (s', o2)"
    by (auto simp: run_ops_append)
  then show ?case using snoc.IH reaches.more by fast
qed

lemma reaches_run_ops: "reaches f s s' \<Longrightarrow> \<exists>es out. run_ops f es s = Inr (s', out)"
proof (induction rule: reaches.induct)
  case start
  show ?case by (intro exI [of _ "[]"] exI [of _ "[]"]) simp
next
  case (more s s1 e s2 out)
  then obtain es out' where "run_ops f es s = Inr (s1, out')" by auto
  then show ?case
    using more by (intro exI [of _ "es @ [e]"]) (auto simp: run_ops_append)
qed

locale component =
  fixes do_op :: "'e \<Rightarrow> 's step"
    and first :: 's
    and inv :: "'s \<Rightarrow> bool"
  assumes inv_first: "inv first"
    and inv_op: "inv s \<Longrightarrow> do_op e s = Inr (s', out) \<Longrightarrow> inv s'"
begin

lemma inv_reaches: "reaches do_op s s' \<Longrightarrow> inv s \<Longrightarrow> inv s'"
  by (induction rule: reaches.induct) (auto intro: inv_op)

lemma inv_reachable: "reaches do_op first s \<Longrightarrow> inv s"
  using inv_reaches inv_first by blast

lemma inv_run: "run_ops do_op es first = Inr (s, out) \<Longrightarrow> inv s"
  by (blast intro: inv_reachable run_ops_reaches)

end

text \<open>
  A component that in addition fails in known ways only: \<open>bad\<close> are the faults an event may
  lead to in a state of the invariant.
\<close>

locale faulty_component = component do_op first inv
  for do_op :: "'e \<Rightarrow> 's step" and first :: 's and inv :: "'s \<Rightarrow> bool" +
  fixes bad :: "'e \<Rightarrow> fault \<Rightarrow> bool"
  assumes fault_op: "inv s \<Longrightarrow> do_op e s = Inl x \<Longrightarrow> bad e x"
begin

lemma fault_run:
  "inv s \<Longrightarrow> run_ops do_op es s = Inl x \<Longrightarrow> \<exists>e \<in> set es. bad e x"
proof (induction es arbitrary: s)
  case (Cons e es)
  show ?case
  proof (cases "do_op e s")
    case (Inl y)
    then show ?thesis using Cons.prems fault_op by auto
  next
    case (Inr r)
    then show ?thesis
      using Cons.prems Cons.IH [of "fst r"] inv_op
      by (cases r) (auto simp: bindR_eq_Inl)
  qed
qed simp

end

end
