(* ===== verification/ZbNetworking.thy ===== *)
theory ZbNetworking
  imports GpDeviceDb StateMachine
begin

text \<open>
  Zigbee messages and networks: \<open>CZigbeeMessaging\<close> and \<open>CZigbeeNetworking\<close> of
  \<open>src/ezsp/zigbee-tools/\<close>. Both turn requests into EZSP commands and react to responses;
  the commands are the effects of an operation. The random numbers are an infinite supply, one
  number for each draw, cut to the width of the distribution it is drawn from.
\<close>

section \<open>Messages\<close>

definition broadcast_payload :: "u16 \<Rightarrow> u8 \<Rightarrow> zigbee_msg \<Rightarrow> byte_buffer" where
  "broadcast_payload i_destination i_radius i_msg =
     (let l_zb_msg = msg_Get i_msg in
      [ucast (i_destination AND 0xFF), ucast (drop_bit 8 i_destination) AND 0xFF]
      @ GetEmberAPS (zm_aps i_msg) @ [i_radius] @ [0] @ [of_nat (length l_zb_msg)] @ l_zb_msg)"

definition SendBroadcast :: "u16 \<Rightarrow> u8 \<Rightarrow> zigbee_msg \<Rightarrow> effect list" where
  "SendBroadcast i_destination i_radius i_msg =
     [Send EZSP_SEND_BROADCAST (broadcast_payload i_destination i_radius i_msg)]"

definition unicast_payload :: "u16 \<Rightarrow> zigbee_msg \<Rightarrow> byte_buffer" where
  "unicast_payload i_node_id i_msg =
     (let l_zb_msg = msg_Get i_msg in
      [EMBER_OUTGOING_DIRECT]
      @ [ucast (i_node_id AND 0xFF), ucast (drop_bit 8 i_node_id) AND 0xFF]
      @ GetEmberAPS (zm_aps i_msg) @ [0] @ [of_nat (length l_zb_msg)] @ l_zb_msg)"

definition SendUnicast :: "u16 \<Rightarrow> zigbee_msg \<Rightarrow> effect list" where
  "SendUnicast i_node_id i_msg = [Send EZSP_SEND_UNICAST (unicast_payload i_node_id i_msg)]"

definition SendZDOCommand :: "u16 \<Rightarrow> u16 \<Rightarrow> byte_buffer \<Rightarrow> effect list" where
  "SendZDOCommand i_node_id i_cmd_id payload =
     SendUnicast i_node_id (msg_SetZdo i_cmd_id payload 0 new_zigbee_msg)"

definition messaging_rx :: "ezsp_cmd \<Rightarrow> byte_buffer \<Rightarrow> effect list result" where
  "messaging_rx i_cmd i_msg_receive =
     (if i_cmd = EZSP_MESSAGE_SENT_HANDLER then bindR (byte_at i_msg_receive 16) (\<lambda>_. Inr [])
      else Inr [])"

section \<open>Networks\<close>

record zb_nwk =
  nwk_random :: "nat \<Rightarrow> u16"
  nwk_child_idx :: u8
  nwk_discoverCallback :: bool
  nwk_form_channel :: u8
  nwk_joinNwkParams :: network_parameters

definition new_zb_nwk :: "(nat \<Rightarrow> u16) \<Rightarrow> zb_nwk" where
  "new_zb_nwk numbers = \<lparr>nwk_random = numbers, nwk_child_idx = 0, nwk_discoverCallback = False,
     nwk_form_channel = 11, nwk_joinNwkParams = new_network_parameters\<rparr>"

text \<open>\<open>n\<close> draws from the generator.\<close>

definition draw :: "nat \<Rightarrow> zb_nwk \<Rightarrow> u16 list \<times> zb_nwk" where
  "draw n w = (map (nwk_random w) [0..<n], w\<lparr>nwk_random := (\<lambda>i. nwk_random w (i + n))\<rparr>)"

definition rx_child_data :: "byte_buffer \<Rightarrow> zb_nwk \<Rightarrow> (zb_nwk \<times> effect list) result" where
  "rx_child_data i_msg_receive w =
     bindR (byte_at i_msg_receive 0) (\<lambda>status.
     if EMBER_SUCCESS = status then
       bindR (parse_child_data (tl i_msg_receive)) (\<lambda>l_rsp.
       let es = (if nwk_discoverCallback w
                 then [App (Discovered (cd_type l_rsp) (cd_eui64 l_rsp) (cd_id l_rsp))] else []);
           w = w\<lparr>nwk_child_idx := nwk_child_idx w + 1\<rparr>
       in Inr (w, es @ [Send EZSP_GET_CHILD_DATA [nwk_child_idx w]]))
     else Inr (w, []))"

definition rx_security_state :: "byte_buffer \<Rightarrow> zb_nwk \<Rightarrow> (zb_nwk \<times> effect list) result" where
  "rx_security_state i_msg_receive w =
     bindR (byte_at i_msg_receive 0) (\<lambda>status.
     if EMBER_SUCCESS = status then
       let (r, w) = draw 1 w;
           payload = new_network_parameters\<lparr>np_pan_id := hd r AND 0xFFFF, np_radio_tx_power := 3,
             np_radio_channel := nwk_form_channel w, np_join_method := EMBER_USE_MAC_ASSOCIATION\<rparr>
       in Inr (w, [Send EZSP_FORM_NETWORK (network_parameters_raw payload)])
     else Inr (w, []))"

text \<open>The responses whose status is only logged; the log reads it with \<open>at(0)\<close>.\<close>

definition nwk_logged :: "ezsp_cmd set" where
  "nwk_logged = {EZSP_PERMIT_JOINING, EZSP_SEND_BROADCAST, EZSP_SET_CONFIGURATION_VALUE,
     EZSP_FORM_NETWORK, EZSP_JOIN_NETWORK, EZSP_LEAVE_NETWORK}"

definition networking_rx ::
    "ezsp_cmd \<Rightarrow> byte_buffer \<Rightarrow> zb_nwk \<Rightarrow> (zb_nwk \<times> effect list) result" where
  "networking_rx i_cmd i_msg_receive w =
     (if i_cmd \<in> nwk_logged then bindR (byte_at i_msg_receive 0) (\<lambda>_. Inr (w, []))
      else if i_cmd = EZSP_GET_CHILD_DATA then rx_child_data i_msg_receive w
      else if i_cmd = EZSP_SET_INITIAL_SECURITY_STATE then rx_security_state i_msg_receive w
      else if i_cmd = EZSP_ADD_ENDPOINT then Inr (w, [Send EZSP_NETWORK_INIT []])
      else if i_cmd = EZSP_NETWORK_INIT then Inr (w, [Send EZSP_NETWORK_STATE []])
      else Inr (w, []))"

definition gateway_endpoint :: byte_buffer where
  "gateway_endpoint = [1, 0x04, 0x01, 0x07, 0x00, 0, 1, 1, 0, 0, 0, 0]"

definition green_power_endpoint :: byte_buffer where
  "green_power_endpoint = [242, 0x0E, 0xA1, 0x64, 0x00, 0, 1, 1, 0x21, 0, 0x21, 0]"

definition nwk_stackInit :: "(u8 \<times> u16) list \<Rightarrow> (u8 \<times> u8) list \<Rightarrow> effect list" where
  "nwk_stackInit l_config l_policy =
     map (\<lambda>(id, v). Send EZSP_SET_CONFIGURATION_VALUE [id, u16_get_lo_u8 v, u16_get_hi_u8 v]) l_config
     @ map (\<lambda>(id, d). Send EZSP_SET_POLICY [id, d]) l_policy
     @ [Send EZSP_ADD_ENDPOINT gateway_endpoint]
     @ [Send EZSP_ADD_ENDPOINT green_power_endpoint]"

definition setNetworkToJoin :: "network_parameters \<Rightarrow> zb_nwk \<Rightarrow> zb_nwk" where
  "setNetworkToJoin p w = w\<lparr>nwk_joinNwkParams := p\<rparr>"

definition nwk_joinNetwork :: "network_parameters \<Rightarrow> effect list" where
  "nwk_joinNetwork p = [Send EZSP_JOIN_NETWORK (EMBER_ROUTER # network_parameters_raw p)]"

definition nwk_joinPreset :: "zb_nwk \<Rightarrow> effect list" where
  "nwk_joinPreset w = nwk_joinNetwork (nwk_joinNwkParams w)"

text \<open>The key which the Zigbee Home Automation profile publishes.\<close>

definition HA_KEY :: byte_buffer where
  "HA_KEY = [0x5A, 0x69, 0x67, 0x42, 0x65, 0x65, 0x41, 0x6C, 0x6C, 0x69, 0x61, 0x6E, 0x63, 0x65, 0x30, 0x39]"

definition formHaNetwork :: "u8 \<Rightarrow> zb_nwk \<Rightarrow> zb_nwk \<times> effect list" where
  "formHaNetwork channel w =
     (let l_security_bitmak = 0 OR 0x0100 OR 0x0200 OR 0x0800 OR 0x0004 :: u16;
          (r, w) = draw 16 w;
          payload = [u16_get_lo_u8 l_security_bitmak, u16_get_hi_u8 l_security_bitmak]
            @ HA_KEY @ map (\<lambda>x. ucast x AND 0xFF) r @ [0] @ replicate 8 0
      in (w\<lparr>nwk_form_channel := channel\<rparr>,
          [Send EZSP_SET_POLICY [EZSP_TRUST_CENTER_POLICY, 0x01],
           Send EZSP_SET_POLICY [EZSP_TC_KEY_REQUEST_POLICY, 0x50],
           Send EZSP_SET_INITIAL_SECURITY_STATE payload]))"

definition permit_join_message :: "u8 \<Rightarrow> zigbee_msg" where
  "permit_join_message i_timeout = msg_SetZdo 0x0036 [i_timeout, 1] 0 new_zigbee_msg"

definition openNetwork :: "u8 \<Rightarrow> effect list" where
  "openNetwork i_timeout = Send EZSP_PERMIT_JOINING [i_timeout]
     # SendBroadcast E_OUT_MSG_BR_DEST_ALL_DEVICES 0 (permit_join_message i_timeout)"

definition closeNetwork :: "effect list" where
  "closeNetwork = Send EZSP_PERMIT_JOINING [0x00]
     # SendBroadcast E_OUT_MSG_BR_DEST_ALL_DEVICES 0 (permit_join_message 0x00)"

definition leaveNetwork :: "effect list" where
  "leaveNetwork = [Send EZSP_LEAVE_NETWORK []]"

definition startDiscoverProduct :: "bool \<Rightarrow> zb_nwk \<Rightarrow> zb_nwk \<times> effect list" where
  "startDiscoverProduct callback w =
     (let w = w\<lparr>nwk_child_idx := 0\<rparr>
      in (w\<lparr>nwk_discoverCallback := callback\<rparr>, [Send EZSP_GET_CHILD_DATA [nwk_child_idx w]]))"

end
