(* ===== verification/GpSink.thy ===== *)
theory GpSink
  imports ZbNetworking
begin

text \<open>
  The green power sink, \<open>NSEZSP::CGpSink\<close> of \<open>src/ezsp/zigbee-tools/green-power-sink.cpp\<close>: a
  state machine that fills, clears and edits the sink and proxy tables of the adapter by a
  command for every step, and hands green power frames to its observer. This is the default
  build, in which the adapter checks the integrity code of frames; \<open>builtin_key_status\<close> is the
  check of the other build.
\<close>

section \<open>Constants and state\<close>

definition GP_ENDPOINT :: u8 where "GP_ENDPOINT = 242"
definition GP_CLUSTER_ID :: u16 where "GP_CLUSTER_ID = 0x0021"
definition GP_PROXY_COMMISIONING_MODE_CLIENT_CMD_ID :: u8 where
  "GP_PROXY_COMMISIONING_MODE_CLIENT_CMD_ID = 0x02"
definition GPF_MANUFACTURER_ATTRIBUTE_REPORTING :: u8 where
  "GPF_MANUFACTURER_ATTRIBUTE_REPORTING = 0xA1"
definition GPF_COMMISSIONING_CMD :: u8 where "GPF_COMMISSIONING_CMD = 0xE0"
definition GPF_CHANNEL_REQUEST_CMD :: u8 where "GPF_CHANNEL_REQUEST_CMD = 0xE3"
definition GPF_CHANNEL_CONFIGURATION :: u8 where "GPF_CHANNEL_CONFIGURATION = 0xF3"
definition GP_PROFILE_ID :: u16 where "GP_PROFILE_ID = 0xA1E0"
definition PUBLIC_CODE :: u16 where "PUBLIC_CODE = 0xFFFF"

lemmas gpf_cmds = GPF_MANUFACTURER_ATTRIBUTE_REPORTING_def GPF_COMMISSIONING_CMD_def
  GPF_CHANNEL_REQUEST_CMD_def GPF_CHANNEL_CONFIGURATION_def

text \<open>The state callback is the function that tells whether to stay registered, its own effect
  being \<open>SinkStateIs\<close>; \<open>gs_observed\<close> tells whether the library is registered as observer.\<close>

record gp_sink =
  gs_sink_state :: sink_state
  gs_obsStateCallback :: "(sink_state \<Rightarrow> bool) option"
  gs_nwk_parameters :: network_parameters
  gs_authorizeGpfChannelRqst :: bool
  gs_gpf_comm_frame :: gp_frame
  gs_sink_table_index :: u8
  gs_gpds_to_register :: "gp_device list"
  gs_sink_table_entry :: sink_table_entry
  gs_proxy_table_index :: u8
  gs_gpds_to_remove :: "u32 list"
  gs_gpdSentLastHandlerNb :: u8
  gs_sentChannelSwitchSourceId :: u32
  gs_observed :: bool

definition new_gp_sink :: gp_sink where
  "new_gp_sink =
     \<lparr>gs_sink_state = SINK_NOT_INIT, gs_obsStateCallback = None,
      gs_nwk_parameters = new_network_parameters, gs_authorizeGpfChannelRqst = False,
      gs_gpf_comm_frame = new_gp_frame, gs_sink_table_index = 0xFF, gs_gpds_to_register = [],
      gs_sink_table_entry = new_sink_table_entry, gs_proxy_table_index = 0,
      gs_gpds_to_remove = [], gs_gpdSentLastHandlerNb = -1, gs_sentChannelSwitchSourceId = 0,
      gs_observed = False\<rparr>"

section \<open>Commands to the adapter\<close>

definition setSinkState :: "sink_state \<Rightarrow> gp_sink step" where
  "setSinkState i_state s =
     (let s = s\<lparr>gs_sink_state := i_state\<rparr> in
      case gs_obsStateCallback s of
        None \<Rightarrow> Inr (s, [])
      | Some cb \<Rightarrow> Inr (if cb i_state then s else s\<lparr>gs_obsStateCallback := None\<rparr>,
                       [SinkStateIs i_state]))"

definition commissioning_mode_msg :: "u8 \<Rightarrow> zigbee_msg" where
  "commissioning_mode_msg i_option =
     (let m = msg_SetSpecific GP_PROFILE_ID PUBLIC_CODE GP_ENDPOINT GP_CLUSTER_ID
                GP_PROXY_COMMISIONING_MODE_CLIENT_CMD_ID E_DIR_SERVER_TO_CLIENT [i_option] 0 0 0
                new_zigbee_msg
      in m\<lparr>zm_aps := (zm_aps m)\<lparr>aps_src_ep := GP_ENDPOINT\<rparr>\<rparr>)"

definition sendLocalGPProxyCommissioningMode :: "u8 \<Rightarrow> gp_sink step" where
  "sendLocalGPProxyCommissioningMode i_option = emit (SendUnicast 0 (commissioning_mode_msg i_option))"

definition gpSinkTableFindOrAllocateEntry :: "u32 \<Rightarrow> gp_sink step" where
  "gpSinkTableFindOrAllocateEntry i_src_id =
     emit [Send EZSP_GP_SINK_TABLE_FIND_OR_ALLOCATE_ENTRY (gp_address_raw (gp_address_of i_src_id))]"

definition gpSinkGetEntry :: "u8 \<Rightarrow> gp_sink step" where
  "gpSinkGetEntry i_index = emit [Send EZSP_GP_SINK_TABLE_GET_ENTRY [i_index]]"

definition gpSinkSetEntry :: "u8 \<Rightarrow> sink_table_entry \<Rightarrow> gp_sink step" where
  "gpSinkSetEntry i_index i_entry =
     emit [Send EZSP_GP_SINK_TABLE_SET_ENTRY (i_index # sink_table_entry_raw i_entry)]"

definition gpProxyTableProcessGpPairing :: "gp_pairing \<Rightarrow> gp_sink step" where
  "gpProxyTableProcessGpPairing i_param =
     emit [Send EZSP_GP_PROXY_TABLE_PROCESS_GP_PAIRING (gp_pairing_get i_param)]"

definition gpSend ::
    "bool \<Rightarrow> bool \<Rightarrow> gp_address \<Rightarrow> u8 \<Rightarrow> byte_buffer \<Rightarrow> u16 \<Rightarrow> u8 \<Rightarrow> gp_sink step" where
  "gpSend i_action i_use_cca i_gp_addr i_gpd_command_id i_gpd_command_payload i_life_time_ms i_handle =
     (let payload_size = length i_gpd_command_payload;
          payload_size = (if 255 < payload_size then 255 else payload_size)
      in emit [Send EZSP_D_GP_SEND
           ([of_bool i_action] @ [of_bool i_use_cca] @ gp_address_raw i_gp_addr
            @ [i_gpd_command_id] @ [of_nat payload_size] @ i_gpd_command_payload @ [i_handle]
            @ [ucast (i_life_time_ms AND 0xFF), ucast (drop_bit 8 i_life_time_ms) AND 0xFF])])"

definition gpSinkTableRemoveEntry :: "u8 \<Rightarrow> gp_sink step" where
  "gpSinkTableRemoveEntry i_index = emit [Send EZSP_GP_SINK_TABLE_REMOVE_ENTRY [i_index]]"

definition gpProxyTableLookup :: "u32 \<Rightarrow> gp_sink step" where
  "gpProxyTableLookup i_src_id =
     emit [Send EZSP_GP_PROXY_TABLE_LOOKUP (gp_address_raw (gp_address_of i_src_id))]"

definition gpSinkTableLookup :: "u32 \<Rightarrow> gp_sink step" where
  "gpSinkTableLookup i_src_id =
     emit [Send EZSP_GP_SINK_TABLE_LOOKUP (gp_address_raw (gp_address_of i_src_id))]"

definition notifyObserversOfRxGpFrame :: "gp_frame \<Rightarrow> gp_sink step" where
  "notifyObserversOfRxGpFrame i_gpf s = Inr (s, if gs_observed s then [SinkGpFrame i_gpf] else [])"

definition notifyObserversOfRxGpdId :: "u32 \<Rightarrow> bool \<Rightarrow> key_status \<Rightarrow> gp_sink step" where
  "notifyObserversOfRxGpdId i_gpd_id known status s =
     Inr (s, if gs_observed s then [SinkGpdId i_gpd_id known status] else [])"

lemmas sink_commands = sendLocalGPProxyCommissioningMode_def SendUnicast_def gpSinkTableFindOrAllocateEntry_def
  gpSinkGetEntry_def gpSinkSetEntry_def gpProxyTableProcessGpPairing_def gpSend_def
  gpSinkTableRemoveEntry_def gpProxyTableLookup_def gpSinkTableLookup_def
  notifyObserversOfRxGpFrame_def notifyObserversOfRxGpdId_def

section \<open>Requests\<close>

definition sink_registerObserver :: "gp_sink \<Rightarrow> bool \<times> gp_sink" where
  "sink_registerObserver s = (\<not> gs_observed s, s\<lparr>gs_observed := True\<rparr>)"

definition sink_unregisterObserver :: "gp_sink \<Rightarrow> bool \<times> gp_sink" where
  "sink_unregisterObserver s = (gs_observed s, s\<lparr>gs_observed := False\<rparr>)"

definition registerStateCallback :: "(sink_state \<Rightarrow> bool) option \<Rightarrow> gp_sink \<Rightarrow> gp_sink" where
  "registerStateCallback cb s = s\<lparr>gs_obsStateCallback := cb\<rparr>"

definition authorizeAnswerToGpfChannelRqst :: "bool \<Rightarrow> gp_sink \<Rightarrow> gp_sink" where
  "authorizeAnswerToGpfChannelRqst i_authorize s = s\<lparr>gs_authorizeGpfChannelRqst := i_authorize\<rparr>"

definition sink_init :: "gp_sink step" where
  "sink_init = steps
     [emit [Send EZSP_GP_SINK_TABLE_INIT []],
      emit [Send EZSP_GET_NETWORK_PARAMETERS []],
      setSinkState SINK_READY]"

definition gpClearAllTables :: "gp_sink \<Rightarrow> (bool \<times> gp_sink \<times> effect list) result" where
  "gpClearAllTables s =
     (if gs_sink_state s \<noteq> SINK_READY then Inr (False, s, [])
      else returning True (steps
        [setSinkState SINK_CLEAR_ALL,
         emit [Send EZSP_GP_SINK_TABLE_CLEAR_ALL []],
         emit [Send EZSP_GP_PROXY_TABLE_GET_ENTRY [0]]]) s)"

definition sink_openCommissioningSession :: "gp_sink step" where
  "sink_openCommissioningSession =
     steps [sendLocalGPProxyCommissioningMode 0x05, setSinkState SINK_COM_OPEN]"

definition sink_closeCommissioningSession :: "gp_sink step" where
  "sink_closeCommissioningSession =
     steps [sendLocalGPProxyCommissioningMode 0x00, setSinkState SINK_READY]"

definition registerGpds :: "gp_device list \<Rightarrow> gp_sink \<Rightarrow> (bool \<times> gp_sink \<times> effect list) result" where
  "registerGpds gpd s =
     (if gs_sink_state s \<noteq> SINK_READY then Inr (False, s, [])
      else if gpd = [] then Inr (False, s, [])
      else returning True (steps
        [setSinkState SINK_COM_OFFLINE_IN_PROGRESS,
         modify (\<lambda>s. s\<lparr>gs_gpds_to_register := gpd\<rparr>),
         \<lambda>s. gpSinkTableFindOrAllocateEntry (gd_source_id (last (gs_gpds_to_register s))) s]) s)"

definition clearAllGpds :: "gp_sink \<Rightarrow> (bool \<times> gp_sink \<times> effect list) result" where
  "clearAllGpds s =
     (if gs_sink_state s \<noteq> SINK_READY then Inr (False, s, []) else gpClearAllTables s)"

definition removeGpds :: "u32 list \<Rightarrow> gp_sink \<Rightarrow> (bool \<times> gp_sink \<times> effect list) result" where
  "removeGpds gpd s =
     (if gs_sink_state s \<noteq> SINK_READY then Inr (False, s, [])
      else if gpd = [] then Inr (False, s, [])
      else returning True (steps
        [setSinkState SINK_REMOVE_IN_PROGRESS,
         modify (\<lambda>s. s\<lparr>gs_gpds_to_remove := gpd\<rparr>),
         \<lambda>s. gpSinkTableLookup (last (gs_gpds_to_remove s)) s]) s)"

section \<open>Received green power frames\<close>

definition rx_no_security :: "gp_frame \<Rightarrow> gp_sink step" where
  "rx_no_security gpf = steps
     [\<lambda>s. if gs_sink_state s = SINK_COM_OPEN \<and> gf_command_id gpf = GPF_COMMISSIONING_CMD then
            steps [gpSinkTableFindOrAllocateEntry (gf_source_id gpf),
                   modify (\<lambda>s. s\<lparr>gs_gpf_comm_frame := gpf\<rparr>),
                   setSinkState SINK_COM_IN_PROGRESS] s
          else skip s,
      \<lambda>s. if gs_authorizeGpfChannelRqst s \<and> gf_command_id gpf = GPF_CHANNEL_REQUEST_CMD then
            bindR (byte_at (gf_payload gpf) 0) (\<lambda>b.
              let l_next_channel_attempt = b AND 0x0F;
                  channelByte = np_radio_channel (gs_nwk_parameters s) - 11
              in if l_next_channel_attempt = channelByte then
                   gpSend True True (gp_address_of (gf_source_id gpf)) GPF_CHANNEL_CONFIGURATION
                     [0x10 OR channelByte] 2000 0 s
                 else skip s)
          else skip s]"

definition channel_switch_request :: "gp_frame \<Rightarrow> bool" where
  "channel_switch_request gpf \<longleftrightarrow>
     gf_command_id gpf = GPF_MANUFACTURER_ATTRIBUTE_REPORTING \<and> 6 < length (gf_payload gpf)"

definition rx_channel_switch :: "gp_frame \<Rightarrow> gp_sink step" where
  "rx_channel_switch gpf s =
     (if gs_sentChannelSwitchSourceId s \<noteq> 0 then skip s
      else bindR (le16_at (gf_payload gpf) 0) (\<lambda>l_manufacturer_id.
        bindR (le16_at (gf_payload gpf) 2) (\<lambda>l_cluster_id.
        bindR (le16_at (gf_payload gpf) 4) (\<lambda>l_attribute_id.
        bindR (byte_at (gf_payload gpf) 6) (\<lambda>l_type_id.
        if 0x1021 = l_manufacturer_id \<and> 0 = l_cluster_id \<and> 0x5000 = l_attribute_id
            \<and> 0x20 = l_type_id then
          let channelByte = np_radio_channel (gs_nwk_parameters s) - 11;
              s = s\<lparr>gs_gpdSentLastHandlerNb := gs_gpdSentLastHandlerNb s + 1,
                    gs_sentChannelSwitchSourceId := gf_source_id gpf\<rparr>
          in gpSend True True (gp_address_of (gf_source_id gpf)) GPF_CHANNEL_CONFIGURATION
               [0x10 OR channelByte] 1000 (gs_gpdSentLastHandlerNb s) s
        else skip s)))))"

definition rx_security :: "gp_frame \<Rightarrow> gp_sink step" where
  "rx_security gpf = steps
     [if channel_switch_request gpf then rx_channel_switch gpf else skip,
      notifyObserversOfRxGpFrame gpf]"

definition adapter_key_status :: "u8 \<Rightarrow> key_status" where
  "adapter_key_status l_status =
     (if l_status = EMBER_SUCCESS then KeyValid
      else if l_status = UNDOCUMENTED_WRONG_MIC_FOR_SOURCE_ID then KeyInvalid
      else KeyUndefined)"

text \<open>The check of the build with \<open>USE_BUILTIN_MIC_PROCESSING\<close>; \<open>oob\<close> is the memory behind a
  buffer, as for \<open>validateMIC\<close>.\<close>

definition builtin_key_status ::
    "gp_dev_db \<Rightarrow> (nat \<Rightarrow> u8) \<Rightarrow> gp_frame \<Rightarrow> key_status result" where
  "builtin_key_status db oob gpf =
     (case getKeyForSourceId (gf_source_id gpf) db of
        None \<Rightarrow> Inr KeyUndefined
      | Some key \<Rightarrow> bindR (validateMIC key oob gpf) (\<lambda>(ok, _). Inr (if ok then KeyValid else KeyInvalid)))"

definition rx_incoming :: "byte_buffer \<Rightarrow> gp_sink step" where
  "rx_incoming i_msg_receive s =
     bindR (parse_gp_frame i_msg_receive) (\<lambda>gpf.
     bindR (byte_at i_msg_receive 0) (\<lambda>l_status.
     let l_key_status = adapter_key_status l_status;
         known = (gf_proxy_table_entry gpf \<noteq> 0xFF)
     in steps
       [notifyObserversOfRxGpdId (gf_source_id gpf) known l_key_status,
        notifyObserversOfRxGpdId (gf_source_id gpf) known l_key_status,
        if gf_security gpf = GPD_NO_SECURITY then rx_no_security gpf
        else if l_key_status = KeyValid then rx_security gpf
        else skip] s))"

section \<open>Responses of the adapter\<close>

definition rx_network_parameters :: "byte_buffer \<Rightarrow> gp_sink step" where
  "rx_network_parameters i_msg_receive s =
     bindR (parse_network_parameters_response i_msg_receive) (\<lambda>l_rsp.
     if EMBER_SUCCESS = npr_status l_rsp then Inr (s\<lparr>gs_nwk_parameters := npr_parameters l_rsp\<rparr>, [])
     else skip s)"

definition rx_find_or_allocate :: "byte_buffer \<Rightarrow> gp_sink step" where
  "rx_find_or_allocate i_msg_receive s =
     (if gs_sink_state s = SINK_COM_IN_PROGRESS \<or> gs_sink_state s = SINK_COM_OFFLINE_IN_PROGRESS then
        bindR (byte_at i_msg_receive 0) (\<lambda>index.
        let s = s\<lparr>gs_sink_table_index := index\<rparr> in
        if 0xFF \<noteq> gs_sink_table_index s then gpSinkGetEntry (gs_sink_table_index s) s
        else setSinkState SINK_READY s)
      else skip s)"

definition rx_sink_lookup :: "byte_buffer \<Rightarrow> gp_sink step" where
  "rx_sink_lookup i_msg_receive s =
     (if gs_sink_state s = SINK_REMOVE_IN_PROGRESS then
        bindR (byte_at i_msg_receive 0) (\<lambda>index. steps
          [if 0xFF \<noteq> index then gpSinkTableRemoveEntry index else skip,
           \<lambda>s. if gs_gpds_to_remove s \<noteq> [] then gpProxyTableLookup (last (gs_gpds_to_remove s)) s
               else skip s] s)
      else skip s)"

text \<open>The entry to write for the device whose commissioning frame was kept.\<close>

definition online_entry :: "sink_table_entry \<Rightarrow> gp_sink \<Rightarrow> sink_table_entry result" where
  "online_entry l_entry s =
     (let gpf = gs_gpf_comm_frame s in
      bindR (new_commissioning_payload (gf_payload gpf) (gf_source_id gpf)) (\<lambda>l_payload.
      let l_gp_addr = gp_address_of (gf_source_id gpf);
          l_options = sink_option_commissioned (addr_applicationId l_gp_addr) l_payload;
          l_entry = ste_setDeviceId (com_device_id l_payload) l_entry;
          l_entry = ste_setAlias (ucast (gf_source_id gpf AND 0xFFFF)) l_entry;
          l_entry = ste_setSecurityOption (com_extended_options l_payload AND 0x1F) l_entry;
          l_entry = ste_setFrameCounter (com_out_frame_counter l_payload) l_entry;
          l_entry = ste_setKey (com_key l_payload) l_entry
      in Inr (ste_setGpdAddress l_gp_addr (ste_setOptions l_options (ste_setEntryActive True l_entry)))))"

text \<open>The entry to write for the last device of the list to register.\<close>

definition offline_entry :: "sink_table_entry \<Rightarrow> gp_sink \<Rightarrow> sink_table_entry" where
  "offline_entry l_entry s =
     (let (l_gp_addr, l_options, l_entry) =
        (if gs_gpds_to_register s \<noteq> [] then
           let gpd = last (gs_gpds_to_register s);
               l_gp_addr = gp_address_of (gd_source_id gpd);
               l_entry = ste_setAlias (ucast (address_source_id l_gp_addr AND 0xFFFF)) l_entry;
               l_entry = ste_setSecurityOption (gd_security_option gpd) l_entry;
               l_entry = ste_setFrameCounter 0 l_entry;
               l_entry = ste_setKey (gd_key gpd) l_entry
           in (l_gp_addr, gd_option gpd, l_entry)
         else (new_gp_address, new_sink_option, l_entry))
      in ste_setGpdAddress l_gp_addr (ste_setOptions l_options (ste_setEntryActive True l_entry)))"

definition rx_sink_get_entry :: "byte_buffer \<Rightarrow> gp_sink step" where
  "rx_sink_get_entry i_msg_receive s =
     bindR (byte_at i_msg_receive 0) (\<lambda>l_status.
     bindR (parse_sink_table_entry (tl i_msg_receive)) (\<lambda>l_entry.
     if gs_sink_state s = SINK_COM_IN_PROGRESS \<or> gs_sink_state s = SINK_COM_OFFLINE_IN_PROGRESS then
       bindR (if gs_sink_state s = SINK_COM_IN_PROGRESS then online_entry l_entry s
              else Inr (offline_entry l_entry s)) (\<lambda>l_entry. steps
         [gpSinkSetEntry (gs_sink_table_index s) l_entry,
          modify (\<lambda>s. s\<lparr>gs_sink_table_entry := l_entry\<rparr>)] s)
     else skip s))"

definition rx_sink_set_entry :: "byte_buffer \<Rightarrow> gp_sink step" where
  "rx_sink_set_entry i_msg_receive s =
     (if gs_sink_state s = SINK_COM_IN_PROGRESS \<or> gs_sink_state s = SINK_COM_OFFLINE_IN_PROGRESS then
        bindR (byte_at i_msg_receive 0) (\<lambda>l_status.
        if EMBER_SUCCESS \<noteq> l_status then setSinkState SINK_READY s
        else gpProxyTableProcessGpPairing
               (gp_pairing_of_entry (gs_sink_table_entry s) True False 0 [0,0,0,0,0,0,0,0]) s)
      else skip s)"

definition rx_proxy_lookup :: "byte_buffer \<Rightarrow> gp_sink step" where
  "rx_proxy_lookup i_msg_receive s =
     (if gs_sink_state s = SINK_REMOVE_IN_PROGRESS then
        bindR (byte_at i_msg_receive 0) (\<lambda>index. steps
          [\<lambda>s. if 0xFF \<noteq> index \<and> gs_gpds_to_remove s \<noteq> []
               then gpProxyTableProcessGpPairing (gp_pairing_remove (last (gs_gpds_to_remove s))) s
               else skip s,
           modify (\<lambda>s. s\<lparr>gs_gpds_to_remove := butlast (gs_gpds_to_remove s)\<rparr>),
           \<lambda>s. if gs_gpds_to_remove s = [] then setSinkState SINK_READY s
               else gpSinkTableLookup (last (gs_gpds_to_remove s)) s] s)
      else skip s)"

definition rx_proxy_get_entry :: "byte_buffer \<Rightarrow> gp_sink step" where
  "rx_proxy_get_entry i_msg_receive s =
     (if gs_sink_state s = SINK_CLEAR_ALL then
        bindR (byte_at i_msg_receive 0) (\<lambda>l_status.
        if EMBER_SUCCESS = l_status then
          bindR (parse_proxy_table_entry (tl i_msg_receive)) (\<lambda>l_entry.
          gpProxyTableProcessGpPairing (gp_pairing_remove (address_source_id (pte_gpd l_entry))) s)
        else setSinkState SINK_READY s)
      else skip s)"

text \<open>\<open>pop_back\<close> of an empty vector is undefined.\<close>

definition rx_pairing_done :: "byte_buffer \<Rightarrow> gp_sink step" where
  "rx_pairing_done i_msg_receive s =
     (if gs_sink_state s = SINK_COM_IN_PROGRESS then
        bindR (byte_idx i_msg_receive 0) (\<lambda>_. sink_closeCommissioningSession s)
      else if gs_sink_state s = SINK_COM_OFFLINE_IN_PROGRESS then
        bindR (byte_idx i_msg_receive 0) (\<lambda>_.
        if gs_gpds_to_register s = [] then Inl Undefined
        else let s = s\<lparr>gs_gpds_to_register := butlast (gs_gpds_to_register s)\<rparr> in
          if gs_gpds_to_register s \<noteq> []
          then gpSinkTableFindOrAllocateEntry (gd_source_id (last (gs_gpds_to_register s))) s
          else setSinkState SINK_READY s)
      else if gs_sink_state s = SINK_CLEAR_ALL then
        let s = s\<lparr>gs_proxy_table_index := gs_proxy_table_index s + 1\<rparr>
        in emit [Send EZSP_GP_PROXY_TABLE_GET_ENTRY [gs_proxy_table_index s]] s
      else skip s)"

definition rx_gp_sent :: "byte_buffer \<Rightarrow> gp_sink step" where
  "rx_gp_sent i_msg_receive s =
     bindR (byte_at i_msg_receive 0) (\<lambda>l_status.
     bindR (byte_at i_msg_receive 1) (\<lambda>gpepHandle.
     if EMBER_SUCCESS = l_status then
       if gpepHandle \<noteq> gs_gpdSentLastHandlerNb s then skip s
       else if gs_sentChannelSwitchSourceId s = 0 then skip s
       else Inr (s\<lparr>gs_sentChannelSwitchSourceId := 0,
                   gs_gpdSentLastHandlerNb := gs_gpdSentLastHandlerNb s - 1\<rparr>, [])
     else skip s))"

definition sink_rx :: "ezsp_cmd \<Rightarrow> byte_buffer \<Rightarrow> gp_sink step" where
  "sink_rx i_cmd i_msg_receive =
     (if i_cmd = EZSP_GP_PROXY_TABLE_GET_ENTRY then rx_proxy_get_entry i_msg_receive
      else if i_cmd = EZSP_GET_NETWORK_PARAMETERS then rx_network_parameters i_msg_receive
      else if i_cmd = EZSP_GP_SINK_TABLE_INIT then skip
      else if i_cmd = EZSP_GPEP_INCOMING_MESSAGE_HANDLER then rx_incoming i_msg_receive
      else if i_cmd = EZSP_GP_SINK_TABLE_FIND_OR_ALLOCATE_ENTRY then rx_find_or_allocate i_msg_receive
      else if i_cmd = EZSP_GP_SINK_TABLE_LOOKUP then rx_sink_lookup i_msg_receive
      else if i_cmd = EZSP_GP_PROXY_TABLE_LOOKUP then rx_proxy_lookup i_msg_receive
      else if i_cmd = EZSP_GP_SINK_TABLE_GET_ENTRY then rx_sink_get_entry i_msg_receive
      else if i_cmd = EZSP_GP_SINK_TABLE_SET_ENTRY then rx_sink_set_entry i_msg_receive
      else if i_cmd = EZSP_GP_PROXY_TABLE_PROCESS_GP_PAIRING then rx_pairing_done i_msg_receive
      else if i_cmd = EZSP_D_GP_SEND then (\<lambda>s. bindR (byte_at i_msg_receive 0) (\<lambda>_. skip s))
      else if i_cmd = EZSP_D_GP_SENT_HANDLER then rx_gp_sent i_msg_receive
      else if i_cmd = EZSP_SEND_RAW_MESSAGE \<or> i_cmd = EZSP_RAW_TRANSMIT_COMPLETE_HANDLER
      then (\<lambda>s. bindR (byte_at i_msg_receive 0) (\<lambda>_. skip s))
      else skip)"

lemmas sink_handlers = rx_network_parameters_def rx_find_or_allocate_def rx_sink_lookup_def
  rx_sink_get_entry_def rx_sink_set_entry_def rx_proxy_lookup_def rx_proxy_get_entry_def
  rx_pairing_done_def rx_gp_sent_def

text \<open>The operations of the sink, as the events of a state machine.\<close>

datatype sink_op =
    SinkRx ezsp_cmd byte_buffer
  | SinkInit
  | SinkClear
  | SinkOpen
  | SinkClose
  | SinkRegister "gp_device list"
  | SinkRemove "u32 list"
  | SinkAuthorize bool
  | SinkCallback "(sink_state \<Rightarrow> bool) option"
  | SinkObserve bool

text \<open>The result of a request is left out.\<close>

definition no_result :: "('r \<times> 's \<times> effect list) result \<Rightarrow> ('s \<times> effect list) result" where
  "no_result m = bindR m (\<lambda>(r, s, es). Inr (s, es))"

fun sink_do :: "sink_op \<Rightarrow> gp_sink step" where
  "sink_do (SinkRx c p) s = sink_rx c p s"
| "sink_do SinkInit s = sink_init s"
| "sink_do SinkClear s = no_result (clearAllGpds s)"
| "sink_do SinkOpen s = sink_openCommissioningSession s"
| "sink_do SinkClose s = sink_closeCommissioningSession s"
| "sink_do (SinkRegister ds) s = no_result (registerGpds ds s)"
| "sink_do (SinkRemove ids) s = no_result (removeGpds ids s)"
| "sink_do (SinkAuthorize b) s = modify (authorizeAnswerToGpfChannelRqst b) s"
| "sink_do (SinkCallback cb) s = modify (registerStateCallback cb) s"
| "sink_do (SinkObserve b) s =
     modify (\<lambda>s. snd (if b then sink_registerObserver s else sink_unregisterObserver s)) s"

text \<open>What each command makes \<open>sink_rx\<close> do.\<close>

lemma sink_rx_simps:
  "sink_rx EZSP_GP_PROXY_TABLE_GET_ENTRY p = rx_proxy_get_entry p"
  "sink_rx EZSP_GET_NETWORK_PARAMETERS p = rx_network_parameters p"
  "sink_rx EZSP_GP_SINK_TABLE_INIT p = skip"
  "sink_rx EZSP_GPEP_INCOMING_MESSAGE_HANDLER p = rx_incoming p"
  "sink_rx EZSP_GP_SINK_TABLE_FIND_OR_ALLOCATE_ENTRY p = rx_find_or_allocate p"
  "sink_rx EZSP_GP_SINK_TABLE_LOOKUP p = rx_sink_lookup p"
  "sink_rx EZSP_GP_PROXY_TABLE_LOOKUP p = rx_proxy_lookup p"
  "sink_rx EZSP_GP_SINK_TABLE_GET_ENTRY p = rx_sink_get_entry p"
  "sink_rx EZSP_GP_SINK_TABLE_SET_ENTRY p = rx_sink_set_entry p"
  "sink_rx EZSP_GP_PROXY_TABLE_PROCESS_GP_PAIRING p = rx_pairing_done p"
  "sink_rx EZSP_D_GP_SENT_HANDLER p = rx_gp_sent p"
  "sink_rx EZSP_GP_SINK_TABLE_REMOVE_ENTRY p = skip"
  by (simp_all add: sink_rx_def ezsp_ids)

end
