(* ===== verification/GpSinkProps.thy ===== *)
theory GpSinkProps
  imports GpSink
begin

text \<open>
  Correctness of the sink: the invariant of its state machine, conversations of the sink with
  an adapter that answers its commands, and the removal of devices as such a conversation.
\<close>

section \<open>The invariant\<close>

definition sink_wf :: "gp_sink \<Rightarrow> bool" where
  "sink_wf s \<longleftrightarrow>
     (gs_sink_state s = SINK_COM_OFFLINE_IN_PROGRESS \<longrightarrow> gs_gpds_to_register s \<noteq> [])
     \<and> (gs_sink_state s = SINK_REMOVE_IN_PROGRESS \<longrightarrow> gs_gpds_to_remove s \<noteq> [])"

definition sink_op_bad :: "sink_op \<Rightarrow> fault \<Rightarrow> bool" where
  "sink_op_bad e x \<longleftrightarrow> (\<exists>c p. e = SinkRx c p \<and> (x = OutOfRange \<or> x = Undefined \<and> length p < 3))"

lemma setSinkState_eq:
  "setSinkState st s = Inr (s\<lparr>gs_sink_state := st,
     gs_obsStateCallback := (case gs_obsStateCallback s of None \<Rightarrow> None
        | Some cb \<Rightarrow> if cb st then Some cb else None)\<rparr>,
     if gs_obsStateCallback s = None then [] else [SinkStateIs st])"
  by (cases s) (auto simp: setSinkState_def Let_def split: option.splits)

lemmas sink_requests = sink_init_def clearAllGpds_def gpClearAllTables_def
  sink_openCommissioningSession_def sink_closeCommissioningSession_def registerGpds_def
  removeGpds_def authorizeAnswerToGpfChannelRqst_def registerStateCallback_def
  sink_registerObserver_def sink_unregisterObserver_def no_result_def

lemma sink_wf_new: "sink_wf new_gp_sink"
  by (simp add: sink_wf_def new_gp_sink_def)

lemma sink_wf_rx_incoming:
  assumes "sink_wf s" "rx_incoming p s = Inr (s', es)"
  shows "sink_wf s'"
  using assms
  by (auto simp: rx_incoming_def rx_security_def rx_channel_switch_def rx_no_security_def
      sink_commands step_simps setSinkState_eq sink_wf_def Let_def split: if_splits)

lemma sink_wf_handlers:
  assumes "sink_wf s"
  shows "rx_network_parameters p s = Inr (s', es) \<Longrightarrow> sink_wf s'"
    "rx_find_or_allocate p s = Inr (s', es) \<Longrightarrow> sink_wf s'"
    "rx_sink_lookup p s = Inr (s', es) \<Longrightarrow> sink_wf s'"
    "rx_sink_get_entry p s = Inr (s', es) \<Longrightarrow> sink_wf s'"
    "rx_sink_set_entry p s = Inr (s', es) \<Longrightarrow> sink_wf s'"
    "rx_proxy_lookup p s = Inr (s', es) \<Longrightarrow> sink_wf s'"
    "rx_proxy_get_entry p s = Inr (s', es) \<Longrightarrow> sink_wf s'"
    "rx_pairing_done p s = Inr (s', es) \<Longrightarrow> sink_wf s'"
    "rx_gp_sent p s = Inr (s', es) \<Longrightarrow> sink_wf s'"
  using assms
  by (auto simp: sink_handlers sink_closeCommissioningSession_def
      sink_commands step_simps setSinkState_eq sink_wf_def Let_def split: if_splits)

lemma sink_wf_rx: "sink_wf s \<Longrightarrow> sink_rx c p s = Inr (s', es) \<Longrightarrow> sink_wf s'"
  by (auto simp: sink_rx_def skip_def split: if_splits intro: sink_wf_handlers sink_wf_rx_incoming)

lemma sink_wf_do:
  assumes "sink_wf s" "sink_do e s = Inr (s', es)"
  shows "sink_wf s'"
proof (cases e)
  case (SinkRx c p)
  then show ?thesis using assms sink_wf_rx by simp
qed (use assms in \<open>auto simp: sink_requests sink_commands step_simps setSinkState_eq sink_wf_def
      split: if_splits\<close>)

lemma needs_InlD: "needs n f \<Longrightarrow> f raw = Inl x \<Longrightarrow> x = OutOfRange"
  by (metis needs_def sum.sel(1) sum.distinct(1) linorder_not_less)

lemma parse_gp_frame_InlD:
  "parse_gp_frame raw = Inl x \<Longrightarrow> x = OutOfRange \<or> x = Undefined \<and> length raw < 3"
  by (auto simp: parse_gp_frame_def parse_gp_address_eq bytes_at_eq le32_at_eq bindR_eq_Inl Let_def
      split: if_splits)

lemma le16_at_InlD: "le16_at raw i = Inl x \<Longrightarrow> x = OutOfRange"
  by (auto simp: le16_at_eq split: if_splits)

lemma new_commissioning_payload_InlD: "new_commissioning_payload raw i = Inl x \<Longrightarrow> x = OutOfRange"
  using com_decoder_throws [of raw i] by (simp add: throws_only_def)

lemmas decoder_InlD = needs_InlD [OF needs_network_parameters_response]
  needs_InlD [OF needs_sink_table_entry] needs_InlD [OF needs_proxy_table_entry]
  new_commissioning_payload_InlD le16_at_InlD

lemma rx_incoming_InlD:
  "rx_incoming p s = Inl x \<Longrightarrow> x = OutOfRange \<or> x = Undefined \<and> length p < 3"
  by (auto simp: rx_incoming_def rx_security_def rx_channel_switch_def rx_no_security_def
      sink_commands step_simps setSinkState_eq Let_def bindR_eq_Inl
      dest: decoder_InlD parse_gp_frame_InlD split: if_splits)

lemma sink_rx_InlD:
  assumes "sink_wf s" "sink_rx c p s = Inl x"
  shows "x = OutOfRange \<or> x = Undefined \<and> length p < 3"
proof (cases "c = EZSP_GPEP_INCOMING_MESSAGE_HANDLER")
  case True
  then show ?thesis using assms rx_incoming_InlD by (simp add: sink_rx_simps)
next
  case False
  then show ?thesis using assms
  by (auto simp: sink_rx_def sink_handlers sink_closeCommissioningSession_def online_entry_def
      sink_commands step_simps setSinkState_eq sink_wf_def Let_def bindR_eq_Inl
      dest: decoder_InlD split: if_splits)
qed

lemma sink_do_InlD:
  assumes "sink_wf s" "sink_do e s = Inl x"
  shows "sink_op_bad e x"
proof (cases e)
  case (SinkRx c p)
  then show ?thesis using assms sink_rx_InlD [of s c p x] by (auto simp: sink_op_bad_def)
qed (use assms in \<open>auto simp: sink_requests sink_commands step_simps setSinkState_eq bindR_eq_Inl Let_def
      split: if_splits\<close>)

interpretation sink: faulty_component sink_do new_gp_sink sink_wf sink_op_bad
  by unfold_locales (auto intro: sink_wf_new sink_wf_do sink_do_InlD)


section \<open>Conversations with the adapter\<close>

text \<open>
  The sink and an adapter that answers every command: the commands wait in a queue, one at a
  time is answered, and what the sink sends on the answer goes to the end of the queue. The
  result is the sink, the commands still waiting when \<open>n\<close> have been answered, and the
  commands that were answered.
\<close>

fun converse :: "nat \<Rightarrow> (ezsp_msg \<Rightarrow> byte_buffer) \<Rightarrow> ezsp_msg list \<Rightarrow> gp_sink
     \<Rightarrow> (gp_sink \<times> ezsp_msg list \<times> ezsp_msg list) result" where
  "converse n ad [] s = Inr (s, [], [])"
| "converse 0 ad (m # q) s = Inr (s, m # q, [])"
| "converse (Suc n) ad (m # q) s =
     bindR (sink_rx (fst m) (ad m) s) (\<lambda>(s, es).
     bindR (converse n ad (q @ sent es) s) (\<lambda>(s, q, log). Inr (s, q, m # log)))"

text \<open>A conversation that is over.\<close>

definition converses :: "(ezsp_msg \<Rightarrow> byte_buffer) \<Rightarrow> ezsp_msg list \<Rightarrow> gp_sink \<Rightarrow> gp_sink
     \<Rightarrow> ezsp_msg list \<Rightarrow> bool" where
  "converses ad q s s' log \<longleftrightarrow> converse (length log) ad q s = Inr (s', [], log)"

lemma converse_more:
  "converse n ad q s = Inr (s', [], log) \<Longrightarrow> n \<le> m \<Longrightarrow> converse m ad q s = Inr (s', [], log)"
proof (induction n ad q s arbitrary: m s' log rule: converse.induct)
  case (3 n ad c q s)
  obtain m' where m: "m = Suc m'" "n \<le> m'" using "3.prems"(2) by (cases m) auto
  obtain s1 es log' where log: "log = c # log'"
    and rx: "sink_rx (fst c) (ad c) s = Inr (s1, es)"
    and rest: "converse n ad (q @ sent es) s1 = Inr (s', [], log')"
    using "3.prems"(1) by auto
  from "3.IH" [OF rx refl rest m(2)] show ?case by (simp add: m(1) rx log)
qed simp_all

lemma converses_Nil [simp]: "converses ad [] s s' log \<longleftrightarrow> s' = s \<and> log = []"
  by (auto simp: converses_def)

lemma converses_Cons:
  "converses ad (m # q) s s' log \<longleftrightarrow>
     (\<exists>s1 es log'. log = m # log' \<and> sink_rx (fst m) (ad m) s = Inr (s1, es)
        \<and> converses ad (q @ sent es) s1 s' log')"
  by (cases log) (auto simp: converses_def)

lemma converses_step:
  "sink_rx (fst m) (ad m) s = Inr (s1, es) \<Longrightarrow> converses ad (q @ sent es) s1 s' log \<Longrightarrow>
     converses ad (m # q) s s' (m # log)"
  by (auto simp: converses_Cons)

lemma converses_fuel:
  "converses ad q s s' log \<Longrightarrow> length log \<le> n \<Longrightarrow> converse n ad q s = Inr (s', [], log)"
  unfolding converses_def by (rule converse_more)

section \<open>Removal of devices\<close>

abbreviation sink_lookup_cmd :: "u32 \<Rightarrow> ezsp_msg" where
  "sink_lookup_cmd i \<equiv> (EZSP_GP_SINK_TABLE_LOOKUP, gp_address_raw (gp_address_of i))"

abbreviation proxy_lookup_cmd :: "u32 \<Rightarrow> ezsp_msg" where
  "proxy_lookup_cmd i \<equiv> (EZSP_GP_PROXY_TABLE_LOOKUP, gp_address_raw (gp_address_of i))"

abbreviation unpair_cmd :: "u32 \<Rightarrow> ezsp_msg" where
  "unpair_cmd i \<equiv> (EZSP_GP_PROXY_TABLE_PROCESS_GP_PAIRING, gp_pairing_get (gp_pairing_remove i))"

definition removal_dialogue :: "(ezsp_msg \<Rightarrow> byte_buffer) \<Rightarrow> u32 \<Rightarrow> ezsp_msg list" where
  "removal_dialogue ad i =
     (let a = ad (sink_lookup_cmd i) ! 0; b = ad (proxy_lookup_cmd i) ! 0 in
      [sink_lookup_cmd i]
      @ (if a \<noteq> 0xFF then [(EZSP_GP_SINK_TABLE_REMOVE_ENTRY, [a])] else [])
      @ [proxy_lookup_cmd i]
      @ (if b \<noteq> 0xFF then [unpair_cmd i] else []))"

lemma length_removal_dialogue: "length (concat (map (removal_dialogue ad) ids)) \<le> 4 * length ids"
  by (induction ids) (auto simp: removal_dialogue_def Let_def)

lemma remove_entry_answered: "sink_rx EZSP_GP_SINK_TABLE_REMOVE_ENTRY p s = Inr (s, [])"
  by (simp add: sink_rx_simps skip_def)

lemma sink_lookup_answered:
  assumes "gs_sink_state s = SINK_REMOVE_IN_PROGRESS" "gs_gpds_to_remove s \<noteq> []" "p \<noteq> []"
  shows "sink_rx EZSP_GP_SINK_TABLE_LOOKUP p s = Inr (s,
     (if p ! 0 \<noteq> 0xFF then [Send EZSP_GP_SINK_TABLE_REMOVE_ENTRY [p ! 0]] else [])
     @ [Send EZSP_GP_PROXY_TABLE_LOOKUP (gp_address_raw (gp_address_of (last (gs_gpds_to_remove s))))])"
  using assms by (simp add: sink_rx_simps rx_sink_lookup_def sink_commands step_simps)

lemma converses_removal_entry:
  assumes "gs_sink_state s = SINK_REMOVE_IN_PROGRESS" "gs_gpds_to_remove s = js @ [i]"
    and "\<And>m. ad m \<noteq> []"
    and rest: "converses ad (sent es) s1 s' log"
      "sink_rx EZSP_GP_PROXY_TABLE_LOOKUP (ad (proxy_lookup_cmd i)) s = Inr (s1, es)"
  shows "converses ad [sink_lookup_cmd i] s s'
    ([sink_lookup_cmd i] @ (if ad (sink_lookup_cmd i) ! 0 \<noteq> 0xFF
        then [(EZSP_GP_SINK_TABLE_REMOVE_ENTRY, [ad (sink_lookup_cmd i) ! 0])] else [])
     @ [proxy_lookup_cmd i] @ log)"
  using assms by (auto simp: converses_Cons sink_lookup_answered remove_entry_answered)

lemma proxy_lookup_answered:
  assumes "gs_sink_state s = SINK_REMOVE_IN_PROGRESS" "gs_gpds_to_remove s = js @ [i]" "p \<noteq> []"
  shows "\<exists>s2 es. sink_rx EZSP_GP_PROXY_TABLE_LOOKUP p s = Inr (s2, es)
    \<and> sent es = (if p ! 0 \<noteq> 0xFF then [unpair_cmd i] else [])
                @ (if js = [] then [] else [sink_lookup_cmd (last js)])
    \<and> gs_sink_state s2 = (if js = [] then SINK_READY else SINK_REMOVE_IN_PROGRESS)
    \<and> gs_gpds_to_remove s2 = js"
  using assms
  by (simp add: sink_rx_simps rx_proxy_lookup_def sink_commands step_simps Let_def setSinkState_eq)

text \<open>An unpairing that is confirmed while devices are removed, or after the last one.\<close>

lemma unpair_confirmed:
  "gs_sink_state s = SINK_REMOVE_IN_PROGRESS \<or> gs_sink_state s = SINK_READY \<Longrightarrow>
     sink_rx EZSP_GP_PROXY_TABLE_PROCESS_GP_PAIRING p s = Inr (s, [])"
  by (auto simp: sink_rx_simps rx_pairing_done_def skip_def)

lemma converses_unpair:
  "gs_sink_state s = SINK_REMOVE_IN_PROGRESS \<or> gs_sink_state s = SINK_READY \<Longrightarrow>
     converses ad ((if b then [unpair_cmd i] else []) @ q) s s' ((if b then [unpair_cmd i] else []) @ log)
       \<longleftrightarrow> converses ad q s s' log"
  using unpair_confirmed by (auto simp: converses_Cons)

lemma removal_converses:
  assumes "\<And>m. ad m \<noteq> []"
  shows "gs_sink_state s = SINK_REMOVE_IN_PROGRESS \<Longrightarrow> gs_gpds_to_remove s = ids \<Longrightarrow> ids \<noteq> [] \<Longrightarrow>
    \<exists>s'. converses ad [sink_lookup_cmd (last ids)] s s' (concat (map (removal_dialogue ad) (rev ids)))
      \<and> gs_sink_state s' = SINK_READY \<and> gs_gpds_to_remove s' = []"
proof (induction ids arbitrary: s rule: rev_induct)
  case (snoc i js)
  let ?p = "ad (proxy_lookup_cmd i)"
  let ?pair = "if ?p ! 0 \<noteq> 0xFF then [unpair_cmd i] else []"
  obtain s2 es where answered: "sink_rx EZSP_GP_PROXY_TABLE_LOOKUP ?p s = Inr (s2, es)"
    and s2: "sent es = ?pair @ (if js = [] then [] else [sink_lookup_cmd (last js)])"
      "gs_sink_state s2 = (if js = [] then SINK_READY else SINK_REMOVE_IN_PROGRESS)"
      "gs_gpds_to_remove s2 = js"
    using proxy_lookup_answered [OF snoc.prems(1,2), of ?p] assms by blast
  obtain s' where s': "converses ad (sent es) s2 s' (?pair @ concat (map (removal_dialogue ad) (rev js)))"
      "gs_sink_state s' = SINK_READY" "gs_gpds_to_remove s' = []"
  proof (cases "js = []")
    case True
    then show ?thesis
      using that [of s2] s2 converses_unpair [of s2 ad "?p ! 0 \<noteq> 0xFF" i "[]" s2 "[]"] by simp
  next
    case False
    then show ?thesis
      using that s2 snoc.IH [of s2] by (auto simp: converses_unpair simp del: append_assoc)
  qed
  show ?case
    using converses_removal_entry [where ad = ad, OF snoc.prems(1,2) assms s'(1) answered] s'(2,3)
    by (intro exI [of _ s']) (simp add: removal_dialogue_def [of ad i] Let_def split del: if_split)
qed simp




text \<open>C11: The removal of devices comes to its end. When the sink is ready and the adapter answers every
  command, whatever the answers are, all commands for the removal are answered after at most
  four answers for each device, the sink is ready again with nothing left to remove, and the
  commands were those of the devices one after the other, from the last of the list to the
  first: the lookup in the sink table, the removal of the entry found, the lookup in the proxy
  table, and the removal of the pairing found.\<close>

theorem sink_removal_completes:
  assumes "gs_sink_state s = SINK_READY" "ids \<noteq> []" "\<And>m. ad m \<noteq> []" "4 * length ids \<le> n"
  shows "\<exists>s1 es s'. removeGpds ids s = Inr (True, s1, es)
    \<and> converse n ad (sent es) s1 = Inr (s', [], concat (map (removal_dialogue ad) (rev ids)))
    \<and> gs_sink_state s' = SINK_READY \<and> gs_gpds_to_remove s' = []"
proof -
  obtain s1 es where s1: "removeGpds ids s = Inr (True, s1, es)"
    "gs_sink_state s1 = SINK_REMOVE_IN_PROGRESS" "gs_gpds_to_remove s1 = ids"
    "sent es = [sink_lookup_cmd (last ids)]"
    using assms(1,2) by (simp add: removeGpds_def step_simps setSinkState_eq sink_commands)
  obtain s' where s': "converses ad [sink_lookup_cmd (last ids)] s1 s'
      (concat (map (removal_dialogue ad) (rev ids)))"
    "gs_sink_state s' = SINK_READY" "gs_gpds_to_remove s' = []"
    using removal_converses [where ad = ad, OF assms(3) s1(2,3) assms(2)] by blast
  show ?thesis
    using s1 s' converses_fuel [OF s'(1)] length_removal_dialogue [of ad "rev ids"] assms(4)
    by (auto intro: order_trans)
qed

theorem sink_removal_completes_witness:
  "\<exists>s1 es s'. removeGpds [1, 2] (new_gp_sink\<lparr>gs_sink_state := SINK_READY\<rparr>) = Inr (True, s1, es)
    \<and> converse 8 (\<lambda>_. [0xFF]) (sent es) s1 = Inr (s', [],
        [sink_lookup_cmd 2, proxy_lookup_cmd 2, sink_lookup_cmd 1, proxy_lookup_cmd 1])
    \<and> gs_sink_state s' = SINK_READY \<and> gs_gpds_to_remove s' = []"
  using sink_removal_completes [of "new_gp_sink\<lparr>gs_sink_state := SINK_READY\<rparr>" "[1, 2]" "\<lambda>_. [0xFF]" 8]
  by (simp add: removal_dialogue_def)

end
