(* ===== verification/GpSinkFlows.thy ===== *)
theory GpSinkFlows
  imports GpSinkProps
begin

text \<open>
  The flows of the green power sink as conversations with the adapter: registration of known
  devices, pairing of a device that asks for it, clearing of the tables; and what happens to
  received green power frames.
\<close>

section \<open>Registration and pairing\<close>

abbreviation allocate_cmd :: "u32 \<Rightarrow> ezsp_msg" where
  "allocate_cmd i \<equiv> (EZSP_GP_SINK_TABLE_FIND_OR_ALLOCATE_ENTRY, gp_address_raw (gp_address_of i))"

abbreviation get_entry_cmd :: "u8 \<Rightarrow> ezsp_msg" where
  "get_entry_cmd k \<equiv> (EZSP_GP_SINK_TABLE_GET_ENTRY, [k])"

abbreviation set_entry_cmd :: "u8 \<Rightarrow> sink_table_entry \<Rightarrow> ezsp_msg" where
  "set_entry_cmd k e \<equiv> (EZSP_GP_SINK_TABLE_SET_ENTRY, k # sink_table_entry_raw e)"

abbreviation pair_cmd :: "sink_table_entry \<Rightarrow> ezsp_msg" where
  "pair_cmd e \<equiv> (EZSP_GP_PROXY_TABLE_PROCESS_GP_PAIRING,
     gp_pairing_get (gp_pairing_of_entry e True False 0 [0,0,0,0,0,0,0,0]))"

text \<open>An adapter that has a slot for every device, a readable entry in every slot, and accepts
  every entry that is written and every pairing.\<close>

definition accepts :: "(ezsp_msg \<Rightarrow> byte_buffer) \<Rightarrow> (u32 \<Rightarrow> u8) \<Rightarrow> (u8 \<Rightarrow> sink_table_entry) \<Rightarrow> bool" where
  "accepts ad slot table \<longleftrightarrow>
     (\<forall>i. ad (allocate_cmd i) = [slot i] \<and> slot i \<noteq> 0xFF)
     \<and> (\<forall>k. \<exists>st raw. ad (get_entry_cmd k) = st # raw \<and> parse_sink_table_entry raw = Inr (table k))
     \<and> (\<forall>k e. ad (set_entry_cmd k e) = [EMBER_SUCCESS])
     \<and> (\<forall>e. ad (pair_cmd e) \<noteq> [])"

text \<open>The entries written for a known device and for one that has asked for pairing.\<close>

definition device_entry :: "gp_device \<Rightarrow> sink_table_entry \<Rightarrow> sink_table_entry" where
  "device_entry d e = e\<lparr>ste_status := 1, ste_options := gd_option d,
     ste_gpd := gp_address_of (gd_source_id d), ste_assigned_alias := ucast (gd_source_id d AND 0xFFFF),
     ste_security_options := gd_security_option d, ste_frame_counter := 0, ste_gpd_key := gd_key d\<rparr>"

definition commissioned_entry ::
    "u32 \<Rightarrow> commissioning_payload \<Rightarrow> sink_table_entry \<Rightarrow> sink_table_entry" where
  "commissioned_entry i c e = e\<lparr>ste_status := 1, ste_options := sink_option_commissioned 0 c,
     ste_gpd := gp_address_of i, ste_device_id := com_device_id c,
     ste_assigned_alias := ucast (i AND 0xFFFF),
     ste_security_options := com_extended_options c AND 0x1F,
     ste_frame_counter := com_out_frame_counter c, ste_gpd_key := com_key c\<rparr>"

lemmas ste_setters = ste_setEntryActive_def ste_setOptions_def ste_setGpdAddress_def
  ste_setDeviceId_def ste_setAlias_def ste_setSecurityOption_def ste_setFrameCounter_def ste_setKey_def

lemma offline_entry_last:
  "gs_gpds_to_register s = ds @ [d] \<Longrightarrow> offline_entry e s = device_entry d e"
  by (simp add: offline_entry_def device_entry_def ste_setters Let_def)

lemma online_entry_eq:
  "new_commissioning_payload (gf_payload f) (gf_source_id f) = Inr c \<Longrightarrow> gs_gpf_comm_frame s = f \<Longrightarrow>
     online_entry e s = Inr (commissioned_entry (gf_source_id f) c e)"
  by (simp add: online_entry_def commissioned_entry_def ste_setters gp_address_of_def Let_def)

text \<open>The common part of both flows: from the request of a slot to the pairing command. The state
  is any in which an entry is written, \<open>entry\<close> the function that fills it.\<close>

lemma entry_flow:
  assumes acc: "accepts ad slot table"
    and st: "gs_sink_state s = SINK_COM_IN_PROGRESS \<and> (\<forall>e s'. gs_gpf_comm_frame s' = gs_gpf_comm_frame s
               \<longrightarrow> online_entry e s' = Inr (entry e))
       \<or> gs_sink_state s = SINK_COM_OFFLINE_IN_PROGRESS \<and> (\<forall>e s'. gs_gpds_to_register s' = gs_gpds_to_register s
               \<longrightarrow> offline_entry e s' = entry e)"
    and e: "e = entry (table (slot i))"
    and paired: "sink_rx EZSP_GP_PROXY_TABLE_PROCESS_GP_PAIRING (ad (pair_cmd e))
                 (s\<lparr>gs_sink_table_index := slot i, gs_sink_table_entry := e\<rparr>) = Inr (s1, es)"
    and rest: "converses ad (sent es) s1 s' log"
  shows "converses ad [allocate_cmd i] s s'
    ([allocate_cmd i, get_entry_cmd (slot i), set_entry_cmd (slot i) e, pair_cmd e] @ log)"
proof -
  have adv: "ad (allocate_cmd i) = [slot i]" "slot i \<noteq> 0xFF"
    "ad (set_entry_cmd (slot i) e) = [EMBER_SUCCESS]"
    using acc by (simp_all add: accepts_def)
  obtain st' raw where ge: "ad (get_entry_cmd (slot i)) = st' # raw"
      "parse_sink_table_entry raw = Inr (table (slot i))"
    using acc unfolding accepts_def by blast
  let ?s1 = "s\<lparr>gs_sink_table_index := slot i\<rparr>"
  have "sink_rx EZSP_GP_SINK_TABLE_FIND_OR_ALLOCATE_ENTRY (ad (allocate_cmd i)) s
      = Inr (?s1, [Send EZSP_GP_SINK_TABLE_GET_ENTRY [slot i]])"
    using st adv by (auto simp: sink_rx_simps rx_find_or_allocate_def sink_commands step_simps)
  moreover have "sink_rx EZSP_GP_SINK_TABLE_GET_ENTRY (ad (get_entry_cmd (slot i))) ?s1
      = Inr (?s1\<lparr>gs_sink_table_entry := e\<rparr>,
             [Send EZSP_GP_SINK_TABLE_SET_ENTRY (slot i # sink_table_entry_raw e)])"
    using st ge e by (auto simp: sink_rx_simps rx_sink_get_entry_def sink_commands step_simps)
  moreover have "sink_rx EZSP_GP_SINK_TABLE_SET_ENTRY (ad (set_entry_cmd (slot i) e))
        (?s1\<lparr>gs_sink_table_entry := e\<rparr>)
      = Inr (?s1\<lparr>gs_sink_table_entry := e\<rparr>, [Send (fst (pair_cmd e)) (snd (pair_cmd e))])"
    using st adv by (auto simp: sink_rx_simps rx_sink_set_entry_def sink_commands step_simps)
  ultimately show ?thesis
    using paired rest by (simp add: converses_Cons)
qed

text \<open>What a registration has the adapter do for a device.\<close>

definition registration_dialogue ::
    "(u32 \<Rightarrow> u8) \<Rightarrow> (u8 \<Rightarrow> sink_table_entry) \<Rightarrow> gp_device \<Rightarrow> ezsp_msg list" where
  "registration_dialogue slot table d =
     (let i = gd_source_id d; e = device_entry d (table (slot i)) in
      [allocate_cmd i, get_entry_cmd (slot i), set_entry_cmd (slot i) e, pair_cmd e])"

lemma registration_converses:
  assumes acc: "accepts ad slot table"
  shows "gs_sink_state s = SINK_COM_OFFLINE_IN_PROGRESS \<Longrightarrow> gs_gpds_to_register s = ds \<Longrightarrow> ds \<noteq> [] \<Longrightarrow>
    \<exists>s'. converses ad [allocate_cmd (gd_source_id (last ds))] s s'
        (concat (map (registration_dialogue slot table) (rev ds)))
      \<and> gs_sink_state s' = SINK_READY \<and> gs_gpds_to_register s' = []"
proof (induction ds arbitrary: s rule: rev_induct)
  case (snoc d ds)
  let ?i = "gd_source_id d"
  let ?e = "device_entry d (table (slot ?i))"
  let ?s = "s\<lparr>gs_sink_table_index := slot ?i, gs_sink_table_entry := ?e\<rparr>"
  have ne: "ad (pair_cmd ?e) \<noteq> []" using acc by (simp add: accepts_def)
  have "\<exists>s1 es. sink_rx EZSP_GP_PROXY_TABLE_PROCESS_GP_PAIRING (ad (pair_cmd ?e)) ?s = Inr (s1, es)
      \<and> gs_gpds_to_register s1 = ds
      \<and> gs_sink_state s1 = (if ds = [] then SINK_READY else SINK_COM_OFFLINE_IN_PROGRESS)
      \<and> sent es = (if ds = [] then [] else [allocate_cmd (gd_source_id (last ds))])"
    using snoc.prems ne
    by (simp add: sink_rx_simps rx_pairing_done_def sink_commands step_simps setSinkState_eq Let_def)
  then obtain s1 es where paired: "sink_rx EZSP_GP_PROXY_TABLE_PROCESS_GP_PAIRING (ad (pair_cmd ?e)) ?s
        = Inr (s1, es)"
    and s1: "gs_gpds_to_register s1 = ds"
      "gs_sink_state s1 = (if ds = [] then SINK_READY else SINK_COM_OFFLINE_IN_PROGRESS)"
      "sent es = (if ds = [] then [] else [allocate_cmd (gd_source_id (last ds))])"
    by blast
  obtain s' where s': "converses ad (sent es) s1 s' (concat (map (registration_dialogue slot table) (rev ds)))"
      "gs_sink_state s' = SINK_READY" "gs_gpds_to_register s' = []"
    using s1 snoc.IH [of s1] by (cases "ds = []") auto
  show ?case
    using entry_flow [where i = ?i and entry = "device_entry d", OF acc _ refl paired s'(1)]
      snoc.prems s'(2,3)
    by (auto simp: registration_dialogue_def [of slot table d] Let_def offline_entry_last)
qed simp

lemma length_registration_dialogue [simp]: "length (registration_dialogue slot table d) = 4"
  by (simp add: registration_dialogue_def Let_def)

text \<open>C12: Registration of known devices comes to its end and installs them. With an adapter that has
  room, every device of the list, from the last to the first, is given a slot; the entry found
  there is read, filled with the address, alias, options and key of the device and a frame
  counter of zero, and written back; then the device is paired with that key. Four commands
  for each device later the sink is ready again and has nothing left to register.\<close>

theorem sink_registration_completes:
  assumes "gs_sink_state s = SINK_READY" "ds \<noteq> []" "accepts ad slot table" "4 * length ds \<le> n"
  shows "\<exists>s1 es s'. registerGpds ds s = Inr (True, s1, es)
    \<and> converse n ad (sent es) s1 = Inr (s', [], concat (map (registration_dialogue slot table) (rev ds)))
    \<and> gs_sink_state s' = SINK_READY \<and> gs_gpds_to_register s' = []"
proof -
  obtain s1 es where s1: "registerGpds ds s = Inr (True, s1, es)"
    "gs_sink_state s1 = SINK_COM_OFFLINE_IN_PROGRESS" "gs_gpds_to_register s1 = ds"
    "sent es = [allocate_cmd (gd_source_id (last ds))]"
    using assms(1,2) by (simp add: registerGpds_def step_simps setSinkState_eq sink_commands)
  obtain s' where s': "converses ad [allocate_cmd (gd_source_id (last ds))] s1 s'
      (concat (map (registration_dialogue slot table) (rev ds)))"
    "gs_sink_state s' = SINK_READY" "gs_gpds_to_register s' = []"
    using registration_converses [OF assms(3) s1(2,3) assms(2)] by blast
  have "length (concat (map (registration_dialogue slot table) (rev ds))) = 4 * length ds"
    by (simp add: length_concat comp_def sum_list_triv)
  then show ?thesis
    using s1 s' converses_fuel [OF s'(1)] assms(4) by auto
qed


definition obliging_adapter :: "ezsp_msg \<Rightarrow> byte_buffer" where
  "obliging_adapter m =
     (if fst m = EZSP_GP_SINK_TABLE_FIND_OR_ALLOCATE_ENTRY then [3]
      else if fst m = EZSP_GP_SINK_TABLE_GET_ENTRY then 0 # replicate 60 0
      else [EMBER_SUCCESS])"

lemma obliging_adapter_accepts:
  "\<exists>e. accepts obliging_adapter (\<lambda>_. 3) (\<lambda>_. e)"
proof -
  obtain e where "parse_sink_table_entry (replicate 60 0) = Inr e"
    using needs_sink_table_entry unfolding needs_def by (metis length_replicate less_irrefl)
  then show ?thesis
    by (intro exI [of _ e]) (auto simp: accepts_def obliging_adapter_def ezsp_ids)
qed

theorem sink_registration_completes_witness:
  "\<exists>s1 es s' log. registerGpds [new_gp_device 7 (replicate 16 1)] (new_gp_sink\<lparr>gs_sink_state := SINK_READY\<rparr>)
      = Inr (True, s1, es)
    \<and> converse 4 obliging_adapter (sent es) s1 = Inr (s', [], log) \<and> length log = 4
    \<and> gs_sink_state s' = SINK_READY"
proof -
  obtain e where e: "accepts obliging_adapter (\<lambda>_. 3) (\<lambda>_. e)"
    using obliging_adapter_accepts by blast
  show ?thesis
    using sink_registration_completes [of "new_gp_sink\<lparr>gs_sink_state := SINK_READY\<rparr>"
        "[new_gp_device 7 (replicate 16 1)]", OF _ _ e, of 4]
    by fastforce
qed

section \<open>Pairing on request\<close>

abbreviation close_msg :: "ezsp_msg" where
  "close_msg \<equiv> (EZSP_SEND_UNICAST, unicast_payload 0 (commissioning_mode_msg 0))"

lemma close_session:
  "\<exists>s1 es. sink_closeCommissioningSession s = Inr (s1, es) \<and> sent es = [close_msg]
     \<and> gs_sink_state s1 = SINK_READY"
  by (simp add: sink_closeCommissioningSession_def sink_commands step_simps setSinkState_eq)

lemma unicast_ignored: "sink_rx EZSP_SEND_UNICAST p s = Inr (s, [])"
  by (simp add: sink_rx_def skip_def ezsp_ids)

text \<open>C13: A device that asks for pairing while a commissioning session is open is installed. When an
  unencrypted commissioning frame arrives whose payload can be decoded, and the adapter has
  room, the device gets a slot, the entry there is filled with what the frame says (device
  identifier, options, security, frame counter and key) and written, the device is paired
  with this key, the session is closed by a message to the adapter, and the sink is ready.\<close>

theorem sink_commissions_device:
  assumes "gs_sink_state s = SINK_COM_OPEN" "parse_gp_frame p = Inr f"
    and "gf_security f = GPD_NO_SECURITY" "gf_command_id f = GPF_COMMISSIONING_CMD"
    and "new_commissioning_payload (gf_payload f) (gf_source_id f) = Inr c"
    and "accepts ad slot table" "e = commissioned_entry (gf_source_id f) c (table (slot (gf_source_id f)))"
  shows "\<exists>s1 es s'. sink_rx EZSP_GPEP_INCOMING_MESSAGE_HANDLER p s = Inr (s1, es)
    \<and> converses ad (sent es) s1 s'
        [allocate_cmd (gf_source_id f), get_entry_cmd (slot (gf_source_id f)),
         set_entry_cmd (slot (gf_source_id f)) e, pair_cmd e, close_msg]
    \<and> gs_sink_state s' = SINK_READY"
proof -
  have "p \<noteq> []" using assms(2) by (auto simp: parse_gp_frame_def)
  then obtain s1 es where s1: "sink_rx EZSP_GPEP_INCOMING_MESSAGE_HANDLER p s = Inr (s1, es)"
      "gs_sink_state s1 = SINK_COM_IN_PROGRESS" "gs_gpf_comm_frame s1 = f"
      "sent es = [allocate_cmd (gf_source_id f)]"
    using assms(1-4)
    by (simp add: sink_rx_simps rx_incoming_def rx_no_security_def sink_commands step_simps
        setSinkState_eq Let_def gpf_cmds)
  let ?i = "gf_source_id f"
  let ?s = "s1\<lparr>gs_sink_table_index := slot ?i, gs_sink_table_entry := e\<rparr>"
  have "ad (pair_cmd e) \<noteq> []" using assms(6) by (simp add: accepts_def)
  then obtain s2 es2 where s2: "sink_rx EZSP_GP_PROXY_TABLE_PROCESS_GP_PAIRING (ad (pair_cmd e)) ?s = Inr (s2, es2)"
      "sent es2 = [close_msg]" "gs_sink_state s2 = SINK_READY"
    using close_session [of ?s] s1(2) by (auto simp: sink_rx_simps rx_pairing_done_def)
  have "converses ad (sent es2) s2 s2 [close_msg]"
    using s2(2) close_session [of s2] unicast_ignored [of "ad close_msg" s2] by (auto simp: converses_Cons)
  from entry_flow [where i = ?i and entry = "commissioned_entry ?i c", OF assms(6) _ assms(7) s2(1) this]
  show ?thesis
    using s1 s2(3) assms(5) online_entry_eq by fastforce
qed

definition commissioning_rx :: byte_buffer where
  "commissioning_rx = [0, 0, 1, 0, 7, 0, 0, 0, 7, 0, 0, 0, 0, 0, 0, 0, 0, 0, 0, 0, 0, 0xE0, 0, 0, 0, 0,
     0xFF, 2, 2, 0]"

theorem sink_commissions_device_witness:
  "\<exists>s1 es s' log. sink_rx EZSP_GPEP_INCOMING_MESSAGE_HANDLER commissioning_rx
        (new_gp_sink\<lparr>gs_sink_state := SINK_COM_OPEN\<rparr>) = Inr (s1, es)
    \<and> converses obliging_adapter (sent es) s1 s' log \<and> length log = 5 \<and> gs_sink_state s' = SINK_READY"
proof -
  obtain e where e: "accepts obliging_adapter (\<lambda>_. 3) (\<lambda>_. e)"
    using obliging_adapter_accepts by blast
  obtain f where f: "parse_gp_frame commissioning_rx = Inr f" "gf_security f = GPD_NO_SECURITY"
      "gf_command_id f = GPF_COMMISSIONING_CMD" "gf_payload f = [2, 0]"
    by (simp add: parse_gp_frame_def parse_gp_address_eq bytes_at_eq le32_at_eq commissioning_rx_def
        address_source_id_def Let_def GPD_NO_SECURITY_def gpf_cmds new_gp_frame_def)
  obtain c where "new_commissioning_payload [2, 0] (gf_source_id f) = Inr c"
    by (simp add: new_commissioning_payload_def com_read_extended_def com_read_key_def
        com_read_counter_def com_read_app_information_def com_read_id_def com_read_commands_def
        com_read_clusters_def com_bits isExtendedOptionsFieldPresent_def flag_def byte_idx_def
        read_simps Let_def)
  then show ?thesis
    using sink_commissions_device [OF _ f(1-3) _ e refl, of "new_gp_sink\<lparr>gs_sink_state := SINK_COM_OPEN\<rparr>" c]
      f(4) by fastforce
qed

section \<open>Clearing the tables\<close>

abbreviation clear_cmd :: ezsp_msg where
  "clear_cmd \<equiv> (EZSP_GP_SINK_TABLE_CLEAR_ALL, [])"

abbreviation proxy_entry_cmd :: "u8 \<Rightarrow> ezsp_msg" where
  "proxy_entry_cmd i \<equiv> (EZSP_GP_PROXY_TABLE_GET_ENTRY, [i])"

abbreviation unpair_entry_cmd :: "proxy_table_entry \<Rightarrow> ezsp_msg" where
  "unpair_entry_cmd e \<equiv> (EZSP_GP_PROXY_TABLE_PROCESS_GP_PAIRING,
     gp_pairing_get (gp_pairing_remove (address_source_id (pte_gpd e))))"

text \<open>An adapter whose proxy table has \<open>k\<close> readable entries.\<close>

definition proxy_table :: "(ezsp_msg \<Rightarrow> byte_buffer) \<Rightarrow> nat \<Rightarrow> (u8 \<Rightarrow> proxy_table_entry) \<Rightarrow> bool" where
  "proxy_table ad k entry \<longleftrightarrow> (\<forall>i. if unat i < k
     then \<exists>raw. ad (proxy_entry_cmd i) = EMBER_SUCCESS # raw \<and> parse_proxy_table_entry raw = Inr (entry i)
     else \<exists>st raw. ad (proxy_entry_cmd i) = st # raw \<and> st \<noteq> EMBER_SUCCESS)"

lemma clear_answered: "sink_rx EZSP_GP_SINK_TABLE_CLEAR_ALL p s = Inr (s, [])"
  by (simp add: sink_rx_def skip_def ezsp_ids)

lemma clear_begin:
  "converses ad q s s' log \<Longrightarrow> converses ad (clear_cmd # q) s s' (clear_cmd # log)"
  by (simp add: converses_Cons clear_answered)

lemma clear_end:
  assumes "proxy_table ad k entry" "gs_sink_state s = SINK_CLEAR_ALL" "k \<le> unat i"
  shows "\<exists>s'. converses ad [proxy_entry_cmd i] s s' [proxy_entry_cmd i] \<and> gs_sink_state s' = SINK_READY
    \<and> gs_proxy_table_index s' = gs_proxy_table_index s"
proof -
  obtain st raw where "ad (proxy_entry_cmd i) = st # raw" "st \<noteq> EMBER_SUCCESS"
    using assms(1,3) unfolding proxy_table_def by (metis linorder_not_less)
  then show ?thesis
    using assms(2) by (auto simp: converses_Cons sink_rx_simps rx_proxy_get_entry_def setSinkState_eq)
qed

lemma clear_entry:
  assumes "proxy_table ad k entry" "gs_sink_state s = SINK_CLEAR_ALL" "unat i < k"
    and "converses ad [proxy_entry_cmd (gs_proxy_table_index s + 1)]
          (s\<lparr>gs_proxy_table_index := gs_proxy_table_index s + 1\<rparr>) s' log"
  shows "converses ad [proxy_entry_cmd i] s s' ([proxy_entry_cmd i, unpair_entry_cmd (entry i)] @ log)"
proof -
  obtain raw where "ad (proxy_entry_cmd i) = EMBER_SUCCESS # raw"
      "parse_proxy_table_entry raw = Inr (entry i)"
    using assms(1,3) unfolding proxy_table_def by metis
  then show ?thesis
    using assms(2,4) by (auto simp: converses_Cons sink_rx_simps rx_proxy_get_entry_def
        rx_pairing_done_def sink_commands step_simps Let_def)
qed

text \<open>The rest of a clearing whose position is in step with the index that was kept.\<close>

lemma clear_converses:
  assumes tab: "proxy_table ad k entry" and k: "k < 256"
  shows "m \<le> k \<Longrightarrow> gs_sink_state s = SINK_CLEAR_ALL \<Longrightarrow> gs_proxy_table_index s = of_nat m \<Longrightarrow>
    \<exists>s'. converses ad [proxy_entry_cmd (of_nat m)] s s'
       (concat (map (\<lambda>i. [proxy_entry_cmd (of_nat i), unpair_entry_cmd (entry (of_nat i))]) [m..<k])
        @ [proxy_entry_cmd (of_nat k)])
     \<and> gs_sink_state s' = SINK_READY \<and> gs_proxy_table_index s' = of_nat k"
proof (induction "k - m" arbitrary: m s)
  case 0
  then show ?case
    using clear_end [OF tab, of s "of_nat m"] k by (auto simp: unat_u8)
next
  case (Suc n)
  then have m: "m < k" and n: "n = k - Suc m" by simp_all
  let ?s = "s\<lparr>gs_proxy_table_index := gs_proxy_table_index s + 1\<rparr>"
  obtain s' where s': "converses ad [proxy_entry_cmd (of_nat (Suc m))] ?s s'
       (concat (map (\<lambda>i. [proxy_entry_cmd (of_nat i), unpair_entry_cmd (entry (of_nat i))]) [Suc m..<k])
        @ [proxy_entry_cmd (of_nat k)])" "gs_sink_state s' = SINK_READY" "gs_proxy_table_index s' = of_nat k"
    using Suc.hyps(1) [of "Suc m" ?s] n Suc.prems m by (auto simp: add.commute)
  have "unat (of_nat m :: u8) < k" using m k by (simp add: unat_u8)
  from clear_entry [OF tab Suc.prems(2) this] s' m show ?case
    using Suc.prems(3) by (auto simp: upt_conv_Cons add.commute)
qed

text \<open>Clearing works once. The first clearing of a sink goes through all entries of the proxy table
  and has each of them removed, but the index it has reached is kept: the next clearing removes
  the first entry, goes on at the kept index plus one, behind the end of the table, and reports
  that it is ready with the other entries still there.\<close>

theorem sink_second_clear_incomplete:
  assumes "gs_sink_state s = SINK_READY" "gs_proxy_table_index s = 0"
    and "proxy_table ad k entry" "1 \<le> k" "k < 255"
  shows "\<exists>s1 es s2 s3 es' s4. clearAllGpds s = Inr (True, s1, es)
    \<and> converses ad (sent es) s1 s2 (clear_cmd
        # concat (map (\<lambda>i. [proxy_entry_cmd (of_nat i), unpair_entry_cmd (entry (of_nat i))]) [0..<k])
        @ [proxy_entry_cmd (of_nat k)])
    \<and> clearAllGpds s2 = Inr (True, s3, es')
    \<and> converses ad (sent es') s3 s4
        [clear_cmd, proxy_entry_cmd 0, unpair_entry_cmd (entry 0), proxy_entry_cmd (of_nat k + 1)]
    \<and> gs_sink_state s4 = SINK_READY"
proof -
  have clear: "\<exists>t1 es. clearAllGpds t = Inr (True, t1, es) \<and> sent es = [clear_cmd, proxy_entry_cmd 0]
      \<and> gs_sink_state t1 = SINK_CLEAR_ALL \<and> gs_proxy_table_index t1 = gs_proxy_table_index t"
    if "gs_sink_state t = SINK_READY" for t
    using that by (simp add: clearAllGpds_def gpClearAllTables_def step_simps setSinkState_eq)
  obtain s1 es where s1: "clearAllGpds s = Inr (True, s1, es)" "sent es = [clear_cmd, proxy_entry_cmd 0]"
      "gs_sink_state s1 = SINK_CLEAR_ALL" "gs_proxy_table_index s1 = 0"
    using clear [OF assms(1)] assms(2) by auto
  obtain s2 where s2: "converses ad [proxy_entry_cmd 0] s1 s2
        (concat (map (\<lambda>i. [proxy_entry_cmd (of_nat i), unpair_entry_cmd (entry (of_nat i))]) [0..<k])
         @ [proxy_entry_cmd (of_nat k)])"
      "gs_sink_state s2 = SINK_READY" "gs_proxy_table_index s2 = of_nat k"
    using clear_converses [OF assms(3) _ _ s1(3), of 0] assms(5) s1(4) by auto
  obtain s3 es' where s3: "clearAllGpds s2 = Inr (True, s3, es')" "sent es' = [clear_cmd, proxy_entry_cmd 0]"
      "gs_sink_state s3 = SINK_CLEAR_ALL" "gs_proxy_table_index s3 = of_nat k"
    using clear [OF s2(2)] s2(3) by auto
  let ?s = "s3\<lparr>gs_proxy_table_index := gs_proxy_table_index s3 + 1\<rparr>"
  have k: "k \<le> unat (of_nat k + 1 :: u8)"
  proof -
    have "unat (of_nat (k + 1) :: u8) = k + 1" using assms(5) by (intro unat_u8) simp
    then show ?thesis by (simp add: add.commute)
  qed
  obtain s4 where s4: "converses ad [proxy_entry_cmd (of_nat k + 1)] ?s s4 [proxy_entry_cmd (of_nat k + 1)]"
      "gs_sink_state s4 = SINK_READY"
    using clear_end [OF assms(3) _ k, of ?s] s3(3) by auto
  have "converses ad [proxy_entry_cmd 0] s3 s4
      ([proxy_entry_cmd 0, unpair_entry_cmd (entry 0)] @ [proxy_entry_cmd (of_nat k + 1)])"
    using clear_entry [OF assms(3) s3(3), of 0 s4] s4(1) assms(4) s3(4) by simp
  then show ?thesis
    using s1(1,2) s2(1,2) s3(1,2) s4(2) by (auto intro!: exI clear_begin)
qed

theorem sink_second_clear_incomplete_witness:
  "\<exists>ad s1 es s2 s3 es' s4 log. clearAllGpds (new_gp_sink\<lparr>gs_sink_state := SINK_READY\<rparr>) = Inr (True, s1, es)
    \<and> converses ad (sent es) s1 s2 log \<and> length log = 6
    \<and> clearAllGpds s2 = Inr (True, s3, es') \<and> (\<exists>e. converses ad (sent es') s3 s4
        [clear_cmd, proxy_entry_cmd 0, unpair_entry_cmd e, proxy_entry_cmd 3])"
proof -
  let ?ad = "\<lambda>m. if fst m = EZSP_GP_PROXY_TABLE_GET_ENTRY
    then (if unat (hd (snd m)) < 2 then EMBER_SUCCESS # replicate 62 0 else [1]) else [0]"
  obtain e where "parse_proxy_table_entry (replicate 62 0) = Inr e"
    using needs_proxy_table_entry unfolding needs_def by (metis length_replicate less_irrefl)
  then have t: "proxy_table ?ad 2 (\<lambda>_. e)"
    by (auto simp: proxy_table_def ezsp_ids)
  show ?thesis
    using sink_second_clear_incomplete [of "new_gp_sink\<lparr>gs_sink_state := SINK_READY\<rparr>", OF _ _ t]
    by (fastforce simp: new_gp_sink_def upt_rec)
qed

text \<open>A registration that follows a removal can be lost. After the removal of a paired device the sink
  is ready before the adapter has confirmed the last unpairing; a device that is registered then
  is accepted, but the confirmation that is still to come is taken for that of its own pairing:
  the sink forgets the device, is ready again, and ignores the slot which the adapter allocates,
  so that no entry is ever written.\<close>

theorem sink_late_confirmation_loses_device:
  assumes "gs_sink_state s = SINK_READY" "ad (sink_lookup_cmd i) = [0xFF]"
    and "ad (proxy_lookup_cmd i) = [b]" "b \<noteq> 0xFF" "ad (unpair_cmd i) \<noteq> []"
  shows "\<exists>s1 es s2 s3 es3 s4. removeGpds [i] s = Inr (True, s1, es)
    \<and> converse 2 ad (sent es) s1 = Inr (s2, [unpair_cmd i], [sink_lookup_cmd i, proxy_lookup_cmd i])
    \<and> gs_sink_state s2 = SINK_READY
    \<and> registerGpds [d] s2 = Inr (True, s3, es3)
    \<and> converse 2 ad (unpair_cmd i # sent es3) s3 =
        Inr (s4, [], [unpair_cmd i, allocate_cmd (gd_source_id d)])
    \<and> gs_sink_state s4 = SINK_READY \<and> gs_gpds_to_register s4 = []"
  using assms
  by (simp add: removeGpds_def registerGpds_def sink_commands step_simps setSinkState_eq sink_rx_simps
      rx_sink_lookup_def rx_proxy_lookup_def rx_pairing_done_def rx_find_or_allocate_def
      numeral_2_eq_2 Let_def)

theorem sink_late_confirmation_loses_device_witness:
  "\<exists>s1 es s2 s3 es3 s4. removeGpds [7] (new_gp_sink\<lparr>gs_sink_state := SINK_READY\<rparr>) = Inr (True, s1, es)
    \<and> converse 2 (\<lambda>c. if fst c = EZSP_GP_SINK_TABLE_LOOKUP then [0xFF] else [0]) (sent es) s1 =
        Inr (s2, [unpair_cmd 7], [sink_lookup_cmd 7, proxy_lookup_cmd 7])
    \<and> registerGpds [new_gp_device 9 (replicate 16 1)] s2 = Inr (True, s3, es3)
    \<and> converse 2 (\<lambda>c. if fst c = EZSP_GP_SINK_TABLE_LOOKUP then [0xFF] else [0])
        (unpair_cmd 7 # sent es3) s3 = Inr (s4, [], [unpair_cmd 7, allocate_cmd 9])
    \<and> gs_gpds_to_register s4 = []"
  using sink_late_confirmation_loses_device [of "new_gp_sink\<lparr>gs_sink_state := SINK_READY\<rparr>"
      "\<lambda>c. if fst c = EZSP_GP_SINK_TABLE_LOOKUP then [0xFF] else [0]" 7 0
      "new_gp_device 9 (replicate 16 1)"]
  by (auto simp: ezsp_ids new_gp_device_def simp del: converse.simps)

end
