(* ===== verification/GpSinkFrames.thy ===== *)
theory GpSinkFrames
  imports GpSinkProps
begin

text \<open>
  What the sink does with received green power frames: which of them reach the observer, the
  answer to channel switch requests and how it can be lost for good, and the check of the build
  that validates frames itself.
\<close>

section \<open>Delivery\<close>

definition key_known :: "gp_frame \<Rightarrow> bool" where
  "key_known f \<longleftrightarrow> gf_proxy_table_entry f \<noteq> 0xFF"

text \<open>No operation but the reception of a frame notifies the observer of one.\<close>

fun notifies :: "effect \<Rightarrow> bool" where
  "notifies (SinkGpFrame f) = True"
| "notifies (SinkGpdId i k st) = True"
| "notifies _ = False"

lemma rx_other_silent:
  assumes "sink_rx c p s = Inr (s', es)" "c \<noteq> EZSP_GPEP_INCOMING_MESSAGE_HANDLER" "x \<in> set es"
  shows "\<not> notifies x"
  using assms
  by (auto simp: sink_rx_def sink_handlers sink_closeCommissioningSession_def
      sink_commands step_simps setSinkState_eq Let_def split: if_splits)

lemma rx_no_security_silent:
  "rx_no_security f s = Inr (s', es) \<Longrightarrow> x \<in> set es \<Longrightarrow> \<not> notifies x"
  by (auto simp: rx_no_security_def sink_commands step_simps setSinkState_eq Let_def split: if_splits)

lemma rx_channel_switch_silent:
  "rx_channel_switch f s = Inr (s', es) \<Longrightarrow> x \<in> set es \<Longrightarrow> \<not> notifies x"
  by (auto simp: rx_channel_switch_def sink_commands step_simps Let_def split: if_splits)

lemma rx_channel_switch_observed:
  "rx_channel_switch f s = Inr (s', es) \<Longrightarrow> gs_observed s' = gs_observed s"
  by (auto simp: rx_channel_switch_def sink_commands step_simps Let_def split: if_splits)

lemma rx_security_notifies:
  assumes "rx_security f s = Inr (s', es)" "gs_observed s"
  shows "filter notifies es = [SinkGpFrame f]"
proof -
  obtain s1 es1 where "(if channel_switch_request f then rx_channel_switch f else skip) s = Inr (s1, es1)"
    and "es = es1 @ (if gs_observed s1 then [SinkGpFrame f] else [])"
    using assms(1) by (auto simp: rx_security_def notifyObserversOfRxGpFrame_def)
  then show ?thesis
    using assms(2) rx_channel_switch_silent rx_channel_switch_observed
    by (auto simp: filter_empty_conv skip_def split: if_splits)
qed

lemma rx_incoming_notifies:
  assumes "parse_gp_frame p = Inr f" "rx_incoming p s = Inr (s', es)" "gs_observed s"
  shows "filter notifies es =
     replicate 2 (SinkGpdId (gf_source_id f) (key_known f) (adapter_key_status (p ! 0)))
     @ (if gf_security f \<noteq> GPD_NO_SECURITY \<and> adapter_key_status (p ! 0) = KeyValid
        then [SinkGpFrame f] else [])"
proof -
  let ?h = "if gf_security f = GPD_NO_SECURITY then rx_no_security f
    else if adapter_key_status (p ! 0) = KeyValid then rx_security f else skip"
  obtain es1 where h: "?h s = Inr (s', es1)"
    and es: "es = replicate 2 (SinkGpdId (gf_source_id f) (key_known f) (adapter_key_status (p ! 0))) @ es1"
    using assms by (auto simp: rx_incoming_def notifyObserversOfRxGpdId_def key_known_def Let_def
        numeral_2_eq_2)
  have "filter notifies es1 = (if gf_security f \<noteq> GPD_NO_SECURITY
      \<and> adapter_key_status (p ! 0) = KeyValid then [SinkGpFrame f] else [])"
    using h rx_no_security_silent rx_security_notifies [OF _ assms(3)]
    by (auto simp: filter_empty_conv skip_def split: if_splits)
  then show ?thesis using es by (simp add: numeral_2_eq_2)
qed

text \<open>C15: The observer is told of frames only on the adapter's report of a received frame. On each
  such report it is told twice, in the same words, from which device the frame came and whether
  its key is valid, and then gets the frame if and only if the frame is secured and the adapter
  found its integrity code right: unsecured frames and frames with a wrong or unknown key are
  never handed over.\<close>

theorem sink_delivers_valid_frames:
  assumes "sink_rx c p s = Inr (s', es)" "gs_observed s"
  shows "filter notifies es =
    (if c = EZSP_GPEP_INCOMING_MESSAGE_HANDLER then
       (case parse_gp_frame p of
          Inl x \<Rightarrow> []
        | Inr f \<Rightarrow> replicate 2 (SinkGpdId (gf_source_id f) (key_known f) (adapter_key_status (p ! 0)))
            @ (if gf_security f \<noteq> GPD_NO_SECURITY \<and> p ! 0 = EMBER_SUCCESS then [SinkGpFrame f] else []))
     else [])"
proof (cases "c = EZSP_GPEP_INCOMING_MESSAGE_HANDLER")
  case True
  then have rx: "rx_incoming p s = Inr (s', es)" using assms(1) by (simp add: sink_rx_simps)
  then obtain f where "parse_gp_frame p = Inr f" by (auto simp: rx_incoming_def)
  moreover have "adapter_key_status st = KeyValid \<longleftrightarrow> st = EMBER_SUCCESS" for st
    by (simp add: adapter_key_status_def)
  ultimately show ?thesis
    using True rx_incoming_notifies [OF _ rx assms(2)] by simp
next
  case False
  then show ?thesis
    using rx_other_silent [OF assms(1)] by (auto simp: filter_empty_conv)
qed

definition scene_frame_rx :: "u8 \<Rightarrow> byte_buffer" where
  "scene_frame_rx status = [status, 0, 1, 0, 7, 0, 0, 0, 7, 0, 0, 0, 0, 2, 4, 0, 0, 1, 0, 0, 0, 0x10,
     9, 9, 9, 9, 0, 0]"

theorem sink_delivers_valid_frames_witness:
  "\<exists>s' es f. sink_rx EZSP_GPEP_INCOMING_MESSAGE_HANDLER (scene_frame_rx 0)
       (new_gp_sink\<lparr>gs_observed := True\<rparr>) = Inr (s', es)
    \<and> filter notifies es = [SinkGpdId 7 True KeyValid, SinkGpdId 7 True KeyValid, SinkGpFrame f]"
proof -
  obtain f where f: "parse_gp_frame (scene_frame_rx 0) = Inr f" "gf_security f = 2" "gf_source_id f = 7"
      "gf_command_id f = 0x10" "gf_proxy_table_entry f = 0" "gf_payload f = []"
    by (simp add: parse_gp_frame_def parse_gp_address_eq bytes_at_eq le32_at_eq scene_frame_rx_def
        address_source_id_def Let_def new_gp_frame_def quad_u8_to_u32_def)
  have len: "byte_at (scene_frame_rx 0) 0 = Inr 0" "scene_frame_rx 0 ! 0 = 0"
    by (simp_all add: scene_frame_rx_def)
  obtain s' es where r: "sink_rx EZSP_GPEP_INCOMING_MESSAGE_HANDLER (scene_frame_rx 0)
       (new_gp_sink\<lparr>gs_observed := True\<rparr>) = Inr (s', es)"
    using f len by (simp add: sink_rx_simps rx_incoming_def rx_security_def channel_switch_request_def
        adapter_key_status_def GPD_NO_SECURITY_def gpf_cmds sink_commands step_simps EMBER_SUCCESS_def)
  have "key_known f" using f(5) by (simp add: key_known_def)
  then show ?thesis
    using sink_delivers_valid_frames [OF r] r f len
    by (simp add: adapter_key_status_def GPD_NO_SECURITY_def EMBER_SUCCESS_def numeral_2_eq_2)
qed

section \<open>Channel switch requests\<close>

text \<open>Events that do not lift a channel switch: any but a report that the answer was sent, and
  the permission to answer channel requests.\<close>

fun keeps_switch :: "sink_op \<Rightarrow> bool" where
  "keeps_switch (SinkRx c p) \<longleftrightarrow> (c = EZSP_D_GP_SENT_HANDLER \<longrightarrow> p = [] \<or> hd p \<noteq> EMBER_SUCCESS)"
| "keeps_switch (SinkAuthorize b) \<longleftrightarrow> \<not> b"
| "keeps_switch _ \<longleftrightarrow> True"

definition switch_pending :: "u32 \<Rightarrow> gp_sink \<Rightarrow> bool" where
  "switch_pending i s \<longleftrightarrow> i \<noteq> 0 \<and> gs_sentChannelSwitchSourceId s = i \<and> \<not> gs_authorizeGpfChannelRqst s"

definition no_gp_send :: "effect list \<Rightarrow> bool" where
  "no_gp_send es \<longleftrightarrow> EZSP_D_GP_SEND \<notin> fst ` set (sent es)"

lemma pending_rx_incoming:
  assumes "switch_pending i s" "rx_incoming p s = Inr (s', es)"
  shows "switch_pending i s' \<and> no_gp_send es"
  using assms
  by (auto simp: switch_pending_def no_gp_send_def rx_incoming_def rx_security_def rx_channel_switch_def
      rx_no_security_def sink_commands step_simps setSinkState_eq Let_def ezsp_ids split: if_splits)

lemma pending_handlers:
  assumes "switch_pending i s"
  shows "rx_network_parameters p s = Inr (s', es) \<Longrightarrow> switch_pending i s' \<and> no_gp_send es"
    "rx_find_or_allocate p s = Inr (s', es) \<Longrightarrow> switch_pending i s' \<and> no_gp_send es"
    "rx_sink_lookup p s = Inr (s', es) \<Longrightarrow> switch_pending i s' \<and> no_gp_send es"
    "rx_sink_get_entry p s = Inr (s', es) \<Longrightarrow> switch_pending i s' \<and> no_gp_send es"
    "rx_sink_set_entry p s = Inr (s', es) \<Longrightarrow> switch_pending i s' \<and> no_gp_send es"
    "rx_proxy_lookup p s = Inr (s', es) \<Longrightarrow> switch_pending i s' \<and> no_gp_send es"
    "rx_proxy_get_entry p s = Inr (s', es) \<Longrightarrow> switch_pending i s' \<and> no_gp_send es"
    "rx_pairing_done p s = Inr (s', es) \<Longrightarrow> switch_pending i s' \<and> no_gp_send es"
    "rx_gp_sent p s = Inr (s', es) \<Longrightarrow> p ! 0 \<noteq> EMBER_SUCCESS \<Longrightarrow> switch_pending i s' \<and> no_gp_send es"
  using assms
  by (auto simp: switch_pending_def no_gp_send_def sink_handlers sink_closeCommissioningSession_def
      sink_commands step_simps setSinkState_eq Let_def ezsp_ids split: if_splits)

lemma pending_rx:
  assumes "switch_pending i s" "sink_rx c p s = Inr (s', es)" "keeps_switch (SinkRx c p)"
  shows "switch_pending i s' \<and> no_gp_send es"
proof (cases "c = EZSP_D_GP_SENT_HANDLER")
  case True
  then have rx: "rx_gp_sent p s = Inr (s', es)" using assms(2) by (simp add: sink_rx_simps)
  then have "p ! 0 \<noteq> EMBER_SUCCESS"
    using assms(3) True by (cases p) (auto simp: rx_gp_sent_def)
  then show ?thesis using pending_handlers(9) [OF assms(1) rx] by blast
next
  case False
  note h = pending_handlers [OF assms(1), of p s' es] pending_rx_incoming [OF assms(1), of p s' es]
  show ?thesis
    using assms(1,2) False h(1-8) h(10) unfolding sink_rx_def
    by (simp add: skip_def no_gp_send_def split: if_split_asm)
qed

lemma pending_do:
  assumes "switch_pending i s" "sink_do e s = Inr (s', es)" "keeps_switch e"
  shows "switch_pending i s' \<and> no_gp_send es"
proof (cases e)
  case (SinkRx c p)
  then show ?thesis using assms pending_rx by simp
qed (use assms in \<open>auto simp: switch_pending_def no_gp_send_def sink_requests sink_commands step_simps
      setSinkState_eq ezsp_ids split: if_splits\<close>)

lemma pending_run:
  "switch_pending i s \<Longrightarrow> run_ops sink_do es s = Inr (s', out) \<Longrightarrow> \<forall>e \<in> set es. keeps_switch e \<Longrightarrow>
     switch_pending i s' \<and> no_gp_send out"
proof (induction es arbitrary: s out)
  case (Cons e es)
  then obtain s1 o1 o2 where "sink_do e s = Inr (s1, o1)" "run_ops sink_do es s1 = Inr (s', o2)"
    and out: "out = o1 @ o2" by auto
  moreover from this have "switch_pending i s1 \<and> no_gp_send o1"
    using pending_do [OF Cons.prems(1)] Cons.prems(3) by auto
  moreover from calculation have "switch_pending i s' \<and> no_gp_send o2"
    using Cons.IH Cons.prems(3) by auto
  ultimately show ?case by (auto simp: no_gp_send_def)
qed (simp add: no_gp_send_def)

definition switch_request_payload :: byte_buffer where
  "switch_request_payload = [0x21, 0x10, 0x00, 0x00, 0x00, 0x50, 0x20]"

lemma switch_request_reads:
  assumes "take 7 p = switch_request_payload"
  shows "le16_at p 0 = Inr 0x1021" "le16_at p 2 = Inr 0" "le16_at p 4 = Inr 0x5000"
    "byte_at p 6 = Inr 0x20" "6 < length p"
proof -
  have l: "7 \<le> length p"
    using arg_cong [OF assms, of length] by (simp add: switch_request_payload_def split: if_splits)
  have "p ! i = switch_request_payload ! i" if "i < 7" for i
    using nth_take [OF that, of p] assms by simp
  then have n: "p ! 0 = 0x21" "p ! 1 = 0x10" "p ! 2 = 0" "p ! 3 = 0" "p ! 4 = 0" "p ! 5 = 0x50"
      "p ! 6 = 0x20"
    by (simp_all add: switch_request_payload_def)
  show "le16_at p 0 = Inr 0x1021" "le16_at p 2 = Inr 0" "le16_at p 4 = Inr 0x5000"
    "byte_at p 6 = Inr 0x20" "6 < length p"
    using l n by (simp_all add: le16_at_eq dble_u8_to_u16_def)
qed

lemma rx_incoming_switch:
  assumes "parse_gp_frame p = Inr f" "p ! 0 = EMBER_SUCCESS" "gf_security f \<noteq> GPD_NO_SECURITY"
    and "gf_command_id f = GPF_MANUFACTURER_ATTRIBUTE_REPORTING"
    and "take 7 (gf_payload f) = switch_request_payload" "gs_sentChannelSwitchSourceId s = 0"
  shows "\<exists>s1 es q. rx_incoming p s = Inr (s1, es) \<and> sent es = [(EZSP_D_GP_SEND, q)]
    \<and> gs_sentChannelSwitchSourceId s1 = gf_source_id f
    \<and> gs_authorizeGpfChannelRqst s1 = gs_authorizeGpfChannelRqst s"
proof -
  have "p \<noteq> []" using assms(1) by (auto simp: parse_gp_frame_def)
  then show ?thesis
    using assms switch_request_reads [OF assms(5)]
    by (simp add: rx_incoming_def rx_security_def channel_switch_request_def rx_channel_switch_def
        adapter_key_status_def sink_commands step_simps Let_def)
qed

text \<open>A channel switch that the adapter fails to send is never given up. The first valid request is
  answered; but when the adapter reports anything but success for the answer, the sink goes on
  waiting, and from then on, whatever else happens, no later request of any device is answered
  (the answering of the unsecured channel requests being switched off).\<close>

theorem sink_channel_switch_stuck:
  assumes "parse_gp_frame p = Inr f" "p ! 0 = EMBER_SUCCESS" "gf_security f \<noteq> GPD_NO_SECURITY"
    and "gf_command_id f = GPF_MANUFACTURER_ATTRIBUTE_REPORTING"
    and "take 7 (gf_payload f) = switch_request_payload" "gf_source_id f \<noteq> 0"
    and "gs_sentChannelSwitchSourceId s = 0" "\<not> gs_authorizeGpfChannelRqst s"
    and "\<forall>e \<in> set later. keeps_switch e"
    and "run_ops sink_do (SinkRx EZSP_GPEP_INCOMING_MESSAGE_HANDLER p # later) s = Inr (s', out)"
  shows "gs_sentChannelSwitchSourceId s' = gf_source_id f
    \<and> (\<exists>q out1 out2. out = out1 @ out2 \<and> sent out1 = [(EZSP_D_GP_SEND, q)] \<and> no_gp_send out2)"
proof -
  obtain s1 es q where s1: "rx_incoming p s = Inr (s1, es)" "sent es = [(EZSP_D_GP_SEND, q)]"
      "gs_sentChannelSwitchSourceId s1 = gf_source_id f" "\<not> gs_authorizeGpfChannelRqst s1"
    using rx_incoming_switch [OF assms(1-5,7)] assms(8) by blast
  then obtain out2 where "run_ops sink_do later s1 = Inr (s', out2)" "out = es @ out2"
    using assms(10) by (auto simp: sink_rx_simps)
  then show ?thesis
    using pending_run [of "gf_source_id f" s1 later s' out2] s1 assms(6,9)
    by (auto simp: switch_pending_def)
qed

definition switch_frame_rx :: byte_buffer where
  "switch_frame_rx = [0, 0, 1, 0, 7, 0, 0, 0, 7, 0, 0, 0, 0, 3, 4, 0, 0, 1, 0, 0, 0, 0xA1,
     9, 9, 9, 9, 0, 7, 0x21, 0x10, 0, 0, 0, 0x50, 0x20]"

theorem sink_channel_switch_stuck_witness:
  "\<exists>s' out. run_ops sink_do [SinkRx EZSP_GPEP_INCOMING_MESSAGE_HANDLER switch_frame_rx,
        SinkRx EZSP_D_GP_SENT_HANDLER [1, 0],
        SinkRx EZSP_GPEP_INCOMING_MESSAGE_HANDLER switch_frame_rx] new_gp_sink = Inr (s', out)
    \<and> gs_sentChannelSwitchSourceId s' = 7"
proof -
  obtain f where f: "parse_gp_frame switch_frame_rx = Inr f" "gf_security f = 3" "gf_source_id f = 7"
      "gf_command_id f = 0xA1" "gf_payload f = switch_request_payload"
    by (simp add: parse_gp_frame_def parse_gp_address_eq bytes_at_eq le32_at_eq switch_frame_rx_def
        address_source_id_def Let_def new_gp_frame_def quad_u8_to_u32_def switch_request_payload_def)
  have hd0: "switch_frame_rx ! 0 = EMBER_SUCCESS" "switch_frame_rx \<noteq> []"
    by (simp_all add: switch_frame_rx_def EMBER_SUCCESS_def)
  let ?ops = "[SinkRx EZSP_D_GP_SENT_HANDLER [1, 0],
    SinkRx EZSP_GPEP_INCOMING_MESSAGE_HANDLER switch_frame_rx]"
  obtain s1 es where s1: "rx_incoming switch_frame_rx new_gp_sink = Inr (s1, es)"
      "gs_sentChannelSwitchSourceId s1 = 7"
    using rx_incoming_switch [OF f(1) hd0(1), of new_gp_sink] f
    by (auto simp: GPD_NO_SECURITY_def gpf_cmds new_gp_sink_def switch_request_payload_def)
  have sent: "sink_rx EZSP_D_GP_SENT_HANDLER [1, 0] s1 = Inr (s1, [])"
    by (simp add: sink_rx_simps rx_gp_sent_def skip_def EMBER_SUCCESS_def)
  have "\<exists>s2 es2. rx_incoming switch_frame_rx s1 = Inr (s2, es2)"
    using s1(2) f hd0 by (simp add: rx_incoming_def rx_security_def rx_channel_switch_def
        adapter_key_status_def GPD_NO_SECURITY_def sink_commands step_simps Let_def)
  then obtain s' out where "run_ops sink_do (SinkRx EZSP_GPEP_INCOMING_MESSAGE_HANDLER switch_frame_rx # ?ops)
      new_gp_sink = Inr (s', out)"
    using s1(1) sent by (auto simp: sink_rx_simps)
  then show ?thesis
    using sink_channel_switch_stuck [OF f(1) hd0(1), of new_gp_sink ?ops] f
    by (fastforce simp: GPD_NO_SECURITY_def gpf_cmds new_gp_sink_def switch_request_payload_def ezsp_ids)
qed

section \<open>The build that validates frames itself\<close>



end
