(* ===== verification/LibMain.thy ===== *)
theory LibMain
  imports GpSink
begin

text \<open>
  The library object, \<open>NSEZSP::CLibEzspMain\<close> of \<open>src/ezsp/lib-ezsp-main.cpp\<close>: it negotiates the
  protocol version with the adapter, configures and starts its stack, creates or leaves a
  network when asked for, runs scans, and hands green power traffic to the application. It owns
  the networking helper and the sink. The functions the application has registered are flags,
  their calls are effects; they are taken not to call the library back before they return.
\<close>

section \<open>State\<close>

datatype internal_state =
    UNINITIALIZED | WAIT_DONGLE_READY | GETTING_EZSP_VERSION | GETTING_XNCP_INFO | STACK_INIT
  | FORM_NWK_IN_PROGRESS | LEAVE_NWK_IN_PROGRESS | READY | SCANNING | JOINING | INIT_FAILED
  | SINK_BUSY | SWITCHING_TO_BOOTLOADER_MODE | IN_BOOTLOADER_MENU | IN_XMODEM_XFR
  | SWITCHING_TO_EZSP_MODE | SWITCH_TO_BOOTLOADER_IN_PROGRESS | TERMINATING

record lib_main =
  exp_ezsp_min_version :: u8
  exp_ezsp_max_version :: u8
  exp_stack_type :: u8
  lib_state :: internal_state
  lib_observing :: bool
  obsStateCallback :: bool
  obsGPFrameRecvCallback :: bool
  obsGPSourceIdCallback :: bool
  energyScanCallback :: bool
  activeScanCallback :: bool
  networkKeyCallback :: bool
  resetDot154ChannelAtInit :: u32
  scanInProgress :: bool
  lastChannelToEnergyScan :: "u8 \<rightharpoonup> u8"
  lastChannelToZigbeeNetworkScan :: "u8 \<rightharpoonup> scan_result list"
  lib_nwk :: zb_nwk
  lib_sink :: gp_sink

text \<open>The dongle registers the library as its observer when it is constructed.
  The argument is the channel to create a network on, 0 to keep the network, or \<open>-1\<close> to leave it;
  \<open>numbers\<close> supplies the random numbers.\<close>

definition new_lib :: "(nat \<Rightarrow> u16) \<Rightarrow> u32 \<Rightarrow> lib_main" where
  "new_lib numbers requestZbNetworkResetToChannel =
     \<lparr>exp_ezsp_min_version = 6, exp_ezsp_max_version = 8, exp_stack_type = 2,
      lib_state = UNINITIALIZED, lib_observing = True, obsStateCallback = False,
      obsGPFrameRecvCallback = False, obsGPSourceIdCallback = False, energyScanCallback = False,
      activeScanCallback = False, networkKeyCallback = False,
      resetDot154ChannelAtInit = requestZbNetworkResetToChannel, scanInProgress = False,
      lastChannelToEnergyScan = Map.empty, lastChannelToZigbeeNetworkScan = Map.empty,
      lib_nwk = new_zb_nwk numbers, lib_sink = new_gp_sink\<rparr>"

definition registerLibraryStateCallback :: "bool \<Rightarrow> lib_main \<Rightarrow> lib_main" where
  "registerLibraryStateCallback cb m = m\<lparr>obsStateCallback := cb\<rparr>"

definition registerGPFrameRecvCallback :: "bool \<Rightarrow> lib_main \<Rightarrow> lib_main" where
  "registerGPFrameRecvCallback cb m = m\<lparr>obsGPFrameRecvCallback := cb\<rparr>"

definition registerGPSourceIdCallback :: "bool \<Rightarrow> lib_main \<Rightarrow> lib_main" where
  "registerGPSourceIdCallback cb m = m\<lparr>obsGPSourceIdCallback := cb\<rparr>"

fun public_of :: "internal_state \<Rightarrow> public_state option" where
  "public_of UNINITIALIZED = Some PubUNINITIALIZED"
| "public_of WAIT_DONGLE_READY = Some PubUNINITIALIZED"
| "public_of GETTING_EZSP_VERSION = Some PubUNINITIALIZED"
| "public_of GETTING_XNCP_INFO = Some PubUNINITIALIZED"
| "public_of STACK_INIT = Some PubUNINITIALIZED"
| "public_of READY = Some PubREADY"
| "public_of SCANNING = Some PubREADY"
| "public_of INIT_FAILED = Some PubINIT_FAILED"
| "public_of SINK_BUSY = Some PubSINK_BUSY"
| "public_of FORM_NWK_IN_PROGRESS = Some PubSINK_BUSY"
| "public_of LEAVE_NWK_IN_PROGRESS = Some PubSINK_BUSY"
| "public_of SWITCHING_TO_BOOTLOADER_MODE = Some PubSINK_BUSY"
| "public_of IN_BOOTLOADER_MENU = Some PubSINK_BUSY"
| "public_of IN_XMODEM_XFR = Some PubIN_XMODEM_XFR"
| "public_of TERMINATING = Some PubTERMINATING"
| "public_of _ = None"

definition setState :: "internal_state \<Rightarrow> lib_main step" where
  "setState i_new_state m =
     Inr (m\<lparr>lib_state := i_new_state\<rparr>,
          if obsStateCallback m
          then (case public_of i_new_state of Some p \<Rightarrow> [App (LibState p)] | None \<Rightarrow> [])
          else [])"

section \<open>Calls of the sink and of the networking helper\<close>

text \<open>The state callback which the library registers on the sink, and its observer methods.\<close>

definition clibobs :: "sink_state \<Rightarrow> lib_main step" where
  "clibobs i_state m =
     (if i_state = SINK_READY \<and> lib_state m = SINK_BUSY then setState READY m else skip m)"

definition handleRxGpFrame :: "gp_frame \<Rightarrow> lib_main step" where
  "handleRxGpFrame i_gpf m =
     Inr (m, if obsGPFrameRecvCallback m then [App (GpFrameRecv i_gpf)] else [])"

definition handleRxGpdId :: "u32 \<Rightarrow> bool \<Rightarrow> key_status \<Rightarrow> lib_main step" where
  "handleRxGpdId i_gpd_id known status m =
     Inr (m, if obsGPSourceIdCallback m then [App (GpSourceId i_gpd_id known status)] else [])"

fun on_sink_effect :: "effect \<Rightarrow> lib_main step" where
  "on_sink_effect (SinkStateIs st) = clibobs st"
| "on_sink_effect (SinkGpFrame f) = handleRxGpFrame f"
| "on_sink_effect (SinkGpdId i known st) = handleRxGpdId i known st"
| "on_sink_effect e = emit [e]"

definition sink_call :: "gp_sink step \<Rightarrow> lib_main step" where
  "sink_call a m = bindR (a (lib_sink m)) (\<lambda>(s, es).
     steps (map on_sink_effect es) (m\<lparr>lib_sink := s\<rparr>))"

definition sink_request ::
    "(gp_sink \<Rightarrow> (bool \<times> gp_sink \<times> effect list) result) \<Rightarrow> lib_main
     \<Rightarrow> (bool \<times> lib_main \<times> effect list) result" where
  "sink_request a m = bindR (a (lib_sink m)) (\<lambda>(ok, s, es).
     returning ok (steps (map on_sink_effect es)) (m\<lparr>lib_sink := s\<rparr>))"

definition nwk_call :: "zb_nwk step \<Rightarrow> lib_main step" where
  "nwk_call a m = bindR (a (lib_nwk m)) (\<lambda>(w, es). Inr (m\<lparr>lib_nwk := w\<rparr>, es))"

section \<open>Initialisation\<close>

definition dongleInit :: "u8 \<Rightarrow> lib_main step" where
  "dongleInit ezsp_version =
     steps [setState GETTING_EZSP_VERSION, emit [Send EZSP_VERSION [ezsp_version]]]"

definition getXncpInfo :: "lib_main step" where
  "getXncpInfo = steps [setState GETTING_XNCP_INFO, emit [Send EZSP_GET_XNCP_INFO []]]"

definition stack_config :: "(u8 \<times> u16) list" where
  "stack_config =
     [(EZSP_CONFIG_NEIGHBOR_TABLE_SIZE, 32),
      (EZSP_CONFIG_APS_UNICAST_MESSAGE_COUNT, 10),
      (EZSP_CONFIG_BINDING_TABLE_SIZE, 0),
      (EZSP_CONFIG_ADDRESS_TABLE_SIZE, 64),
      (EZSP_CONFIG_MULTICAST_TABLE_SIZE, 8),
      (EZSP_CONFIG_ROUTE_TABLE_SIZE, 32),
      (EZSP_CONFIG_DISCOVERY_TABLE_SIZE, 16),
      (EZSP_CONFIG_STACK_PROFILE, 2),
      (EZSP_CONFIG_SECURITY_LEVEL, 5),
      (EZSP_CONFIG_MAX_HOPS, 15),
      (EZSP_CONFIG_MAX_END_DEVICE_CHILDREN, 32),
      (EZSP_CONFIG_INDIRECT_TRANSMISSION_TIMEOUT, 3000),
      (EZSP_CONFIG_END_DEVICE_POLL_TIMEOUT, 5),
      (EZSP_CONFIG_MOBILE_NODE_POLL_TIMEOUT, 20),
      (EZSP_CONFIG_RESERVED_MOBILE_CHILD_ENTRIES, 0),
      (EZSP_CONFIG_TX_POWER_MODE, 0),
      (EZSP_CONFIG_DISABLE_RELAY, 0),
      (EZSP_CONFIG_TRUST_CENTER_ADDRESS_CACHE_SIZE, 0),
      (EZSP_CONFIG_SOURCE_ROUTE_TABLE_SIZE, 0),
      (EZSP_CONFIG_END_DEVICE_POLL_TIMEOUT_SHIFT, 6),
      (EZSP_CONFIG_FRAGMENT_WINDOW_SIZE, 0),
      (EZSP_CONFIG_FRAGMENT_DELAY_MS, 0),
      (EZSP_CONFIG_KEY_TABLE_SIZE, 12),
      (EZSP_CONFIG_APS_ACK_TIMEOUT, 1600),
      (EZSP_CONFIG_BEACON_JITTER_DURATION, 3),
      (EZSP_CONFIG_END_DEVICE_BIND_TIMEOUT, 60),
      (EZSP_CONFIG_PAN_ID_CONFLICT_REPORT_THRESHOLD, 1),
      (EZSP_CONFIG_REQUEST_KEY_TIMEOUT, 0),
      (EZSP_CONFIG_APPLICATION_ZDO_FLAGS, 0),
      (EZSP_CONFIG_BROADCAST_TABLE_SIZE, 15),
      (EZSP_CONFIG_MAC_FILTER_TABLE_SIZE, 0),
      (EZSP_CONFIG_SUPPORTED_NETWORKS, 1),
      (EZSP_CONFIG_SEND_MULTICASTS_TO_SLEEPY_ADDRESS, 0),
      (EZSP_CONFIG_ZLL_GROUP_ADDRESSES, 0),
      (EZSP_CONFIG_MTORR_FLOW_CONTROL, 1),
      (EZSP_CONFIG_RETRY_QUEUE_SIZE, 8),
      (EZSP_CONFIG_NEW_BROADCAST_ENTRY_THRESHOLD, 10),
      (EZSP_CONFIG_TRANSIENT_KEY_TIMEOUT_S, 300),
      (EZSP_CONFIG_BROADCAST_MIN_ACKS_NEEDED, 1),
      (EZSP_CONFIG_TC_REJOINS_USING_WELL_KNOWN_KEY_TIMEOUT_S, 600),
      (EZSP_CONFIG_PACKET_BUFFER_COUNT, 255)]"

definition stack_policy :: "(u8 \<times> u8) list" where
  "stack_policy =
     [(EZSP_TRUST_CENTER_POLICY, EZSP_ALLOW_PRECONFIGURED_KEY_JOINS),
      (EZSP_MESSAGE_CONTENTS_IN_CALLBACK_POLICY, EZSP_MESSAGE_TAG_ONLY_IN_CALLBACK),
      (EZSP_BINDING_MODIFICATION_POLICY, EZSP_CHECK_BINDING_MODIFICATIONS_ARE_VALID_ENDPOINT_CLUSTERS),
      (EZSP_POLL_HANDLER_POLICY, EZSP_POLL_HANDLER_IGNORE)]"

definition stackInit :: "lib_main step" where
  "stackInit = emit (nwk_stackInit stack_config stack_policy)"

definition handleDongleState :: "dongle_state \<Rightarrow> lib_main step" where
  "handleDongleState i_state m =
     (if DONGLE_READY = i_state then
        if lib_state m = WAIT_DONGLE_READY then dongleInit (exp_ezsp_min_version m) m else skip m
      else skip m)"

section \<open>Requests of the application\<close>

definition clearAllGPDevices :: "lib_main \<Rightarrow> (bool \<times> lib_main \<times> effect list) result" where
  "clearAllGPDevices m =
     (if lib_state m \<noteq> READY then Inr (False, m, [])
      else bindR (setState SINK_BUSY m) (\<lambda>(m, es).
           bindR (sink_request clearAllGpds m) (\<lambda>(ok, m, es'). Inr (ok, m, es @ es'))))"

definition removeGPDevices :: "u32 list \<Rightarrow> lib_main \<Rightarrow> (bool \<times> lib_main \<times> effect list) result" where
  "removeGPDevices sourceIdList m =
     (if lib_state m \<noteq> READY then Inr (False, m, [])
      else bindR (setState SINK_BUSY m) (\<lambda>(m, es).
           bindR (sink_request (removeGpds sourceIdList) m) (\<lambda>(ok, m, es'). Inr (ok, m, es @ es'))))"

definition addGPDevices :: "gp_device list \<Rightarrow> lib_main \<Rightarrow> (bool \<times> lib_main \<times> effect list) result" where
  "addGPDevices gpDevicesList m =
     (if lib_state m \<noteq> READY then Inr (False, m, [])
      else bindR (setState SINK_BUSY m) (\<lambda>(m, es).
           bindR (sink_request (registerGpds gpDevicesList) m) (\<lambda>(ok, m, es'). Inr (ok, m, es @ es'))))"

definition openCommissioningSession :: "lib_main \<Rightarrow> (bool \<times> lib_main \<times> effect list) result" where
  "openCommissioningSession m =
     (if lib_state m \<noteq> READY then Inr (False, m, [])
      else returning True (sink_call sink_openCommissioningSession) m)"

definition closeCommissioningSession :: "lib_main \<Rightarrow> (bool \<times> lib_main \<times> effect list) result" where
  "closeCommissioningSession m =
     (if lib_state m \<noteq> READY then Inr (False, m, [])
      else returning True (sink_call sink_closeCommissioningSession) m)"

definition setAnswerToGpfChannelRqstPolicy :: "bool \<Rightarrow> lib_main step" where
  "setAnswerToGpfChannelRqstPolicy allowed =
     sink_call (modify (authorizeAnswerToGpfChannelRqst allowed))"

definition setFirmwareUpgradeMode :: "lib_main step" where
  "setFirmwareUpgradeMode =
     steps [emit [Send EZSP_LAUNCH_STANDALONE_BOOTLOADER [0x01]],
            setState SWITCHING_TO_BOOTLOADER_MODE]"

text \<open>The payload of a scan request: the kind of scan, the channels (all of 11 to 26 when none are
  given) and the duration.\<close>

definition scan_payload :: "u8 \<Rightarrow> u8 \<Rightarrow> u32 \<Rightarrow> byte_buffer" where
  "scan_payload kind scan_duration requestedChannelMask =
     (let channelMask = (if requestedChannelMask \<noteq> 0 then requestedChannelMask else 0x07FFF800)
      in [kind] @ [u32_get_byte0 channelMask] @ [u32_get_byte1 channelMask]
         @ [u32_get_byte2 channelMask] @ [u32_get_byte3 channelMask] @ [scan_duration])"

definition startEnergyScan ::
    "bool \<Rightarrow> u8 \<Rightarrow> u32 \<Rightarrow> lib_main \<Rightarrow> (bool \<times> lib_main \<times> effect list) result" where
  "startEnergyScan callback scan_duration requestedChannelMask m =
     (if lib_state m = SCANNING \<or> scanInProgress m then Inr (False, m, [])
      else returning True (steps
        [modify (\<lambda>m. m\<lparr>lastChannelToEnergyScan := Map.empty\<rparr>),
         setState SCANNING,
         modify (\<lambda>m. m\<lparr>energyScanCallback := callback, activeScanCallback := False\<rparr>),
         emit [Send EZSP_START_SCAN (scan_payload EZSP_ENERGY_SCAN scan_duration requestedChannelMask)]]) m)"

definition startActiveScan ::
    "bool \<Rightarrow> u8 \<Rightarrow> u32 \<Rightarrow> lib_main \<Rightarrow> (bool \<times> lib_main \<times> effect list) result" where
  "startActiveScan callback scan_duration requestedChannelMask m =
     (if lib_state m = SCANNING \<or> scanInProgress m then Inr (False, m, [])
      else returning True (steps
        [modify (\<lambda>m. m\<lparr>lastChannelToZigbeeNetworkScan := Map.empty\<rparr>),
         setState SCANNING,
         modify (\<lambda>m. m\<lparr>activeScanCallback := callback, energyScanCallback := False\<rparr>),
         emit [Send EZSP_START_SCAN (scan_payload EZSP_ACTIVE_SCAN scan_duration requestedChannelMask)]]) m)"

definition getNetworkKey :: "bool \<Rightarrow> lib_main \<Rightarrow> (bool \<times> lib_main \<times> effect list) result" where
  "getNetworkKey callback = returning True (steps
     [modify (\<lambda>m. m\<lparr>networkKeyCallback := callback\<rparr>),
      emit [Send EZSP_GET_KEY [EMBER_CURRENT_NETWORK_KEY]]])"

definition setChannel :: "u8 \<Rightarrow> lib_main \<Rightarrow> (bool \<times> lib_main \<times> effect list) result" where
  "setChannel channel m =
     (if lib_state m \<noteq> READY \<or> scanInProgress m then Inr (False, m, [])
      else Inr (True, m, [Send EZSP_SET_RADIO_CHANNEL [channel]]))"

definition joinNetwork :: "network_parameters \<Rightarrow> lib_main \<Rightarrow> (bool \<times> lib_main \<times> effect list) result" where
  "joinNetwork nwkParams m =
     (if lib_state m \<noteq> READY \<or> scanInProgress m then Inr (False, m, [])
      else Inr (True, m, nwk_joinNetwork nwkParams))"

definition handleFirmwareXModemXfr :: "lib_main step" where
  "handleFirmwareXModemXfr = setState IN_XMODEM_XFR"

section \<open>Messages of the adapter\<close>

text \<open>A version the library does not accept is logged with \<open>i_msg_receive[0]\<close>.\<close>

definition unsupported_version :: "byte_buffer \<Rightarrow> lib_main step" where
  "unsupported_version i_msg_receive m = bindR (byte_idx i_msg_receive 0) (\<lambda>_. skip m)"

definition handleEzspRxMessage_VERSION :: "byte_buffer \<Rightarrow> lib_main step" where
  "handleEzspRxMessage_VERSION i_msg_receive m =
     (if length i_msg_receive = 2 then
        steps [emit [FetchedStack (dble_u8_to_u16 (i_msg_receive ! 1) (i_msg_receive ! 0))],
               getXncpInfo] m
      else if length i_msg_receive = 4 then
        let ezspProtocolVersion = i_msg_receive ! 0;
            ezspStackType = i_msg_receive ! 1;
            ezspStackVersion = dble_u8_to_u16 (i_msg_receive ! 3) (i_msg_receive ! 2)
        in steps
          [emit [FetchedVersion ezspStackVersion ezspProtocolVersion ezspStackType],
           if ezspStackType \<noteq> exp_stack_type m then skip
           else if exp_ezsp_min_version m < ezspProtocolVersion then
             if exp_ezsp_max_version m < ezspProtocolVersion then skip
             else steps [modify (\<lambda>m. m\<lparr>exp_ezsp_min_version := ezspProtocolVersion\<rparr>),
                         dongleInit ezspProtocolVersion]
           else if ezspProtocolVersion = exp_ezsp_min_version m
                \<and> ezspProtocolVersion \<le> exp_ezsp_max_version m then getXncpInfo
           else unsupported_version i_msg_receive] m
      else unsupported_version i_msg_receive m)"

definition handleEzspRxMessage_EZSP_GET_XNCP_INFO :: "byte_buffer \<Rightarrow> lib_main step" where
  "handleEzspRxMessage_EZSP_GET_XNCP_INFO i_msg_receive = steps
     [if length i_msg_receive < 5 then skip
      else if i_msg_receive ! 0 \<noteq> EMBER_SUCCESS then skip
      else emit [FetchedXncp (dble_u8_to_u16 (i_msg_receive ! 2) (i_msg_receive ! 1))
                             (dble_u8_to_u16 (i_msg_receive ! 4) (i_msg_receive ! 3))],
      setState STACK_INIT,
      stackInit]"

definition handleEzspRxMessage_NETWORK_STATE :: "byte_buffer \<Rightarrow> lib_main step" where
  "handleEzspRxMessage_NETWORK_STATE i_msg_receive m =
     bindR (byte_at i_msg_receive 0) (\<lambda>status.
     if lib_state m = FORM_NWK_IN_PROGRESS \<and> status = EMBER_NO_NETWORK then skip m
     else if status = EMBER_NO_NETWORK then
       if resetDot154ChannelAtInit m = - 1 then setState TERMINATING m
       else if resetDot154ChannelAtInit m = 0 then setState INIT_FAILED m
       else if lib_state m = STACK_INIT then steps
         [nwk_call (\<lambda>w. Inr (formHaNetwork (ucast (resetDot154ChannelAtInit m)) w)),
          setState FORM_NWK_IN_PROGRESS,
          modify (\<lambda>m. m\<lparr>resetDot154ChannelAtInit := 0\<rparr>)] m
       else skip m
     else if lib_state m = STACK_INIT \<and> resetDot154ChannelAtInit m \<noteq> 0 then
       steps [emit leaveNetwork, setState LEAVE_NWK_IN_PROGRESS] m
     else skip m)"

definition handleEzspRxMessage_EZSP_LAUNCH_STANDALONE_BOOTLOADER :: "byte_buffer \<Rightarrow> lib_main step" where
  "handleEzspRxMessage_EZSP_LAUNCH_STANDALONE_BOOTLOADER i_msg_receive m =
     (if lib_state m = SWITCHING_TO_BOOTLOADER_MODE
      then emit [SetMode BOOTLOADER_FIRMWARE_UPGRADE] m else skip m)"

text \<open>The state callback that is registered on the sink asks to stay registered.\<close>

definition handleEzspRxMessage_STACK_STATUS_HANDLER :: "byte_buffer \<Rightarrow> lib_main step" where
  "handleEzspRxMessage_STACK_STATUS_HANDLER i_msg_receive m =
     bindR (byte_at i_msg_receive 0) (\<lambda>status.
     if lib_state m \<noteq> LEAVE_NWK_IN_PROGRESS then
       if EMBER_NETWORK_UP = status \<and> resetDot154ChannelAtInit m = 0 then steps
         [setState SINK_BUSY,
          sink_call (modify (registerStateCallback (Some (\<lambda>_. True)))),
          sink_call sink_init] m
       else if 155 = status then emit [Send EZSP_GET_NETWORK_PARAMETERS []] m
       else emit [Send EZSP_NETWORK_STATE []] m
     else skip m)"

definition rx_get_key :: "byte_buffer \<Rightarrow> lib_main step" where
  "rx_get_key i_msg_receive m =
     bindR (byte_at i_msg_receive 0) (\<lambda>l_status.
     bindR (parse_key_struct (tl i_msg_receive)) (\<lambda>l_rsp.
     if networkKeyCallback m
     then Inr (m\<lparr>networkKeyCallback := False\<rparr>, [App (NetworkKey l_status (ks_key l_rsp))])
     else skip m))"

text \<open>\<open>emplace\<close> keeps the value of a channel that is in the map already.\<close>

definition rx_energy_scan_result :: "byte_buffer \<Rightarrow> lib_main step" where
  "rx_energy_scan_result i_msg_receive m =
     bindR (byte_at i_msg_receive 0) (\<lambda>channel.
     bindR (byte_at i_msg_receive 1) (\<lambda>rssi.
     let scan = lastChannelToEnergyScan m in
     Inr (m\<lparr>lastChannelToEnergyScan :=
              (if scan channel = None then scan(channel \<mapsto> rssi) else scan)\<rparr>, [])))"

definition rx_network_found :: "byte_buffer \<Rightarrow> lib_main step" where
  "rx_network_found i_msg_receive m =
     bindR (parse_zigbee_network i_msg_receive) (\<lambda>networkFound.
     bindR (byte_at i_msg_receive 14) (\<lambda>lastHopLqi.
     bindR (byte_at i_msg_receive 15) (\<lambda>lastHopRssi.
     let channel = zn_channel networkFound;
         networkScan = \<lparr>sr_network = networkFound, sr_lastHopLqi = lastHopLqi,
                        sr_lastHopRssi = lastHopRssi\<rparr>;
         scan = lastChannelToZigbeeNetworkScan m;
         results = (case scan channel of None \<Rightarrow> [] | Some r \<Rightarrow> r)
     in Inr (m\<lparr>lastChannelToZigbeeNetworkScan := scan(channel \<mapsto> results @ [networkScan])\<rparr>, []))))"

definition rx_scan_complete :: "lib_main step" where
  "rx_scan_complete = steps
     [modify (\<lambda>m. m\<lparr>scanInProgress := False\<rparr>),
      \<lambda>m. if lib_state m = SCANNING then steps
        [setState READY,
         \<lambda>m. if energyScanCallback m
             then Inr (m\<lparr>energyScanCallback := False\<rparr>, [App (EnergyScan (lastChannelToEnergyScan m))])
             else skip m,
         \<lambda>m. if activeScanCallback m
             then Inr (m\<lparr>activeScanCallback := False\<rparr>,
                       [App (ActiveScan (lastChannelToZigbeeNetworkScan m))])
             else skip m] m
      else skip m]"

definition handleEzspRxMessage :: "ezsp_cmd \<Rightarrow> byte_buffer \<Rightarrow> lib_main step" where
  "handleEzspRxMessage i_cmd i_msg_receive =
     (if i_cmd = EZSP_STACK_STATUS_HANDLER then handleEzspRxMessage_STACK_STATUS_HANDLER i_msg_receive
      else if i_cmd = EZSP_GET_NETWORK_PARAMETERS then
        (\<lambda>m. bindR (parse_network_parameters_response i_msg_receive) (\<lambda>_. skip m))
      else if i_cmd = EZSP_GET_KEY then rx_get_key i_msg_receive
      else if i_cmd = EZSP_VERSION then handleEzspRxMessage_VERSION i_msg_receive
      else if i_cmd = EZSP_GET_XNCP_INFO then handleEzspRxMessage_EZSP_GET_XNCP_INFO i_msg_receive
      else if i_cmd = EZSP_NETWORK_STATE then handleEzspRxMessage_NETWORK_STATE i_msg_receive
      else if i_cmd = EZSP_LEAVE_NETWORK then setState STACK_INIT
      else if i_cmd = EZSP_LAUNCH_STANDALONE_BOOTLOADER then
        handleEzspRxMessage_EZSP_LAUNCH_STANDALONE_BOOTLOADER i_msg_receive
      else if i_cmd = EZSP_START_SCAN then
        (\<lambda>m. bindR (byte_at i_msg_receive 0) (\<lambda>status.
             Inr (m\<lparr>scanInProgress := (EMBER_SUCCESS = status)\<rparr>, [])))
      else if i_cmd = EZSP_ENERGY_SCAN_RESULT_HANDLER then rx_energy_scan_result i_msg_receive
      else if i_cmd = EZSP_NETWORK_FOUND_HANDLER then rx_network_found i_msg_receive
      else if i_cmd = EZSP_SCAN_COMPLETE_HANDLER then rx_scan_complete
      else skip)"

end
