(* ===== verification/LibEvents.thy ===== *)
theory LibEvents
  imports LibMain GpSinkProps
begin

text \<open>
  The library as a state machine: the observers of the dongle in the order in which they are
  called, the requests of the application (the facade \<open>NSEZSP::CEzsp\<close> of \<open>src/ezsp/ezsp.cpp\<close>
  forwards them), and the invariant of its states.
\<close>

section \<open>Events\<close>

text \<open>\<open>CLibEzspMain::start\<close> before and after the reset of the dongle. When the reset fails the
  library leaves the dongle, and registers on the sink once more.\<close>

definition start_before :: "lib_main \<Rightarrow> lib_main" where
  "start_before m = m\<lparr>lib_observing := True, lib_sink := snd (sink_registerObserver (lib_sink m))\<rparr>"

definition start_after :: "bool \<Rightarrow> lib_main step" where
  "start_after ok m =
     (if ok then setState WAIT_DONGLE_READY m
      else Inr (m\<lparr>lib_observing := False, lib_sink := snd (sink_registerObserver (lib_sink m))\<rparr>, []))"

text \<open>\<open>CEzspDongle::notifyObserversOfEzspRxMessage\<close>: the observers are in a set of pointers, and the
  library is the first of them in memory when it is registered, its members follow in the
  order of their declaration.\<close>

definition lib_rx :: "ezsp_cmd \<Rightarrow> byte_buffer \<Rightarrow> lib_main step" where
  "lib_rx i_cmd i_message = steps
     [\<lambda>m. if lib_observing m then handleEzspRxMessage i_cmd i_message m else skip m,
      \<lambda>m. bindR (messaging_rx i_cmd i_message) (\<lambda>es. emit es m),
      nwk_call (networking_rx i_cmd i_message),
      sink_call (sink_rx i_cmd i_message)]"

definition lib_dongle_state :: "dongle_state \<Rightarrow> lib_main step" where
  "lib_dongle_state i_state m = (if lib_observing m then handleDongleState i_state m else skip m)"

definition lib_xmodem_ready :: "lib_main step" where
  "lib_xmodem_ready m = (if lib_observing m then handleFirmwareXModemXfr m else skip m)"

text \<open>\<open>CEzsp::joinNetwork\<close> builds the parameters.\<close>

definition join_parameters ::
    "u64 \<Rightarrow> u16 \<Rightarrow> u8 \<Rightarrow> u8 \<Rightarrow> u32 \<Rightarrow> u8 \<Rightarrow> u16 \<Rightarrow> u8 \<Rightarrow> network_parameters" where
  "join_parameters extendedPanId panId channel joinMethod allowedChannels radioTxPower nwkManagerId
     nwkUpdateId =
     new_network_parameters\<lparr>np_extend_pan_id := extendedPanId, np_pan_id := panId,
       np_join_method := joinMethod, np_radio_channel := channel, np_channels := allowedChannels,
       np_radio_tx_power := radioTxPower, np_nwk_manager_id := nwkManagerId,
       np_nwk_update_id := nwkUpdateId\<rparr>"

datatype lib_op =
    LibRx ezsp_cmd byte_buffer
  | LibDongle dongle_state
  | LibXmodem
  | LibStart bool
  | LibStateCallback bool
  | LibFrameCallback bool
  | LibSourceIdCallback bool
  | LibClear
  | LibRemove "u32 list"
  | LibAdd "gp_device list"
  | LibOpen
  | LibClose
  | LibPolicy bool
  | LibUpgrade
  | LibEnergyScan bool u8 u32
  | LibActiveScan bool u8 u32
  | LibKey bool
  | LibChannel u8
  | LibJoin network_parameters

fun lib_do :: "lib_op \<Rightarrow> lib_main step" where
  "lib_do (LibRx c p) m = lib_rx c p m"
| "lib_do (LibDongle st) m = lib_dongle_state st m"
| "lib_do LibXmodem m = lib_xmodem_ready m"
| "lib_do (LibStart ok) m = start_after ok (start_before m)"
| "lib_do (LibStateCallback cb) m = modify (registerLibraryStateCallback cb) m"
| "lib_do (LibFrameCallback cb) m = modify (registerGPFrameRecvCallback cb) m"
| "lib_do (LibSourceIdCallback cb) m = modify (registerGPSourceIdCallback cb) m"
| "lib_do LibClear m = no_result (clearAllGPDevices m)"
| "lib_do (LibRemove ids) m = no_result (removeGPDevices ids m)"
| "lib_do (LibAdd ds) m = no_result (addGPDevices ds m)"
| "lib_do LibOpen m = no_result (openCommissioningSession m)"
| "lib_do LibClose m = no_result (closeCommissioningSession m)"
| "lib_do (LibPolicy b) m = setAnswerToGpfChannelRqstPolicy b m"
| "lib_do LibUpgrade m = setFirmwareUpgradeMode m"
| "lib_do (LibEnergyScan cb d channels) m = no_result (startEnergyScan cb d channels m)"
| "lib_do (LibActiveScan cb d channels) m = no_result (startActiveScan cb d channels m)"
| "lib_do (LibKey cb) m = no_result (getNetworkKey cb m)"
| "lib_do (LibChannel c) m = no_result (setChannel c m)"
| "lib_do (LibJoin p) m = no_result (joinNetwork p m)"

section \<open>Facts about the operations\<close>

lemma setState_eq:
  "setState st m = Inr (m\<lparr>lib_state := st\<rparr>,
     if obsStateCallback m then (case public_of st of Some p \<Rightarrow> [App (LibState p)] | None \<Rightarrow> []) else [])"
  by (simp add: setState_def)

text \<open>What the library does with the effects of the sink: it passes most of them on, and becomes
  ready when the sink does.\<close>

definition sink_becomes_ready :: "effect list \<Rightarrow> bool" where
  "sink_becomes_ready es \<longleftrightarrow> SinkStateIs SINK_READY \<in> set es"

lemma on_sink_effect_total:
  "\<exists>es. on_sink_effect e m = Inr (if e = SinkStateIs SINK_READY \<and> lib_state m = SINK_BUSY
     then m\<lparr>lib_state := READY\<rparr> else m, es) \<and> sent es = sent [e]"
proof (cases e)
  case (SinkStateIs st)
  then show ?thesis by (cases st) (auto simp: clibobs_def setState_eq skip_def)
qed (auto simp: handleRxGpFrame_def handleRxGpdId_def emit_def)

lemma on_sink_effects:
  "\<exists>out. steps (map on_sink_effect es) m = Inr (if sink_becomes_ready es \<and> lib_state m = SINK_BUSY
     then m\<lparr>lib_state := READY\<rparr> else m, out) \<and> sent out = sent es"
proof (induction es arbitrary: m)
  case (Cons e es)
  let ?m = "if e = SinkStateIs SINK_READY \<and> lib_state m = SINK_BUSY then m\<lparr>lib_state := READY\<rparr> else m"
  obtain o1 where o1: "on_sink_effect e m = Inr (?m, o1)" "sent o1 = sent [e]"
    using on_sink_effect_total by blast
  obtain o2 where o2: "steps (map on_sink_effect es) ?m =
      Inr (if sink_becomes_ready es \<and> lib_state ?m = SINK_BUSY then ?m\<lparr>lib_state := READY\<rparr> else ?m, o2)"
      "sent o2 = sent es"
    using Cons.IH by blast
  have "sent (e # es) = sent [e] @ sent es" by (cases e) simp_all
  then show ?case using o1 o2 by (auto simp: sink_becomes_ready_def)
qed (simp add: sink_becomes_ready_def)

text \<open>So a call of the sink fails when the operation of the sink does, and otherwise changes the
  state of the sink, and the library's own state from busy to ready at most.\<close>

lemma sink_call_cases:
  assumes "a (lib_sink m) = Inr (s, es)"
  obtains out where "sink_call a m = Inr (m\<lparr>lib_sink := s,
      lib_state := if sink_becomes_ready es \<and> lib_state m = SINK_BUSY then READY else lib_state m\<rparr>, out)"
    "sent out = sent es"
proof -
  obtain out where "steps (map on_sink_effect es) (m\<lparr>lib_sink := s\<rparr>) =
      Inr (if sink_becomes_ready es \<and> lib_state m = SINK_BUSY
        then m\<lparr>lib_sink := s, lib_state := READY\<rparr> else m\<lparr>lib_sink := s\<rparr>, out)" "sent out = sent es"
    using on_sink_effects [of es "m\<lparr>lib_sink := s\<rparr>"] by auto
  then show thesis using that assms by (auto simp: sink_call_def)
qed

lemma sink_call_Inr:
  assumes "sink_call a m = Inr (m', out)"
  shows "\<exists>s es. a (lib_sink m) = Inr (s, es) \<and> sent out = sent es
     \<and> m' = m\<lparr>lib_sink := s,
         lib_state := if sink_becomes_ready es \<and> lib_state m = SINK_BUSY then READY else lib_state m\<rparr>"
proof -
  obtain s es where a: "a (lib_sink m) = Inr (s, es)"
    using assms by (auto simp: sink_call_def)
  obtain out' where "sink_call a m = Inr (m\<lparr>lib_sink := s,
      lib_state := if sink_becomes_ready es \<and> lib_state m = SINK_BUSY then READY else lib_state m\<rparr>, out')"
    "sent out' = sent es"
    using sink_call_cases [where a = a, OF a] .
  then show ?thesis using assms a by simp
qed

lemma sink_call_Inl: "sink_call a m = Inl x \<Longrightarrow> a (lib_sink m) = Inl x"
proof (cases "a (lib_sink m)")
  case (Inr r)
  obtain s es where "a (lib_sink m) = Inr (s, es)" using Inr by (cases r) simp
  then obtain out where "\<exists>m'. sink_call a m = Inr (m', out)"
    using sink_call_cases [where a = a and m = m] by blast
  then show "sink_call a m = Inl x \<Longrightarrow> ?thesis" by simp
qed (simp add: sink_call_def)

lemma sink_request_call:
  "no_result (sink_request a m) = sink_call (\<lambda>s. no_result (a s)) m"
  by (cases "a (lib_sink m)")
    (auto simp: sink_request_def sink_call_def no_result_def returning_def bindR_assoc
      split: prod.splits)

section \<open>The state callback of the sink\<close>

definition sink_steady :: "gp_sink \<Rightarrow> bool" where
  "sink_steady s \<longleftrightarrow> gs_obsStateCallback s = None \<or> gs_obsStateCallback s = Some (\<lambda>_. True)"

text \<open>A message of the adapter leaves the callback in place, and the callback hears that the sink is
  ready exactly when the sink becomes ready.\<close>

definition sink_tracks :: "gp_sink \<Rightarrow> gp_sink \<Rightarrow> effect list \<Rightarrow> bool" where
  "sink_tracks s s' es \<longleftrightarrow> gs_obsStateCallback s' = gs_obsStateCallback s
     \<and> (sink_becomes_ready es \<longleftrightarrow> gs_obsStateCallback s \<noteq> None
          \<and> gs_sink_state s \<noteq> SINK_READY \<and> gs_sink_state s' = SINK_READY)"

lemma setSinkState_steady:
  "sink_steady s \<Longrightarrow> setSinkState st s = Inr (s\<lparr>gs_sink_state := st\<rparr>,
     if gs_obsStateCallback s = None then [] else [SinkStateIs st])"
  by (cases s) (auto simp: sink_steady_def setSinkState_def Let_def)

lemma sink_steady_upd [simp]:
  "sink_steady (s\<lparr>gs_sink_state := st\<rparr>) = sink_steady s"
  "sink_steady (s\<lparr>gs_gpf_comm_frame := f\<rparr>) = sink_steady s"
  "sink_steady (s\<lparr>gs_gpds_to_register := ds\<rparr>) = sink_steady s"
  "sink_steady (s\<lparr>gs_gpds_to_remove := ids\<rparr>) = sink_steady s"
  "sink_steady (s\<lparr>gs_sink_table_index := i\<rparr>) = sink_steady s"
  by (simp_all add: sink_steady_def)

lemmas tracking = sink_tracks_def sink_becomes_ready_def setSinkState_steady

lemma sink_tracks_no_security:
  "sink_steady s \<Longrightarrow> rx_no_security f s = Inr (s', es) \<Longrightarrow> sink_tracks s s' es"
  by (auto simp: rx_no_security_def sink_commands step_simps tracking Let_def split: if_splits)

lemma sink_tracks_security: "rx_security f s = Inr (s', es) \<Longrightarrow> sink_tracks s s' es"
  by (auto simp: rx_security_def rx_channel_switch_def sink_commands step_simps
      sink_tracks_def sink_becomes_ready_def Let_def split: if_splits)

lemma sink_tracks_notified:
  "sink_becomes_ready (es @ es') = sink_becomes_ready es' \<Longrightarrow> sink_tracks s s' es' \<Longrightarrow>
     sink_tracks s s' (es @ es')"
  by (simp add: sink_tracks_def)

text \<open>A received frame is announced, and then handled by its security.\<close>

lemma rx_incoming_parts:
  assumes "rx_incoming p s = Inr (s', es)"
  obtains f ann es2 where "es = ann @ es2" "sent ann = []" "\<not> sink_becomes_ready ann"
    "(if gf_security f = GPD_NO_SECURITY then rx_no_security f
      else if adapter_key_status (p ! 0) = KeyValid then rx_security f else skip) s = Inr (s', es2)"
proof -
  let ?note = "\<lambda>f. if gs_observed s then [SinkGpdId (gf_source_id f) (gf_proxy_table_entry f \<noteq> 0xFF)
     (adapter_key_status (p ! 0))] else []"
  obtain f es2 where "es = (?note f @ ?note f) @ es2"
    "(if gf_security f = GPD_NO_SECURITY then rx_no_security f
      else if adapter_key_status (p ! 0) = KeyValid then rx_security f else skip) s = Inr (s', es2)"
    using assms by (auto simp: rx_incoming_def Let_def notifyObserversOfRxGpdId_def)
  then show thesis using that [of "?note f @ ?note f" es2 f] by (simp add: sink_becomes_ready_def)
qed

lemma sink_tracks_rx_incoming:
  assumes "sink_steady s" "rx_incoming p s = Inr (s', es)"
  shows "sink_tracks s s' es"
proof -
  obtain f ann es2 where es: "es = ann @ es2" "\<not> sink_becomes_ready ann"
    and rest: "(if gf_security f = GPD_NO_SECURITY then rx_no_security f
      else if adapter_key_status (p ! 0) = KeyValid then rx_security f else skip) s = Inr (s', es2)"
    using rx_incoming_parts [OF assms(2)] by blast
  have "sink_tracks s s' es2"
    using rest assms(1)
    by (auto split: if_splits intro: sink_tracks_no_security sink_tracks_security)
      (simp add: skip_def sink_tracks_def sink_becomes_ready_def)
  then show ?thesis
    unfolding es(1) by (rule sink_tracks_notified [rotated]) (use es(2) in \<open>simp add: sink_becomes_ready_def\<close>)
qed

lemma sink_tracks_handlers:
  assumes "sink_steady s"
  shows "rx_network_parameters p s = Inr (s', es) \<Longrightarrow> sink_tracks s s' es"
    "rx_find_or_allocate p s = Inr (s', es) \<Longrightarrow> sink_tracks s s' es"
    "rx_sink_lookup p s = Inr (s', es) \<Longrightarrow> sink_tracks s s' es"
    "rx_sink_get_entry p s = Inr (s', es) \<Longrightarrow> sink_tracks s s' es"
    "rx_sink_set_entry p s = Inr (s', es) \<Longrightarrow> sink_tracks s s' es"
    "rx_proxy_lookup p s = Inr (s', es) \<Longrightarrow> sink_tracks s s' es"
    "rx_proxy_get_entry p s = Inr (s', es) \<Longrightarrow> sink_tracks s s' es"
    "rx_pairing_done p s = Inr (s', es) \<Longrightarrow> sink_tracks s s' es"
    "rx_gp_sent p s = Inr (s', es) \<Longrightarrow> sink_tracks s s' es"
  using assms
  by (auto simp: sink_handlers sink_closeCommissioningSession_def
      sink_commands step_simps tracking Let_def split: if_splits)

lemma sink_rx_tracks: "sink_steady s \<Longrightarrow> sink_rx c p s = Inr (s', es) \<Longrightarrow> sink_tracks s s' es"
  by (auto simp: sink_rx_def skip_def split: if_splits
      intro: sink_tracks_handlers sink_tracks_rx_incoming)
    (simp_all add: sink_tracks_def sink_becomes_ready_def)

end
