(* ===== verification/LibProps.thy ===== *)
theory LibProps
  imports LibEvents
begin

text \<open>
  The invariant of the library, which is an instance of the state machines with known
  failures.
\<close>

definition lib_wf :: "lib_main \<Rightarrow> bool" where
  "lib_wf m \<longleftrightarrow> public_of (lib_state m) \<noteq> None
     \<and> \<not> (energyScanCallback m \<and> activeScanCallback m)
     \<and> (lib_state m = FORM_NWK_IN_PROGRESS \<longrightarrow> resetDot154ChannelAtInit m = 0)
     \<and> 6 \<le> exp_ezsp_min_version m \<and> exp_ezsp_min_version m \<le> 8 \<and> exp_ezsp_max_version m = 8
     \<and> (gs_obsStateCallback (lib_sink m) \<noteq> None \<longrightarrow> resetDot154ChannelAtInit m = 0)
     \<and> sink_steady (lib_sink m) \<and> sink_wf (lib_sink m)"

definition lib_op_bad :: "lib_op \<Rightarrow> fault \<Rightarrow> bool" where
  "lib_op_bad e x \<longleftrightarrow> (\<exists>c p. e = LibRx c p \<and> (x = OutOfRange \<or> x = Undefined \<and> length p < 3))"

lemma lib_wf_new: "lib_wf (new_lib numbers channel)"
  by (simp add: lib_wf_def new_lib_def new_gp_sink_def sink_steady_def sink_wf_def)

lemma lib_wf_upd [simp]:
  "lib_wf (m\<lparr>lib_nwk := w\<rparr>) = lib_wf m"
  "lib_wf (m\<lparr>lib_observing := b\<rparr>) = lib_wf m"
  "lib_wf (m\<lparr>obsStateCallback := b\<rparr>) = lib_wf m"
  "lib_wf (m\<lparr>obsGPFrameRecvCallback := b\<rparr>) = lib_wf m"
  "lib_wf (m\<lparr>obsGPSourceIdCallback := b\<rparr>) = lib_wf m"
  "lib_wf (m\<lparr>networkKeyCallback := b\<rparr>) = lib_wf m"
  "lib_wf (m\<lparr>scanInProgress := b\<rparr>) = lib_wf m"
  "lib_wf (m\<lparr>lastChannelToEnergyScan := e\<rparr>) = lib_wf m"
  "lib_wf (m\<lparr>lastChannelToZigbeeNetworkScan := a\<rparr>) = lib_wf m"
  by (simp_all add: lib_wf_def)

lemma lib_wf_state [simp]:
  "lib_wf m \<Longrightarrow> public_of st \<noteq> None \<Longrightarrow> st \<noteq> FORM_NWK_IN_PROGRESS \<Longrightarrow> lib_wf (m\<lparr>lib_state := st\<rparr>)"
  by (simp add: lib_wf_def)

lemma lib_wf_fields [simp]:
  "lib_wf m \<Longrightarrow> lib_wf (m\<lparr>energyScanCallback := False\<rparr>)"
  "lib_wf m \<Longrightarrow> lib_wf (m\<lparr>activeScanCallback := False\<rparr>)"
  "lib_wf m \<Longrightarrow> lib_wf (m\<lparr>energyScanCallback := b, activeScanCallback := False\<rparr>)"
  "lib_wf m \<Longrightarrow> lib_wf (m\<lparr>activeScanCallback := b, energyScanCallback := False\<rparr>)"
  "lib_wf m \<Longrightarrow> lib_wf (m\<lparr>lib_state := FORM_NWK_IN_PROGRESS, resetDot154ChannelAtInit := 0\<rparr>)"
  "lib_wf m \<Longrightarrow> 6 \<le> v \<Longrightarrow> v \<le> 8 \<Longrightarrow> lib_wf (m\<lparr>exp_ezsp_min_version := v\<rparr>)"
  "lib_wf m \<Longrightarrow> sink_wf s \<Longrightarrow> gs_obsStateCallback s = gs_obsStateCallback (lib_sink m) \<Longrightarrow>
     lib_wf (m\<lparr>lib_sink := s\<rparr>)"
  by (auto simp: lib_wf_def sink_steady_def)

lemma lib_wf_versions:
  "lib_wf m \<Longrightarrow> exp_ezsp_min_version m < v \<Longrightarrow> v \<le> exp_ezsp_max_version m \<Longrightarrow> 6 \<le> v \<and> v \<le> 8"
  by (auto simp: lib_wf_def)

text \<open>A call of the sink keeps the invariant when the operation of the sink keeps that of the sink
  and its callback.\<close>

lemma lib_wf_sink_call:
  assumes "lib_wf m" "sink_call a m = Inr (m', out)"
    and "\<And>s es. a (lib_sink m) = Inr (s, es) \<Longrightarrow>
      sink_wf s \<and> gs_obsStateCallback s = gs_obsStateCallback (lib_sink m)"
  shows "lib_wf m'"
proof -
  obtain s es where s: "a (lib_sink m) = Inr (s, es)"
    "m' = m\<lparr>lib_sink := s,
       lib_state := if sink_becomes_ready es \<and> lib_state m = SINK_BUSY then READY else lib_state m\<rparr>"
    using sink_call_Inr [OF assms(2)] by blast
  have "lib_wf (m\<lparr>lib_sink := s\<rparr>)" using assms(1,3) s(1) by simp
  then show ?thesis by (cases "sink_becomes_ready es \<and> lib_state m = SINK_BUSY") (simp_all add: s(2))
qed

lemma sink_do_callback:
  assumes "sink_steady s" "sink_do e s = Inr (s', es)"
    and "\<And>c p cb. e \<noteq> SinkRx c p \<and> e \<noteq> SinkCallback cb"
  shows "gs_obsStateCallback s' = gs_obsStateCallback s"
  using assms by (cases e) (auto simp: sink_requests sink_commands step_simps setSinkState_steady
      split: if_splits)

lemma lib_wf_sink_do:
  assumes "lib_wf m" "sink_call (sink_do e) m = Inr (m', out)" "\<And>cb. e \<noteq> SinkCallback cb"
  shows "lib_wf m'"
proof (rule lib_wf_sink_call [OF assms(1,2)])
  fix s es assume a: "sink_do e (lib_sink m) = Inr (s, es)"
  have m: "sink_steady (lib_sink m)" "sink_wf (lib_sink m)" using assms(1) by (auto simp: lib_wf_def)
  show "sink_wf s \<and> gs_obsStateCallback s = gs_obsStateCallback (lib_sink m)"
  proof (cases "\<exists>c p. e = SinkRx c p")
    case True
    then show ?thesis using a m sink_rx_tracks sink_wf_rx by (fastforce simp: sink_tracks_def)
  next
    case False
    then show ?thesis using a m sink_do_callback [OF m(1) a] sink_wf_do assms(3) by blast
  qed
qed

text \<open>The calls of the sink which the library makes, as operations of the sink.\<close>

lemma sink_call_do:
  "sink_call (sink_rx c p) = sink_call (sink_do (SinkRx c p))"
  "sink_call sink_init = sink_call (sink_do SinkInit)"
  "sink_call sink_openCommissioningSession = sink_call (sink_do SinkOpen)"
  "sink_call sink_closeCommissioningSession = sink_call (sink_do SinkClose)"
  "sink_call (modify (authorizeAnswerToGpfChannelRqst b)) = sink_call (sink_do (SinkAuthorize b))"
  "no_result (sink_request clearAllGpds m) = sink_call (sink_do SinkClear) m"
  "no_result (sink_request (removeGpds ids) m) = sink_call (sink_do (SinkRemove ids)) m"
  "no_result (sink_request (registerGpds ds) m) = sink_call (sink_do (SinkRegister ds)) m"
  by (simp_all add: fun_eq_iff sink_call_def sink_request_call)

lemma no_result_simps:
  "no_result (Inr (r, s, es)) = Inr (s, es)"
  "no_result (returning r a s) = a s"
  "no_result (if b then x else y) = (if b then no_result x else no_result y)"
  by (auto simp: no_result_def returning_def bindR_assoc split: prod.splits)

lemma no_result_bindR: "no_result (bindR m f) = bindR m (\<lambda>x. no_result (f x))"
  by (cases m) (simp_all add: no_result_def)

lemma no_result_prefixed:
  "no_result (bindR a (\<lambda>(r, s, es'). Inr (r, s, es @ es'))) =
     bindR (no_result a) (\<lambda>(s, es'). Inr (s, es @ es'))"
  by (cases a) (auto simp: no_result_def)

lemmas lib_requests = clearAllGPDevices_def removeGPDevices_def addGPDevices_def
  openCommissioningSession_def closeCommissioningSession_def setAnswerToGpfChannelRqstPolicy_def
  setFirmwareUpgradeMode_def startEnergyScan_def startActiveScan_def getNetworkKey_def
  setChannel_def joinNetwork_def

lemmas lib_handlers = rx_get_key_def handleEzspRxMessage_VERSION_def
  handleEzspRxMessage_EZSP_GET_XNCP_INFO_def handleEzspRxMessage_NETWORK_STATE_def
  handleEzspRxMessage_EZSP_LAUNCH_STANDALONE_BOOTLOADER_def rx_energy_scan_result_def
  rx_network_found_def rx_scan_complete_def

lemmas lib_parts = dongleInit_def getXncpInfo_def stackInit_def unsupported_version_def
  nwk_call_def step_simps setState_eq

lemma lib_wf_stack_status:
  assumes "lib_wf m" "handleEzspRxMessage_STACK_STATUS_HANDLER p m = Inr (m', out)"
  shows "lib_wf m'"
proof -
  obtain m1 o1 where "m' = m \<or> m1 = m\<lparr>lib_state := SINK_BUSY,
      lib_sink := registerStateCallback (Some (\<lambda>_. True)) (lib_sink m)\<rparr>
      \<and> resetDot154ChannelAtInit m = 0 \<and> sink_call (sink_do SinkInit) m1 = Inr (m', o1)"
    using assms(2)
    by (auto simp: handleEzspRxMessage_STACK_STATUS_HANDLER_def sink_call_do step_simps setState_eq
        sink_call_def [of "modify f" for f] split: if_splits)
  moreover have "lib_wf (m\<lparr>lib_state := SINK_BUSY,
      lib_sink := registerStateCallback (Some (\<lambda>_. True)) (lib_sink m)\<rparr>)"
    if "resetDot154ChannelAtInit m = 0"
    using assms(1) that by (auto simp: lib_wf_def registerStateCallback_def sink_steady_def sink_wf_def)
  ultimately show ?thesis using assms(1) lib_wf_sink_do [of m1 SinkInit m' o1] by auto
qed

lemma lib_wf_version:
  "lib_wf m \<Longrightarrow> handleEzspRxMessage_VERSION p m = Inr (m', out) \<Longrightarrow> lib_wf m'"
  using lib_wf_versions [of m "p ! 0"]
  by (auto simp: handleEzspRxMessage_VERSION_def lib_parts Let_def split: if_splits)

lemma lib_wf_network_state:
  "lib_wf m \<Longrightarrow> handleEzspRxMessage_NETWORK_STATE p m = Inr (m', out) \<Longrightarrow> lib_wf m'"
  by (auto simp: handleEzspRxMessage_NETWORK_STATE_def lib_parts split: if_splits prod.splits)

lemma lib_wf_handlers:
  assumes "lib_wf m"
  shows "rx_get_key p m = Inr (m', out) \<Longrightarrow> lib_wf m'"
    "handleEzspRxMessage_EZSP_GET_XNCP_INFO p m = Inr (m', out) \<Longrightarrow> lib_wf m'"
    "handleEzspRxMessage_EZSP_LAUNCH_STANDALONE_BOOTLOADER p m = Inr (m', out) \<Longrightarrow> lib_wf m'"
    "rx_energy_scan_result p m = Inr (m', out) \<Longrightarrow> lib_wf m'"
    "rx_network_found p m = Inr (m', out) \<Longrightarrow> lib_wf m'"
    "rx_scan_complete m = Inr (m', out) \<Longrightarrow> lib_wf m'"
  using assms
  by (auto simp: lib_handlers lib_parts Let_def split: if_splits)

lemma lib_wf_main_rx:
  assumes "lib_wf m" "handleEzspRxMessage c p m = Inr (m', out)"
  shows "lib_wf m'"
  using assms
  by (auto simp: handleEzspRxMessage_def setState_eq skip_def split: if_splits
      intro: lib_wf_stack_status lib_wf_version lib_wf_network_state lib_wf_handlers)

lemma lib_wf_rx:
  assumes "lib_wf m" "lib_rx c p m = Inr (m', out)"
  shows "lib_wf m'"
proof -
  obtain m1 o1 w o2 where m1: "(if lib_observing m then handleEzspRxMessage c p m else skip m) = Inr (m1, o1)"
    and m': "sink_call (sink_do (SinkRx c p)) (m1\<lparr>lib_nwk := w\<rparr>) = Inr (m', o2)"
    using assms(2) by (auto simp: lib_rx_def emit_def nwk_call_def sink_call_do)
  have "lib_wf m1" using m1 assms(1) lib_wf_main_rx by (auto simp: skip_def split: if_splits)
  then show ?thesis using lib_wf_sink_do [OF _ m'] by simp
qed

text \<open>The requests that keep the sink busy.\<close>

definition busy_note :: "lib_main \<Rightarrow> effect list" where
  "busy_note m = (if obsStateCallback m then [App (LibState PubSINK_BUSY)] else [])"

definition busy_call :: "sink_op \<Rightarrow> lib_main step" where
  "busy_call e m = bindR (sink_call (sink_do e) (m\<lparr>lib_state := SINK_BUSY\<rparr>))
     (\<lambda>(m', es). Inr (m', busy_note m @ es))"

lemma lib_do_requests:
  "lib_do LibClear m = (if lib_state m = READY then busy_call SinkClear m else skip m)"
  "lib_do (LibRemove ids) m = (if lib_state m = READY then busy_call (SinkRemove ids) m else skip m)"
  "lib_do (LibAdd ds) m = (if lib_state m = READY then busy_call (SinkRegister ds) m else skip m)"
  "lib_do LibOpen m = (if lib_state m = READY then sink_call (sink_do SinkOpen) m else skip m)"
  "lib_do LibClose m = (if lib_state m = READY then sink_call (sink_do SinkClose) m else skip m)"
  "lib_do (LibPolicy b) m = sink_call (sink_do (SinkAuthorize b)) m"
  by (auto simp: lib_requests setState_eq no_result_simps no_result_prefixed sink_call_do busy_call_def
      busy_note_def skip_def simp del: sink_do.simps)

lemma lib_wf_busy_call:
  "lib_wf m \<Longrightarrow> busy_call e m = Inr (m', out) \<Longrightarrow> (\<And>cb. e \<noteq> SinkCallback cb) \<Longrightarrow> lib_wf m'"
  using lib_wf_sink_do [of "m\<lparr>lib_state := SINK_BUSY\<rparr>" e m'] by (auto simp: busy_call_def)

lemma lib_wf_start:
  "lib_wf m \<Longrightarrow> lib_wf (start_before m)"
  "lib_wf m \<Longrightarrow> start_after ok m = Inr (m', out) \<Longrightarrow> lib_wf m'"
proof -
  have *: "lib_wf (m\<lparr>lib_observing := b, lib_sink := s\<rparr>)"
    if "lib_wf m" "s = lib_sink m\<lparr>gs_observed := True\<rparr>" for b s
    using that by (simp add: lib_wf_def sink_steady_def sink_wf_def)
  show "lib_wf m \<Longrightarrow> lib_wf (start_before m)"
    using * by (simp add: start_before_def sink_registerObserver_def)
  show "lib_wf m \<Longrightarrow> start_after ok m = Inr (m', out) \<Longrightarrow> lib_wf m'"
    using * by (auto simp: start_after_def sink_registerObserver_def setState_eq split: if_splits)
qed

lemma lib_wf_do:
  assumes "lib_wf m" "lib_do e m = Inr (m', out)"
  shows "lib_wf m'"
proof (cases e)
  case (LibRx c p)
  then show ?thesis using assms lib_wf_rx by simp
next
  case LibClear
  then show ?thesis using assms lib_wf_busy_call [of m SinkClear m' out]
    by (auto simp: lib_do_requests skip_def simp del: lib_do.simps split: if_splits)
next
  case (LibRemove ids)
  then show ?thesis using assms lib_wf_busy_call [of m "SinkRemove ids" m' out]
    by (auto simp: lib_do_requests skip_def simp del: lib_do.simps split: if_splits)
next
  case (LibAdd ds)
  then show ?thesis using assms lib_wf_busy_call [of m "SinkRegister ds" m' out]
    by (auto simp: lib_do_requests skip_def simp del: lib_do.simps split: if_splits)
next
  case LibOpen
  then show ?thesis using assms lib_wf_sink_do [of m SinkOpen m' out]
    by (auto simp: lib_do_requests skip_def simp del: lib_do.simps sink_do.simps split: if_splits)
next
  case LibClose
  then show ?thesis using assms lib_wf_sink_do [of m SinkClose m' out]
    by (auto simp: lib_do_requests skip_def simp del: lib_do.simps sink_do.simps split: if_splits)
next
  case (LibPolicy b)
  then show ?thesis using assms lib_wf_sink_do [of m "SinkAuthorize b" m' out]
    by (simp add: lib_do_requests del: lib_do.simps sink_do.simps)
next
  case (LibStart ok)
  then show ?thesis using assms lib_wf_start(2) [OF lib_wf_start(1) [OF assms(1)]] by simp
qed (use assms in \<open>auto simp: lib_dongle_state_def handleDongleState_def lib_xmodem_ready_def
      handleFirmwareXModemXfr_def lib_parts lib_requests no_result_simps registerLibraryStateCallback_def
      registerGPFrameRecvCallback_def registerGPSourceIdCallback_def split: if_splits\<close>)

section \<open>Failures\<close>

lemmas parse_InlD = needs_InlD [OF needs_network_parameters_response] needs_InlD [OF needs_key_struct]
  needs_InlD [OF needs_zigbee_network] needs_InlD [OF needs_child_data]

lemma sink_call_do_InlD:
  "lib_wf m \<Longrightarrow> sink_call (sink_do e) m = Inl x \<Longrightarrow> sink_op_bad e x"
  by (auto simp: lib_wf_def dest: sink_call_Inl intro: sink.fault_op)

lemma main_rx_InlD:
  assumes "handleEzspRxMessage c p m = Inl x" "lib_wf m"
  shows "x = OutOfRange \<or> x = Undefined \<and> length p < 3"
proof (cases "c = EZSP_STACK_STATUS_HANDLER")
  case True
  have "lib_wf (m\<lparr>lib_state := SINK_BUSY,
      lib_sink := registerStateCallback (Some (\<lambda>_. True)) (lib_sink m)\<rparr>)"
    if "resetDot154ChannelAtInit m = 0"
    using assms(2) that by (auto simp: lib_wf_def registerStateCallback_def sink_steady_def sink_wf_def)
  then show ?thesis
    using True assms(1)
    by (auto simp: handleEzspRxMessage_def handleEzspRxMessage_STACK_STATUS_HANDLER_def sink_call_do
        step_simps setState_eq bindR_eq_Inl sink_call_def [of "modify f" for f] sink_op_bad_def
        dest: sink_call_do_InlD split: if_splits)
next
  case False
  then show ?thesis
    using assms(1)
    by (auto simp: handleEzspRxMessage_def lib_handlers lib_parts bindR_eq_Inl Let_def
        dest: parse_InlD split: if_splits prod.splits)
qed

lemma lib_rx_InlD:
  assumes "lib_rx c p m = Inl x" "lib_wf m"
  shows "x = OutOfRange \<or> x = Undefined \<and> length p < 3"
proof -
  consider "lib_observing m" "handleEzspRxMessage c p m = Inl x" | "messaging_rx c p = Inl x"
    | w where "networking_rx c p w = Inl x"
    | m1 o1 w where "(if lib_observing m then handleEzspRxMessage c p m else skip m) = Inr (m1, o1)"
        "sink_call (sink_do (SinkRx c p)) (m1\<lparr>lib_nwk := w\<rparr>) = Inl x"
    using assms(1) by (auto simp: lib_rx_def emit_def nwk_call_def sink_call_do bindR_eq_Inl skip_def
        split: if_splits)
  then show ?thesis
  proof cases
    case 1
    then show ?thesis using main_rx_InlD assms(2) by blast
  next
    case 2
    then show ?thesis by (auto simp: messaging_rx_def bindR_eq_Inl split: if_splits)
  next
    case 3
    then show ?thesis
      by (auto simp: networking_rx_def rx_child_data_def rx_security_state_def bindR_eq_Inl Let_def
          dest: parse_InlD split: if_splits prod.splits)
  next
    case 4
    then have "lib_wf m1" using assms(2) lib_wf_main_rx by (auto simp: skip_def split: if_splits)
    then show ?thesis
      using sink_call_do_InlD [OF _ 4(2)] by (auto simp: sink_op_bad_def)
  qed
qed

lemma busy_call_InlD: "busy_call e m = Inl x \<Longrightarrow> lib_wf m \<Longrightarrow> sink_op_bad e x"
  using sink_call_do_InlD [of "m\<lparr>lib_state := SINK_BUSY\<rparr>" e x] by (auto simp: busy_call_def bindR_eq_Inl)

lemma sink_requests_safe:
  assumes "lib_wf m" "\<And>c p. e \<noteq> SinkRx c p"
  shows "sink_call (sink_do e) m \<noteq> Inl x" "busy_call e m \<noteq> Inl x"
  using assms sink_call_do_InlD [of m e x] busy_call_InlD [of e m x] by (auto simp: sink_op_bad_def)

lemma lib_do_InlD:
  assumes "lib_do e m = Inl x" "lib_wf m"
  shows "lib_op_bad e x"
proof (cases "\<exists>c p. e = LibRx c p")
  case True
  then show ?thesis using assms lib_rx_InlD by (auto simp: lib_op_bad_def)
next
  case False
  have "lib_do e m \<noteq> Inl x"
    if "e = LibClear \<or> e = LibRemove ids \<or> e = LibAdd ds \<or> e = LibOpen \<or> e = LibClose \<or> e = LibPolicy b"
    for ids ds b
    using that sink_requests_safe [OF assms(2)]
    by (auto simp: lib_do_requests skip_def simp del: lib_do.simps sink_do.simps split: if_splits)
  then show ?thesis
    using assms False
    by (cases e) (auto simp: lib_dongle_state_def handleDongleState_def lib_xmodem_ready_def
      handleFirmwareXModemXfr_def lib_parts start_after_def simp del: lib_do.simps(8-13)
      simp: lib_requests no_result_simps bindR_eq_Inl split: if_splits)
qed

interpretation lib: faulty_component lib_do "new_lib numbers channel" lib_wf lib_op_bad
  by unfold_locales (auto intro: lib_wf_new lib_wf_do lib_do_InlD)



end
