(* ===== verification/LibFlows.thy ===== *)
theory LibFlows
  imports LibProps
begin

text \<open>
  What the library does from the first message of the adapter until it is ready, and when it
  scans: the negotiation of the protocol version, the creation of a network in place of the
  old one, and the collection of the results of a scan.
\<close>

section \<open>Messages for the library alone\<close>

definition main_cmds :: "ezsp_cmd set" where
  "main_cmds = {EZSP_STACK_STATUS_HANDLER, EZSP_GET_KEY, EZSP_VERSION, EZSP_GET_XNCP_INFO,
     EZSP_NETWORK_STATE, EZSP_LAUNCH_STANDALONE_BOOTLOADER, EZSP_START_SCAN,
     EZSP_ENERGY_SCAN_RESULT_HANDLER, EZSP_NETWORK_FOUND_HANDLER, EZSP_SCAN_COMPLETE_HANDLER}"

lemmas cmd_values = ezsp_ids EZSP_VERSION_def EZSP_LAUNCH_STANDALONE_BOOTLOADER_def

lemma main_rx_simps:
  "handleEzspRxMessage EZSP_STACK_STATUS_HANDLER p = handleEzspRxMessage_STACK_STATUS_HANDLER p"
  "handleEzspRxMessage EZSP_VERSION p = handleEzspRxMessage_VERSION p"
  "handleEzspRxMessage EZSP_GET_XNCP_INFO p = handleEzspRxMessage_EZSP_GET_XNCP_INFO p"
  "handleEzspRxMessage EZSP_NETWORK_STATE p = handleEzspRxMessage_NETWORK_STATE p"
  "handleEzspRxMessage EZSP_LEAVE_NETWORK p = setState STACK_INIT"
  "handleEzspRxMessage EZSP_START_SCAN p =
     (\<lambda>m. bindR (byte_at p 0) (\<lambda>status. Inr (m\<lparr>scanInProgress := (EMBER_SUCCESS = status)\<rparr>, [])))"
  "handleEzspRxMessage EZSP_ENERGY_SCAN_RESULT_HANDLER p = rx_energy_scan_result p"
  "handleEzspRxMessage EZSP_SCAN_COMPLETE_HANDLER p = rx_scan_complete"
  "handleEzspRxMessage EZSP_SET_INITIAL_SECURITY_STATE p = skip"
  by (simp_all add: handleEzspRxMessage_def cmd_values)

lemma steps_single [simp]: "steps [a] s = a s"
  by (cases "a s") auto

lemma steps_skip [simp]:
  "steps (skip # as) s = steps as s"
  "steps [a, skip] s = a s"
  by (cases "a s"; auto simp: skip_def)+

lemma sink_call_skip [simp]: "sink_call skip = skip"
  by (simp add: fun_eq_iff sink_call_def skip_def)

lemma nwk_call_nothing [simp]: "nwk_call (\<lambda>w. Inr (w, [])) = skip"
  by (simp add: fun_eq_iff nwk_call_def skip_def)

lemma lib_rx_main:
  assumes "c \<in> main_cmds" "lib_observing m"
  shows "lib_rx c p m = handleEzspRxMessage c p m"
proof -
  have "messaging_rx c p = Inr []" "networking_rx c p = (\<lambda>w. Inr (w, []))" "sink_rx c p = skip"
    using assms(1)
    by (auto simp: main_cmds_def messaging_rx_def networking_rx_def nwk_logged_def sink_rx_def
        fun_eq_iff cmd_values)
  then show ?thesis
    using assms(2) by (cases "handleEzspRxMessage c p m") (auto simp: lib_rx_def emit_def skip_def)
qed

section \<open>Version negotiation\<close>

text \<open>The events from the connection to the configuration of the stack, for an adapter of version \<open>v\<close>:
  the version is answered twice when it is not the one asked for first.\<close>

definition handshake :: "u8 \<Rightarrow> u8 \<Rightarrow> u8 \<Rightarrow> byte_buffer \<Rightarrow> lib_op list" where
  "handshake v lo hi xncp =
     [LibDongle DONGLE_READY, LibRx EZSP_VERSION [v, 2, lo, hi]]
     @ (if v \<noteq> 6 then [LibRx EZSP_VERSION [v, 2, lo, hi]] else [])
     @ [LibRx EZSP_GET_XNCP_INFO xncp]"

lemma sent_map_pairs: "sent (map (\<lambda>(i, v). Send c (f i v)) xs) = map (\<lambda>(i, v). (c, f i v)) xs"
  by (induction xs) auto

lemma app_events_map_pairs: "app_events (map (\<lambda>(i, v). Send c (f i v)) xs) = []"
  by (induction xs) auto

lemma app_events_stackInit [simp]: "app_events (nwk_stackInit cs ps) = []"
  by (simp add: nwk_stackInit_def app_events_map_pairs)

text \<open>The steps of the negotiation.\<close>

definition told :: "lib_main \<Rightarrow> public_state \<Rightarrow> effect list" where
  "told m p = (if obsStateCallback m then [App (LibState p)] else [])"

lemma told_simps [simp]:
  "sent (told m p) = []"
  "app_events (told m p) = (if obsStateCallback m then [LibState p] else [])"
  "told (m\<lparr>lib_state := st\<rparr>) p = told m p"
  "told (m\<lparr>exp_ezsp_min_version := v\<rparr>) p = told m p"
  by (simp_all add: told_def)

lemma setState_told:
  "public_of st = Some p \<Longrightarrow> setState st m = Inr (m\<lparr>lib_state := st\<rparr>, told m p)"
  by (simp add: setState_eq told_def)

lemma main_cmds_mem:
  "EZSP_VERSION \<in> main_cmds" "EZSP_GET_XNCP_INFO \<in> main_cmds" "EZSP_NETWORK_STATE \<in> main_cmds"
  "EZSP_STACK_STATUS_HANDLER \<in> main_cmds" "EZSP_START_SCAN \<in> main_cmds"
  "EZSP_ENERGY_SCAN_RESULT_HANDLER \<in> main_cmds" "EZSP_SCAN_COMPLETE_HANDLER \<in> main_cmds"
  by (simp_all add: main_cmds_def)

lemmas flow = lib_rx_main main_rx_simps main_cmds_mem setState_told step_simps

lemma connect_step:
  "lib_observing m \<Longrightarrow> lib_state m = WAIT_DONGLE_READY \<Longrightarrow>
   lib_do (LibDongle DONGLE_READY) m = Inr (m\<lparr>lib_state := GETTING_EZSP_VERSION\<rparr>,
     told m PubUNINITIALIZED @ [Send EZSP_VERSION [exp_ezsp_min_version m]])"
  by (simp add: lib_dongle_state_def handleDongleState_def dongleInit_def flow)

lemma version_step:
  assumes "lib_observing m" "exp_stack_type m = t" "exp_ezsp_min_version m = e" "e \<le> v"
    "v \<le> exp_ezsp_max_version m"
  shows "lib_rx EZSP_VERSION [v, t, lo, hi] m = Inr (
     if v = e then m\<lparr>lib_state := GETTING_XNCP_INFO\<rparr>
     else m\<lparr>exp_ezsp_min_version := v, lib_state := GETTING_EZSP_VERSION\<rparr>,
     FetchedVersion (dble_u8_to_u16 hi lo) v t # told m PubUNINITIALIZED
     @ (if v = e then [Send EZSP_GET_XNCP_INFO []] else [Send EZSP_VERSION [v]]))"
  using assms
  by (auto simp: flow handleEzspRxMessage_VERSION_def getXncpInfo_def dongleInit_def)

lemma xncp_step:
  assumes "lib_observing m"
  shows "\<exists>es. lib_rx EZSP_GET_XNCP_INFO xncp m = Inr (m\<lparr>lib_state := STACK_INIT\<rparr>,
     es @ told m PubUNINITIALIZED @ nwk_stackInit stack_config stack_policy)
     \<and> sent es = [] \<and> app_events es = []"
  using assms
  by (auto simp: flow handleEzspRxMessage_EZSP_GET_XNCP_INFO_def stackInit_def)

text \<open>C5: The library and the adapter agree on a protocol version. When the adapter connects and speaks a
  version between 6 and 8, the library asks for version 6 first and then, if the adapter has
  answered with a higher one, for that version; it goes on to the adapter's build information
  and, whatever the answer to that, to the complete configuration of the stack, in this order
  and with nothing else, while the application is told no more than that the library is not
  initialised.\<close>

theorem startup_negotiates_version:
  assumes "lib_observing m" "lib_state m = WAIT_DONGLE_READY" "exp_stack_type m = 2"
    and "exp_ezsp_min_version m = 6" "exp_ezsp_max_version m = 8" "6 \<le> v" "v \<le> 8"
  shows "\<exists>m' out. run_ops lib_do (handshake v lo hi xncp) m = Inr (m', out)
    \<and> sent out = [(EZSP_VERSION, [6])] @ (if v \<noteq> 6 then [(EZSP_VERSION, [v])] else [])
        @ [(EZSP_GET_XNCP_INFO, [])] @ sent (nwk_stackInit stack_config stack_policy)
    \<and> lib_state m' = STACK_INIT \<and> exp_ezsp_min_version m' = v
    \<and> set (app_events out) \<subseteq> {LibState PubUNINITIALIZED}"
proof -
  let ?V = "LibRx EZSP_VERSION [v, 2, lo, hi]" and ?X = "LibRx EZSP_GET_XNCP_INFO xncp"
  let ?m1 = "m\<lparr>lib_state := GETTING_EZSP_VERSION\<rparr>"
  let ?o1 = "told m PubUNINITIALIZED @ [Send EZSP_VERSION [6]]"
  let ?f = "FetchedVersion (dble_u8_to_u16 hi lo) v 2"
  have c: "lib_do (LibDongle DONGLE_READY) m = Inr (?m1, ?o1)"
    using connect_step assms(1,2,4) by simp
  obtain m2 o2 where v: "run_ops lib_do (if v \<noteq> 6 then [?V, ?V] else [?V]) ?m1 = Inr (m2, o2)"
      "sent o2 = (if v \<noteq> 6 then [(EZSP_VERSION, [v])] else []) @ [(EZSP_GET_XNCP_INFO, [])]"
      "set (app_events o2) \<subseteq> {LibState PubUNINITIALIZED}" "lib_observing m2"
      "exp_ezsp_min_version m2 = v"
    using assms by (cases "v = 6") (simp_all add: version_step subset_iff)
  obtain es where x: "lib_rx EZSP_GET_XNCP_INFO xncp m2 = Inr (m2\<lparr>lib_state := STACK_INIT\<rparr>,
      es @ told m2 PubUNINITIALIZED @ nwk_stackInit stack_config stack_policy)"
      "sent es = []" "app_events es = []"
    using xncp_step [OF v(4)] by blast
  have "handshake v lo hi xncp = LibDongle DONGLE_READY # (if v \<noteq> 6 then [?V, ?V] else [?V]) @ [?X]"
    by (simp add: handshake_def)
  then have "run_ops lib_do (handshake v lo hi xncp) m = Inr (m2\<lparr>lib_state := STACK_INIT\<rparr>,
      ?o1 @ o2 @ es @ told m2 PubUNINITIALIZED @ nwk_stackInit stack_config stack_policy)"
    using run_ops_ConsI [OF c run_ops_appendI [OF v(1), of "[?X]"]] x by simp
  then show ?thesis using v x by auto
qed

theorem startup_negotiates_version_witness:
  "\<exists>m' out. run_ops lib_do (handshake 8 0x61 0x66 [])
       (new_lib (\<lambda>_. 0) 11\<lparr>lib_observing := True, lib_state := WAIT_DONGLE_READY\<rparr>) = Inr (m', out)
     \<and> take 3 (sent out) = [(EZSP_VERSION, [6]), (EZSP_VERSION, [8]), (EZSP_GET_XNCP_INFO, [])]
     \<and> lib_state m' = STACK_INIT"
  using startup_negotiates_version
    [of "new_lib (\<lambda>_. 0) 11\<lparr>lib_observing := True, lib_state := WAIT_DONGLE_READY\<rparr>" 8 "0x61" "0x66" "[]"]
  by (auto simp: new_lib_def)

text \<open>An adapter which the library cannot work with stops the initialisation for good. An answer to
  the version command with another stack type, or a version outside of the limits in force, makes
  the library send nothing and change nothing, however often it comes: it waits for the version,
  and the application hears of no failure.\<close>

theorem unsupported_version_stops:
  assumes "lib_observing m"
    and "\<forall>(v, t, lo, hi) \<in> set ps. t \<noteq> exp_stack_type m \<or> v < exp_ezsp_min_version m
      \<or> exp_ezsp_max_version m < v"
  shows "\<exists>out. run_ops lib_do (map (\<lambda>(v, t, lo, hi). LibRx EZSP_VERSION [v, t, lo, hi]) ps) m = Inr (m, out)
    \<and> sent out = [] \<and> app_events out = []"
  using assms(2)
proof (induction ps)
  case (Cons p ps)
  obtain v t lo hi where p: "p = (v, t, lo, hi)" by (cases p)
  have "lib_rx EZSP_VERSION [v, t, lo, hi] m = Inr (m, [FetchedVersion (dble_u8_to_u16 hi lo) v t])"
    using Cons.prems assms(1)
    by (auto simp: p flow handleEzspRxMessage_VERSION_def unsupported_version_def)
  then show ?case using Cons by (auto simp: p)
qed simp

theorem unsupported_version_stops_witness:
  "\<exists>m out. lib_rx EZSP_VERSION [9, 2, 0, 0] (new_lib (\<lambda>_. 0) 11\<lparr>lib_observing := True,
     lib_state := GETTING_EZSP_VERSION\<rparr>) = Inr (m, out)
     \<and> sent out = [] \<and> app_events out = [] \<and> lib_state m = GETTING_EZSP_VERSION"
  using unsupported_version_stops [of "new_lib (\<lambda>_. 0) 11\<lparr>lib_observing := True,
     lib_state := GETTING_EZSP_VERSION\<rparr>" "[(9, 2, 0, 0)]"]
  by (auto simp: new_lib_def)

end
