(* ===== verification/LibNetwork.thy ===== *)
theory LibNetwork
  imports LibFlows
begin

text \<open>
  Networks: how the library replaces the network of the adapter by a new one when it was asked
  to at its construction, and the discovery of the children of the adapter.
\<close>

section \<open>A new network\<close>

lemma leave_step:
  "lib_observing m \<Longrightarrow> lib_state m = STACK_INIT \<Longrightarrow> resetDot154ChannelAtInit m \<noteq> 0 \<Longrightarrow>
   s \<noteq> EMBER_NO_NETWORK \<Longrightarrow>
   lib_rx EZSP_NETWORK_STATE [s] m = Inr (m\<lparr>lib_state := LEAVE_NWK_IN_PROGRESS\<rparr>,
     Send EZSP_LEAVE_NETWORK [] # told m PubSINK_BUSY)"
  by (simp add: flow handleEzspRxMessage_NETWORK_STATE_def leaveNetwork_def)

lemma left_step:
  "lib_observing m \<Longrightarrow>
   lib_rx EZSP_LEAVE_NETWORK [s] m = Inr (m\<lparr>lib_state := STACK_INIT\<rparr>, told m PubUNINITIALIZED)"
  by (simp add: lib_rx_def flow messaging_rx_def networking_rx_def nwk_logged_def sink_rx_def cmd_values
      nwk_call_def sink_call_def handleEzspRxMessage_def)

lemma down_step:
  "lib_observing m \<Longrightarrow> lib_state m \<noteq> LEAVE_NWK_IN_PROGRESS \<Longrightarrow> resetDot154ChannelAtInit m \<noteq> 0 \<Longrightarrow>
   x \<noteq> 155 \<Longrightarrow> lib_rx EZSP_STACK_STATUS_HANDLER [x] m = Inr (m, [Send EZSP_NETWORK_STATE []])"
  by (simp add: flow handleEzspRxMessage_STACK_STATUS_HANDLER_def)

lemma form_step:
  "lib_observing m \<Longrightarrow> lib_state m = STACK_INIT \<Longrightarrow> resetDot154ChannelAtInit m \<noteq> 0 \<Longrightarrow>
   resetDot154ChannelAtInit m \<noteq> - 1 \<Longrightarrow>
   lib_rx EZSP_NETWORK_STATE [EMBER_NO_NETWORK] m =
     Inr (m\<lparr>lib_nwk := fst (formHaNetwork (ucast (resetDot154ChannelAtInit m)) (lib_nwk m)),
            lib_state := FORM_NWK_IN_PROGRESS, resetDot154ChannelAtInit := 0\<rparr>,
          snd (formHaNetwork (ucast (resetDot154ChannelAtInit m)) (lib_nwk m)) @ told m PubSINK_BUSY)"
  by (cases "formHaNetwork (ucast (resetDot154ChannelAtInit m)) (lib_nwk m)")
    (simp add: flow handleEzspRxMessage_NETWORK_STATE_def nwk_call_def told_def)

lemma security_step:
  "\<exists>w p. lib_rx EZSP_SET_INITIAL_SECURITY_STATE [EMBER_SUCCESS] m =
     Inr (m\<lparr>lib_nwk := w\<rparr>, [Send EZSP_FORM_NETWORK (network_parameters_raw p)])
   \<and> np_radio_channel p = nwk_form_channel (lib_nwk m)"
  by (simp add: lib_rx_def flow messaging_rx_def networking_rx_def nwk_logged_def sink_rx_def cmd_values
      nwk_call_def sink_call_def handleEzspRxMessage_def rx_security_state_def draw_def Let_def)
    (intro conjI exI, rule refl, rule refl, simp)

lemma up_step:
  "lib_observing m \<Longrightarrow> lib_state m \<noteq> LEAVE_NWK_IN_PROGRESS \<Longrightarrow> resetDot154ChannelAtInit m = 0 \<Longrightarrow>
   lib_rx EZSP_STACK_STATUS_HANDLER [EMBER_NETWORK_UP] m =
     Inr (m\<lparr>lib_state := READY, lib_sink := (lib_sink m)\<lparr>gs_obsStateCallback := Some (\<lambda>_. True),
            gs_sink_state := SINK_READY\<rparr>\<rparr>,
          told m PubSINK_BUSY
          @ [Send EZSP_GP_SINK_TABLE_INIT [], Send EZSP_GET_NETWORK_PARAMETERS []] @ told m PubREADY)"
  by (simp add: flow handleEzspRxMessage_STACK_STATUS_HANDLER_def sink_call_def sink_init_def
      registerStateCallback_def setSinkState_def clibobs_def told_def)

text \<open>The events from the answer that there is a network to the network that is up again; \<open>s\<close>, \<open>s'\<close>
  and \<open>x\<close> are what the adapter says about the old network, that it has left it, and about the
  state of its stack then.\<close>

definition recreation :: "u8 \<Rightarrow> u8 \<Rightarrow> u8 \<Rightarrow> lib_op list" where
  "recreation s s' x =
     [LibRx EZSP_NETWORK_STATE [s], LibRx EZSP_LEAVE_NETWORK [s'], LibRx EZSP_STACK_STATUS_HANDLER [x],
      LibRx EZSP_NETWORK_STATE [EMBER_NO_NETWORK], LibRx EZSP_SET_INITIAL_SECURITY_STATE [EMBER_SUCCESS],
      LibRx EZSP_STACK_STATUS_HANDLER [EMBER_NETWORK_UP]]"

lemma formHaNetwork_eq:
  "\<exists>w sec. formHaNetwork channel w0 = (w, [Send EZSP_SET_POLICY [EZSP_TRUST_CENTER_POLICY, 0x01],
     Send EZSP_SET_POLICY [EZSP_TC_KEY_REQUEST_POLICY, 0x50], Send EZSP_SET_INITIAL_SECURITY_STATE sec])
   \<and> nwk_form_channel w = channel \<and> length sec = 43 \<and> take 18 sec = [0x04, 0x0B] @ HA_KEY"
  by (simp add: formHaNetwork_def draw_def Let_def HA_KEY_def u16_get_lo_u8_def u16_get_hi_u8_def)

text \<open>C6: A library that was constructed with a channel replaces the network of the adapter by a new one
  on that channel, once. On the answer that the adapter has a network it leaves it; it ignores
  what the adapter says in between but asks for the state again; on the answer that there is no
  network it sets the policies and the security state of a home automation network and forms it
  on the channel; when the network is up it starts the sink and is ready, and no channel is left
  to reset to. The commands are exactly these, in this order, and the application learns of each
  state.\<close>

theorem network_recreated:
  assumes "lib_observing m" "lib_state m = STACK_INIT" "s \<noteq> EMBER_NO_NETWORK" "x \<noteq> 155"
    and "resetDot154ChannelAtInit m = ch" "ch \<noteq> 0" "ch \<noteq> - 1" "obsStateCallback m"
  shows "\<exists>m' out sec p. run_ops lib_do (recreation s s' x) m = Inr (m', out)
    \<and> sent out = [(EZSP_LEAVE_NETWORK, []), (EZSP_NETWORK_STATE, []),
        (EZSP_SET_POLICY, [EZSP_TRUST_CENTER_POLICY, 0x01]),
        (EZSP_SET_POLICY, [EZSP_TC_KEY_REQUEST_POLICY, 0x50]),
        (EZSP_SET_INITIAL_SECURITY_STATE, sec), (EZSP_FORM_NETWORK, network_parameters_raw p),
        (EZSP_GP_SINK_TABLE_INIT, []), (EZSP_GET_NETWORK_PARAMETERS, [])]
    \<and> take 18 sec = [0x04, 0x0B] @ HA_KEY \<and> np_radio_channel p = ucast ch
    \<and> app_events out = map LibState [PubSINK_BUSY, PubUNINITIALIZED, PubSINK_BUSY, PubSINK_BUSY, PubREADY]
    \<and> lib_state m' = READY \<and> gs_sink_state (lib_sink m') = SINK_READY
    \<and> resetDot154ChannelAtInit m' = 0"
proof -
  obtain w sec where form: "formHaNetwork (ucast ch) (lib_nwk m) =
      (w, [Send EZSP_SET_POLICY [EZSP_TRUST_CENTER_POLICY, 0x01],
        Send EZSP_SET_POLICY [EZSP_TC_KEY_REQUEST_POLICY, 0x50], Send EZSP_SET_INITIAL_SECURITY_STATE sec])"
      "nwk_form_channel w = ucast ch" "take 18 sec = [0x04, 0x0B] @ HA_KEY"
    using formHaNetwork_eq [of "ucast ch" "lib_nwk m"] by blast
  let ?m = "m\<lparr>lib_nwk := w, lib_state := FORM_NWK_IN_PROGRESS, resetDot154ChannelAtInit := 0\<rparr>"
  obtain w' p where sec: "lib_rx EZSP_SET_INITIAL_SECURITY_STATE [EMBER_SUCCESS] ?m =
      Inr (?m\<lparr>lib_nwk := w'\<rparr>, [Send EZSP_FORM_NETWORK (network_parameters_raw p)])"
      "np_radio_channel p = ucast ch"
    using security_step [of ?m] form(2) by auto
  show ?thesis
    using assms sec form
    by (simp add: recreation_def leave_step left_step down_step form_step up_step)
      (auto simp: told_def)
qed

theorem network_recreated_witness:
  "\<exists>m' out. run_ops lib_do (recreation 2 0 0x91) (new_lib (\<lambda>_. 0) 20\<lparr>lib_observing := True,
       lib_state := STACK_INIT, obsStateCallback := True\<rparr>) = Inr (m', out)
     \<and> length (sent out) = 8 \<and> lib_state m' = READY"
  using network_recreated [of "new_lib (\<lambda>_. 0) 20\<lparr>lib_observing := True, lib_state := STACK_INIT,
      obsStateCallback := True\<rparr>" 2 "0x91" 20 0]
  by (auto simp: new_lib_def ezsp_ids)

section \<open>Discovery of children\<close>

text \<open>The networking helper and an adapter that has the children \<open>c\<close>, one for each index below \<open>n\<close>: each
  request for the data of a child is answered at once, and the result is what the application
  hears, within \<open>fuel\<close> answers.\<close>

definition child_answer :: "nat \<Rightarrow> (nat \<Rightarrow> child_data) \<Rightarrow> (child_data \<Rightarrow> byte_buffer) \<Rightarrow> u8 \<Rightarrow> byte_buffer" where
  "child_answer n c enc i = (if unat i < n then EMBER_SUCCESS # enc (c (unat i)) else [0x01])"

fun discover :: "nat \<Rightarrow> (u8 \<Rightarrow> byte_buffer) \<Rightarrow> ezsp_msg list \<Rightarrow> zb_nwk \<Rightarrow> (zb_nwk \<times> app_event list \<times> ezsp_msg list) result" where
  "discover fuel ad [] w = Inr (w, [], [])"
| "discover 0 ad q w = Inr (w, [], q)"
| "discover (Suc fuel) ad ((c, p) # q) w =
     bindR (networking_rx c (ad (hd p)) w) (\<lambda>(w, es).
     bindR (discover fuel ad (q @ sent es) w) (\<lambda>(w, evs, q). Inr (w, app_events es @ evs, q)))"

lemma child_step:
  assumes "parse_child_data (enc c) = Inr c" "nwk_discoverCallback w"
  shows "networking_rx EZSP_GET_CHILD_DATA (EMBER_SUCCESS # enc c) w =
    Inr (w\<lparr>nwk_child_idx := nwk_child_idx w + 1\<rparr>,
      [App (Discovered (cd_type c) (cd_eui64 c) (cd_id c)), Send EZSP_GET_CHILD_DATA [nwk_child_idx w + 1]])"
  using assms by (simp add: networking_rx_def nwk_logged_def ezsp_ids rx_child_data_def Let_def)

lemma child_last: "networking_rx EZSP_GET_CHILD_DATA [0x01] w = Inr (w, [])"
  by (simp add: networking_rx_def nwk_logged_def ezsp_ids rx_child_data_def)

lemma discover_from:
  assumes "n < 256" "\<And>i. i < n \<Longrightarrow> parse_child_data (enc (c i)) = Inr (c i)"
  shows "k \<le> n \<Longrightarrow> nwk_discoverCallback w \<Longrightarrow> nwk_child_idx w = of_nat (n - k) \<Longrightarrow>
    \<exists>w'. discover (Suc k) (child_answer n c enc) [(EZSP_GET_CHILD_DATA, [of_nat (n - k)])] w =
      Inr (w', map (\<lambda>i. Discovered (cd_type (c i)) (cd_eui64 (c i)) (cd_id (c i))) [n - k..<n], [])"
proof (induction k arbitrary: w)
  case 0
  then show ?case using assms(1) by (simp add: child_answer_def child_last unat_u8)
next
  case (Suc k)
  let ?i = "n - Suc k"
  have u: "unat (of_nat ?i :: u8) = ?i" using assms(1) by (intro unat_u8) simp
  have i: "?i < n" "n - k = Suc ?i" "[?i..<n] = ?i # [n - k..<n]"
    using Suc.prems(1) by (simp_all add: upt_conv_Cons Suc_diff_Suc)
  have next_idx: "of_nat ?i + 1 = (of_nat (n - k) :: u8)" by (simp add: i(2) del: of_nat_diff)
  define K where "K = Suc k"
  obtain w' where rest: "discover K (child_answer n c enc) [(EZSP_GET_CHILD_DATA, [of_nat (n - k)])]
      (w\<lparr>nwk_child_idx := of_nat (n - k)\<rparr>) =
      Inr (w', map (\<lambda>i. Discovered (cd_type (c i)) (cd_eui64 (c i)) (cd_id (c i))) [n - k..<n], [])"
    using Suc.IH [of "w\<lparr>nwk_child_idx := of_nat (n - k)\<rparr>"] Suc.prems by (auto simp: K_def)
  have "child_answer n c enc (of_nat ?i) = EMBER_SUCCESS # enc (c ?i)"
    using i(1) by (simp add: child_answer_def u del: of_nat_diff)
  then have "discover (Suc K) (child_answer n c enc) [(EZSP_GET_CHILD_DATA, [of_nat ?i])] w =
      Inr (w', map (\<lambda>i. Discovered (cd_type (c i)) (cd_eui64 (c i)) (cd_id (c i))) (?i # [n - k..<n]), [])"
    using Suc.prems assms(2) [OF i(1)] child_step [of enc "c ?i" w] rest
    by (simp add: next_idx del: of_nat_diff)
  then show ?case by (simp add: K_def i(3) del: of_nat_diff upt_Suc discover.simps)
qed

text \<open>C20: The discovery of products reports every child of the adapter once. When the adapter has less than
  256 children, answers the request for the child of an index with its data, and answers with a
  failure for the first index after the last, the application hears of exactly these children, in
  the order of their indices, and after the last one no command is left to be answered.\<close>

theorem discovery_reports_children:
  assumes "n < 256" "\<And>i. i < n \<Longrightarrow> parse_child_data (enc (c i)) = Inr (c i)"
  shows "\<exists>w'. (case startDiscoverProduct True w of (w1, es) \<Rightarrow>
      discover (Suc n) (child_answer n c enc) (sent es) w1) =
    Inr (w', map (\<lambda>i. Discovered (cd_type (c i)) (cd_eui64 (c i)) (cd_id (c i))) [0..<n], [])"
  using discover_from [of n enc c n "w\<lparr>nwk_child_idx := 0, nwk_discoverCallback := True\<rparr>"] assms
  by (simp add: startDiscoverProduct_def Let_def del: discover.simps)

definition some_child :: "nat \<Rightarrow> child_data" where
  "some_child i = \<lparr>cd_eui64 = replicate 8 (of_nat i), cd_type = 2, cd_id = of_nat i, cd_phy = 0,
     cd_power = 0, cd_timeout = 0\<rparr>"

definition some_child_raw :: "child_data \<Rightarrow> byte_buffer" where
  "some_child_raw c = cd_eui64 c @ [cd_type c, ucast (cd_id c), 0, 0, 0, 0]"

theorem discovery_reports_children_witness:
  "\<exists>w'. (case startDiscoverProduct True (new_zb_nwk (\<lambda>_. 0)) of (w1, es) \<Rightarrow>
      discover (Suc 2) (child_answer 2 some_child some_child_raw) (sent es) w1) =
    Inr (w', [Discovered 2 (replicate 8 0) 0, Discovered 2 (replicate 8 1) 1], [])"
proof -
  have "parse_child_data (some_child_raw (some_child i)) = Inr (some_child i)" if "i < 2" for i
  proof -
    have "i = 0 \<or> i = 1" using that by auto
    then show ?thesis by (elim disjE; simp; code_simp)
  qed
  then show ?thesis
    using discovery_reports_children [of 2 some_child_raw some_child "new_zb_nwk (\<lambda>_. 0)"]
    by (simp add: upt_rec some_child_def del: discover.simps)
qed

end
