(* ===== verification/LibScans.thy ===== *)
theory LibScans
  imports LibFlows
begin

text \<open>
  Scans of the library: what the application receives at the end of a scan, and how the state
  of the library suffers from a scan that fails or that is asked for too early.
\<close>

section \<open>Results\<close>

lemma startEnergyScan_step:
  "lib_state m \<noteq> SCANNING \<Longrightarrow> \<not> scanInProgress m \<Longrightarrow>
   startEnergyScan cb d channels m = Inr (True, m\<lparr>lastChannelToEnergyScan := Map.empty,
       lib_state := SCANNING, energyScanCallback := cb, activeScanCallback := False\<rparr>,
     told m PubREADY @ [Send EZSP_START_SCAN (scan_payload EZSP_ENERGY_SCAN d channels)])"
  by (simp add: startEnergyScan_def flow told_def)

lemma scan_answered:
  "lib_observing m \<Longrightarrow> lib_rx EZSP_START_SCAN [s] m = Inr (m\<lparr>scanInProgress := (EMBER_SUCCESS = s)\<rparr>, [])"
  by (simp add: flow)

lemma energy_result_step:
  "lib_observing m \<Longrightarrow> lib_rx EZSP_ENERGY_SCAN_RESULT_HANDLER [c, r] m =
     Inr (m\<lparr>lastChannelToEnergyScan := (\<lambda>scan. if scan c = None then scan(c \<mapsto> r) else scan)
       (lastChannelToEnergyScan m)\<rparr>, [])"
  by (simp add: flow rx_energy_scan_result_def Let_def)

lemma complete_step:
  "lib_observing m \<Longrightarrow> lib_state m = SCANNING \<Longrightarrow> energyScanCallback m \<Longrightarrow> \<not> activeScanCallback m \<Longrightarrow>
   lib_rx EZSP_SCAN_COMPLETE_HANDLER p m =
     Inr (m\<lparr>scanInProgress := False, lib_state := READY, energyScanCallback := False\<rparr>,
       told m PubREADY @ [App (EnergyScan (lastChannelToEnergyScan m))])"
  by (simp add: flow rx_scan_complete_def told_def)

lemma energy_results:
  "lib_observing m \<Longrightarrow>
   run_ops lib_do (map (\<lambda>(c, r). LibRx EZSP_ENERGY_SCAN_RESULT_HANDLER [c, r]) rs) m =
     Inr (m\<lparr>lastChannelToEnergyScan := map_of rs ++ lastChannelToEnergyScan m\<rparr>, [])"
proof (induction rs arbitrary: m)
  case (Cons x rs)
  obtain c r where x: "x = (c, r)" by (cases x)
  have "map_of rs ++ (if s c = None then s(c \<mapsto> r) else s) = map_of (x # rs) ++ s" for s
    by (auto simp: x fun_eq_iff map_add_def split: option.splits)
  then show ?case using Cons by (simp add: x energy_result_step fun_upd_def)
qed simp

text \<open>C19: An energy scan ends with one call of the application's function. For a library that is not
  scanning, whatever its state, the scan is accepted and one command is sent, the channels being
  those asked for or, if none are, the channels 11 to 26; when the adapter has started it, given
  its results and completed it, the function receives for each channel the first result, the
  library is ready and keeps no function to call.\<close>

theorem energy_scan_reports:
  assumes "lib_observing m" "lib_state m \<noteq> SCANNING" "\<not> scanInProgress m"
  shows "\<exists>m' out. run_ops lib_do
      ([LibEnergyScan True d channels, LibRx EZSP_START_SCAN [EMBER_SUCCESS]]
       @ map (\<lambda>(c, r). LibRx EZSP_ENERGY_SCAN_RESULT_HANDLER [c, r]) rs
       @ [LibRx EZSP_SCAN_COMPLETE_HANDLER p]) m = Inr (m', out)
    \<and> sent out = [(EZSP_START_SCAN, scan_payload EZSP_ENERGY_SCAN d channels)]
    \<and> filter (\<lambda>e. \<forall>st. e \<noteq> LibState st) (app_events out) = [EnergyScan (map_of rs)]
    \<and> lib_state m' = READY \<and> \<not> scanInProgress m'
    \<and> \<not> energyScanCallback m' \<and> \<not> activeScanCallback m'"
proof -
  let ?m1 = "m\<lparr>lastChannelToEnergyScan := Map.empty, lib_state := SCANNING, energyScanCallback := True,
      activeScanCallback := False, scanInProgress := True\<rparr>"
  let ?m2 = "?m1\<lparr>lastChannelToEnergyScan := map_of rs\<rparr>"
  let ?m3 = "?m2\<lparr>scanInProgress := False, lib_state := READY, energyScanCallback := False\<rparr>"
  have start: "run_ops lib_do [LibEnergyScan True d channels, LibRx EZSP_START_SCAN [EMBER_SUCCESS]] m =
      Inr (?m1, told m PubREADY @ [Send EZSP_START_SCAN (scan_payload EZSP_ENERGY_SCAN d channels)])"
    using assms by (simp add: startEnergyScan_step scan_answered no_result_simps)
  have results: "run_ops lib_do (map (\<lambda>(c, r). LibRx EZSP_ENERGY_SCAN_RESULT_HANDLER [c, r]) rs) ?m1 =
      Inr (?m2, [])"
    using energy_results [of ?m1 rs] assms(1) by simp
  have "run_ops lib_do [LibRx EZSP_SCAN_COMPLETE_HANDLER p] ?m2 =
      Inr (?m3, told ?m2 PubREADY @ [App (EnergyScan (map_of rs))])"
    using complete_step [of ?m2 p] assms(1) by simp
  note all = run_ops_appendI [OF start run_ops_appendI [OF results this]]
  show ?thesis
    by (intro exI conjI, rule all) (simp_all add: told_def)
qed

theorem energy_scan_reports_witness:
  "\<exists>m' out. run_ops lib_do
      [LibEnergyScan True 3 0, LibRx EZSP_START_SCAN [EMBER_SUCCESS],
       LibRx EZSP_ENERGY_SCAN_RESULT_HANDLER [11, 0xA6], LibRx EZSP_ENERGY_SCAN_RESULT_HANDLER [11, 0xB0],
       LibRx EZSP_SCAN_COMPLETE_HANDLER []]
      (new_lib (\<lambda>_. 0) 0\<lparr>lib_observing := True, lib_state := READY\<rparr>) = Inr (m', out)
    \<and> sent out = [(EZSP_START_SCAN, [0, 0x00, 0xF8, 0xFF, 0x07, 3])]
    \<and> filter (\<lambda>e. \<forall>st. e \<noteq> LibState st) (app_events out) = [EnergyScan [11 \<mapsto> 0xA6]]"
proof -
  have payload: "scan_payload EZSP_ENERGY_SCAN 3 0 = [0, 0x00, 0xF8, 0xFF, 0x07, 3]"
    by code_simp
  have rs: "map_of [(11 :: u8, 0xA6 :: u8), (11, 0xB0)] = [11 \<mapsto> 0xA6]"
    by (simp add: fun_eq_iff)
  show ?thesis
    using energy_scan_reports [of "new_lib (\<lambda>_. 0) 0\<lparr>lib_observing := True, lib_state := READY\<rparr>" 3 0
      "[(11, 0xA6), (11, 0xB0)]" "[]"]
    unfolding rs payload by (fastforce simp: new_lib_def simp del: run_ops.simps(2))
qed

section \<open>Scans that block or mislead\<close>

text \<open>The requests which the library refuses while it scans.\<close>

definition refused_requests :: "lib_op set" where
  "refused_requests = {LibClear, LibOpen, LibClose} \<union> range LibRemove \<union> range LibAdd \<union> range LibChannel
     \<union> range LibJoin \<union> {LibEnergyScan cb d ch |cb d ch. True} \<union> {LibActiveScan cb d ch |cb d ch. True}"

lemma refused_while_scanning:
  "lib_state m = SCANNING \<Longrightarrow> e \<in> refused_requests \<Longrightarrow> lib_do e m = Inr (m, [])"
  by (auto simp: refused_requests_def lib_requests no_result_simps)

lemma run_ops_idle:
  "(\<And>e. e \<in> set es \<Longrightarrow> f e m = Inr (m, [])) \<Longrightarrow> run_ops f es m = Inr (m, [])"
  by (induction es) simp_all

text \<open>A scan which the adapter refuses blocks the library. Once the adapter has answered a scan request
  with anything but success, every request for devices, for a commissioning session, for a
  channel, for a network and for another scan is refused, without a command and without a change
  of state, although no scan is in progress.\<close>

theorem failed_scan_blocks:
  assumes "lib_observing m" "lib_state m \<noteq> SCANNING" "\<not> scanInProgress m" "s \<noteq> EMBER_SUCCESS"
    and "set es \<subseteq> refused_requests"
  shows "\<exists>m' out. run_ops lib_do [LibEnergyScan True d channels, LibRx EZSP_START_SCAN [s]] m = Inr (m', out)
    \<and> \<not> scanInProgress m' \<and> lib_state m' = SCANNING \<and> run_ops lib_do es m' = Inr (m', [])"
proof -
  let ?m = "m\<lparr>lastChannelToEnergyScan := Map.empty, lib_state := SCANNING, energyScanCallback := True,
      activeScanCallback := False, scanInProgress := False\<rparr>"
  have "run_ops lib_do es ?m = Inr (?m, [])"
    using assms(5) refused_while_scanning [of ?m] by (intro run_ops_idle) auto
  then show ?thesis
    using assms by (simp add: startEnergyScan_step scan_answered no_result_simps)
qed

theorem failed_scan_blocks_witness:
  "\<exists>m' out. run_ops lib_do [LibEnergyScan True 3 0, LibRx EZSP_START_SCAN [0x70]]
      (new_lib (\<lambda>_. 0) 0\<lparr>lib_observing := True, lib_state := READY\<rparr>) = Inr (m', out)
    \<and> run_ops lib_do [LibEnergyScan True 3 0, LibOpen, LibRemove [1]] m' = Inr (m', [])"
  using failed_scan_blocks [of "new_lib (\<lambda>_. 0) 0\<lparr>lib_observing := True, lib_state := READY\<rparr>" "0x70"
    "[LibEnergyScan True 3 0, LibOpen, LibRemove [1]]" 3 0]
  by (auto simp: refused_requests_def new_lib_def ezsp_ids simp del: run_ops.simps(2))

text \<open>A scan makes the library ready whatever it was before. If a scan is started before the sink has
  been, the end of the scan tells the application that the library is ready; a device that is
  added then is refused by the sink, and the library is busy.\<close>

theorem early_scan_claims_ready:
  assumes "lib_observing m" "lib_state m \<noteq> SCANNING" "\<not> scanInProgress m" "obsStateCallback m"
    and "gs_sink_state (lib_sink m) = SINK_NOT_INIT"
  shows "\<exists>m' out m'' es. run_ops lib_do [LibEnergyScan True d channels, LibRx EZSP_START_SCAN [EMBER_SUCCESS],
      LibRx EZSP_SCAN_COMPLETE_HANDLER p] m = Inr (m', out)
    \<and> LibState PubREADY \<in> set (app_events out) \<and> lib_state m' = READY
    \<and> addGPDevices ds m' = Inr (False, m'', es) \<and> sent es = [] \<and> lib_state m'' = SINK_BUSY"
  using assms
  by (simp add: startEnergyScan_step scan_answered complete_step no_result_simps addGPDevices_def
      setState_told sink_request_def registerGpds_def told_def step_simps)

theorem early_scan_claims_ready_witness:
  "\<exists>m' out m'' es. run_ops lib_do [LibEnergyScan True 3 0, LibRx EZSP_START_SCAN [EMBER_SUCCESS],
      LibRx EZSP_SCAN_COMPLETE_HANDLER []] (new_lib (\<lambda>_. 0) 0\<lparr>lib_observing := True,
        lib_state := WAIT_DONGLE_READY, obsStateCallback := True\<rparr>) = Inr (m', out)
    \<and> lib_state m' = READY \<and> addGPDevices [] m' = Inr (False, m'', es) \<and> lib_state m'' = SINK_BUSY"
  using early_scan_claims_ready [of "new_lib (\<lambda>_. 0) 0\<lparr>lib_observing := True,
        lib_state := WAIT_DONGLE_READY, obsStateCallback := True\<rparr>" 3 0 "[]" "[]"]
  by (fastforce simp: new_lib_def new_gp_sink_def simp del: run_ops.simps(2))

end
