(* ===== verification/LibDevices.thy ===== *)
theory LibDevices
  imports LibFlows GpSinkFlows
begin

text \<open>
  The library while its sink works on devices: it follows the state of the sink, so that the
  removal of devices ends with a library that is ready, and the requests that leave it busy
  although the sink has nothing to do.
\<close>

section \<open>Messages for the sink alone\<close>

definition gp_cmds :: "ezsp_cmd set" where
  "gp_cmds = {EZSP_GP_PROXY_TABLE_GET_ENTRY, EZSP_GP_SINK_TABLE_INIT, EZSP_GPEP_INCOMING_MESSAGE_HANDLER,
     EZSP_GP_SINK_TABLE_FIND_OR_ALLOCATE_ENTRY, EZSP_GP_SINK_TABLE_LOOKUP, EZSP_GP_PROXY_TABLE_LOOKUP,
     EZSP_GP_SINK_TABLE_GET_ENTRY, EZSP_GP_SINK_TABLE_SET_ENTRY, EZSP_GP_SINK_TABLE_REMOVE_ENTRY,
     EZSP_GP_SINK_TABLE_CLEAR_ALL, EZSP_GP_PROXY_TABLE_PROCESS_GP_PAIRING, EZSP_D_GP_SEND,
     EZSP_D_GP_SENT_HANDLER, EZSP_SEND_UNICAST}"

lemma lib_rx_sink: "c \<in> gp_cmds \<Longrightarrow> lib_rx c p m = sink_call (sink_rx c p) m"
proof -
  assume c: "c \<in> gp_cmds"
  then have "messaging_rx c p = Inr []" "networking_rx c p = (\<lambda>w. Inr (w, []))"
    "handleEzspRxMessage c p = skip"
    by (auto simp: gp_cmds_def messaging_rx_def networking_rx_def nwk_logged_def handleEzspRxMessage_def
        fun_eq_iff cmd_values)
  then show ?thesis
    by (cases "sink_call (sink_rx c p) m") (auto simp: lib_rx_def emit_def skip_def)
qed

lemma sent_single [simp]: "sent [e] = (case e of Send c p \<Rightarrow> [(c, p)] | _ \<Rightarrow> [])"
  by (cases e) simp_all

text \<open>What the sink sends are messages whose answers are for the sink alone.\<close>

lemma sink_sends_no_security:
  "rx_no_security f s = Inr (s', es) \<Longrightarrow> fst ` set (sent es) \<subseteq> gp_cmds"
  by (auto simp: rx_no_security_def sink_commands step_simps setSinkState_eq Let_def gp_cmds_def
      split: if_splits)

lemma sink_sends_security:
  "rx_security f s = Inr (s', es) \<Longrightarrow> fst ` set (sent es) \<subseteq> gp_cmds"
  by (auto simp: rx_security_def rx_channel_switch_def sink_commands step_simps Let_def gp_cmds_def
      split: if_splits)

lemma sink_sends_incoming:
  assumes "rx_incoming p s = Inr (s', es)"
  shows "fst ` set (sent es) \<subseteq> gp_cmds"
proof -
  obtain f ann es2 where es: "es = ann @ es2" "sent ann = []"
    and rest: "(if gf_security f = GPD_NO_SECURITY then rx_no_security f
      else if adapter_key_status (p ! 0) = KeyValid then rx_security f else skip) s = Inr (s', es2)"
    using rx_incoming_parts [OF assms] by blast
  have "fst ` set (sent es2) \<subseteq> gp_cmds"
    using rest sink_sends_no_security sink_sends_security by (auto simp: skip_def split: if_splits)
  then show ?thesis by (simp add: es)
qed

lemma sink_sends_handlers:
  "rx_network_parameters p s = Inr (s', es) \<Longrightarrow> fst ` set (sent es) \<subseteq> gp_cmds"
  "rx_find_or_allocate p s = Inr (s', es) \<Longrightarrow> fst ` set (sent es) \<subseteq> gp_cmds"
  "rx_sink_lookup p s = Inr (s', es) \<Longrightarrow> fst ` set (sent es) \<subseteq> gp_cmds"
  "rx_sink_get_entry p s = Inr (s', es) \<Longrightarrow> fst ` set (sent es) \<subseteq> gp_cmds"
  "rx_sink_set_entry p s = Inr (s', es) \<Longrightarrow> fst ` set (sent es) \<subseteq> gp_cmds"
  "rx_proxy_lookup p s = Inr (s', es) \<Longrightarrow> fst ` set (sent es) \<subseteq> gp_cmds"
  "rx_proxy_get_entry p s = Inr (s', es) \<Longrightarrow> fst ` set (sent es) \<subseteq> gp_cmds"
  "rx_pairing_done p s = Inr (s', es) \<Longrightarrow> fst ` set (sent es) \<subseteq> gp_cmds"
  "rx_gp_sent p s = Inr (s', es) \<Longrightarrow> fst ` set (sent es) \<subseteq> gp_cmds"
  by (auto simp: sink_handlers sink_closeCommissioningSession_def sink_commands step_simps
      setSinkState_eq Let_def gp_cmds_def split: if_splits)

lemma sink_sends: "sink_rx c p s = Inr (s', es) \<Longrightarrow> fst ` set (sent es) \<subseteq> gp_cmds"
  by (auto simp: sink_rx_def skip_def split: if_splits
      dest!: sink_sends_handlers sink_sends_incoming)

text \<open>A ready sink stays ready on any message.\<close>

lemma ready_handlers:
  assumes "gs_sink_state s = SINK_READY"
  shows "rx_network_parameters p s = Inr (s', es) \<Longrightarrow> gs_sink_state s' = SINK_READY"
    "rx_find_or_allocate p s = Inr (s', es) \<Longrightarrow> gs_sink_state s' = SINK_READY"
    "rx_sink_lookup p s = Inr (s', es) \<Longrightarrow> gs_sink_state s' = SINK_READY"
    "rx_sink_get_entry p s = Inr (s', es) \<Longrightarrow> gs_sink_state s' = SINK_READY"
    "rx_sink_set_entry p s = Inr (s', es) \<Longrightarrow> gs_sink_state s' = SINK_READY"
    "rx_proxy_lookup p s = Inr (s', es) \<Longrightarrow> gs_sink_state s' = SINK_READY"
    "rx_proxy_get_entry p s = Inr (s', es) \<Longrightarrow> gs_sink_state s' = SINK_READY"
    "rx_pairing_done p s = Inr (s', es) \<Longrightarrow> gs_sink_state s' = SINK_READY"
    "rx_gp_sent p s = Inr (s', es) \<Longrightarrow> gs_sink_state s' = SINK_READY"
  using assms
  by (auto simp: sink_handlers sink_commands step_simps Let_def split: if_splits)

lemma ready_incoming:
  "gs_sink_state s = SINK_READY \<Longrightarrow> rx_incoming p s = Inr (s', es) \<Longrightarrow> gs_sink_state s' = SINK_READY"
  by (auto simp: rx_incoming_def rx_security_def rx_channel_switch_def rx_no_security_def
      sink_commands step_simps Let_def split: if_splits)

lemma ready_sink_rx:
  "gs_sink_state s = SINK_READY \<Longrightarrow> sink_rx c p s = Inr (s', es) \<Longrightarrow> gs_sink_state s' = SINK_READY"
  by (auto simp: sink_rx_def skip_def split: if_splits dest: ready_handlers ready_incoming)

section \<open>The library follows its sink\<close>

text \<open>The library and an adapter that answers every command, as in \<open>converse\<close>.\<close>

fun lib_converse :: "nat \<Rightarrow> (ezsp_msg \<Rightarrow> byte_buffer) \<Rightarrow> ezsp_msg list \<Rightarrow> lib_main
     \<Rightarrow> (lib_main \<times> ezsp_msg list \<times> ezsp_msg list) result" where
  "lib_converse n ad [] m = Inr (m, [], [])"
| "lib_converse 0 ad (c # q) m = Inr (m, c # q, [])"
| "lib_converse (Suc n) ad (c # q) m =
     bindR (lib_rx (fst c) (ad c) m) (\<lambda>(m, es).
     bindR (lib_converse n ad (q @ sent es) m) (\<lambda>(m, q, log). Inr (m, q, c # log)))"

definition follows :: "lib_main \<Rightarrow> bool" where
  "follows m \<longleftrightarrow> gs_obsStateCallback (lib_sink m) = Some (\<lambda>_. True)
     \<and> lib_state m = (if gs_sink_state (lib_sink m) = SINK_READY then READY else SINK_BUSY)"

lemma follows_rx:
  assumes "follows m" "c \<in> gp_cmds" "sink_rx c p (lib_sink m) = Inr (s, es)"
  shows "\<exists>m' out. lib_rx c p m = Inr (m', out) \<and> lib_sink m' = s \<and> follows m' \<and> sent out = sent es"
proof -
  have steady: "sink_steady (lib_sink m)" using assms(1) by (simp add: follows_def sink_steady_def)
  obtain out where out: "sink_call (sink_rx c p) m = Inr (m\<lparr>lib_sink := s,
      lib_state := if sink_becomes_ready es \<and> lib_state m = SINK_BUSY then READY else lib_state m\<rparr>, out)"
    "sent out = sent es"
    using sink_call_cases [where a = "sink_rx c p", OF assms(3)] .
  have "sink_tracks (lib_sink m) s es" using sink_rx_tracks [OF steady assms(3)] .
  then show ?thesis
    using out assms(1) ready_sink_rx [OF _ assms(3)]
    by (auto simp: lib_rx_sink [OF assms(2)] follows_def sink_tracks_def)
qed

lemma follows_converse:
  "follows m \<Longrightarrow> fst ` set q \<subseteq> gp_cmds \<Longrightarrow> converse n ad q (lib_sink m) = Inr (s', q', log) \<Longrightarrow>
   \<exists>m'. lib_converse n ad q m = Inr (m', q', log) \<and> lib_sink m' = s' \<and> follows m'"
proof (induction n ad q m arbitrary: s' q' log rule: lib_converse.induct)
  case (3 n ad c q m)
  obtain s1 es log' where rx: "sink_rx (fst c) (ad c) (lib_sink m) = Inr (s1, es)"
    and rest: "converse n ad (q @ sent es) s1 = Inr (s', q', log')" and log: "log = c # log'"
    using "3.prems"(3) by auto
  obtain m1 out where m1: "lib_rx (fst c) (ad c) m = Inr (m1, out)" "lib_sink m1 = s1" "follows m1"
    "sent out = sent es"
    using follows_rx [OF "3.prems"(1) _ rx] "3.prems"(2) by auto
  have "fst ` set (q @ sent out) \<subseteq> gp_cmds" using "3.prems"(2) sink_sends [OF rx] m1(4) by auto
  then show ?case
    using "3.IH" [OF m1(1) refl m1(3), of s' q' log'] rest m1 log by auto
qed simp_all

text \<open>C10: The library follows its sink. Whatever conversation the sink has with an adapter, the library
  has the same one: the same commands are answered in the same order and the same ones are left,
  the sink ends in the same state, and the library is ready exactly when the sink is, and busy
  otherwise.\<close>

theorem library_follows_sink:
  assumes "gs_obsStateCallback (lib_sink m) = Some (\<lambda>_. True)"
    and "lib_state m = (if gs_sink_state (lib_sink m) = SINK_READY then READY else SINK_BUSY)"
    and "fst ` set q \<subseteq> gp_cmds" "converse n ad q (lib_sink m) = Inr (s', q', log)"
  shows "\<exists>m'. lib_converse n ad q m = Inr (m', q', log) \<and> lib_sink m' = s'
    \<and> lib_state m' = (if gs_sink_state s' = SINK_READY then READY else SINK_BUSY)"
  using follows_converse [of m q n ad s' q' log] assms by (auto simp: follows_def)

text \<open>A library that has started its sink.\<close>

definition ready_lib :: lib_main where
  "ready_lib = new_lib (\<lambda>_. 0) 0\<lparr>lib_observing := True, lib_state := READY, obsStateCallback := True,
     lib_sink := new_gp_sink\<lparr>gs_sink_state := SINK_READY, gs_obsStateCallback := Some (\<lambda>_. True),
       gs_observed := True\<rparr>\<rparr>"

theorem library_follows_sink_witness:
  "\<exists>m'. lib_converse 2 (\<lambda>_. [0xFF]) [(EZSP_GP_SINK_TABLE_LOOKUP, [])]
      (ready_lib\<lparr>lib_state := SINK_BUSY, lib_sink := (lib_sink ready_lib)\<lparr>
         gs_sink_state := SINK_REMOVE_IN_PROGRESS, gs_gpds_to_remove := [7]\<rparr>\<rparr>)
    = Inr (m', [], [(EZSP_GP_SINK_TABLE_LOOKUP, []), proxy_lookup_cmd 7]) \<and> lib_state m' = READY"
proof -
  let ?s = "(lib_sink ready_lib)\<lparr>gs_sink_state := SINK_REMOVE_IN_PROGRESS, gs_gpds_to_remove := [7]\<rparr>"
  obtain s' where "converse (Suc (Suc 0)) (\<lambda>_. [0xFF]) [(EZSP_GP_SINK_TABLE_LOOKUP, [])] ?s =
      Inr (s', [], [(EZSP_GP_SINK_TABLE_LOOKUP, []), proxy_lookup_cmd 7])" "gs_sink_state s' = SINK_READY"
    by (simp add: sink_rx_simps rx_sink_lookup_def rx_proxy_lookup_def sink_commands step_simps
        setSinkState_eq Let_def ready_lib_def)
  then show ?thesis
    using library_follows_sink [of "ready_lib\<lparr>lib_state := SINK_BUSY, lib_sink := ?s\<rparr>"
        "[(EZSP_GP_SINK_TABLE_LOOKUP, [])]" "Suc (Suc 0)" "\<lambda>_. [0xFF]" s' "[]"]
    by (auto simp: ready_lib_def gp_cmds_def numeral_2_eq_2 simp del: lib_converse.simps converse.simps)
qed

text \<open>C3: Removing devices ends with a library that is ready. When the library and its sink are ready and
  the adapter answers every command, whatever the answers are, the request is accepted, the
  library is busy while at most four commands for each device are answered, and then it is ready
  with no command and no device left.\<close>

theorem lib_removal_completes:
  assumes "lib_state m = READY" "gs_sink_state (lib_sink m) = SINK_READY"
    and "gs_obsStateCallback (lib_sink m) = Some (\<lambda>_. True)"
    and "ids \<noteq> []" "\<And>c. ad c \<noteq> []" "4 * length ids \<le> n"
  shows "\<exists>m1 out m'. removeGPDevices ids m = Inr (True, m1, out) \<and> lib_state m1 = SINK_BUSY
    \<and> lib_converse n ad (sent out) m1 =
        Inr (m', [], concat (map (removal_dialogue ad) (rev ids)))
    \<and> lib_state m' = READY \<and> gs_gpds_to_remove (lib_sink m') = []"
proof -
  let ?s = "(lib_sink m)\<lparr>gs_sink_state := SINK_REMOVE_IN_PROGRESS, gs_gpds_to_remove := ids\<rparr>"
  let ?m = "m\<lparr>lib_state := SINK_BUSY, lib_sink := ?s\<rparr>"
  have request: "removeGPDevices ids m = Inr (True, ?m, told m PubSINK_BUSY
      @ [Send EZSP_GP_SINK_TABLE_LOOKUP (gp_address_raw (gp_address_of (last ids)))])"
    using assms(1-4)
    by (simp add: removeGPDevices_def setState_told sink_request_def removeGpds_def step_simps
        setSinkState_eq sink_commands clibobs_def)
  obtain s' where s': "converses ad [sink_lookup_cmd (last ids)] ?s s'
      (concat (map (removal_dialogue ad) (rev ids)))" "gs_sink_state s' = SINK_READY"
      "gs_gpds_to_remove s' = []"
    using removal_converses [where ad = ad and s = ?s, OF assms(5) _ _ assms(4)] by auto
  have "length (concat (map (removal_dialogue ad) (rev ids))) \<le> n"
    using length_removal_dialogue [of ad "rev ids"] assms(6) by simp
  then have c: "converse n ad [sink_lookup_cmd (last ids)] (lib_sink ?m) =
      Inr (s', [], concat (map (removal_dialogue ad) (rev ids)))"
    using converses_fuel [OF s'(1)] by simp
  have "follows ?m" "fst ` set [sink_lookup_cmd (last ids)] \<subseteq> gp_cmds"
    using assms(3) by (simp_all add: follows_def gp_cmds_def)
  from follows_converse [OF this c] obtain m' where
    "lib_converse n ad [sink_lookup_cmd (last ids)] ?m =
      Inr (m', [], concat (map (removal_dialogue ad) (rev ids)))" "lib_sink m' = s'" "follows m'"
    by blast
  then show ?thesis using request s'(2,3) by (auto simp: follows_def told_def)
qed

theorem lib_removal_completes_witness:
  "\<exists>m1 out m'. removeGPDevices [1, 2] ready_lib = Inr (True, m1, out)
    \<and> lib_converse 8 (\<lambda>_. [0xFF]) (sent out) m1 =
        Inr (m', [], [sink_lookup_cmd 2, proxy_lookup_cmd 2, sink_lookup_cmd 1, proxy_lookup_cmd 1])
    \<and> lib_state m' = READY"
  using lib_removal_completes [of ready_lib "[1, 2]" "\<lambda>_. [0xFF]" 8]
  by (auto simp: removal_dialogue_def ready_lib_def)

section \<open>Requests that leave the library busy\<close>

text \<open>Requests which a busy library refuses, and with them the messages for the sink.\<close>

definition device_requests :: "lib_op set" where
  "device_requests = {LibClear, LibOpen, LibClose} \<union> range LibRemove \<union> range LibAdd \<union> range LibChannel
     \<union> range LibJoin"

definition device_events :: "lib_op set" where
  "device_events = device_requests \<union> {LibRx c p |c p. c \<in> gp_cmds}"

definition wedged :: "lib_main \<Rightarrow> bool" where
  "wedged m \<longleftrightarrow> lib_state m = SINK_BUSY \<and> gs_sink_state (lib_sink m) = SINK_READY
     \<and> sink_steady (lib_sink m)"

lemma refused_while_busy:
  "lib_state m = SINK_BUSY \<Longrightarrow> e \<in> device_requests \<Longrightarrow> lib_do e m = Inr (m, [])"
  by (auto simp: device_requests_def lib_requests no_result_simps)

lemma wedged_do:
  assumes "wedged m" "e \<in> device_events" "lib_do e m = Inr (m', out)"
  shows "wedged m'"
proof (cases "e \<in> device_requests")
  case True
  then show ?thesis using assms refused_while_busy [of m e] by (simp add: wedged_def)
next
  case False
  then obtain c p where e: "e = LibRx c p" "c \<in> gp_cmds" using assms(2) by (auto simp: device_events_def)
  then have "sink_call (sink_rx c p) m = Inr (m', out)" using assms(3) by (simp add: lib_rx_sink)
  from sink_call_Inr [OF this] obtain s es where s: "sink_rx c p (lib_sink m) = Inr (s, es)"
    and m': "m' = m\<lparr>lib_sink := s,
      lib_state := if sink_becomes_ready es \<and> lib_state m = SINK_BUSY then READY else lib_state m\<rparr>"
    by blast
  have "sink_tracks (lib_sink m) s es" "gs_sink_state s = SINK_READY"
    using assms(1) sink_rx_tracks [OF _ s] ready_sink_rx [OF _ s] by (auto simp: wedged_def)
  then show ?thesis using assms(1) m' by (auto simp: wedged_def sink_tracks_def sink_steady_def)
qed

lemma wedged_run:
  "wedged m \<Longrightarrow> set es \<subseteq> device_events \<Longrightarrow> run_ops lib_do es m = Inr (m', out) \<Longrightarrow> wedged m'"
  by (induction es arbitrary: m out) (auto dest: wedged_do)



end
