(* ===== verification/LibSystem.thy ===== *)
theory LibSystem
  imports LibFlows
begin

text \<open>
  The whole system: the library on top of its dongle and the serial port. The library hears of
  the dongle's notifications, and the effects of its operations are carried out on the dongle;
  the events are the bytes of the serial port, the ends of timers, and the application's
  requests.
\<close>

section \<open>Effects on the dongle\<close>

type_synonym lib_world = "lib_main \<times> app_event list"

text \<open>The fetched versions are announced to the observers, which only log them.\<close>

definition quiet :: "unit dongle_obs" where
  "quiet n d u = Inr (d, u)"

lemma version_announcement_ignored: "lib_dongle_state DONGLE_VERSION_RETRIEVED m = skip m"
  by (simp add: lib_dongle_state_def handleDongleState_def)

fun run_effect :: "writer \<Rightarrow> effect \<Rightarrow> dongle \<Rightarrow> app_event list \<Rightarrow> (dongle \<times> app_event list) result" where
  "run_effect wr (Send c p) d log = bindR (sendCommand wr c p d) (\<lambda>d. Inr (d, log))"
| "run_effect wr (SetMode md) d log = bindR (setMode md d) (\<lambda>d. Inr (d, log))"
| "run_effect wr (FetchedStack sv) d log =
     bindR (setFetchedEzspStackVersion quiet sv d ()) (\<lambda>(d, _). Inr (d, log))"
| "run_effect wr (FetchedVersion sv v t) d log =
     bindR (setFetchedEzspVersionData quiet sv v t d ()) (\<lambda>(d, _). Inr (d, log))"
| "run_effect wr (FetchedXncp i n) d log =
     bindR (setFetchedXncpData quiet i n d ()) (\<lambda>(d, _). Inr (d, log))"
| "run_effect wr (App e) d log = Inr (d, log @ [e])"
| "run_effect wr _ d log = Inr (d, log)"

fun run_effects :: "writer \<Rightarrow> effect list \<Rightarrow> dongle \<Rightarrow> app_event list \<Rightarrow> (dongle \<times> app_event list) result" where
  "run_effects wr [] d log = Inr (d, log)"
| "run_effects wr (e # es) d log =
     bindR (run_effect wr e d log) (\<lambda>(d, log). run_effects wr es d log)"

definition sys_apply :: "writer \<Rightarrow> lib_main step \<Rightarrow> dongle \<Rightarrow> lib_world \<Rightarrow> (dongle \<times> lib_world) result" where
  "sys_apply wr a d w =
     (case w of (m, log) \<Rightarrow> bindR (a m) (\<lambda>(m, es).
        bindR (run_effects wr es d log) (\<lambda>(d, log). Inr (d, m, log))))"

text \<open>\<open>CLibEzspMain::handleBootloaderPrompt\<close> only logs.\<close>

fun lib_note :: "dongle_note \<Rightarrow> lib_main step" where
  "lib_note (DongleState st) = lib_dongle_state st"
| "lib_note (EzspRx c p) = lib_rx c p"
| "lib_note BootloaderPrompt = skip"
| "lib_note FirmwareXModemXfr = lib_xmodem_ready"

definition sys_obs :: "writer \<Rightarrow> lib_world dongle_obs" where
  "sys_obs wr n = sys_apply wr (lib_note n)"

section \<open>Events of the system\<close>

definition lib_start :: "writer \<Rightarrow> dongle \<Rightarrow> lib_world \<Rightarrow> (dongle \<times> lib_world) result" where
  "lib_start wr d w =
     (case w of (m, log) \<Rightarrow>
        bindR (dongle_reset wr (sys_obs wr) (setUart d) (start_before m, log)) (\<lambda>(ok, d, w).
          sys_apply wr (start_after ok) d w))"

datatype sys_event = SysStart | SysBytes byte_buffer | SysAshTimeout | SysBlpTimeout | SysRequest lib_op

fun sys_do :: "writer \<Rightarrow> sys_event \<Rightarrow> dongle \<Rightarrow> lib_world \<Rightarrow> (dongle \<times> lib_world) result" where
  "sys_do wr SysStart d w = lib_start wr d w"
| "sys_do wr (SysBytes bytes) d w = uart_input wr (sys_obs wr) bytes d w"
| "sys_do wr SysAshTimeout d w = dongle_ash_timeout wr (sys_obs wr) d w"
| "sys_do wr SysBlpTimeout d w = Inr (dongle_blp_timeout wr d, w)"
| "sys_do wr (SysRequest e) d w = sys_apply wr (lib_do e) d w"

fun sys_run :: "writer \<Rightarrow> sys_event list \<Rightarrow> dongle \<Rightarrow> lib_world \<Rightarrow> (dongle \<times> lib_world) result" where
  "sys_run wr [] d w = Inr (d, w)"
| "sys_run wr (e # es) d w = bindR (sys_do wr e d w) (\<lambda>(d, w). sys_run wr es d w)"

section \<open>Commands reach the wire\<close>

text \<open>Effects that only send commands and call the application.\<close>

fun plain_effect :: "effect \<Rightarrow> bool" where
  "plain_effect (Send c p) = True"
| "plain_effect (App e) = True"
| "plain_effect _ = False"

lemma plain_effects_run:
  "list_all plain_effect es \<Longrightarrow> run_effects wr es d log =
     bindR (dongle_run wr (map Submit (sent es)) d) (\<lambda>d. Inr (d, log @ app_events es))"
proof (induction es arbitrary: d log)
  case (Cons e es)
  then show ?case by (cases e) (auto simp: bindR_assoc intro!: bindR_cong)
qed simp

lemma dongle_run_append:
  "dongle_run wr (xs @ ys) d = bindR (dongle_run wr xs d) (dongle_run wr ys)"
  by (induction xs arbitrary: d) (simp_all add: bindR_assoc cong: bindR_cong)

lemma submitted_map [simp]: "submitted (map Submit ms) = ms"
  by (induction ms) simp_all

lemma requests_run:
  "run_ops lib_do es m = Inr (m', out) \<Longrightarrow> list_all plain_effect out \<Longrightarrow>
   sys_run wr (map SysRequest es) d (m, log) =
     bindR (dongle_run wr (map Submit (sent out)) d) (\<lambda>d. Inr (d, m', log @ app_events out))"
proof (induction es arbitrary: m out d log)
  case (Cons e es)
  then obtain m1 o1 o2 where s: "lib_do e m = Inr (m1, o1)" "run_ops lib_do es m1 = Inr (m', o2)"
    "out = o1 @ o2" by auto
  then show ?case
    using Cons by (auto simp: sys_apply_def plain_effects_run dongle_run_append bindR_assoc
        intro!: bindR_cong)
qed simp



section \<open>The connection\<close>

lemma cancel_in_driver:
  assumes "ackTimerCancelFunc c" "\<not> in_callback (ackTimer a)"
  shows "\<exists>t. cancel_ack_timer (codec_env cb) c (a, w) = Inr (c, a\<lparr>ashCodec := c, ackTimer := t\<rparr>, w)
    \<and> \<not> in_callback t"
  using cpp.stop_ok [OF assms(2)] assms(1) by (auto simp: cancel_ack_timer_def codec_env_def)

text \<open>The answer of the adapter to a reset, for the codes which the codec accepts.\<close>

lemma rstack_frame:
  assumes "in_msg c = []" "\<not> stateConnected c" "pCb c" "code \<in> {0x0B, 0x09, 0x02}"
    and "ackTimerCancelFunc c" "\<not> in_callback (ackTimer a)"
  shows "\<exists>t m. \<not> in_callback t \<and> appendIncoming (codec_env cb) (addByteStuffing (with_crc [0xC1, 2, code])) c (a, w) =
    bindR (cb ASH_STATE_CONNECTED (a\<lparr>ackTimer := t, ashCodec := c\<lparr>stateConnected := True, in_msg := m\<rparr>\<rparr>) w)
      (\<lambda>(a, w). Inr ([[]], (ashCodec a)\<lparr>in_msg := []\<rparr>, a, w))"
proof -
  let ?m = "concat (map stuff_byte (with_crc [0xC1, 2, code]))"
  let ?c = "c\<lparr>in_msg := ?m, stateConnected := True\<rparr>"
  obtain t where t: "cancel_ack_timer (codec_env cb) ?c (a, w) =
      Inr (?c, a\<lparr>ashCodec := ?c, ackTimer := t\<rparr>, w)" "\<not> in_callback t"
    using cancel_in_driver [of ?c a cb w] assms(5,6) by auto
  have len: "length (addByteStuffing (with_crc [0xC1, 2, code])) \<le> Suc ASH_MAX_LENGTH"
    using length_stuffed(2) [of "with_crc [0xC1, 2, code]"] by (simp add: addByteStuffing_def ASH_MAX_LENGTH_def)
  have "process_frame (codec_env cb) [0xC1, 2, code] (c\<lparr>in_msg := ?m\<rparr>) (a, w) =
      bindR (cb ASH_STATE_CONNECTED (a\<lparr>ackTimer := t, ashCodec := ?c\<rparr>) w)
        (\<lambda>(a, w). Inr ([], ashCodec a, a, w))"
    using assms(2-4) t(1)
    by (auto simp: process_frame_def ash_callback_def codec_env_def bindR_assoc split_def)
  then have "processInterFlagStream (codec_env cb) (c\<lparr>in_msg := ?m\<rparr>) (a, w) =
      bindR (cb ASH_STATE_CONNECTED (a\<lparr>ackTimer := t, ashCodec := ?c\<rparr>) w)
        (\<lambda>(a, w). Inr ([], ashCodec a, a, w))"
    by (subst processInterFlagStream_valid [of _ "[0xC1, 2, code]"]) simp_all
  moreover have "?c = c\<lparr>stateConnected := True, in_msg := ?m\<rparr>" by simp
  ultimately show ?thesis
    using t(2) appendIncoming_frame [OF assms(1) _ len, of "codec_env cb" "(a, w)"]
    by (intro exI [of _ t] exI [of _ ?m] conjI) (simp_all add: bindR_assoc split_def)
qed

lemma sendCommand_blp: "sendCommand wr c p d = Inr d' \<Longrightarrow> blp d' = blp d"
  by (auto simp: sendCommand_def sendNextMsg_def Let_def split: if_splits)

lemma sys_connected:
  assumes "can_send d" "outbox_of d = ([], False)" "lib_observing m" "lib_state m = WAIT_DONGLE_READY"
  shows "\<exists>d'. blp d' = blp d \<and> ashCbInfo good_port (sys_obs good_port) ASH_STATE_CONNECTED d (m, log) =
      Inr (d'\<lparr>lastKnownMode := EZSP_NCP\<rparr>, m\<lparr>lib_state := GETTING_EZSP_VERSION\<rparr>,
        log @ app_events (told m PubUNINITIALIZED))
    \<and> sent_frames d [(EZSP_VERSION, [exp_ezsp_min_version m])] d'
    \<and> outbox_of d' = ([(EZSP_VERSION, [exp_ezsp_min_version m])], True) \<and> can_send d'"
proof -
  let ?c = "(EZSP_VERSION, [exp_ezsp_min_version m])"
  let ?out = "told m PubUNINITIALIZED @ [Send EZSP_VERSION [exp_ezsp_min_version m]]"
  obtain d' where d': "dongle_step good_port (Submit ?c) d = Inr d'" "can_send d'"
      "outbox_of d' = ([?c], True)" "sent_frames d [?c] d'"
    using dongle_step_refines [OF assms(1), of "Submit ?c"] assms(2)
    by (auto simp: outbox_of_def short_msg_def)
  have "list_all plain_effect ?out" by (simp add: told_def)
  then have "run_effects good_port ?out d log = Inr (d', log @ app_events (told m PubUNINITIALIZED))"
    using d'(1) by (simp add: plain_effects_run)
  moreover have "lib_dongle_state DONGLE_READY m = Inr (m\<lparr>lib_state := GETTING_EZSP_VERSION\<rparr>, ?out)"
    using connect_step [OF assms(3,4)] by simp
  moreover have "blp d' = blp d" using d'(1) sendCommand_blp by simp
  ultimately show ?thesis
    using d' by (intro exI [of _ d']) (simp add: ashCbInfo_def sys_obs_def sys_apply_def)
qed

text \<open>C7: The answer to the reset starts the library. When the adapter confirms the reset of a waiting
  system with one of the accepted codes, the frame being given in one piece, the system writes
  exactly one frame, the data frame of the command that asks for the lowest protocol version, and
  waits for its response; the dongle is in EZSP mode, the link is connected, and the library waits
  for the version.\<close>

theorem system_connects:
  assumes "can_send d" "outbox_of d = ([], False)" "\<not> blp_enabled (blp d)"
    and "in_msg (ashCodec (ash d)) = []" "\<not> stateConnected (ashCodec (ash d))" "pCb (ashCodec (ash d))"
    and "ackTimerCancelFunc (ashCodec (ash d))" "code \<in> {0x0B, 0x09, 0x02}"
    and "lib_observing m" "lib_state m = WAIT_DONGLE_READY"
  shows "\<exists>d' f. uart_input good_port (sys_obs good_port) (addByteStuffing (with_crc [0xC1, 2, code])) d (m, log) =
      Inr (d', m\<lparr>lib_state := GETTING_EZSP_VERSION\<rparr>, log @ app_events (told m PubUNINITIALIZED))
    \<and> ash_tx (ash d') = ash_tx (ash d) @ [f]
    \<and> f = addByteStuffing (with_crc (data_control (frmNum (ashCodec (ash d)))
            (lastReceivedByNEAckNum (ashCodec (ash d)))
          # randomize 0x42 (build_message d (EZSP_VERSION, [exp_ezsp_min_version m]))))
    \<and> outbox_of d' = ([(EZSP_VERSION, [exp_ezsp_min_version m])], True)
    \<and> lastKnownMode d' = EZSP_NCP \<and> isConnected (ash d')"
proof -
  let ?v = "(EZSP_VERSION, [exp_ezsp_min_version m])"
  have en: "enabled (ash d)" "\<not> in_callback (ackTimer (ash d))" using assms(1) by (simp_all add: can_send_def)
  let ?obs = "sys_obs good_port" and ?m = "m\<lparr>lib_state := GETTING_EZSP_VERSION\<rparr>"
  let ?log = "log @ app_events (told m PubUNINITIALIZED)"
  from rstack_frame [OF assms(4,5,6,8,7) en(2), of "ash_owner good_port ?obs" "(d, m, log)"]
  obtain t i where t: "\<not> in_callback t" and frame: "appendIncoming (codec_env (ash_owner good_port ?obs))
      (addByteStuffing (with_crc [0xC1, 2, code])) (ashCodec (ash d)) (ash d, d, m, log) =
    bindR (ash_owner good_port ?obs ASH_STATE_CONNECTED ((ash d)\<lparr>ackTimer := t,
        ashCodec := (ashCodec (ash d))\<lparr>stateConnected := True, in_msg := i\<rparr>\<rparr>) (d, m, log))
      (\<lambda>(a, w). Inr ([[]], (ashCodec a)\<lparr>in_msg := []\<rparr>, a, w))"
    by (elim exE conjE)
  let ?d1 = "d\<lparr>ash := (ash d)\<lparr>ackTimer := t,
        ashCodec := (ashCodec (ash d))\<lparr>stateConnected := True, in_msg := i\<rparr>\<rparr>\<rparr>"
  have "can_send ?d1" "outbox_of ?d1 = ([], False)"
    using assms(1,2) t by (simp_all add: can_send_def in_ezsp_mode_def outbox_of_def)
  from sys_connected [OF this assms(9,10), of log] obtain d2 where d2: "blp d2 = blp d"
    "ashCbInfo good_port ?obs ASH_STATE_CONNECTED ?d1 (m, log) = Inr (d2\<lparr>lastKnownMode := EZSP_NCP\<rparr>, ?m, ?log)"
    "sent_frames ?d1 [?v] d2" "outbox_of d2 = ([?v], True)" "can_send d2"
    by auto
  obtain f where f: "forgeDataFrame (build_message ?d1 ?v) (ashCodec (ash ?d1)) = Inr (f, ashCodec (ash d2))"
    "ash_tx (ash d2) = ash_tx (ash d) @ [f]"
    using d2(3) by (auto simp: sent_frames_def)
  let ?d3 = "d2\<lparr>lastKnownMode := EZSP_NCP, ash := (ash d2)\<lparr>ashCodec := (ashCodec (ash d2))\<lparr>in_msg := []\<rparr>\<rparr>\<rparr>"
  have "parse_message e [] = None" for e by (simp add: parse_message_def)
  then have "uart_input good_port ?obs (addByteStuffing (with_crc [0xC1, 2, code])) d (m, log) =
      Inr (?d3, ?m, ?log)"
    using en assms(3) d2(1,2)
    by (simp add: uart_input_def ash_handleInputData_def ash_appendIncoming_def frame ash_owner_def
        ash_listener_def dongle_handleInputData_def in_ezsp_mode_def blp_handleInputData_def)
  moreover have "build_message ?d1 ?v = build_message d ?v" by (rule build_message_cong) simp_all
  ultimately show ?thesis
    using f(2) d2(4) forgeDataFrame_InrD [OF f(1)]
    by (intro exI [of _ ?d3] exI [of _ f]) (simp add: outbox_of_def isConnected_def isInConnectedState_def)
qed

lemma version_frame:
  "addByteStuffing (with_crc (data_control 0 0 # randomize 0x42 [0, 0, 0, 6])) =
     [0x00, 0x42, 0x21, 0xA8, 0x52, 0xCD, 0x6E, 0x7E]"
  by code_simp

theorem system_connects_witness:
  "\<exists>d' m'. uart_input good_port (sys_obs good_port) (addByteStuffing (with_crc [0xC1, 2, 0x0B])) ready_dongle
      (new_lib (\<lambda>_. 0) 0\<lparr>lib_observing := True, lib_state := WAIT_DONGLE_READY\<rparr>, []) = Inr (d', m', [])
    \<and> ash_tx (ash d') = [[0x00, 0x42, 0x21, 0xA8, 0x52, 0xCD, 0x6E, 0x7E]]
    \<and> lib_state m' = GETTING_EZSP_VERSION"
proof -
  let ?m = "new_lib (\<lambda>_. 0) 0\<lparr>lib_observing := True, lib_state := WAIT_DONGLE_READY\<rparr>"
  have d: "in_msg (ashCodec (ash ready_dongle)) = []" "\<not> stateConnected (ashCodec (ash ready_dongle))"
    "pCb (ashCodec (ash ready_dongle))" "ackTimerCancelFunc (ashCodec (ash ready_dongle))"
    "\<not> blp_enabled (blp ready_dongle)" "frmNum (ashCodec (ash ready_dongle)) = 0"
    "lastReceivedByNEAckNum (ashCodec (ash ready_dongle)) = 0" "ash_tx (ash ready_dongle) = []"
    by (simp_all add: ready_dongle_def setUart_def new_dongle_def registerSerialWriter_def
        registerSerialReadObservable_def ash_enable_def ash_disable_def new_ash_driver_def
        setAckTimeoutCancelFunc_def new_codec_def blp_registerSerialWriter_def blp_disable_def
        blp_registerSerialReadObservable_def)
  have "build_message ready_dongle (EZSP_VERSION, [6]) = [0, 0, 0, 6]"
    by (simp add: build_message_def knownEzspProtocolVersionGE_def knownEzspProtocolVersionLT_def
        knownEzspProtocolVersion_def new_version_def EZSP_VERSION_def)
  then show ?thesis
    using system_connects [of ready_dongle "0x0B" ?m "[]"] d ready_dongle_can_send version_frame
    by (auto simp: outbox_of_def new_lib_def told_def)
qed

end
