(* ===== verification/DongleLink.thy ===== *)
theory DongleLink
  imports EzspDongle
begin

text \<open>
  The dongle as the owner of its drivers: whatever its observers do with it, as long as they
  reach the codec only through the operations of the dongle, the dongle meets the contract of an
  owner of the ASH driver, and so the codec stays well formed and is connected by nothing but
  incoming bytes.
\<close>

section \<open>Changes of the codec\<close>

text \<open>What an operation that does not receive anything may do to the codec.\<close>

definition link_kept :: "ash_driver \<Rightarrow> ash_driver \<Rightarrow> bool" where
  "link_kept a a' \<longleftrightarrow> in_msg (ashCodec a') = in_msg (ashCodec a)
     \<and> (codec_wf (ashCodec a) \<longrightarrow> codec_wf (ashCodec a'))
     \<and> (stateConnected (ashCodec a') \<longrightarrow> stateConnected (ashCodec a))"

lemma link_kept_codec [intro]: "ashCodec a' = ashCodec a \<Longrightarrow> link_kept a a'"
  by (simp add: link_kept_def)

lemma link_kept_trans [trans]: "link_kept a b \<Longrightarrow> link_kept b c \<Longrightarrow> link_kept a c"
  by (simp add: link_kept_def)

lemma link_kept_send: "sendDataFrame wr p a = Inr (ok, a') \<Longrightarrow> link_kept a a'"
proof -
  assume "sendDataFrame wr p a = Inr (ok, a')"
  from sendDataFrame_outcome [OF this] obtain f
    where f: "forgeDataFrame p (ashCodec a) = Inr (f, ashCodec a')" by blast
  from forgeDataFrame_wf [OF f] show ?thesis
    by (simp add: link_kept_def) (subst (1 2) forgeDataFrame_InrD(3) [OF f], simp)
qed

lemma link_kept_ack [simp]: "link_kept (snd (sendAckFrame wr a)) b \<longleftrightarrow> link_kept a b"
  by (simp add: link_kept_def sendAckFrame_def)

lemma link_kept_next: "sendNextMsg wr d = Inr d' \<Longrightarrow> link_kept (ash d) (ash d')"
  by (auto simp: sendNextMsg_def Let_def split: if_splits dest!: link_kept_send)

lemma link_kept_command: "sendCommand wr c p d = Inr d' \<Longrightarrow> link_kept (ash d) (ash d')"
  by (auto simp: sendCommand_def dest: link_kept_next)

lemma link_kept_response: "handleResponse wr c d = Inr d' \<Longrightarrow> link_kept (ash d) (ash d')"
  by (auto simp: handleResponse_def split: list.splits if_splits dest!: link_kept_next)

lemma link_kept_mode: "setMode md d = Inr d' \<Longrightarrow> link_kept (ash d) (ash d')"
  by (auto simp: setMode_def ash_disable_def split: if_splits)

section \<open>The contract of the observers\<close>

locale dongle_observers =
  fixes wr :: writer
    and obs :: "'u dongle_obs"
  assumes obs_link: "obs n d u = Inr (d', u') \<Longrightarrow> link_kept (ash d) (ash d')"
begin

lemma info_link: "ashCbInfo wr obs i d u = Inr (d', u') \<Longrightarrow> link_kept (ash d) (ash d')"
  by (cases i) (auto simp: ashCbInfo_def split: if_splits dest: obs_link dest!: link_kept_next link_kept_mode)

lemma received_link:
  "dongle_handleInputData wr obs p d u = Inr (d', u') \<Longrightarrow> link_kept (ash d) (ash d')"
  by (auto simp: dongle_handleInputData_def split: if_splits option.splits
      dest!: obs_link link_kept_response) (blast intro: link_kept_trans)

end

sublocale dongle_observers \<subseteq> owner: ash_owner_contract "ash_owner wr obs"
proof
  fix i a du a' du'
  assume "ash_owner wr obs i a du = Inr (a', du')"
  then have "link_kept a a'"
    by (auto simp: ash_owner_def split: prod.splits dest!: info_link)
  then show "in_msg (ashCodec a') = in_msg (ashCodec a)"
    "codec_wf (ashCodec a) \<Longrightarrow> codec_wf (ashCodec a')"
    "stateConnected (ashCodec a') \<Longrightarrow> stateConnected (ashCodec a)"
    by (simp_all add: link_kept_def)
qed

section \<open>Events of the dongle\<close>

text \<open>What the bootloader driver does to the world of its owner, it does by its callbacks.\<close>

lemma blp_world:
  assumes "blp_handleInputData env bytes b w = Inr (b', w')" "P w"
    and "\<And>p c v c' v'. env p c v = Inr (c', v') \<Longrightarrow> P v \<Longrightarrow> P v'"
  shows "P w'"
proof -
  have ready: "P v'" if "blp_ready_char env bytes c v = Inr (c', v')" "P v" for c v c' v'
    using that assms(3) by (auto simp: blp_ready_char_def split: if_splits option.splits)
  have prompt: "P v'" if "blp_parse_prompt env c v = Inr (c', v')" "P v" for c v c' v'
    using that assms(3) by (auto simp: blp_parse_prompt_def Let_def split: if_splits option.splits)
  show ?thesis
    using assms(1,2)
    by (auto simp: blp_handleInputData_def blp_appendIncoming_def split_def split: if_splits
        dest!: ready prompt)
qed

text \<open>The codec after an event: well formed if it was, and connected only if it was or if the
  event may connect it.\<close>

definition link_next :: "bool \<Rightarrow> dongle \<Rightarrow> dongle \<Rightarrow> bool" where
  "link_next connects d d' \<longleftrightarrow> (codec_wf (ashCodec (ash d)) \<longrightarrow> codec_wf (ashCodec (ash d'))
     \<and> (isConnected (ash d') \<longrightarrow> isConnected (ash d) \<or> connects))"

lemma link_next_kept: "link_kept (ash d) (ash d') \<Longrightarrow> link_next connects d d'"
  by (simp add: link_kept_def link_next_def isConnected_def isInConnectedState_def)

lemma link_next_trans: "link_next x d d1 \<Longrightarrow> link_next y d1 d2 \<Longrightarrow> link_next (x \<or> y) d d2"
  by (auto simp: link_next_def)

context dongle_observers
begin

lemma listener_link: "ash_listener wr obs p a du = Inr (a', du') \<Longrightarrow> link_kept a a'"
  by (auto simp: ash_listener_def split: prod.splits dest!: received_link)

lemma payloads_link:
  "notify_payloads (ash_listener wr obs) ps a du = Inr (a', du') \<Longrightarrow> link_kept a a'"
proof (induction ps arbitrary: a du)
  case (Cons p ps)
  obtain b dv where 1: "(if 128 < length p then Inr (a, du) else ash_listener wr obs p a du) = Inr (b, dv)"
    and 2: "notify_payloads (ash_listener wr obs) ps b dv = Inr (a', du')"
    using Cons.prems by auto
  have "link_kept a b" using 1 by (auto split: if_splits dest: listener_link)
  then show ?case using Cons.IH [OF 2] by (rule link_kept_trans)
qed auto

lemma reset_link:
  "dongle_reset wr obs d u = Inr (ok, d', u') \<Longrightarrow> link_next False d d'"
  using owner.sendResetNCPFrame_wf [of wr "ash_enable (ash d)"]
  by (auto simp: dongle_reset_def Let_def link_next_def ash_enable_def split: if_splits)

lemma bootloader_link:
  assumes "blp_owner wr obs p b (d, u) = Inr (b', d', u')"
  shows "link_next False d d'"
proof (cases p)
  case PromptExitToEzsp
  obtain d1 u1 ok d2 where 1: "obs BootloaderPrompt (d\<lparr>blp := b\<rparr>) u = Inr (d1, u1)"
    and 2: "dongle_reset wr obs (d1\<lparr>blp := blp_disable (snd (selectModeRun wr (blp d1))),
        lastKnownMode := EZSP_NCP, ash := ash_enable (ash d1)\<rparr>) u1 = Inr (ok, d2, u')" and "d' = d2"
    using assms PromptExitToEzsp by (auto simp: blp_owner_def Let_def split_def)
  have "link_kept (ash d) (ash_enable (ash d1))"
    using obs_link [OF 1] by (simp add: link_kept_def ash_enable_def)
  then show ?thesis
    using reset_link [OF 2] \<open>d' = d2\<close> by (auto simp: link_next_def link_kept_def isConnected_def isInConnectedState_def)
qed (use assms in \<open>auto simp: blp_owner_def Let_def split_def intro!: link_next_kept dest!: obs_link\<close>)

lemma input_link:
  assumes "uart_input wr obs bytes d u = Inr (d', u')"
  shows "link_next True d d'"
proof -
  obtain a d1 u1 b d2 where
    1: "ash_handleInputData (ash_owner wr obs) (ash_listener wr obs) bytes (ash d) (d, u) = Inr (a, d1, u1)" and
    2: "blp_handleInputData (blp_owner wr obs) bytes (blp d1) (d1\<lparr>ash := a\<rparr>, u1) = Inr (b, d2, u')" and
    d': "d' = d2\<lparr>blp := b\<rparr>"
    using assms by (auto simp: uart_input_def Let_def)
  have a: "codec_wf (ashCodec (ash d)) \<Longrightarrow> codec_wf (ashCodec a)"
    using 1 owner.codec.appendIncoming_wf
    by (auto simp: ash_handleInputData_def ash_appendIncoming_def link_kept_def
        split: if_splits dest!: payloads_link)
  have "link_next True (d1\<lparr>ash := a\<rparr>) (fst (d2, u'))"
    by (rule blp_world [OF 2, where P = "\<lambda>w. link_next True (d1\<lparr>ash := a\<rparr>) (fst w)"])
      (auto simp: link_next_def dest!: bootloader_link)
  then show ?thesis
    using a d' by (simp add: link_next_def)
qed

lemma timeout_link:
  "dongle_ash_timeout wr obs d u = Inr (d', u') \<Longrightarrow> link_next False d d'"
  using owner.cb_wf owner.cb_connected
  by (auto simp: dongle_ash_timeout_def ash_timeout_def ash_trigger_def link_next_def isConnected_def
      isInConnectedState_def split: option.splits if_splits) fastforce+

end

section \<open>The world of the observers\<close>

text \<open>What the codec does to the world of its owner, it does by its callbacks.\<close>

lemma codec_world:
  assumes env: "\<And>ev c v c' v'. env ev c v = Inr (c', v') \<Longrightarrow> P v \<Longrightarrow> P v'"
  shows "appendIncoming env bytes c w = Inr (ps, c', w') \<Longrightarrow> P w \<Longrightarrow> P w'"
    and "forgeResetNCPFrame env c w = Inr (f, c', w') \<Longrightarrow> P w \<Longrightarrow> P w'"
proof -
  have cancel: "P v'" if "cancel_ack_timer env c v = Inr (c', v')" "P v" for c v c' v'
    using that env by (auto simp: cancel_ack_timer_def split: if_splits)
  have call: "P v'" if "ash_callback env i c v = Inr (c', v')" "P v" for i c v c' v'
    using that env by (auto simp: ash_callback_def split: if_splits)
  have frame: "P v'" if "process_frame env m c v = Inr (p, c', v')" "P v" for m c v p c' v'
    using that by (auto simp: process_frame_def Let_def split: if_splits dest!: cancel call)
  have byte: "P v'" if "append_byte env b e c v = Inr (ps, e', c', v')" "P v" for b e c v ps e' c' v'
    using that by (auto simp: append_byte_def processInterFlagStream_def Let_def split: if_splits
        dest!: frame)
  have "append_loop env bytes e c w = Inr (ps, e', c', w') \<Longrightarrow> P w \<Longrightarrow> P w'" for e e' c w ps
  proof (induction bytes arbitrary: e c w ps)
    case (Cons b bs)
    then show ?case by (auto dest!: byte)
  qed simp
  then show "appendIncoming env bytes c w = Inr (ps, c', w') \<Longrightarrow> P w \<Longrightarrow> P w'"
    by (auto simp: appendIncoming_def)
  show "forgeResetNCPFrame env c w = Inr (f, c', w') \<Longrightarrow> P w \<Longrightarrow> P w'"
    by (auto simp: forgeResetNCPFrame_def dest!: cancel call)
qed

text \<open>Observers that in addition keep an invariant of their own.\<close>

locale steady_observers = dongle_observers wr obs
  for wr :: writer and obs :: "'u dongle_obs" +
  fixes ok :: "'u \<Rightarrow> bool"
  assumes obs_ok: "obs n d u = Inr (d', u') \<Longrightarrow> ok u \<Longrightarrow> ok u'"
begin

lemma info_ok: "ashCbInfo wr obs i d u = Inr (d', u') \<Longrightarrow> ok u \<Longrightarrow> ok u'"
  by (cases i) (auto simp: ashCbInfo_def split: if_splits dest: obs_ok)

lemma owner_ok: "ash_owner wr obs i a du = Inr (a', du') \<Longrightarrow> ok (snd du) \<Longrightarrow> ok (snd du')"
  by (auto simp: ash_owner_def split: prod.splits dest: info_ok)

lemma driver_ok:
  "codec_env (ash_owner wr obs) ev c aw = Inr (c', aw') \<Longrightarrow> ok (snd (snd aw)) \<Longrightarrow> ok (snd (snd aw'))"
  by (auto simp: codec_env_def Let_def split: prod.splits ash_event.splits dest!: owner_ok)

lemma reset_ok:
  assumes "dongle_reset wr obs d u = Inr (r, d', u')" "ok u"
  shows "ok u'"
proof -
  have "ok (snd w')" if resets: "sendResetNCPFrame wr (ash_owner wr obs) a w = Inr (r, a', w')" and "ok (snd w)"
    for a w r a' w'
  proof -
    obtain t f c a1 where forge:
      "forgeResetNCPFrame (codec_env (ash_owner wr obs)) (ashCodec a) (a\<lparr>ackTimer := t\<rparr>, w) = Inr (f, c, a1, w')"
      using sendResetNCPFrame_forges [OF resets] by blast
    from codec_world(2) [where P = "\<lambda>aw. ok (snd (snd aw))", OF driver_ok forge] that(2)
    show ?thesis by simp
  qed
  from this [where w = "(_, u)"] show ?thesis
    using assms by (fastforce simp: dongle_reset_def Let_def split: if_splits)
qed

lemma listener_ok: "ash_listener wr obs p a du = Inr (a', du') \<Longrightarrow> ok (snd du) \<Longrightarrow> ok (snd du')"
  by (auto simp: ash_listener_def dongle_handleInputData_def split: prod.splits if_splits option.splits
      dest: obs_ok)

lemma payloads_ok:
  "notify_payloads (ash_listener wr obs) ps a du = Inr (a', du') \<Longrightarrow> ok (snd du) \<Longrightarrow> ok (snd du')"
proof (induction ps arbitrary: a du)
  case (Cons p ps)
  obtain b dv where 1: "(if 128 < length p then Inr (a, du) else ash_listener wr obs p a du) = Inr (b, dv)"
    and 2: "notify_payloads (ash_listener wr obs) ps b dv = Inr (a', du')"
    using Cons.prems(1) by auto
  have "ok (snd dv)" using 1 Cons.prems(2) by (auto split: if_splits dest: listener_ok)
  then show ?case using Cons.IH [OF 2] by simp
qed simp

lemma bootloader_ok:
  "blp_owner wr obs p b du = Inr (b', du') \<Longrightarrow> ok (snd du) \<Longrightarrow> ok (snd du')"
  by (cases p) (auto simp: blp_owner_def Let_def split_def dest!: obs_ok reset_ok)

lemma input_ok:
  assumes "uart_input wr obs bytes d u = Inr (d', u')" "ok u"
  shows "ok u'"
proof -
  obtain a d1 u1 b d2 where
    1: "ash_handleInputData (ash_owner wr obs) (ash_listener wr obs) bytes (ash d) (d, u) = Inr (a, d1, u1)" and
    2: "blp_handleInputData (blp_owner wr obs) bytes (blp d1) (d1\<lparr>ash := a\<rparr>, u1) = Inr (b, d2, u')"
    using assms(1) by (auto simp: uart_input_def Let_def)
  have codec: "ok (snd (snd aw'))"
    if "appendIncoming (codec_env (ash_owner wr obs)) bytes c aw = Inr (ps, c', aw')" "ok (snd (snd aw))"
    for c aw ps c' aw'
    using codec_world(1) [where P = "\<lambda>aw. ok (snd (snd aw))", OF driver_ok that] .
  have "ok u1"
    using 1 assms(2) by (auto simp: ash_handleInputData_def ash_appendIncoming_def split: if_splits
        dest!: codec payloads_ok)
  then show ?thesis
    using blp_world [OF 2, where P = "\<lambda>w. ok (snd w)"] bootloader_ok by simp
qed

lemma timeout_ok: "dongle_ash_timeout wr obs d u = Inr (d', u') \<Longrightarrow> ok u \<Longrightarrow> ok u'"
  by (auto simp: dongle_ash_timeout_def ash_timeout_def ash_trigger_def
      split: option.splits if_splits dest!: owner_ok)

end

end
