(* ===== verification/LibLink.thy ===== *)
theory LibLink
  imports LibSystem DongleLink
begin

text \<open>
  The library as the observer of its dongle: it meets the contract of the dongle's observers and
  keeps its own invariant, so that the invariants of the library and of the codec hold together in
  every state of the whole system.
\<close>

section \<open>The library on its dongle\<close>

lemma effect_link: "run_effect wr e d log = Inr (d', log') \<Longrightarrow> link_kept (ash d) (ash d')"
  by (cases e) (auto simp: setFetchedEzspStackVersion_def setFetchedEzspVersionData_def
      setFetchedXncpData_def quiet_def dest!: link_kept_command link_kept_mode)

lemma effects_link: "run_effects wr es d log = Inr (d', log') \<Longrightarrow> link_kept (ash d) (ash d')"
proof (induction es arbitrary: d log)
  case (Cons e es)
  then show ?case by (auto dest!: effect_link intro: link_kept_trans)
qed auto

lemma apply_link: "sys_apply wr a d w = Inr (d', w') \<Longrightarrow> link_kept (ash d) (ash d')"
  by (auto simp: sys_apply_def split: prod.splits dest!: effects_link)

lemma apply_lib_do:
  "sys_apply wr (lib_do e) d (m, log) = Inr (d', m', log') \<Longrightarrow> lib_wf m \<Longrightarrow> lib_wf m'"
  by (auto simp: sys_apply_def intro: lib_wf_do)

lemma note_lib_do: "lib_note n = skip \<or> (\<exists>e. lib_note n = lib_do e)"
proof (cases n)
  case (DongleState st)
  have "lib_note n = lib_do (LibDongle st)" by (simp add: DongleState fun_eq_iff)
  then show ?thesis by blast
next
  case (EzspRx c p)
  have "lib_note n = lib_do (LibRx c p)" by (simp add: EzspRx fun_eq_iff)
  then show ?thesis by blast
next
  case FirmwareXModemXfr
  have "lib_note n = lib_do LibXmodem" by (simp add: FirmwareXModemXfr fun_eq_iff)
  then show ?thesis by blast
qed simp

definition world_wf :: "lib_world \<Rightarrow> bool" where
  "world_wf w \<longleftrightarrow> lib_wf (fst w)"

lemma apply_note_wf: "sys_obs wr n d w = Inr (d', w') \<Longrightarrow> world_wf w \<Longrightarrow> world_wf w'"
  using note_lib_do [of n] apply_lib_do [of wr _ d "fst w" "snd w" d' "fst w'" "snd w'"]
  by (auto simp: sys_obs_def world_wf_def) (auto simp: sys_apply_def skip_def split: prod.splits)

interpretation system: steady_observers wr "sys_obs wr" world_wf
  by unfold_locales (auto simp: sys_obs_def dest: apply_link apply_note_wf [unfolded sys_obs_def])

section \<open>Events of the system\<close>

fun receives :: "sys_event \<Rightarrow> bool" where
  "receives (SysBytes bytes) = True"
| "receives _ = False"

lemma start_link:
  assumes "lib_start wr d (m, log) = Inr (d', m', log')" "lib_wf m"
  shows "link_next False d d' \<and> lib_wf m'"
proof -
  obtain ok d1 m1 l1 where
    1: "dongle_reset wr (sys_obs wr) (setUart d) (start_before m, log) = Inr (ok, d1, m1, l1)" and
    2: "sys_apply wr (start_after ok) d1 (m1, l1) = Inr (d', m', log')"
    using assms(1) by (auto simp: lib_start_def)
  have "lib_wf m1"
    using system.reset_ok [OF 1] lib_wf_start(1) [OF assms(2)] by (simp add: world_wf_def)
  then have "lib_wf m'"
    using 2 by (auto simp: sys_apply_def intro: lib_wf_start(2))
  moreover have "link_next False (setUart d) d1" using system.reset_link [OF 1] .
  moreover have "link_next False d1 d'" using 2 by (intro link_next_kept apply_link)
  ultimately show ?thesis
    by (auto simp: link_next_def setUart_def registerSerialWriter_def registerSerialReadObservable_def
        isConnected_def isInConnectedState_def)
qed

lemma event_link:
  assumes "sys_do wr e d (m, log) = Inr (d', m', log')" "lib_wf m"
  shows "link_next (receives e) d d' \<and> lib_wf m'"
proof (cases e)
  case SysStart
  then show ?thesis using start_link assms by auto
next
  case (SysBytes bytes)
  then show ?thesis
    using assms system.input_link system.input_ok [of wr bytes d "(m, log)"] by (auto simp: world_wf_def)
next
  case SysAshTimeout
  then show ?thesis
    using assms system.timeout_link system.timeout_ok [of wr d "(m, log)"] by (auto simp: world_wf_def)
next
  case SysBlpTimeout
  then show ?thesis using assms by (auto simp: dongle_blp_timeout_def intro!: link_next_kept)
next
  case (SysRequest r)
  then show ?thesis
    using assms by (auto dest: apply_link apply_lib_do intro: link_next_kept)
qed

lemma events_link:
  "sys_run wr es d (m, log) = Inr (d', m', log') \<Longrightarrow> lib_wf m \<Longrightarrow>
     link_next (\<exists>e \<in> set es. receives e) d d' \<and> lib_wf m'"
proof (induction es arbitrary: d m log)
  case (Cons e es)
  then obtain d1 m1 l1 where 1: "sys_do wr e d (m, log) = Inr (d1, m1, l1)"
    and 2: "sys_run wr es d1 (m1, l1) = Inr (d', m', log')" by auto
  show ?case
    using event_link [OF 1 Cons.prems(2)] Cons.IH [OF 2] link_next_trans by auto
qed (auto simp: link_next_def)


lemma first_start:
  "\<exists>d' m' log'. sys_run good_port [SysStart] new_dongle (new_lib (\<lambda>_. 0) 0, []) = Inr (d', m', log')
     \<and> lib_state m' = WAIT_DONGLE_READY"
  by (simp add: lib_start_def dongle_reset_def sendResetNCPFrame_def forgeResetNCPFrame_def
      cancel_ack_timer_def ash_callback_def codec_env_def ash_owner_def ashCbInfo_def Let_def setUart_def
      new_dongle_def registerSerialWriter_def registerSerialReadObservable_def ash_enable_def
      ash_disable_def new_ash_driver_def new_codec_def setAckTimeoutCancelFunc_def new_timer_def
      stop_timer_def timer_stop_def sendAshFrame_def good_port_def start_visitor_def timer_start_def
      T_ACK_ASH_RESET_def sys_obs_def sys_apply_def lib_dongle_state_def handleDongleState_def
      start_before_def start_after_def new_lib_def setState_eq step_simps)


end
