(* ===== verification/Xmodem.thy ===== *)
theory Xmodem
  imports AshBytes
begin

text \<open>
  The transfer of a firmware image, \<open>src/spi/georges-menie-thuffir-xmodem\<close> (\<open>xmodem.c\<close>,
  \<open>ymodem.c\<close>). The functions block on the line, so the line is a value: the results of the calls
  of \<open>_inbyte\<close> in their order, a byte or a timeout, with nothing but timeouts behind the last, and the
  bytes given to \<open>_outbyte\<close>. The numbers are C's \<open>int\<close>, taken not to overflow.
\<close>

section \<open>The line\<close>

definition SOH :: u8 where "SOH = 0x01"
definition STX :: u8 where "STX = 0x02"
definition EOT :: u8 where "EOT = 0x04"
definition ACK :: u8 where "ACK = 0x06"
definition NAK :: u8 where "NAK = 0x15"
definition CAN :: u8 where "CAN = 0x18"
definition CTRLZ :: u8 where "CTRLZ = 0x1A"
definition MAXRETRANS :: int where "MAXRETRANS = 25"

text \<open>The characters by which a receiver asks for a transfer with a check code.\<close>

abbreviation char_C :: u8 where "char_C \<equiv> 0x43"
abbreviation char_G :: u8 where "char_G \<equiv> 0x47"

lemmas xm_consts = SOH_def STX_def EOT_def ACK_def NAK_def CAN_def CTRLZ_def

record xm_line =
  xl_in :: "u8 option list"
  xl_out :: byte_buffer

definition inbyte :: "xm_line \<Rightarrow> u8 option \<times> xm_line" where
  "inbyte l = (case xl_in l of [] \<Rightarrow> (None, l) | c # cs \<Rightarrow> (c, l\<lparr>xl_in := cs\<rparr>))"

definition outbytes :: "byte_buffer \<Rightarrow> xm_line \<Rightarrow> xm_line" where
  "outbytes cs l = l\<lparr>xl_out := xl_out l @ cs\<rparr>"

fun flush :: "u8 option list \<Rightarrow> u8 option list" where
  "flush [] = []"
| "flush (None # cs) = cs"
| "flush (Some c # cs) = flush cs"

definition flushinput :: "xm_line \<Rightarrow> xm_line" where
  "flushinput l = l\<lparr>xl_in := flush (xl_in l)\<rparr>"

section \<open>Check values\<close>

definition crc16_ccitt_byte :: "u16 \<Rightarrow> u8 \<Rightarrow> u16" where
  "crc16_ccitt_byte crc16 b =
     (let crc16 = drop_bit 8 crc16 OR push_bit 8 crc16;
          crc16 = crc16 XOR ucast b;
          crc16 = crc16 XOR drop_bit 4 (crc16 AND 0xff);
          crc16 = crc16 XOR push_bit 4 (push_bit 8 crc16)
      in crc16 XOR push_bit 1 (push_bit 4 (crc16 AND 0xff)))"

definition crc16_ccitt :: "byte_buffer \<Rightarrow> u16" where
  "crc16_ccitt buffer = foldl crc16_ccitt_byte 0 buffer"

definition checksum :: "byte_buffer \<Rightarrow> u8" where
  "checksum buf = foldl (+) 0 buf"

definition block_check :: "int \<Rightarrow> byte_buffer \<Rightarrow> nat \<Rightarrow> bool" where
  "block_check crc buf sz =
     (if crc \<noteq> 0
      then crc16_ccitt (take sz buf) = push_bit 8 (ucast (buf ! sz)) + ucast (buf ! (sz + 1))
      else checksum (take sz buf) = buf ! sz)"

section \<open>Reception\<close>

datatype rx_wait = RxStart u8 | RxEnd | RxCanceled | RxNothing

text \<open>\<open>for (retry = 0; retry < 16; ++retry)\<close>: waiting for the first byte of a block.\<close>

fun rx_wait_start :: "nat \<Rightarrow> u8 \<Rightarrow> xm_line \<Rightarrow> rx_wait \<times> xm_line" where
  "rx_wait_start 0 trychar l = (RxNothing, l)"
| "rx_wait_start (Suc retries) trychar l =
     (let (c, l) = inbyte (if trychar \<noteq> 0 then outbytes [trychar] l else l) in
      case c of
        None \<Rightarrow> rx_wait_start retries trychar l
      | Some c \<Rightarrow>
          if c = SOH \<or> c = STX then (RxStart c, l)
          else if c = EOT then (RxEnd, outbytes [ACK] l)
          else if c = CAN then
            (let (c, l) = inbyte l in
             if c = Some CAN then (RxCanceled, outbytes [ACK] (flushinput l))
             else rx_wait_start retries trychar l)
          else rx_wait_start retries trychar l)"

fun rx_bytes :: "nat \<Rightarrow> xm_line \<Rightarrow> byte_buffer option \<times> xm_line" where
  "rx_bytes 0 l = (Some [], l)"
| "rx_bytes (Suc n) l =
     (case inbyte l of
        (None, l) \<Rightarrow> (None, l)
      | (Some c, l) \<Rightarrow> (case rx_bytes n l of (cs, l) \<Rightarrow> (map_option ((#) c) cs, l)))"

text \<open>The condition under which the block in \<open>xbuff\<close> is taken. The cast of \<open>(unsigned char)packetno-1\<close>
  binds more tightly than the subtraction, whose result is an \<open>int\<close>.\<close>

definition block_accepted :: "int \<Rightarrow> u8 \<Rightarrow> nat \<Rightarrow> byte_buffer \<Rightarrow> bool" where
  "block_accepted crc packetno bufsz xbuff \<longleftrightarrow>
     xbuff ! 1 = NOT (xbuff ! 2)
     \<and> (xbuff ! 1 = packetno \<or> uint (xbuff ! 1) = uint packetno - 1)
     \<and> block_check crc (drop 3 xbuff) bufsz"

text \<open>The variables of the receiving loop, with what it has stored.\<close>

record xm_receiver =
  rx_crc :: int
  rx_trychar :: u8
  rx_packetno :: u8
  rx_len :: int
  rx_retrans :: int
  rx_stored :: byte_buffer

definition store_block :: "int \<Rightarrow> nat \<Rightarrow> byte_buffer \<Rightarrow> xm_receiver \<Rightarrow> xm_receiver" where
  "store_block destsz bufsz xbuff r =
     (if xbuff ! 1 = rx_packetno r then
        let count = min (destsz - rx_len r) (int bufsz);
            r = (if 0 < count then r\<lparr>rx_stored := rx_stored r @ take (nat count) (drop 3 xbuff),
                                     rx_len := rx_len r + count\<rparr>
                 else r)
        in r\<lparr>rx_packetno := rx_packetno r + 1, rx_retrans := MAXRETRANS + 1\<rparr>
      else r)"

definition give_up :: "xm_line \<Rightarrow> xm_line" where
  "give_up l = outbytes [CAN, CAN, CAN] (flushinput l)"

text \<open>One round of the loop: the end of the function, or the variables for the next round.\<close>

type_synonym xm_result = "int \<times> byte_buffer \<times> xm_line"

definition take_block :: "int \<Rightarrow> bool \<Rightarrow> u8 \<Rightarrow> xm_receiver \<Rightarrow> xm_line \<Rightarrow> xm_result + xm_receiver \<times> xm_line" where
  "take_block destsz mode c r l =
     (let bufsz = (if c = STX then 1024 else 128); r = r\<lparr>rx_trychar := 0\<rparr> in
      case rx_bytes (bufsz + (if rx_crc r \<noteq> 0 then 1 else 0) + 3) l of
        (None, l) \<Rightarrow> Inr (r, outbytes [NAK] (flushinput l))
      | (Some b, l) \<Rightarrow>
          if block_accepted (rx_crc r) (rx_packetno r) bufsz (c # b) then
            let r = store_block destsz bufsz (c # b) r; r = r\<lparr>rx_retrans := rx_retrans r - 1\<rparr> in
            if rx_retrans r \<le> 0 then Inl (-3, rx_stored r, give_up l)
            else let l = (if rx_crc r \<noteq> 2 then outbytes [ACK] l else l) in
              if mode then Inl (rx_len r, rx_stored r, l) else Inr (r, l)
          else Inr (r, outbytes [NAK] (flushinput l)))"

definition receive_round :: "int \<Rightarrow> bool \<Rightarrow> xm_receiver \<Rightarrow> xm_line \<Rightarrow> xm_result + xm_receiver \<times> xm_line" where
  "receive_round destsz mode r l =
     (case rx_wait_start 16 (rx_trychar r) l of
        (RxEnd, l) \<Rightarrow> Inl (rx_len r, rx_stored r, l)
      | (RxCanceled, l) \<Rightarrow> Inl (-1, rx_stored r, l)
      | (RxNothing, l) \<Rightarrow>
          if rx_trychar r = char_G then Inr (r\<lparr>rx_trychar := char_C, rx_crc := 1\<rparr>, l)
          else if rx_trychar r = char_C then Inr (r\<lparr>rx_trychar := NAK, rx_crc := 0\<rparr>, l)
          else Inl (-2, rx_stored r, give_up l)
      | (RxStart c, l) \<Rightarrow> take_block destsz mode c r l)"

lemma inbyte_length: "inbyte l = (c, l') \<Longrightarrow>
    length (xl_in l') \<le> length (xl_in l) \<and> (c \<noteq> None \<longrightarrow> length (xl_in l') < length (xl_in l))"
  by (auto simp: inbyte_def split: list.splits)

lemma flush_length: "length (flush cs) \<le> length cs"
  by (induction cs rule: flush.induct) auto

lemma line_lengths [simp]:
  "length (xl_in (outbytes cs l)) = length (xl_in l)"
  "length (xl_in (flushinput l)) \<le> length (xl_in l)"
  by (simp_all add: outbytes_def flushinput_def flush_length)

lemma rx_wait_start_length:
  "rx_wait_start n t l = (w, l') \<Longrightarrow>
     length (xl_in l') \<le> length (xl_in l) \<and> ((\<exists>c. w = RxStart c) \<longrightarrow> length (xl_in l') < length (xl_in l))"
proof (induction n arbitrary: l l')
  case (Suc n)
  obtain c l1 where 1: "inbyte (if t \<noteq> 0 then outbytes [t] l else l) = (c, l1)" by fastforce
  then have len1: "length (xl_in l1) \<le> length (xl_in l)" "c \<noteq> None \<Longrightarrow> length (xl_in l1) < length (xl_in l)"
    by (auto dest!: inbyte_length split: if_splits)
  obtain c2 l2 where 2: "inbyte l1 = (c2, l2)" by fastforce
  then have len2: "length (xl_in l2) \<le> length (xl_in l1)" using inbyte_length by blast
  show ?case
  proof (cases c)
    case None
    then show ?thesis using Suc.prems Suc.IH [of l1 l'] 1 len1(1) by (auto simp: Let_def)
  next
    case (Some x)
    have canceled: ?thesis if "w = RxCanceled" "l' = outbytes [ACK] (flushinput l2)"
      using that len1 len2 flush_length [of "xl_in l2"] by (simp add: flushinput_def)
    consider "x = SOH \<or> x = STX" | "x = EOT" | "x = CAN" "c2 = Some CAN" | "x = CAN" "c2 \<noteq> Some CAN"
      | "x \<notin> {SOH, STX, EOT, CAN}" by blast
    then show ?thesis
    proof cases
      case 3
      then show ?thesis using Suc.prems Some 1 2 by (intro canceled) (simp_all add: Let_def xm_consts)
    next
      case 4
      then have "rx_wait_start n t l2 = (w, l')"
        using Suc.prems Some 1 2 by (simp add: Let_def xm_consts)
      then show ?thesis using Suc.IH len1 len2 by fastforce
    next
      case 5
      then have "rx_wait_start n t l1 = (w, l')"
        using Suc.prems Some 1 by (simp add: Let_def)
      then show ?thesis using Suc.IH len1 by fastforce
    qed (use Suc.prems Some 1 len1 in \<open>auto simp: Let_def xm_consts\<close>)
  qed
qed simp

lemma rx_bytes_length: "rx_bytes n l = (b, l') \<Longrightarrow> length (xl_in l') \<le> length (xl_in l)"
proof (induction n arbitrary: l l' b)
  case (Suc n)
  obtain c l1 where 1: "inbyte l = (c, l1)" by fastforce
  obtain b2 l2 where 2: "rx_bytes n l1 = (b2, l2)" by fastforce
  show ?case
    using Suc.prems Suc.IH [OF 2] inbyte_length [OF 1] 1 2 by (auto split: option.splits)
qed simp

lemma take_block_length:
  assumes "take_block destsz mode c r l = Inr (r', l')"
  shows "length (xl_in l') \<le> length (xl_in l)"
proof -
  obtain b l1 where 1: "rx_bytes ((if c = STX then 1024 else 128) + (if rx_crc r \<noteq> 0 then 1 else 0) + 3) l = (b, l1)"
    by fastforce
  have "length (xl_in l') \<le> length (xl_in l1)"
    using assms 1 line_lengths(2) [of l1]
    by (cases b) (auto simp del: line_lengths(2) simp: take_block_def Let_def split: if_splits)
  then show ?thesis using rx_bytes_length [OF 1] by simp
qed

text \<open>A round that goes on takes something from the line or turns to a simpler kind of check.\<close>

definition trychar_rank :: "u8 \<Rightarrow> nat" where
  "trychar_rank c = (if c = char_G then 2 else if c = char_C then 1 else 0)"

lemma receive_round_progress:
  assumes "receive_round destsz mode r l = Inr (r', l')"
  shows "length (xl_in l') < length (xl_in l)
    \<or> length (xl_in l') = length (xl_in l) \<and> trychar_rank (rx_trychar r') < trychar_rank (rx_trychar r)"
proof -
  obtain w l1 where 1: "rx_wait_start 16 (rx_trychar r) l = (w, l1)" by fastforce
  show ?thesis
  proof (cases "\<exists>c. w = RxStart c")
    case True
    then show ?thesis
      using assms 1 rx_wait_start_length [OF 1] by (auto simp: receive_round_def dest!: take_block_length)
  next
    case False
    then show ?thesis
      using assms 1 rx_wait_start_length [OF 1]
      by (auto simp: receive_round_def trychar_rank_def NAK_def split: rx_wait.splits if_splits)
  qed
qed

function receive_loop :: "int \<Rightarrow> bool \<Rightarrow> xm_receiver \<Rightarrow> xm_line \<Rightarrow> xm_result" where
  "receive_loop destsz mode r l =
     (case receive_round destsz mode r l of
        Inl res \<Rightarrow> res
      | Inr (r, l) \<Rightarrow> receive_loop destsz mode r l)"
  by pat_completeness auto
termination
  by (relation "measures [\<lambda>(destsz, mode, r, l). length (xl_in l),
      \<lambda>(destsz, mode, r, l). trychar_rank (rx_trychar r)]") (auto dest: receive_round_progress)

declare receive_loop.simps [simp del]

definition XmodemReceive :: "int \<Rightarrow> int \<Rightarrow> bool \<Rightarrow> xm_line \<Rightarrow> xm_result" where
  "XmodemReceive destsz crc mode l =
     receive_loop destsz mode
       \<lparr>rx_crc = crc, rx_trychar = (if crc = 2 then char_G else if crc \<noteq> 0 then char_C else NAK),
        rx_packetno = (if mode then 0 else 1), rx_len = 0, rx_retrans = MAXRETRANS, rx_stored = []\<rparr> l"

section \<open>Transmission\<close>

datatype tx_start = TxMode int | TxCanceled | TxNoSync

text \<open>Waiting for the receiver, which says what kind of check it wants.\<close>

fun tx_wait_start :: "nat \<Rightarrow> xm_line \<Rightarrow> tx_start \<times> xm_line" where
  "tx_wait_start 0 l = (TxNoSync, l)"
| "tx_wait_start (Suc retries) l =
     (let (c, l) = inbyte l in
      case c of
        None \<Rightarrow> tx_wait_start retries l
      | Some c \<Rightarrow>
          if c = char_G then (TxMode 2, l)
          else if c = char_C then (TxMode 1, l)
          else if c = NAK then (TxMode 0, l)
          else if c = CAN then
            (let (c, l) = inbyte l in
             if c = Some CAN then (TxCanceled, flushinput (outbytes [ACK] l))
             else tx_wait_start retries l)
          else tx_wait_start retries l)"

text \<open>What fills the data of a block: \<open>fetchChunk\<close>, or a copy of the memory behind \<open>ctx\<close>. It is given
  the number of bytes sent before and the number of bytes it may write.\<close>

type_synonym xm_source = "int \<Rightarrow> int \<Rightarrow> byte_buffer"

definition memory_source :: "byte_buffer \<Rightarrow> xm_source" where
  "memory_source src len c = take (nat c) (drop (nat len) src)"

definition block_size :: "int \<Rightarrow> bool \<Rightarrow> int \<Rightarrow> nat" where
  "block_size srcsz onek len = (if onek \<and> 128 < srcsz - len then 1024 else 128)"

definition build_block ::
    "xm_source \<Rightarrow> int \<Rightarrow> bool \<Rightarrow> bool \<Rightarrow> int \<Rightarrow> u8 \<Rightarrow> int \<Rightarrow> byte_buffer" where
  "build_block fetch srcsz onek mode crc packetno len =
     (let bufsz = block_size srcsz onek len;
          c = min (srcsz - len) (int bufsz);
          chunk = fetch len c;
          data = chunk @ replicate (bufsz - length chunk) (if mode then 0 else CTRLZ)
      in [if onek \<and> 128 < srcsz - len then STX else SOH, packetno, NOT packetno] @ data
         @ (if crc \<noteq> 0 then let ccrc = crc16_ccitt data in [ucast (drop_bit 8 ccrc), ucast ccrc]
            else [checksum data]))"

datatype tx_block = TxAcked | TxBlockCanceled | TxFailed

fun tx_send_block :: "nat \<Rightarrow> int \<Rightarrow> byte_buffer \<Rightarrow> xm_line \<Rightarrow> tx_block \<times> xm_line" where
  "tx_send_block 0 crc xbuff l = (TxFailed, flushinput (outbytes [CAN, CAN, CAN] l))"
| "tx_send_block (Suc retries) crc xbuff l =
     (let l = outbytes xbuff l; (c, l) = (if crc = 2 then (Some ACK, l) else inbyte l) in
      if c = Some ACK then (TxAcked, l)
      else if c = Some CAN then
        (let (c, l) = inbyte l in
         if c = Some CAN then (TxBlockCanceled, flushinput (outbytes [ACK] l))
         else tx_send_block retries crc xbuff l)
      else tx_send_block retries crc xbuff l)"

fun tx_send_eot :: "nat \<Rightarrow> xm_line \<Rightarrow> bool \<times> xm_line" where
  "tx_send_eot 0 l = (False, l)"
| "tx_send_eot (Suc retries) l =
     (case inbyte (outbytes [EOT] l) of (c, l) \<Rightarrow>
        if c = Some ACK then (True, l) else tx_send_eot retries l)"

lemma block_size_pos: "0 < block_size srcsz onek len"
  by (simp add: block_size_def)

function transmit_loop ::
    "xm_source \<Rightarrow> int \<Rightarrow> bool \<Rightarrow> bool \<Rightarrow> int \<Rightarrow> u8 \<Rightarrow> int \<Rightarrow> xm_line \<Rightarrow> int \<times> xm_line" where
  "transmit_loop fetch srcsz onek mode crc packetno len l =
     (if 0 < srcsz - len then
        (case tx_send_block (nat MAXRETRANS) crc (build_block fetch srcsz onek mode crc packetno len) l of
           (TxAcked, l) \<Rightarrow> transmit_loop fetch srcsz onek mode crc (packetno + 1)
                            (len + int (block_size srcsz onek len)) l
         | (TxBlockCanceled, l) \<Rightarrow> (-1, l)
         | (TxFailed, l) \<Rightarrow> (-4, l))
      else if mode then (len, l)
      else (case tx_send_eot 10 l of
              (True, l) \<Rightarrow> (len, l)
            | (False, l) \<Rightarrow> (-5, flushinput l)))"
  by pat_completeness auto
termination
  by (relation "measure (\<lambda>(fetch, srcsz, onek, mode, crc, packetno, len, l). nat (srcsz - len))")
    (auto simp: block_size_pos)

declare transmit_loop.simps [simp del]

definition XmodemTransmit :: "xm_source \<Rightarrow> int \<Rightarrow> bool \<Rightarrow> bool \<Rightarrow> xm_line \<Rightarrow> int \<times> xm_line" where
  "XmodemTransmit fetch srcsz onek mode l =
     (case tx_wait_start 16 l of
        (TxMode crc, l) \<Rightarrow> transmit_loop fetch srcsz onek mode crc (if mode then 0 else 1) 0 l
      | (TxCanceled, l) \<Rightarrow> (-1, l)
      | (TxNoSync, l) \<Rightarrow> (-2, flushinput (outbytes [CAN, CAN, CAN] l)))"

section \<open>YMODEM\<close>

fun decimal :: "nat \<Rightarrow> byte_buffer" where
  "decimal n = (if n < 10 then [] else decimal (n div 10)) @ [of_nat (0x30 + n mod 10)]"

declare decimal.simps [simp del]

text \<open>\<open>snprintf\<close> with the format \<open>%s%c%u\<close>, the character being zero; it ends what it writes with a
  zero and cuts it to the size of the buffer.\<close>

definition YmodemTransmitHeader :: "byte_buffer \<Rightarrow> nat \<Rightarrow> xm_source" where
  "YmodemTransmitHeader filename filesize len xmodemSize =
     take (nat xmodemSize - 1) (filename @ [0] @ decimal filesize) @ (if 0 < xmodemSize then [0] else [])"

definition YmodemDoNothing :: xm_source where
  "YmodemDoNothing len xmodemSize = []"

definition YmodemTransmit :: "byte_buffer \<Rightarrow> xm_source \<Rightarrow> nat \<Rightarrow> xm_line \<Rightarrow> int \<times> xm_line" where
  "YmodemTransmit fileName fetch filesize l =
     (case XmodemTransmit (YmodemTransmitHeader fileName filesize) 128 False True l of (tmp, l) \<Rightarrow>
        if tmp < 0 then (tmp, l)
        else case XmodemTransmit fetch (int filesize) True False l of (res, l) \<Rightarrow>
          if res < 0 then (res, l)
          else case XmodemTransmit YmodemDoNothing 128 False True l of (tmp, l) \<Rightarrow>
            if tmp < 0 then (tmp, l) else (res, l))"

end
