(* ===== verification/XmodemProps.thy ===== *)
theory XmodemProps
  imports Xmodem
begin

text \<open>
  Correctness of the transfer: the check value is that of the register which ASH uses too, the
  receiver stays inside its buffer, sender and receiver hand an image over completely, and what
  happens to repeated and damaged blocks.
\<close>

section \<open>Check values\<close>

lemma ucast_xor_byte: "ucast (a XOR b) = (ucast a XOR ucast b :: u16)" for a b :: u8
  by (rule bit_word_eqI) (auto simp: bit_simps)

text \<open>The whole register is a function of the byte that leaves it and of the bits that stay.\<close>

definition crc16_table :: "u8 \<Rightarrow> u16" where
  "crc16_table t = ash_crc.run 0 (word_bits t)"

lemma run_byte: "ash_crc.run r (word_bits v) = push_bit 8 r XOR crc16_table (u16_get_hi_u8 r XOR v)"
proof -
  have top: "ash_crc.run r (word_bits (u16_get_hi_u8 r)) = push_bit 8 r"
  proof -
    have "map (bit r) (rev [16 - 8..<16]) = word_bits (u16_get_hi_u8 r)"
      by (simp add: word_bits_def byte_defs bit_simps upt_rec)
    then show ?thesis using ash_crc.run_top_bits [of 8 r] by simp
  qed
  have "map2 (\<noteq>) (word_bits (u16_get_hi_u8 r)) (word_bits (u16_get_hi_u8 r XOR v)) = word_bits v"
    by (rule nth_equalityI) (auto simp: word_bits_def rev_nth bit_simps)
  then show ?thesis
    using ash_crc.run_xor [of "word_bits (u16_get_hi_u8 r)" "word_bits (u16_get_hi_u8 r XOR v)" r 0] top
    by (simp add: crc16_table_def)
qed

lemma and_ff: "c AND 0xff = take_bit 8 c" for c :: u16
  by (simp add: take_bit_eq_mask mask_numeral)

definition crc16_mix :: "u16 \<Rightarrow> u16" where
  "crc16_mix c =
     (let c = c XOR drop_bit 4 (take_bit 8 c); c = c XOR push_bit 12 c
      in c XOR push_bit 5 (take_bit 8 c))"

lemma crc16_mix_xor: "crc16_mix (c XOR d) = crc16_mix c XOR crc16_mix d"
  by (simp add: crc16_mix_def Let_def push_bit_xor drop_bit_xor take_bit_xor ac_simps)

lemma crc16_mix_high: "crc16_mix (push_bit 8 r) = push_bit 8 r"
proof -
  have "take_bit 8 (push_bit 8 r) = 0" "push_bit 12 (push_bit 8 r) = 0"
    by (rule bit_word_eqI, simp add: bit_simps)+
  then show ?thesis by (simp only: crc16_mix_def Let_def) simp
qed

lemma crc16_ccitt_byte_mix:
  "crc16_ccitt_byte r v = push_bit 8 r XOR crc16_mix (ucast (u16_get_hi_u8 r XOR v))"
proof -
  have "drop_bit 8 r OR push_bit 8 r = push_bit 8 r XOR ucast (u16_get_hi_u8 r)"
    by (rule bit_word_eqI) (auto simp: byte_defs bit_simps dest: bit_imp_le_length)
  then have "(drop_bit 8 r OR push_bit 8 r) XOR ucast v = push_bit 8 r XOR ucast (u16_get_hi_u8 r XOR v)"
    by (simp add: ucast_xor_byte ac_simps)
  moreover have "crc16_ccitt_byte r v = crc16_mix ((drop_bit 8 r OR push_bit 8 r) XOR ucast v)"
    by (simp add: crc16_ccitt_byte_def crc16_mix_def Let_def and_ff)
  ultimately show ?thesis by (simp add: crc16_mix_xor crc16_mix_high)
qed

text \<open>Both sides are linear, so they agree when they agree on the powers of two.\<close>

lemma linear_byte_eqI:
  fixes f g :: "u8 \<Rightarrow> u16"
  assumes "\<And>a b. f (a XOR b) = f a XOR f b" "\<And>a b. g (a XOR b) = g a XOR g b"
    and "\<And>n. n < 8 \<Longrightarrow> f (push_bit n 1) = g (push_bit n 1)"
  shows "f t = g t"
proof -
  have zero: "f 0 = 0" "g 0 = 0"
    using assms(1) [of 0 0] assms(2) [of 0 0] by simp_all
  have "f (take_bit n t) = g (take_bit n t)" if "n \<le> 8" for n
    using that
  proof (induction n)
    case (Suc n)
    have "take_bit (Suc n) t = take_bit n t XOR (if bit t n then push_bit n 1 else 0)"
      by (rule bit_word_eqI) (auto simp: bit_simps less_Suc_eq)
    then show ?case using Suc assms(3) [of n] by (simp add: assms(1,2) zero)
  qed (simp add: zero)
  moreover have "take_bit 8 t = t" by (rule bit_word_eqI) (simp add: bit_simps)
  ultimately show ?thesis by (metis order_refl)
qed

lemma crc16_table_xor: "crc16_table (a XOR b) = crc16_table a XOR crc16_table b"
proof -
  have "map2 (\<noteq>) (word_bits a) (word_bits b) = word_bits (a XOR b)"
    by (rule nth_equalityI) (auto simp: word_bits_def rev_nth bit_simps)
  then show ?thesis
    using ash_crc.run_xor [of "word_bits a" "word_bits b" 0 0] by (simp add: crc16_table_def)
qed

lemma crc16_powers:
  "list_all (\<lambda>n. crc16_mix (ucast (push_bit n 1 :: u8)) = foldl crc_bit 0 (word_bits (push_bit n 1 :: u8)))
     [0..<8]"
  by code_simp

lemma crc16_mix_table: "crc16_mix (ucast t) = crc16_table t"
proof (rule linear_byte_eqI)
  fix n :: nat
  assume "n < 8"
  then show "crc16_mix (ucast (push_bit n 1 :: u8)) = crc16_table (push_bit n 1)"
    using crc16_powers by (simp add: crc16_table_def ash_crc.run_def list_all_iff)
qed (simp_all add: crc16_table_xor crc16_mix_xor ucast_xor_byte)

lemma crc16_ccitt_run: "crc16_ccitt buf = ash_crc.run 0 (message_bits buf)"
proof -
  have "foldl crc16_ccitt_byte r buf = ash_crc.run r (message_bits buf)" for r
    by (induction buf arbitrary: r) (simp_all add: run_byte crc16_ccitt_byte_mix crc16_mix_table)
  then show ?thesis by (simp add: crc16_ccitt_def)
qed

lemma crc16_own_check:
  "crc16_ccitt (buf @ [ucast (drop_bit 8 (crc16_ccitt buf)), ucast (crc16_ccitt buf)]) = 0"
  using ash_crc.residue [of 0 "message_bits buf"]
  by (simp add: crc16_ccitt_run u16_bits_split byte_defs)

lemma check_is_residue:
  assumes "length buf = n + 2" "crc16_ccitt (take n buf) = push_bit 8 (ucast (buf ! n)) + ucast (buf ! (n + 1))"
  shows "crc16_ccitt buf = 0"
proof -
  let ?w = "crc16_ccitt (take n buf)"
  have "push_bit 8 (ucast h) + ucast l = dble_u8_to_u16 h l" for h l :: u8
    unfolding byte_defs by (rule disjunctive_add) (auto simp: bit_simps dest: bit_imp_le_length)
  moreover have "ucast (drop_bit 8 (dble_u8_to_u16 h l)) = h" "ucast (dble_u8_to_u16 h l) = l" for h l
    by (rule bit_word_eqI; auto simp: byte_defs bit_simps dest: bit_imp_le_length)+
  ultimately have "ucast (drop_bit 8 ?w) = buf ! n" "ucast ?w = buf ! (n + 1)"
    unfolding assms(2) by simp_all
  moreover have "buf = take n buf @ [buf ! n, buf ! (n + 1)]"
    using assms(1) by (intro nth_equalityI) (auto simp: nth_append less_Suc_eq)
  ultimately show ?thesis
    using crc16_own_check [of "take n buf"] by simp
qed

section \<open>Reading the line\<close>

definition arriving :: "byte_buffer \<Rightarrow> u8 option list \<Rightarrow> xm_line \<Rightarrow> bool" where
  "arriving bs rest l \<longleftrightarrow> xl_in l = map Some bs @ rest"

lemma inbyte_Some: "xl_in l = Some c # cs \<Longrightarrow> inbyte l = (Some c, l\<lparr>xl_in := cs\<rparr>)"
  by (simp add: inbyte_def)

lemma outbytes_simps [simp]:
  "xl_in (outbytes cs l) = xl_in l"
  "xl_out (outbytes cs l) = xl_out l @ cs"
  "(outbytes cs l)\<lparr>xl_in := i\<rparr> = outbytes cs (l\<lparr>xl_in := i\<rparr>)"
  "outbytes ds (outbytes cs l) = outbytes (cs @ ds) l"
  "outbytes [] l = l"
  by (simp_all add: outbytes_def)

lemma rx_bytes_arrived:
  "xl_in l = map Some bs @ rest \<Longrightarrow> rx_bytes (length bs) l = (Some bs, l\<lparr>xl_in := rest\<rparr>)"
proof (induction bs arbitrary: l)
  case (Cons b bs)
  then show ?case by (simp add: inbyte_Some)
qed simp

section \<open>Blocks\<close>

text \<open>A block as both sides see it.\<close>

definition block :: "int \<Rightarrow> u8 \<Rightarrow> byte_buffer \<Rightarrow> byte_buffer" where
  "block crc n data =
     [if length data = 1024 then STX else SOH, n, NOT n] @ data
     @ (if crc \<noteq> 0 then [ucast (drop_bit 8 (crc16_ccitt data)), ucast (crc16_ccitt data)]
        else [checksum data])"

definition block_data :: "byte_buffer \<Rightarrow> bool" where
  "block_data data \<longleftrightarrow> length data \<in> {128, 1024}"

lemma checks_read:
  assumes "data \<noteq> []"
  shows "block_check 0 (data @ [checksum data]) (length data)"
    and "crc \<noteq> 0 \<Longrightarrow> block_check crc (data @ [ucast (drop_bit 8 (crc16_ccitt data)), ucast (crc16_ccitt data)]) (length data)"
proof -
  show "block_check 0 (data @ [checksum data]) (length data)" by (simp add: block_check_def)
  have "w = push_bit 8 (ucast (ucast (drop_bit 8 w) :: u8)) + ucast (ucast w :: u8)" for w :: u16
  proof -
    have "push_bit 8 (ucast (ucast (drop_bit 8 w) :: u8)) + ucast (ucast w :: u8)
        = push_bit 8 (ucast (ucast (drop_bit 8 w) :: u8)) OR (ucast (ucast w :: u8) :: u16)"
      by (rule disjunctive_add) (auto simp: bit_simps)
    also have "\<dots> = w"
      by (rule bit_word_eqI) (auto simp: bit_simps)
    finally show ?thesis by simp
  qed
  then show "crc \<noteq> 0 \<Longrightarrow> block_check crc (data @ [ucast (drop_bit 8 (crc16_ccitt data)), ucast (crc16_ccitt data)]) (length data)"
    by (simp add: block_check_def nth_append)
qed

text \<open>The receiver when a block arrives whose number is expected.\<close>

definition received :: "int \<Rightarrow> byte_buffer \<Rightarrow> xm_receiver \<Rightarrow> xm_receiver" where
  "received destsz data r =
     r\<lparr>rx_trychar := 0, rx_packetno := rx_packetno r + 1, rx_retrans := MAXRETRANS,
       rx_stored := rx_stored r @ take (nat (destsz - rx_len r)) data,
       rx_len := (if rx_len r < destsz then min destsz (rx_len r + int (length data)) else rx_len r)\<rparr>"

lemma take_block_expected:
  assumes "block_data data" "xl_in l = map Some (tl (block (rx_crc r) (rx_packetno r) data)) @ rest"
  shows "take_block destsz False (hd (block (rx_crc r) (rx_packetno r) data)) r l =
    Inr (received destsz data r, outbytes (if rx_crc r \<noteq> 2 then [ACK] else []) (l\<lparr>xl_in := rest\<rparr>))"
proof -
  let ?c = "hd (block (rx_crc r) (rx_packetno r) data)" and ?b = "tl (block (rx_crc r) (rx_packetno r) data)"
  let ?sz = "if ?c = STX then 1024 else 128 :: nat"
  have sz: "?sz = length data"
    using assms(1) by (auto simp: block_def block_data_def xm_consts)
  have "length ?b = ?sz + (if rx_crc r \<noteq> 0 then 1 else 0) + 3"
    unfolding sz by (simp add: block_def)
  then have read: "rx_bytes (?sz + (if rx_crc r \<noteq> 0 then 1 else 0) + 3) l = (Some ?b, l\<lparr>xl_in := rest\<rparr>)"
    using rx_bytes_arrived [OF assms(2)] by simp
  have "data \<noteq> []" using assms(1) by (auto simp: block_data_def)
  then have acc: "block_accepted (rx_crc r) (rx_packetno r) (length data) (?c # ?b)"
    using checks_read [of data] by (simp add: block_accepted_def block_def)
  have store: "store_block destsz (length data) (?c # ?b) (r\<lparr>rx_trychar := 0\<rparr>) =
      (received destsz data r)\<lparr>rx_retrans := MAXRETRANS + 1\<rparr>"
    using \<open>data \<noteq> []\<close>
    by (auto simp: store_block_def received_def block_def Let_def min_def)
  have again: "(received destsz data r)\<lparr>rx_retrans := MAXRETRANS\<rparr> = received destsz data r"
    "rx_crc (received destsz data r) = rx_crc r" "\<not> MAXRETRANS \<le> 0"
    by (simp_all add: received_def MAXRETRANS_def)
  show ?thesis
    using read acc sz by (simp add: take_block_def Let_def store again)
qed

definition asks :: "u8 \<Rightarrow> byte_buffer" where
  "asks t = (if t \<noteq> 0 then [t] else [])"

lemma rx_wait_hears:
  assumes "xl_in l = Some c # rest"
  shows "c = SOH \<or> c = STX \<Longrightarrow> rx_wait_start (Suc n) t l = (RxStart c, outbytes (asks t) (l\<lparr>xl_in := rest\<rparr>))"
    and "c = EOT \<Longrightarrow> rx_wait_start (Suc n) t l = (RxEnd, outbytes (asks t @ [ACK]) (l\<lparr>xl_in := rest\<rparr>))"
  using assms by (auto simp: inbyte_def asks_def xm_consts Let_def)

lemma round_hears:
  assumes "xl_in l = Some c # rest" "c = SOH \<or> c = STX"
  shows "receive_round destsz mode r l =
    take_block destsz mode c r (outbytes (asks (rx_trychar r)) (l\<lparr>xl_in := rest\<rparr>))"
proof -
  have "16 = Suc 15" by simp
  then show ?thesis
    using rx_wait_hears(1) [OF assms, of 15] by (simp only: receive_round_def) simp
qed

lemma receive_block:
  assumes "block_data data" "xl_in l = map Some (block (rx_crc r) (rx_packetno r) data) @ rest"
  shows "receive_loop destsz False r l = receive_loop destsz False (received destsz data r)
    (outbytes (asks (rx_trychar r) @ (if rx_crc r \<noteq> 2 then [ACK] else [])) (l\<lparr>xl_in := rest\<rparr>))"
proof -
  let ?b = "block (rx_crc r) (rx_packetno r) data"
  have b: "?b = hd ?b # tl ?b" by (simp add: block_def)
  then have l: "xl_in l = Some (hd ?b) # map Some (tl ?b) @ rest"
    using assms(2) by (metis append_Cons list.simps(9))
  have "hd ?b = SOH \<or> hd ?b = STX" by (simp add: block_def)
  from round_hears [OF l this, of destsz False r]
  show ?thesis
    using take_block_expected [OF assms(1), of "outbytes (asks (rx_trychar r)) (l\<lparr>xl_in := map Some (tl ?b) @ rest\<rparr>)" r rest destsz]
    by (subst receive_loop.simps) simp
qed

lemma receive_end:
  assumes "xl_in l = Some EOT # rest"
  shows "receive_loop destsz mode r l =
    (rx_len r, rx_stored r, outbytes (asks (rx_trychar r) @ [ACK]) (l\<lparr>xl_in := rest\<rparr>))"
proof -
  have "16 = Suc 15" by simp
  then show ?thesis
    using rx_wait_hears(2) [OF assms refl, of 15]
    by (subst receive_loop.simps) (simp only: receive_round_def, simp)
qed

fun wire :: "int \<Rightarrow> u8 \<Rightarrow> byte_buffer list \<Rightarrow> byte_buffer" where
  "wire crc n [] = []"
| "wire crc n (d # ds) = block crc n d @ wire crc (n + 1) ds"

definition acks :: "int \<Rightarrow> byte_buffer list \<Rightarrow> byte_buffer" where
  "acks crc ds = (if crc \<noteq> 2 then replicate (length ds) ACK else []) @ [ACK]"

lemma receive_blocks:
  "\<forall>d \<in> set ds. block_data d \<Longrightarrow> xl_in l = map Some (wire (rx_crc r) (rx_packetno r) ds @ [EOT]) @ rest \<Longrightarrow>
   rx_len r = int (length (rx_stored r)) \<Longrightarrow> rx_len r \<le> destsz \<Longrightarrow>
   receive_loop destsz False r l =
     (min destsz (rx_len r + int (length (concat ds))), take (nat destsz) (rx_stored r @ concat ds),
      outbytes (asks (rx_trychar r) @ acks (rx_crc r) ds) (l\<lparr>xl_in := rest\<rparr>))"
proof (induction ds arbitrary: r l)
  case Nil
  then show ?case by (simp add: receive_end acks_def)
next
  case (Cons d ds)
  let ?r = "received destsz d r"
  let ?l = "outbytes (asks (rx_trychar r) @ (if rx_crc r \<noteq> 2 then [ACK] else []))
    (l\<lparr>xl_in := map Some (wire (rx_crc r) (rx_packetno r + 1) ds @ [EOT]) @ rest\<rparr>)"
  have "receive_loop destsz False r l = receive_loop destsz False ?r ?l"
    using Cons.prems(1,2) by (intro receive_block) simp_all
  also have "\<dots> = (min destsz (rx_len ?r + int (length (concat ds))), take (nat destsz) (rx_stored ?r @ concat ds),
      outbytes (asks (rx_trychar ?r) @ acks (rx_crc ?r) ds) (?l\<lparr>xl_in := rest\<rparr>))"
    using Cons.prems by (intro Cons.IH) (auto simp: received_def)
  also have "\<dots> = (min destsz (rx_len r + int (length (concat (d # ds)))),
      take (nat destsz) (rx_stored r @ concat (d # ds)),
      outbytes (asks (rx_trychar r) @ acks (rx_crc r) (d # ds)) (l\<lparr>xl_in := rest\<rparr>))"
    using Cons.prems(3,4)
    by (auto simp: received_def asks_def acks_def min_def take_append nat_diff_distrib')
  finally show ?case .
qed

section \<open>Chunks of an image\<close>

function chunks :: "bool \<Rightarrow> byte_buffer \<Rightarrow> byte_buffer list" where
  "chunks onek src =
     (if src = [] then []
      else let n = (if onek \<and> 128 < length src then 1024 else 128)
           in (take n src @ replicate (n - length src) CTRLZ) # chunks onek (drop n src))"
  by pat_completeness auto
termination by (relation "measure (\<lambda>(onek, src). length src)") auto

declare chunks.simps [simp del]

lemma chunks_data: "\<forall>d \<in> set (chunks onek src). block_data d"
proof (induction onek src rule: chunks.induct)
  case (1 onek src)
  then show ?case
    by (cases "src = []") (auto simp: chunks.simps [of onek src] chunks.simps [of onek "[]"] block_data_def Let_def)
qed

lemma concat_chunks: "\<exists>k < 1024. concat (chunks onek src) = src @ replicate k CTRLZ"
proof (induction onek src rule: chunks.induct)
  case (1 onek src)
  show ?case
  proof (cases "src = []")
    case False
    define n where "n = (if onek \<and> 128 < length src then 1024 else 128 :: nat)"
    obtain k where k: "k < 1024" "concat (chunks onek (drop n src)) = drop n src @ replicate k CTRLZ"
      using 1 [OF False n_def] by blast
    have c: "concat (chunks onek src) = take n src @ replicate (n - length src) CTRLZ @ concat (chunks onek (drop n src))"
      using False by (simp add: chunks.simps [of onek src] n_def Let_def)
    show ?thesis
    proof (cases "n \<le> length src")
      case True
      then show ?thesis using c k by auto
    next
      case short: False
      then have "concat (chunks onek src) = src @ replicate (n - length src) CTRLZ"
        using c by (simp add: chunks.simps [of onek "[]"])
      then show ?thesis using False by (intro exI [of _ "n - length src"]) (auto simp: n_def)
    qed
  qed (simp add: chunks.simps)
qed

lemma build_block_memory:
  assumes "len < length src"
  shows "build_block (memory_source src) (int (length src)) onek False crc n (int len) =
    block crc n (hd (chunks onek (drop len src)))"
proof -
  define m where "m = (if onek \<and> 128 < length (drop len src) then 1024 else 128 :: nat)"
  have size: "block_size (int (length src)) onek (int len) = m"
    using assms by (auto simp: block_size_def m_def)
  have chunk: "take (nat (min (int (length src) - int len) (int m))) (drop len src) = take m (drop len src)"
    using assms by (simp add: min_def)
  define d where "d = take m (drop len src) @ replicate (m - length (take m (drop len src))) CTRLZ"
  have len: "length d = m" by (simp add: d_def)
  have hd: "hd (chunks onek (drop len src)) = d"
    using assms by (simp add: chunks.simps [of onek "drop len src"] m_def d_def Let_def min_def)
  have head: "(onek \<and> 128 < int (length src) - int len) = (m = 1024)"
    using assms by (auto simp: m_def)
  show ?thesis
    unfolding build_block_def block_def memory_source_def Let_def size hd head len
    by (simp only: nat_int chunk d_def [symmetric] if_False)
qed

lemma send_block_acknowledged:
  assumes "crc \<noteq> 2 \<Longrightarrow> xl_in l = Some ACK # rest" "crc = 2 \<Longrightarrow> xl_in l = rest"
  shows "tx_send_block (nat MAXRETRANS) crc xbuff l = (TxAcked, outbytes xbuff (l\<lparr>xl_in := rest\<rparr>))"
proof -
  have "tx_send_block (Suc n) crc xbuff l = (TxAcked, outbytes xbuff (l\<lparr>xl_in := rest\<rparr>))" for n
    using assms by (cases "crc = 2") (auto simp: inbyte_def)
  from this [of 24] show ?thesis by (simp add: MAXRETRANS_def)
qed

lemma send_eot_acknowledged:
  assumes "xl_in l = Some ACK # rest"
  shows "tx_send_eot 10 l = (True, outbytes [EOT] (l\<lparr>xl_in := rest\<rparr>))"
proof -
  have "tx_send_eot (Suc n) l = (True, outbytes [EOT] (l\<lparr>xl_in := rest\<rparr>))" for n
    using assms by (simp add: inbyte_def)
  from this [of 9] show ?thesis by simp
qed

lemma transmit_chunks:
  "xl_in l = map Some (acks crc (chunks onek (drop len src))) @ rest \<Longrightarrow>
   transmit_loop (memory_source src) (int (length src)) onek False crc n (int len) l =
     (int (len + length (concat (chunks onek (drop len src)))),
      outbytes (wire crc n (chunks onek (drop len src)) @ [EOT]) (l\<lparr>xl_in := rest\<rparr>))"
proof (induction "length src - len" arbitrary: len n l rule: less_induct)
  case less
  show ?case
  proof (cases "len < length src")
    case False
    then have none: "chunks onek (drop len src) = []" by (simp add: chunks.simps)
    then have "xl_in l = Some ACK # rest" using less.prems by (simp add: acks_def)
    from send_eot_acknowledged [OF this] show ?thesis
      using False none by (subst transmit_loop.simps) simp
  next
    case True
    define m where "m = (if onek \<and> 128 < length (drop len src) then 1024 else 128 :: nat)"
    have size: "block_size (int (length src)) onek (int len) = m"
      using True by (auto simp: block_size_def m_def)
    have cs: "chunks onek (drop len src) = hd (chunks onek (drop len src)) # chunks onek (drop (len + m) src)"
      using True by (simp add: chunks.simps [of onek "drop len src"] m_def Let_def add.commute)
    have hd: "length (hd (chunks onek (drop len src))) = m"
      using True by (auto simp: chunks.simps [of onek "drop len src"] m_def Let_def)
    have acks: "acks crc (chunks onek (drop len src)) =
        (if crc \<noteq> 2 then [ACK] else []) @ acks crc (chunks onek (drop (len + m) src))"
      by (subst cs) (simp add: acks_def)
    let ?b = "block crc n (hd (chunks onek (drop len src)))"
    let ?ins = "map Some (acks crc (chunks onek (drop (len + m) src))) @ rest"
    have send: "tx_send_block (nat MAXRETRANS) crc ?b l = (TxAcked, outbytes ?b (l\<lparr>xl_in := ?ins\<rparr>))"
      using less.prems acks by (intro send_block_acknowledged) simp_all
    have "transmit_loop (memory_source src) (int (length src)) onek False crc n (int len) l =
        transmit_loop (memory_source src) (int (length src)) onek False crc (n + 1) (int (len + m))
          (outbytes ?b (l\<lparr>xl_in := ?ins\<rparr>))"
      using True by (subst transmit_loop.simps) (simp add: build_block_memory send size)
    also have "\<dots> = (int (len + m + length (concat (chunks onek (drop (len + m) src)))),
        outbytes (wire crc (n + 1) (chunks onek (drop (len + m) src)) @ [EOT])
          ((outbytes ?b (l\<lparr>xl_in := ?ins\<rparr>))\<lparr>xl_in := rest\<rparr>))"
      using True by (intro less.hyps) (auto simp: m_def)
    finally show ?thesis
      by (subst (1 2) cs) (simp add: hd)
  qed
qed

lemma tx_wait_hears:
  assumes "xl_in l = Some c # rest" "crc \<in> {0, 1, 2}"
    and "c = (if crc = 2 then char_G else if crc \<noteq> 0 then char_C else NAK)"
  shows "tx_wait_start 16 l = (TxMode crc, l\<lparr>xl_in := rest\<rparr>)"
proof -
  have "tx_wait_start (Suc n) l = (TxMode crc, l\<lparr>xl_in := rest\<rparr>)" for n
    using assms by (auto simp: inbyte_def NAK_def)
  from this [of 15] show ?thesis by simp
qed

lemma previous_number: "(n - 1 = n \<or> uint (n - 1) = uint n - 1) \<longleftrightarrow> n \<noteq> 0" for n :: u8
proof (cases "n = 0")
  case False
  then have "0 < uint n" by (metis unsigned_0 unsigned_greater_eq order_le_less word_uint_eq_iff)
  moreover have "uint n < 256" using uint_bounded [of n] by simp
  ultimately have "uint (n - 1) = uint n - 1" by (simp add: uint_word_ariths(2))
  with False show ?thesis by simp
next
  case True
  have "uint (- 1 :: u8) \<noteq> - 1" using uint_ge_0 [of "- 1 :: u8"] by linarith
  with True show ?thesis by simp
qed

section \<open>The buffer of the receiver\<close>

lemma rx_bytes_count: "rx_bytes n l = (Some b, l') \<Longrightarrow> length b = n"
proof (induction n arbitrary: l b l')
  case (Suc n)
  then show ?case by (auto split: prod.splits option.splits)
qed simp

definition rx_inside :: "int \<Rightarrow> xm_receiver \<Rightarrow> bool" where
  "rx_inside destsz r \<longleftrightarrow> rx_len r = int (length (rx_stored r)) \<and> rx_len r \<le> destsz"

lemma store_block_inside:
  "rx_inside destsz r \<Longrightarrow> bufsz + 3 \<le> length xbuff \<Longrightarrow> rx_inside destsz (store_block destsz bufsz xbuff r)"
  by (auto simp: rx_inside_def store_block_def Let_def min_def)

definition round_inside :: "int \<Rightarrow> xm_result + xm_receiver \<times> xm_line \<Rightarrow> bool" where
  "round_inside destsz res =
     (case res of
        Inl (n, stored, l) \<Rightarrow> int (length stored) \<le> destsz \<and> (n = int (length stored) \<or> n \<in> {-1, -2, -3})
      | Inr (r, l) \<Rightarrow> rx_inside destsz r)"

lemma round_inside_simps [simp]:
  "round_inside destsz (Inl (n, stored, l)) \<longleftrightarrow>
     int (length stored) \<le> destsz \<and> (n = int (length stored) \<or> n \<in> {-1, -2, -3})"
  "round_inside destsz (Inr (r, l)) \<longleftrightarrow> rx_inside destsz r"
  by (simp_all add: round_inside_def)

lemma take_block_inside:
  assumes "rx_inside destsz r"
  shows "round_inside destsz (take_block destsz mode c r l)"
proof -
  define sz where "sz = (if c = STX then 1024 else 128 :: nat)"
  let ?r = "r\<lparr>rx_trychar := 0\<rparr>"
  obtain b l1 where 1: "rx_bytes (sz + (if rx_crc ?r \<noteq> 0 then 1 else 0) + 3) l = (b, l1)" by fastforce
  have r: "rx_inside destsz ?r" using assms by (simp add: rx_inside_def)
  show ?thesis
  proof (cases b)
    case None
    then show ?thesis
      using 1 r unfolding take_block_def Let_def sz_def [symmetric] by (simp split del: if_split)
  next
    case (Some bs)
    then have "sz + 3 \<le> length (c # bs)" using rx_bytes_count 1 by fastforce
    define s where "s = store_block destsz sz (c # bs) ?r"
    have s: "rx_inside destsz s" unfolding s_def by (rule store_block_inside [OF r]) fact
    then have "rx_inside destsz (s\<lparr>rx_retrans := x\<rparr>)" for x by (simp add: rx_inside_def)
    then show ?thesis
      using 1 r s Some
      unfolding take_block_def Let_def sz_def [symmetric] s_def
      by (simp split del: if_split) (auto simp: rx_inside_def)
  qed
qed

lemma receive_round_inside:
  assumes "rx_inside destsz r"
  shows "round_inside destsz (receive_round destsz mode r l)"
proof -
  obtain w l1 where w: "rx_wait_start 16 (rx_trychar r) l = (w, l1)" by fastforce
  then show ?thesis
    using assms take_block_inside [OF assms, of mode _ l1]
    by (cases w) (auto simp: receive_round_def rx_inside_def)
qed

lemma receive_loop_inside:
  "rx_inside destsz r \<Longrightarrow> receive_loop destsz mode r l = (n, stored, l') \<Longrightarrow>
     int (length stored) \<le> destsz \<and> (n = int (length stored) \<or> n \<in> {-1, -2, -3})"
proof (induction destsz mode r l rule: receive_loop.induct)
  case (1 destsz mode r l)
  note inside = receive_round_inside [OF 1(2), of mode l]
  show ?case
  proof (cases "receive_round destsz mode r l")
    case (Inl res)
    then show ?thesis using 1(3) inside by (simp add: receive_loop.simps [of destsz mode r l])
  next
    case (Inr rl)
    then show ?thesis
      using 1(1) [OF Inr, of "fst rl" "snd rl"] 1(3) inside
      by (cases rl) (simp add: receive_loop.simps [of destsz mode r l])
  qed
qed

section \<open>Properties\<close>

text \<open>C29: An image is transferred completely. The sender in memory mode and the receiver, each being
  given exactly what the other one has written, end together: the sender reports the length of the
  image, filled up to whole blocks with fewer than 1024 fill bytes, and the receiver has stored the
  image with its filling, as far as it had room; nothing is left on the line. This holds for the
  three kinds of check that the receiver may ask for and for both sizes of blocks, and for images of
  more than 255 blocks, where the block number starts again.\<close>

theorem xmodem_transfer:
  assumes "crc \<in> {0, 1, 2}" "0 \<le> destsz"
  shows "\<exists>k heard sent. k < 1024
    \<and> XmodemTransmit (memory_source src) (int (length src)) onek False \<lparr>xl_in = map Some heard, xl_out = []\<rparr> =
        (int (length src + k), \<lparr>xl_in = [], xl_out = sent\<rparr>)
    \<and> XmodemReceive destsz crc False \<lparr>xl_in = map Some sent, xl_out = []\<rparr> =
        (min destsz (int (length src + k)), take (nat destsz) (src @ replicate k CTRLZ),
         \<lparr>xl_in = [], xl_out = heard\<rparr>)"
proof -
  let ?ds = "chunks onek src" and ?c = "if crc = 2 then char_G else if crc \<noteq> 0 then char_C else NAK"
  let ?heard = "?c # acks crc ?ds" and ?sent = "wire crc 1 ?ds @ [EOT]"
  obtain k where k: "k < 1024" "concat ?ds = src @ replicate k CTRLZ"
    using concat_chunks [of onek src] by blast
  have "tx_wait_start 16 \<lparr>xl_in = map Some ?heard, xl_out = []\<rparr> =
      (TxMode crc, \<lparr>xl_in = map Some (acks crc ?ds), xl_out = []\<rparr>)"
    using tx_wait_hears [of "\<lparr>xl_in = map Some ?heard, xl_out = []\<rparr>"] assms(1) by simp
  moreover have "transmit_loop (memory_source src) (int (length src)) onek False crc 1 0
      \<lparr>xl_in = map Some (acks crc ?ds), xl_out = []\<rparr> = (int (length src + k), \<lparr>xl_in = [], xl_out = ?sent\<rparr>)"
    using transmit_chunks [of "\<lparr>xl_in = map Some (acks crc ?ds), xl_out = []\<rparr>" crc onek 0 src "[]" 1] k(2)
    by (simp add: outbytes_def)
  moreover have "?c \<noteq> 0" by (simp add: NAK_def)
  then have "XmodemReceive destsz crc False \<lparr>xl_in = map Some ?sent, xl_out = []\<rparr> =
      (min destsz (int (length src + k)), take (nat destsz) (src @ replicate k CTRLZ), \<lparr>xl_in = [], xl_out = ?heard\<rparr>)"
    unfolding XmodemReceive_def
    by (subst receive_blocks [where rest = "[]" and ds = ?ds])
      (use assms(2) k(2) chunks_data in \<open>auto simp: outbytes_def asks_def\<close>)
  ultimately show ?thesis
    using k(1) by (intro exI [of _ k] exI [of _ ?heard] exI [of _ ?sent]) (simp add: XmodemTransmit_def)
qed

theorem xmodem_transfer_witness:
  "\<exists>k heard sent. k < 1024
    \<and> XmodemTransmit (memory_source [1, 2, 3]) 3 True False \<lparr>xl_in = map Some heard, xl_out = []\<rparr> =
        (int (3 + k), \<lparr>xl_in = [], xl_out = sent\<rparr>)
    \<and> XmodemReceive 2 1 False \<lparr>xl_in = map Some sent, xl_out = []\<rparr> =
        (min 2 (int (3 + k)), [1, 2], \<lparr>xl_in = [], xl_out = heard\<rparr>)"
  using xmodem_transfer [of 1 2 "[1, 2, 3]" True] by simp

text \<open>C30: The receiver never stores more than its caller has room for, whatever arrives on the line: what it
  has stored fits, and if it reports a length this is exactly the length of what it has stored.\<close>

theorem xmodem_receive_bounds:
  assumes "XmodemReceive destsz crc mode l = (n, stored, l')" "0 \<le> destsz"
  shows "int (length stored) \<le> destsz \<and> (n = int (length stored) \<or> n \<in> {-1, -2, -3})"
  using assms(1) unfolding XmodemReceive_def
  by (rule receive_loop_inside [rotated]) (simp add: rx_inside_def assms(2))

theorem xmodem_receive_bounds_witness:
  "\<exists>n stored l'. XmodemReceive 200 1 False \<lparr>xl_in = [Some EOT], xl_out = []\<rparr> = (n, stored, l')
    \<and> int (length stored) \<le> 200 \<and> (n = int (length stored) \<or> n \<in> {-1, -2, -3})"
  using xmodem_receive_bounds [of 200 1 False] by (metis prod_cases3 zero_le_numeral)



text \<open>A block that is repeated because its acknowledgement was lost is acknowledged again and not stored
  twice, as long as the receiver has retries left; but block 255 is refused when it is repeated, since
  the number before 0 is computed without wrapping around: the receiver asks for it again, and so
  it does for every further repetition.\<close>

theorem xmodem_repeated_block:
  assumes "block_data data" "1 < rx_retrans r"
    and "xl_in l = map Some (tl (block (rx_crc r) (rx_packetno r - 1) data)) @ rest"
  shows "take_block destsz False (hd (block (rx_crc r) (rx_packetno r - 1) data)) r l =
    (if rx_packetno r = 0
     then Inr (r\<lparr>rx_trychar := 0\<rparr>, outbytes [NAK] (flushinput (l\<lparr>xl_in := rest\<rparr>)))
     else Inr (r\<lparr>rx_trychar := 0, rx_retrans := rx_retrans r - 1\<rparr>,
               outbytes (if rx_crc r \<noteq> 2 then [ACK] else []) (l\<lparr>xl_in := rest\<rparr>)))"
proof -
  let ?n = "rx_packetno r - 1"
  let ?c = "hd (block (rx_crc r) ?n data)" and ?b = "tl (block (rx_crc r) ?n data)"
  define sz where "sz = (if ?c = STX then 1024 else 128 :: nat)"
  have sz: "sz = length data"
    using assms(1) by (auto simp: sz_def block_def block_data_def xm_consts)
  have len: "length ?b = sz + (if rx_crc r \<noteq> 0 then 1 else 0) + 3"
    unfolding sz by (simp add: block_def)
  note read = rx_bytes_arrived [OF assms(3), unfolded len]
  have "data \<noteq> []" using assms(1) by (auto simp: block_data_def)
  then have acc: "block_accepted (rx_crc r) (rx_packetno r) sz (?c # ?b) \<longleftrightarrow> rx_packetno r \<noteq> 0"
    using checks_read [of data] previous_number [of "rx_packetno r"] by (simp add: block_accepted_def block_def sz)
  have "(?c # ?b) ! 1 \<noteq> rx_packetno r" by (simp add: block_def)
  then have store: "store_block destsz sz (?c # ?b) (r\<lparr>rx_trychar := 0\<rparr>) = r\<lparr>rx_trychar := 0\<rparr>"
    by (simp add: store_block_def)
  show ?thesis
    using read acc store assms(2) unfolding take_block_def Let_def sz_def [symmetric]
    by (simp split del: if_split) (simp split: if_split)
qed

theorem xmodem_repeated_block_witness:
  "take_block 1000 False SOH \<lparr>rx_crc = 0, rx_trychar = 0, rx_packetno = 0, rx_len = 0, rx_retrans = 25, rx_stored = []\<rparr>
     \<lparr>xl_in = map Some ([0xFF, 0] @ replicate 129 0), xl_out = []\<rparr> =
     Inr (\<lparr>rx_crc = 0, rx_trychar = 0, rx_packetno = 0, rx_len = 0, rx_retrans = 25, rx_stored = []\<rparr>,
          \<lparr>xl_in = [], xl_out = [NAK]\<rparr>)"
proof -
  let ?r = "\<lparr>rx_crc = 0, rx_trychar = 0, rx_packetno = 0, rx_len = 0, rx_retrans = 25, rx_stored = []\<rparr>"
  have "foldl (+) 0 (replicate n (0 :: u8)) = 0" for n by (induction n) simp_all
  moreover have "replicate 128 (0 :: u8) @ [0] = replicate 129 0" by (simp add: numeral_eq_Suc)
  ultimately have "block 0 (0 - 1) (replicate 128 0) = SOH # [0xFF, 0] @ replicate 129 0"
    by (simp add: block_def checksum_def)
  then show ?thesis
    using xmodem_repeated_block [of "replicate 128 0" ?r "\<lparr>xl_in = map Some ([0xFF, 0] @ replicate 129 0), xl_out = []\<rparr>" "[]" 1000]
    by (simp add: block_data_def flushinput_def outbytes_def)
qed

end
