(* ===== verification/HexText.thy ===== *)
theory HexText
  imports WireFormat
begin

text \<open>
  Numbers as text. Hexadecimal digits: how \<open>get_gbl_version.c\<close> writes them (\<open>hexdump_buffer\<close>, and \<open>printf\<close> with
  \<open>%08x\<close>), and how \<open>mainEzspStateMachine.h\<close> reads them (\<open>hexDigitToNibble\<close>). Characters are the
  library's \<open>char\<close>, whose \<open>of_char\<close> is the ASCII code.
\<close>

definition nibble_char :: "u8 \<Rightarrow> char" where
  "nibble_char nibble = char_of (unat (if nibble \<le> 9 then nibble + 0x30 else nibble + (0x61 - 10)))"

definition hexDigitToNibble :: "char \<Rightarrow> u8 option" where
  "hexDigitToNibble hDigit =
     (let d = of_char hDigit :: int in
      if 0x61 \<le> d \<and> d \<le> 0x66 then Some (word_of_int (d + 10 - 0x61))
      else if 0x41 \<le> d \<and> d \<le> 0x46 then Some (word_of_int (d + 10 - 0x41))
      else if 0x30 \<le> d \<and> d \<le> 0x39 then Some (word_of_int (d - 0x30))
      else None)"

fun hexdump_bytes :: "byte_buffer \<Rightarrow> string" where
  "hexdump_bytes [] = []"
| "hexdump_bytes (b # bs) =
     [nibble_char (drop_bit 4 b), nibble_char (b AND 0xf)]
       @ (if bs = [] then [] else CHR '' '' # hexdump_bytes bs)"

definition hexdump_buffer :: "byte_buffer \<Rightarrow> string" where
  "hexdump_buffer buffer = hexdump_bytes buffer @ [CHR 0x0A]"

text \<open>\<open>printf\<close> with \<open>%0nx\<close> of a value that has at most \<open>n\<close> digits.\<close>

fun hex_text :: "nat \<Rightarrow> 'a::len word \<Rightarrow> string" where
  "hex_text 0 w = []"
| "hex_text (Suc n) w = hex_text n (drop_bit 4 w) @ [nibble_char (ucast (take_bit 4 w))]"

text \<open>Decimal integers, \<open>std::to_string\<close> and \<open>operator<<\<close>, with the padding of \<open>std::setw\<close>.\<close>

fun digits_text :: "nat \<Rightarrow> string" where
  "digits_text n = (if n < 10 then [] else digits_text (n div 10)) @ [char_of (48 + n mod 10)]"

declare digits_text.simps [simp del]

definition int_text :: "int \<Rightarrow> string" where
  "int_text i = (if i < 0 then ''-'' else []) @ digits_text (nat (abs i))"

definition setw :: "nat \<Rightarrow> char \<Rightarrow> string \<Rightarrow> string" where
  "setw n fill s = replicate (n - length s) fill @ s"

lemma nibble_cases:
  fixes n :: u8
  assumes "n < 16" "list_all P (map of_nat [0..<16])"
  shows "P n"
proof -
  have "unat n < 16" using assms(1) by (simp add: word_less_nat_alt)
  then have "n \<in> of_nat ` {0..<16}" by (intro image_eqI [of _ _ "unat n"]) simp_all
  then show ?thesis using assms(2) by (auto simp: list_all_iff)
qed

lemma hexDigitToNibble_char [simp]: "n < 16 \<Longrightarrow> hexDigitToNibble (nibble_char n) = Some n"
  by (erule nibble_cases) (code_simp)

lemma nibble_char_digit: "n < 16 \<Longrightarrow> nibble_char n \<in> set ''0123456789abcdef''"
  by (erule nibble_cases) (code_simp)

lemma hex_digit_char: "n < 16 \<Longrightarrow> nibble_char n \<noteq> CHR ''/'' \<and> nibble_char n \<noteq> CHR ''-'' \<and> nibble_char n \<noteq> CHR ''+''
    \<and> nibble_char n \<noteq> CHR ''x'' \<and> nibble_char n \<noteq> CHR ''X'' \<and> nibble_char n \<notin> set [CHR '' '', CHR 0x09, CHR 0x0A, CHR 0x0B, CHR 0x0C, CHR 0x0D]"
  using nibble_char_digit [of n] by auto

lemma length_hex_text [simp]: "length (hex_text n w) = n"
  by (induction n arbitrary: w) simp_all

end
