(* ===== verification/Gbl.thy ===== *)
theory Gbl
  imports HexText
begin

text \<open>
  The tool that reads the version out of a firmware image, \<open>src/spi/gbl-info-extractor/get_gbl_version.c\<close>.
  An open image file is what lies ahead of its position: \<open>read\<close> takes bytes from it, and seeking forward
  drops bytes (seeking behind the end of a regular file succeeds, and nothing is read there).
\<close>

section \<open>Integers of the image\<close>

text \<open>The argument of \<open>letohl\<close> and \<open>letohs\<close> is the memory of the integer.\<close>

definition letohl :: "byte_buffer \<Rightarrow> u32" where
  "letohl bp =
     (let result = ucast (bp ! 3);
          result = push_bit 8 result OR ucast (bp ! 2);
          result = push_bit 8 result OR ucast (bp ! 1)
      in push_bit 8 result OR ucast (bp ! 0))"

definition letohs :: "byte_buffer \<Rightarrow> u16" where
  "letohs bp = push_bit 8 (ucast (bp ! 1)) OR ucast (bp ! 0)"

definition EBL_TAG_ID_APPLICATION :: u32 where "EBL_TAG_ID_APPLICATION = 0xF40A0AF4"

definition gbl_tag_id_to_str :: "u32 \<Rightarrow> string" where
  "gbl_tag_id_to_str tag_id =
     (if tag_id = 0xE35050E3 then ''EBL_IMAGE_MAGIC_WORD''
      else if tag_id = 0x03000000 then ''EBL_COMPATIBILITY_MAJOR_VERSION''
      else if tag_id = 0x00000200 then ''EBLV2_COMPATIBILITY_MAJOR_VERSION''
      else if tag_id = 0x03A617EB then ''EBL_TAG_ID_HEADER_V3''
      else if tag_id = 0xF50909F5 then ''EBL_TAG_ID_BOOTLOADER''
      else if tag_id = EBL_TAG_ID_APPLICATION then ''EBL_TAG_ID_APPLICATION''
      else if tag_id = 0xF60808F6 then ''EBL_TAG_ID_METADATA''
      else if tag_id = 0xFE0101FE then ''EBL_TAG_ID_PROG''
      else if tag_id = 0xFD0303FD then ''EBL_TAG_ID_ERASEPROG''
      else if tag_id = 0xFC0404FC then ''EBL_TAG_ID_END''
      else if tag_id = 0x5EA617EB then ''EBL_TAG_ID_SE_UPGRADE''
      else if tag_id = 0xFB0505FB then ''EBL_TAG_ID_ENC_HEADER''
      else if tag_id = 0xFA0606FA then ''EBL_TAG_ID_ENC_INIT''
      else if tag_id = 0xF90707F9 then ''EBL_TAG_ID_ENC_EBL_DATA''
      else if tag_id = 0xF70909F7 then ''EBL_TAG_ID_ENC_MAC''
      else if tag_id = 0xF70A0AF7 then ''EBL_TAG_ID_SIGNATURE_ECDSA_P256''
      else if tag_id = 0xF30B0BF3 then ''EBL_TAG_ID_CERTIFICATE_ECDSA_P256''
      else if tag_id = 0x00000000 then ''EBL_TYPE_NONE''
      else if tag_id = 0x00000001 then ''EBL_TYPE_ENCRYPTION_AESCCM''
      else if tag_id = 0x00000100 then ''EBL_TYPE_SIGNATURE_ECDSA''
      else ''(unknown)'')"

section \<open>The tool\<close>

definition EXIT_FAILURE :: int where "EXIT_FAILURE = 5"
definition EXIT_SUCCESS :: int where "EXIT_SUCCESS = 0"

definition sizeof_gbl_tag :: nat where "sizeof_gbl_tag = 8"
definition sizeof_ApplicationData :: nat where "sizeof_ApplicationData = 28"

definition version_text :: "u32 \<Rightarrow> string" where
  "version_text v = ''0x'' @ hex_text 8 v @ [CHR 0x0A]"

text \<open>The exit status, and what was written to the standard output. The payload of the application tag, of
  which the version is the second integer, is copied into a buffer of 64 zero bytes.\<close>

definition gbl_application :: "u32 \<Rightarrow> byte_buffer \<Rightarrow> int \<times> string" where
  "gbl_application gbl_tag_length ahead =
     (if 64 < gbl_tag_length then (EXIT_FAILURE, [])
      else
        let payload = take (unat gbl_tag_length) ahead in
        if length payload \<noteq> unat gbl_tag_length then (EXIT_FAILURE, [])
        else if unat gbl_tag_length < sizeof_ApplicationData then (EXIT_FAILURE, [])
        else
          let gbl_info_tag_buf = payload @ replicate (64 - length payload) 0;
              gbl_app_info = take sizeof_ApplicationData gbl_info_tag_buf
          in (EXIT_SUCCESS, version_text (letohl (take 4 (drop 4 gbl_app_info)))))"

function gbl_loop :: "byte_buffer \<Rightarrow> int \<times> string" where
  "gbl_loop ahead =
     (let gbl_tag = take sizeof_gbl_tag ahead in
      if length gbl_tag \<noteq> sizeof_gbl_tag then (EXIT_FAILURE, [])
      else
        let ahead = drop sizeof_gbl_tag ahead;
            gbl_tag_id = letohl (take 4 gbl_tag);
            gbl_tag_length = letohl (drop 4 gbl_tag)
        in if gbl_tag_id = EBL_TAG_ID_APPLICATION then gbl_application gbl_tag_length ahead
           else gbl_loop (drop (unat gbl_tag_length) ahead))"
  by pat_completeness auto
termination
  by (relation "measure length") (auto simp: sizeof_gbl_tag_def)

declare gbl_loop.simps [simp del]

text \<open>\<open>main\<close> with its options and file names, as \<open>getopt\<close> sorts them; \<open>files\<close> gives the contents of the
  files that can be opened.\<close>

definition gbl_usage :: "string \<Rightarrow> string" where
  "gbl_usage progname =
     progname @ '': Extract information from a GBL firmware image file'' @ [CHR 0x0A]
       @ ''Usage '' @ progname @ '' [-h] [-d] gbl_file'' @ [CHR 0x0A]"

definition gbl_main ::
    "string \<Rightarrow> char list \<Rightarrow> string list \<Rightarrow> (string \<Rightarrow> byte_buffer option) \<Rightarrow> int \<times> string" where
  "gbl_main progname opts names files =
     (if CHR ''h'' \<in> set opts then (EXIT_SUCCESS, gbl_usage progname)
      else case names of
        [] \<Rightarrow> (EXIT_FAILURE, [])
      | fw_image_filename # _ \<Rightarrow>
          (case files fw_image_filename of
             None \<Rightarrow> (EXIT_FAILURE, [])
           | Some fw_image \<Rightarrow> gbl_loop fw_image))"

section \<open>Images\<close>

lemma letohl_quad: "letohl [a, b, c, d] = quad_u8_to_u32 d c b a"
  unfolding letohl_def byte_defs Let_def by (rule bit_word_eqI) (auto simp: bit_simps)

lemma letohl_le32 [simp]: "letohl (le32 w) = w"
  by (simp add: le32_def letohl_quad)

lemma le32_letohl:
  assumes "length bs = 4"
  shows "le32 (letohl bs) = bs"
proof -
  obtain a b c d where "bs = [a, b, c, d]"
    using assms by (auto simp: numeral_eq_Suc length_Suc_conv)
  then show ?thesis by (simp add: le32_def letohl_quad)
qed

text \<open>A tag as it stands in an image.\<close>

definition gbl_tag_bytes :: "u32 \<Rightarrow> byte_buffer \<Rightarrow> byte_buffer" where
  "gbl_tag_bytes ident payload = le32 ident @ le32 (of_nat (length payload)) @ payload"

definition other_tag :: "u32 \<times> byte_buffer \<Rightarrow> bool" where
  "other_tag t \<longleftrightarrow> fst t \<noteq> EBL_TAG_ID_APPLICATION \<and> length (snd t) < 2 ^ 32"

lemma gbl_loop_tag:
  assumes "length payload < 2 ^ 32"
  shows "gbl_loop (gbl_tag_bytes ident payload @ rest) =
    (if ident = EBL_TAG_ID_APPLICATION
     then gbl_application (of_nat (length payload)) (payload @ rest) else gbl_loop rest)"
proof -
  have "unat (of_nat (length payload) :: u32) = length payload"
    using assms by (simp add: unat_of_nat take_bit_nat_eq_self)
  then show ?thesis
    by (subst gbl_loop.simps) (simp add: gbl_tag_bytes_def sizeof_gbl_tag_def Let_def take_Cons' drop_Cons')
qed

text \<open>Whatever lies ahead is too short for a tag, or is a tag, of which the payload may be missing.\<close>

lemma gbl_image_cases:
  obtains "length ahead < 8"
  | ident payload rest where "ahead = gbl_tag_bytes ident payload @ rest" "length payload < 2 ^ 32"
  | ident n where "8 \<le> length ahead" "letohl (take 4 ahead) = ident" "letohl (take 4 (drop 4 ahead)) = n"
      "length (drop 8 ahead) < unat n"
proof (cases "length ahead < 8")
  case False
  define n where "n = letohl (take 4 (drop 4 ahead))"
  define payload where "payload = take (unat n) (drop 8 ahead)"
  show thesis
  proof (cases "length (drop 8 ahead) < unat n")
    case False
    then have len: "length payload = unat n" by (simp add: payload_def)
    have "ahead = take 4 ahead @ drop 4 ahead" "drop 4 ahead = take 4 (drop 4 ahead) @ drop 4 (drop 4 ahead)"
      "drop 8 ahead = payload @ drop (unat n) (drop 8 ahead)"
      by (simp_all add: payload_def del: drop_drop)
    then have "ahead = take 4 ahead @ take 4 (drop 4 ahead) @ payload @ drop (unat n) (drop 8 ahead)"
      by (metis add_2_eq_Suc' drop_drop numeral_Bit0)
    moreover have "take 4 ahead = le32 (letohl (take 4 ahead))" "take 4 (drop 4 ahead) = le32 n"
      using \<open>\<not> length ahead < 8\<close> by (simp_all add: le32_letohl n_def)
    ultimately have "ahead = gbl_tag_bytes (letohl (take 4 ahead)) payload @ drop (unat n) (drop 8 ahead)"
      using len by (simp add: gbl_tag_bytes_def)
    moreover have "unat n < 2 ^ LENGTH(32)" by (rule unsigned_less)
    then have "length payload < 2 ^ 32" using len by simp
    ultimately show thesis by (rule that(2))
  qed (use that(3) [of "letohl (take 4 ahead)" n] False in \<open>simp add: n_def\<close>)
qed (rule that(1))

lemma gbl_loop_short: "length ahead < 8 \<Longrightarrow> gbl_loop ahead = (EXIT_FAILURE, [])"
  by (subst gbl_loop.simps) (simp add: sizeof_gbl_tag_def)

lemma gbl_loop_cut:
  assumes "8 \<le> length ahead" "length (drop 8 ahead) < unat (letohl (take 4 (drop 4 ahead)))"
  shows "gbl_loop ahead = (EXIT_FAILURE, [])"
proof -
  have "gbl_loop [] = (EXIT_FAILURE, [])" by (rule gbl_loop_short) simp
  then show ?thesis
    using assms by (subst gbl_loop.simps) (auto simp: sizeof_gbl_tag_def gbl_application_def Let_def drop_take)
qed

lemma gbl_application_ok:
  assumes "length payload < 2 ^ 32"
  shows "gbl_application (of_nat (length payload)) (payload @ rest) =
    (if 28 \<le> length payload \<and> length payload \<le> 64
     then (EXIT_SUCCESS, version_text (letohl (take 4 (drop 4 payload)))) else (EXIT_FAILURE, []))"
proof -
  have "unat (of_nat (length payload) :: u32) = length payload"
    using assms by (simp add: unat_of_nat take_bit_nat_eq_self)
  moreover from this have "(64 :: u32) < of_nat (length payload) \<longleftrightarrow> 64 < length payload"
    by (simp add: word_less_nat_alt)
  moreover have "take 4 (drop 4 (take 28 (payload @ zs))) = take 4 (drop 4 payload)" if "28 \<le> length payload" for zs
    using that by (simp add: drop_take min_def)
  ultimately show ?thesis
    unfolding gbl_application_def Let_def sizeof_ApplicationData_def by simp
qed

definition gbl_image :: "(u32 \<times> byte_buffer) list \<Rightarrow> byte_buffer \<Rightarrow> byte_buffer \<Rightarrow> byte_buffer" where
  "gbl_image tags payload rest =
     concat (map (\<lambda>(ident, content). gbl_tag_bytes ident content) tags)
       @ gbl_tag_bytes EBL_TAG_ID_APPLICATION payload @ rest"

definition carries_version :: "byte_buffer \<Rightarrow> string \<Rightarrow> bool" where
  "carries_version img out \<longleftrightarrow>
     (\<exists>tags payload rest. list_all other_tag tags \<and> 28 \<le> length payload \<and> length payload \<le> 64
        \<and> img = gbl_image tags payload rest \<and> out = version_text (letohl (take 4 (drop 4 payload))))"

lemma carries_version_here:
  "28 \<le> length payload \<Longrightarrow> length payload \<le> 64 \<Longrightarrow>
     carries_version (gbl_tag_bytes EBL_TAG_ID_APPLICATION payload @ rest)
       (version_text (letohl (take 4 (drop 4 payload))))"
  unfolding carries_version_def
  by (intro exI [of _ "[]"] exI [of _ payload] exI [of _ rest]) (simp add: gbl_image_def)

lemma carries_version_later:
  assumes "carries_version rest out" "other_tag (ident, payload)"
  shows "carries_version (gbl_tag_bytes ident payload @ rest) out"
proof -
  obtain tags p r where "list_all other_tag tags" "28 \<le> length p" "length p \<le> 64"
    "rest = gbl_image tags p r" "out = version_text (letohl (take 4 (drop 4 p)))"
    using assms(1) unfolding carries_version_def by blast
  then show ?thesis
    unfolding carries_version_def using assms(2)
    by (intro exI [of _ "(ident, payload) # tags"] exI [of _ p] exI [of _ r]) (simp add: gbl_image_def)
qed

lemma gbl_loop_finds:
  "(gbl_loop img = (EXIT_SUCCESS, out) \<longrightarrow> carries_version img out)
     \<and> (fst (gbl_loop img) = EXIT_SUCCESS \<or> gbl_loop img = (EXIT_FAILURE, []))"
proof (induction "length img" arbitrary: img rule: less_induct)
  case less
  note failed = EXIT_FAILURE_def EXIT_SUCCESS_def
  show ?case
  proof (cases img rule: gbl_image_cases)
    case (2 ident payload rest)
    show ?thesis
    proof (cases "ident = EBL_TAG_ID_APPLICATION")
      case True
      have "gbl_loop img = (if 28 \<le> length payload \<and> length payload \<le> 64
          then (EXIT_SUCCESS, version_text (letohl (take 4 (drop 4 payload)))) else (EXIT_FAILURE, []))"
        using gbl_loop_tag [OF 2(2), of ident rest] gbl_application_ok [OF 2(2), of rest] True 2(1) by simp
      then show ?thesis
        using carries_version_here [of payload rest] True 2(1) by (auto simp: failed)
    next
      case False
      then have "gbl_loop img = gbl_loop rest" using gbl_loop_tag [OF 2(2), of ident rest] 2(1) by simp
      moreover have "length rest < length img" using 2(1) by (simp add: gbl_tag_bytes_def)
      moreover have "other_tag (ident, payload)" using False 2(2) by (simp add: other_tag_def)
      ultimately show ?thesis
        using less [of rest] carries_version_later 2(1) by auto
    qed
  qed (auto simp: gbl_loop_short gbl_loop_cut failed)
qed

text \<open>C34: The tool prints a version exactly for the images that begin with tags other than the application
  tag, if any, and then have an application tag with a payload of 28 to 64 bytes that is complete, and
  it prints the second integer of this payload; for every other file it fails and prints nothing.\<close>

theorem gbl_reports_version:
  "(gbl_main progname [] [name] [name \<mapsto> img] = (EXIT_SUCCESS, out) \<longleftrightarrow>
     (\<exists>tags payload rest. list_all other_tag tags \<and> 28 \<le> length payload \<and> length payload \<le> 64
        \<and> img = gbl_image tags payload rest
        \<and> out = version_text (letohl (take 4 (drop 4 payload)))))
   \<and> (fst (gbl_main progname [] [name] [name \<mapsto> img]) = EXIT_SUCCESS
      \<or> gbl_main progname [] [name] [name \<mapsto> img] = (EXIT_FAILURE, []))"
proof -
  have found: "gbl_loop (gbl_image tags payload rest) = (EXIT_SUCCESS, version_text (letohl (take 4 (drop 4 payload))))"
    if "list_all other_tag tags" "28 \<le> length payload" "length payload \<le> 64" for tags payload rest
    using that by (induction tags) (auto simp: gbl_image_def gbl_loop_tag gbl_application_ok other_tag_def)
  show ?thesis using found gbl_loop_finds [of img out] by (auto simp: gbl_main_def carries_version_def)
qed

end
