(* ===== verification/EzspNames.thy ===== *)
theory EzspNames
  imports EzspCommands HexText "HOL-Library.Multiset"
begin

text \<open>
  Enumerations and the names of their members: the enumerations of \<open>ezsp-enum.h\<close> and \<open>zdp-enum.h\<close> with the
  functions that print them (\<open>ezsp-enum.cpp\<close>, \<open>zdp-enum.cpp\<close>), and the enumerations which \<open>enum-generator.h\<close>
  generates from a list, with their two functions. An enumeration is the list of its members with the
  values that are written; the others count on from the member before.
\<close>

type_synonym enum_list = "(string \<times> int option) list"

fun enumerate_from :: "int \<Rightarrow> enum_list \<Rightarrow> (string \<times> int) list" where
  "enumerate_from k [] = []"
| "enumerate_from k ((name, assign) # es) =
     (let v = (case assign of None \<Rightarrow> k | Some a \<Rightarrow> a) in (name, v) # enumerate_from (v + 1) es)"

definition enumerators :: "enum_list \<Rightarrow> (string \<times> int) list" where
  "enumerators es = enumerate_from 0 es"

text \<open>The functions which \<open>DEFINE_ENUM\<close> defines; where they throw \<open>std::range_error\<close> they are \<open>None\<close>.\<close>

fun enum_case :: "(string \<times> int) list \<Rightarrow> int \<Rightarrow> string option" where
  "enum_case [] value_in = None"
| "enum_case ((name, v) # es) value_in = (if value_in = v then Some name else enum_case es value_in)"

definition getAsString :: "enum_list \<Rightarrow> int \<Rightarrow> string option" where
  "getAsString es value_in = enum_case (enumerators es) value_in"

definition getValue :: "enum_list \<Rightarrow> string \<Rightarrow> int option" where
  "getValue es str = map_of (enumerators es) str"

text \<open>The functions that look a name up in a \<open>std::map\<close>, which is built from pairs of a value and a name and
  keeps the first name for a value.\<close>

type_synonym name_table = "(int \<times> string) list"

definition find_name :: "name_table \<Rightarrow> int \<Rightarrow> string \<Rightarrow> string" where
  "find_name t k missing = (case map_of t k of None \<Rightarrow> missing | Some name \<Rightarrow> name)"

section \<open>States and modes\<close>

definition ASH_INFO_list :: enum_list where
  "ASH_INFO_list = [
    (''ASH_RESET_FAILED'', Some 1), (''ASH_ACK'', None), (''ASH_NACK'', None),
    (''ASH_STATE_DISCONNECTED'', None), (''ASH_STATE_CONNECTED'', None)]"

definition BOOTLOADER_STAGE_list :: enum_list where
  "BOOTLOADER_STAGE_list = [
    (''RX_FLUSH'', Some 1), (''PROBE'', None), (''TOPLEVEL_MENU_HEADER'', None),
    (''TOPLEVEL_MENU_CONTENT'', None), (''TOPLEVEL_MENU_PROMPT'', None),
    (''XMODEM_READY_CHAR_WAIT'', None), (''XMODEM_XFR'', None)]"

definition EZSP_DONGLE_MODE_list :: enum_list where
  "EZSP_DONGLE_MODE_list = [
    (''UNKNOWN'', Some 1), (''EZSP_NCP'', None), (''BOOTLOADER_FIRMWARE_UPGRADE'', None),
    (''BOOTLOADER_EXIT_TO_EZSP_NCP'', None)]"

definition SINK_STATE_list :: enum_list where
  "SINK_STATE_list = [
    (''SINK_NOT_INIT'', Some 1), (''SINK_READY'', None), (''SINK_ERROR'', None), (''SINK_COM_OPEN'', None),
    (''SINK_COM_IN_PROGRESS'', None), (''SINK_COM_OFFLINE_IN_PROGRESS'', None),
    (''SINK_AUTHORIZE_ANSWER_CH_RQST'', None), (''SINK_CLEAR_ALL'', None),
    (''SINK_REMOVE_IN_PROGRESS'', None)]"

definition CLIBEZSP_INTERNAL_STATE_list :: enum_list where
  "CLIBEZSP_INTERNAL_STATE_list = [
    (''UNINITIALIZED'', Some 1), (''WAIT_DONGLE_READY'', None), (''GETTING_EZSP_VERSION'', None),
    (''GETTING_XNCP_INFO'', None), (''STACK_INIT'', None), (''FORM_NWK_IN_PROGRESS'', None),
    (''LEAVE_NWK_IN_PROGRESS'', None), (''READY'', None), (''SCANNING'', None), (''JOINING'', None),
    (''INIT_FAILED'', None), (''SINK_BUSY'', None), (''SWITCHING_TO_BOOTLOADER_MODE'', None),
    (''IN_BOOTLOADER_MENU'', None), (''IN_XMODEM_XFR'', None), (''SWITCHING_TO_EZSP_MODE'', None),
    (''SWITCH_TO_BOOTLOADER_IN_PROGRESS'', None), (''TERMINATING'', None)]"

definition CLIBEZSP_STATE_list :: enum_list where
  "CLIBEZSP_STATE_list = [
    (''UNINITIALIZED'', Some 1), (''READY'', None), (''INIT_FAILED'', None), (''SINK_BUSY'', None),
    (''IN_XMODEM_XFR'', None), (''TERMINATING'', None)]"

section \<open>EZSP commands\<close>

definition EEzspCmd_configuration :: enum_list where
  "EEzspCmd_configuration = [
    (''EZSP_VERSION'', Some 0x00), (''EZSP_GET_CONFIGURATION_VALUE'', Some 0x52),
    (''EZSP_SET_CONFIGURATION_VALUE'', Some 0x53), (''EZSP_ADD_ENDPOINT'', Some 0x02),
    (''EZSP_SET_POLICY'', Some 0x55), (''EZSP_GET_POLICY'', Some 0x56),
    (''EZSP_SEND_PAN_ID_UPDATE'', Some 0x57), (''EZSP_GET_VALUE'', Some 0xAA),
    (''EZSP_GET_EXTENDED_VALUE'', Some 0x03), (''EZSP_SET_VALUE'', Some 0xAB),
    (''EZSP_SET_GPIO_CURRENT_CONFIGURATION'', Some 0xAC),
    (''EZSP_SET_GPIO_POWER_UP_DOWN_CONFIGURATION'', Some 0xAD),
    (''EZSP_SET_GPIO_RADIO_POWER_MASK'', Some 0xAE), (''EZSP_SET_CTUNE'', Some 0xF5),
    (''EZSP_GET_CTUNE'', Some 0xF6)]"

definition EEzspCmd_utilities :: enum_list where
  "EEzspCmd_utilities = [
    (''EZSP_NOP'', Some 0x05), (''EZSP_ECHO'', Some 0x81), (''EZSP_INVALID_COMMAND'', Some 0x58),
    (''EZSP_CALLBACK'', Some 0x06), (''EZSP_NO_CALLBACKS'', Some 0x07), (''EZSP_SET_TOKEN'', Some 0x09),
    (''EZSP_GET_TOKEN'', Some 0x0A), (''EZSP_GET_MFG_TOKEN'', Some 0x0B),
    (''EZSP_SET_MFG_TOKEN'', Some 0x0C), (''EZSP_STACK_TOKEN_CHANGED_HANDLER'', Some 0x0D),
    (''EZSP_GET_RANDOM_NUMBER'', Some 0x49), (''EZSP_SET_TIMER'', Some 0x0E),
    (''EZSP_GET_TIMER'', Some 0x4E), (''EZSP_TIMER_HANDLER'', Some 0x0F), (''EZSP_DEBUG_WRITE'', Some 0x12),
    (''EZSP_READ_AND_CLEAR_COUNTERS'', Some 0x65), (''EZSP_READ_COUNTERS'', Some 0xF1),
    (''EZSP_COUNTER_ROLLOVER_HANDLER'', Some 0xF2), (''EZSP_DELAY_TEST'', Some 0x9D),
    (''EZSP_GET_LIBRARY_STATUS'', Some 0x01), (''EZSP_GET_XNCP_INFO'', Some 0x13),
    (''EZSP_CUSTOM_FRAME'', Some 0x47), (''EZSP_CUSTOM_FRAME_HANDLER'', Some 0x54),
    (''EZSP_GET_EUI64'', Some 0x26), (''EZSP_GET_NODE_ID'', Some 0x27),
    (''EZSP_GET_PHY_INTERFACE_COUNT'', Some 0xFC), (''EZSP_GET_TRUE_RANDOM_ENTROPY_SOURCE'', Some 0x4F)]"

definition EEzspCmd_networking :: enum_list where
  "EEzspCmd_networking = [
    (''EZSP_SET_MANUFACTURER_CODE'', Some 0x15), (''EZSP_SET_POWER_DESCRIPTOR'', Some 0x16),
    (''EZSP_NETWORK_INIT'', Some 0x17), (''EZSP_NETWORK_STATE'', Some 0x18),
    (''EZSP_STACK_STATUS_HANDLER'', Some 0x19), (''EZSP_START_SCAN'', Some 0x1A),
    (''EZSP_ENERGY_SCAN_RESULT_HANDLER'', Some 0x48), (''EZSP_NETWORK_FOUND_HANDLER'', Some 0x1B),
    (''EZSP_SCAN_COMPLETE_HANDLER'', Some 0x1C), (''EZSP_UNUSED_PAN_ID_FOUND_HANDLER'', Some 0xD2),
    (''EZSP_FIND_UNUSED_PAN_ID'', Some 0xD3), (''EZSP_STOP_SCAN'', Some 0x1D),
    (''EZSP_FORM_NETWORK'', Some 0x1E), (''EZSP_JOIN_NETWORK'', Some 0x1F),
    (''EZSP_LEAVE_NETWORK'', Some 0x20), (''EZSP_FIND_AND_REJOIN_NETWORK'', Some 0x21),
    (''EZSP_PERMIT_JOINING'', Some 0x22), (''EZSP_CHILD_JOIN_HANDLER'', Some 0x23),
    (''EZSP_ENERGY_SCAN_REQUEST'', Some 0x9C), (''EZSP_GET_NETWORK_PARAMETERS'', Some 0x28),
    (''EZSP_GET_RADIO_PARAMETERS'', Some 0xFD), (''EZSP_GET_PARENT_CHILD_PARAMETERS'', Some 0x29),
    (''EZSP_GET_CHILD_DATA'', Some 0x4A), (''EZSP_GET_SOURCE_ROUTE_TABLE_TOTAL_SIZE'', Some 0xC3),
    (''EZSP_GET_SOURCE_ROUTE_TABLE_FILLED_SIZE'', Some 0xC2),
    (''EZSP_GET_SOURCE_ROUTE_TABLE_ENTRY'', Some 0xC1), (''EZSP_GET_NEIGHBOR'', Some 0x79),
    (''EZSP_SET_ROUTING_SHORTCUT_THRESHOLD'', Some 0xD0),
    (''EZSP_GET_ROUTING_SHORTCUT_THRESHOLD'', Some 0xD1), (''EZSP_NEIGHBOR_COUNT'', Some 0x7A),
    (''EZSP_GET_ROUTE_TABLE_ENTRY'', Some 0x7B), (''EZSP_SET_RADIO_POWER'', Some 0x99),
    (''EZSP_SET_RADIO_CHANNEL'', Some 0x9A), (''EZSP_SET_CONCENTRATOR'', Some 0x10),
    (''EZSP_SET_BROKEN_ROUTE_ERROR_CODE'', Some 0x11), (''EZSP_MULTI_PHY_START'', Some 0xF8),
    (''EZSP_MULTI_PHY_STOP'', Some 0xF9), (''EZSP_MULTI_PHY_SET_RADIO_POWER'', Some 0xFA),
    (''EZSP_SEND_LINK_POWER_DELTA_REQUEST'', Some 0xF7), (''EZSP_MULTI_PHY_SET_RADIO_CHANNEL'', Some 0xFB),
    (''EZSP_GET_DUTY_CYCLE_STATE'', Some 0x35), (''EZSP_SET_DUTY_CYCLE_LIMITS_IN_STACK'', Some 0x40),
    (''EZSP_GET_DUTY_CYCLE_LIMITS'', Some 0x4B), (''EZSP_GET_CURRENT_DUTY_CYCLE'', Some 0x4C),
    (''EZSP_DUTY_CYCLE_HANDLER'', Some 0x4D)]"

definition EEzspCmd_binding :: enum_list where
  "EEzspCmd_binding = [
    (''EZSP_CLEAR_BINDING_TABLE'', Some 0x2A), (''EZSP_SET_BINDING'', Some 0x2B),
    (''EZSP_GET_BINDING'', Some 0x2C), (''EZSP_DELETE_BINDING'', Some 0x2D),
    (''EZSP_BINDING_IS_ACTIVE'', Some 0x2E), (''EZSP_GET_BINDING_REMOTE_NODE_ID'', Some 0x2F),
    (''EZSP_SET_BINDING_REMOTE_NODE_ID'', Some 0x30), (''EZSP_REMOTE_SET_BINDING_HANDLER'', Some 0x31),
    (''EZSP_REMOTE_DELETE_BINDING_HANDLER'', Some 0x32)]"

definition EEzspCmd_messaging :: enum_list where
  "EEzspCmd_messaging = [
    (''EZSP_MAXIMUM_PAYLOAD_LENGTH'', Some 0x33), (''EZSP_SEND_UNICAST'', Some 0x34),
    (''EZSP_SEND_BROADCAST'', Some 0x36), (''EZSP_PROXY_BROADCAST'', Some 0x37),
    (''EZSP_SEND_MULTICAST'', Some 0x38), (''EZSP_SEND_MULTICAST_WITH_ALIAS'', Some 0x3A),
    (''EZSP_SEND_REPLY'', Some 0x39), (''EZSP_MESSAGE_SENT_HANDLER'', Some 0x3F),
    (''EZSP_SEND_MANY_TO_ONE_ROUTE_REQUEST'', Some 0x41), (''EZSP_POLL_FOR_DATA'', Some 0x42),
    (''EZSP_POLL_COMPLETE_HANDLER'', Some 0x43), (''EZSP_POLL_HANDLER'', Some 0x44),
    (''EZSP_INCOMING_SENDER_EUI64_HANDLER'', Some 0x62), (''EZSP_INCOMING_MESSAGE_HANDLER'', Some 0x45),
    (''EZSP_INCOMING_ROUTE_RECORD_HANDLER'', Some 0x59), (''EZSP_CHANGE_SOURCE_ROUTE_HANDLER'', Some 0xC4),
    (''EZSP_SET_SOURCE_ROUTE'', Some 0x5A),
    (''EZSP_INCOMING_MANY_TO_ONE_ROUTE_REQUEST_HANDLER'', Some 0x7D),
    (''EZSP_INCOMING_ROUTE_ERROR_HANDLER'', Some 0x80), (''EZSP_ADDRESS_TABLE_ENTRY_IS_ACTIVE'', Some 0x5B),
    (''EZSP_SET_ADDRESS_TABLE_REMOTE_EUI64'', Some 0x5C),
    (''EZSP_SET_ADDRESS_TABLE_REMOTE_NODE_ID'', Some 0x5D),
    (''EZSP_GET_ADDRESS_TABLE_REMOTE_EUI64'', Some 0x5E),
    (''EZSP_GET_ADDRESS_TABLE_REMOTE_NODE_ID'', Some 0x5F), (''EZSP_SET_EXTENDED_TIMEOUT'', Some 0x7E),
    (''EZSP_GET_EXTENDED_TIMEOUT'', Some 0x7F), (''EZSP_REPLACE_ADDRESS_TABLE_ENTRY'', Some 0x82),
    (''EZSP_LOOKUP_NODE_ID_BY_EUI64'', Some 0x60), (''EZSP_LOOKUP_EUI64_BY_NODE_ID'', Some 0x61),
    (''EZSP_GET_MULTICAST_TABLE_ENTRY'', Some 0x63), (''EZSP_SET_MULTICAST_TABLE_ENTRY'', Some 0x64),
    (''EZSP_ID_CONFLICT_HANDLER'', Some 0x7C), (''EZSP_WRITE_NODE_DATA'', Some 0xFE),
    (''EZSP_SEND_RAW_MESSAGE'', Some 0x96), (''EZSP_MAC_PASSTHROUGH_MESSAGE_HANDLER'', Some 0x97),
    (''EZSP_MAC_FILTER_MATCH_MESSAGE_HANDLER'', Some 0x46),
    (''EZSP_RAW_TRANSMIT_COMPLETE_HANDLER'', Some 0x98), (''EZSP_SET_MAC_POLL_CCA_WAIT_TIME'', Some 0xF4),
    (''EZSP_SET_BEACON_CLASSIFICATION_PARAMS'', Some 0xEF),
    (''EZSP_GET_BEACON_CLASSIFICATION_PARAMS'', Some 0xF3)]"

definition EEzspCmd_security :: enum_list where
  "EEzspCmd_security = [
    (''EZSP_SET_INITIAL_SECURITY_STATE'', Some 0x68), (''EZSP_GET_CURRENT_SECURITY_STATE'', Some 0x69),
    (''EZSP_GET_KEY'', Some 0x6a), (''EZSP_SWITCH_NETWORK_KEY_HANDLER'', Some 0x6e),
    (''EZSP_GET_KEY_TABLE_ENTRY'', Some 0x71), (''EZSP_SET_KEY_TABLE_ENTRY'', Some 0x72),
    (''EZSP_FIND_KEY_TABLE_ENTRY'', Some 0x75), (''EZSP_ADD_OR_UPDATE_KEY_TABLE_ENTRY'', Some 0x66),
    (''EZSP_SEND_TRUST_CENTER_LINK_KEY'', Some 0x67), (''EZSP_ERASE_KEY_TABLE_ENTRY'', Some 0x76),
    (''EZSP_CLEAR_KEY_TABLE'', Some 0xB1), (''EZSP_REQUEST_LINK_KEY'', Some 0x14),
    (''EZSP_UPDATE_TC_LINK_KEY'', Some 0x6C), (''EZSP_ZIGBEE_KEY_ESTABLISHMENT_HANDLER'', Some 0x9B),
    (''EZSP_ADD_TRANSIENT_LINK_KEY'', Some 0xAF), (''EZSP_CLEAR_TRANSIENT_LINK_KEYS'', Some 0x6B),
    (''EZSP_GET_TRANSIENT_LINK_KEY'', Some 0xCE), (''EZSP_GET_TRANSIENT_KEY_TABLE_ENTRY'', Some 0x6D)]"

definition EEzspCmd_trust_center :: enum_list where
  "EEzspCmd_trust_center = [
    (''EZSP_TRUST_CENTER_JOIN_HANDLER'', Some 0x24), (''EZSP_BROADCAST_NEXT_NETWORK_KEY'', Some 0x73),
    (''EZSP_BROADCAST_NETWORK_KEY_SWITCH'', Some 0x74), (''EZSP_BECOME_TRUST_CENTER'', Some 0x77),
    (''EZSP_AES_MMO_HASH'', Some 0x6F), (''EZSP_REMOVE_DEVICE'', Some 0xA8),
    (''EZSP_UNICAST_NWK_KEY_UPDATE'', Some 0xA9)]"

definition EEzspCmd_cbke :: enum_list where
  "EEzspCmd_cbke = [
    (''EZSP_GENERATE_CBKE_KEYS'', Some 0xA4), (''EZSP_GENERATE_CBKE_KEYS_HANDLER'', Some 0x9E),
    (''EZSP_CALCULATE_SMACS'', Some 0x9F), (''EZSP_CALCULATE_SMACS_HANDLER'', Some 0xA0),
    (''EZSP_GENERATE_CBKE_KEYS283K1'', Some 0xE8), (''EZSP_GENERATE_CBKE_KEYS_HANDLER283K1'', Some 0xE9),
    (''EZSP_CALCULATE_SMACS283K1'', Some 0xEA), (''EZSP_CALCULATE_SMACS_HANDLER283K1'', Some 0xEB),
    (''EZSP_CLEAR_TEMPORARY_DATA_MAYBE_STORE_LINK_KEY'', Some 0xA1),
    (''EZSP_CLEAR_TEMPORARY_DATA_MAYBE_STORE_LINK_KEY283K1'', Some 0xEE),
    (''EZSP_GET_CERTIFICATE'', Some 0xA5), (''EZSP_GET_CERTIFICATE283K1'', Some 0xEC),
    (''EZSP_DSA_SIGN'', Some 0xA6), (''EZSP_DSA_SIGN_HANDLER'', Some 0xA7),
    (''EZSP_DSA_VERIFY'', Some 0xA3), (''EZSP_DSA_VERIFY_HANDLER'', Some 0x78),
    (''EZSP_DSA_VERIFY283K1'', Some 0xB0), (''EZSP_SET_PREINSTALLED_CBKE_DATA'', Some 0xA2),
    (''EZSP_SAVE_PREINSTALLED_CBKE_DATA283K1'', Some 0xED)]"

definition EEzspCmd_mfglib :: enum_list where
  "EEzspCmd_mfglib = [
    (''EZSP_MFGLIB_START'', Some 0x83), (''EZSP_MFGLIB_END'', Some 0x84),
    (''EZSP_MFGLIB_START_TONE'', Some 0x85), (''EZSP_MFGLIB_STOP_TONE'', Some 0x86),
    (''EZSP_MFGLIB_START_STREAM'', Some 0x87), (''EZSP_MFGLIB_STOP_STREAM'', Some 0x88),
    (''EZSP_MFGLIB_SEND_PACKET'', Some 0x89), (''EZSP_MFGLIB_SET_CHANNEL'', Some 0x8a),
    (''EZSP_MFGLIB_GET_CHANNEL'', Some 0x8b), (''EZSP_MFGLIB_SET_POWER'', Some 0x8c),
    (''EZSP_MFGLIB_GET_POWER'', Some 0x8d), (''EZSP_MFGLIB_RX_HANDLER'', Some 0x8e)]"

definition EEzspCmd_bootloader :: enum_list where
  "EEzspCmd_bootloader = [
    (''EZSP_LAUNCH_STANDALONE_BOOTLOADER'', Some 0x8f), (''EZSP_SEND_BOOTLOAD_MESSAGE'', Some 0x90),
    (''EZSP_GET_STANDALONE_BOOTLOADER_VERSION_PLAT_MICRO_PHY'', Some 0x91),
    (''EZSP_INCOMING_BOOTLOAD_MESSAGE_HANDLER'', Some 0x92),
    (''EZSP_BOOTLOAD_TRANSMIT_COMPLETE_HANDLER'', Some 0x93), (''EZSP_AES_ENCRYPT'', Some 0x94),
    (''EZSP_OVERRIDE_CURRENT_CHANNEL'', Some 0x95)]"

definition EEzspCmd_zll :: enum_list where
  "EEzspCmd_zll = [
    (''EZSP_ZLL_NETWORK_OPS'', Some 0xB2), (''EZSP_ZLL_SET_INITIAL_SECURITY_STATE'', Some 0xB3),
    (''EZSP_ZLL_SET_SECURITY_STATE_WITHOUT_KEY'', Some 0xCF), (''EZSP_ZLL_START_SCAN'', Some 0xB4),
    (''EZSP_ZLL_SET_RX_ON_WHEN_IDLE'', Some 0xB5), (''EZSP_ZLL_NETWORK_FOUND_HANDLER'', Some 0xB6),
    (''EZSP_ZLL_SCAN_COMPLETE_HANDLER'', Some 0xB7), (''EZSP_ZLL_ADDRESS_ASSIGNMENT_HANDLER'', Some 0xB8),
    (''EZSP_SET_LOGICAL_AND_RADIO_CHANNEL'', Some 0xB9), (''EZSP_GET_LOGICAL_CHANNEL'', Some 0xBA),
    (''EZSP_ZLL_TOUCH_LINK_TARGET_HANDLER'', Some 0xBB), (''EZSP_ZLL_GET_TOKENS'', Some 0xBC),
    (''EZSP_ZLL_SET_DATA_TOKEN'', Some 0xBD), (''EZSP_ZLL_SET_NON_ZLL_NETWORK'', Some 0xBF),
    (''EZSP_IS_ZLL_NETWORK'', Some 0xBE), (''EZSP_ZLL_SET_RADIO_IDLE_MODE'', Some 0xD4),
    (''EZSP_SET_ZLL_NODE_TYPE'', Some 0xD5), (''EZSP_SET_ZLL_ADDITIONAL_STATE'', Some 0xD6),
    (''EZSP_ZLL_OPERATION_IN_PROGRESS'', Some 0xD7), (''EZSP_ZLL_RX_ON_WHEN_IDLE_GET_ACTIVE'', Some 0xD8),
    (''EZSP_GET_ZLL_PRIMARY_CHANNEL_MASK'', Some 0xD9),
    (''EZSP_GET_ZLL_SECONDARY_CHANNEL_MASK'', Some 0xDA),
    (''EZSP_SET_ZLL_PRIMARY_CHANNEL_MASK'', Some 0xDB),
    (''EZSP_SET_ZLL_SECONDARY_CHANNEL_MASK'', Some 0xDC), (''EZSP_ZLL_CLEAR_TOKENS'', Some 0x25)]"

definition EEzspCmd_wwah :: enum_list where
  "EEzspCmd_wwah = [
    (''EZSP_SET_PARENT_CLASSIFICATION_ENABLED'', Some 0xE7),
    (''EZSP_GET_PARENT_CLASSIFICATION_ENABLED'', Some 0xF0), (''EZSP_SET_LONG_UP_TIME'', Some 0xE3),
    (''EZSP_SET_HUB_CONNECTIVITY'', Some 0xE4), (''EZSP_IS_UP_TIME_LONG'', Some 0xE5),
    (''EZSP_IS_HUB_CONNECTED'', Some 0xE6)]"

definition EEzspCmd_green_power :: enum_list where
  "EEzspCmd_green_power = [
    (''EZSP_GP_PROXY_TABLE_PROCESS_GP_PAIRING'', Some 0xC9), (''EZSP_D_GP_SEND'', Some 0xC6),
    (''EZSP_D_GP_SENT_HANDLER'', Some 0xC7), (''EZSP_GPEP_INCOMING_MESSAGE_HANDLER'', Some 0xC5),
    (''EZSP_GP_PROXY_TABLE_GET_ENTRY'', Some 0xC8), (''EZSP_GP_PROXY_TABLE_LOOKUP'', Some 0xC0),
    (''EZSP_GP_SINK_TABLE_GET_ENTRY'', Some 0xDD), (''EZSP_GP_SINK_TABLE_LOOKUP'', Some 0xDE),
    (''EZSP_GP_SINK_TABLE_SET_ENTRY'', Some 0xDF), (''EZSP_GP_SINK_TABLE_REMOVE_ENTRY'', Some 0xE0),
    (''EZSP_GP_SINK_TABLE_FIND_OR_ALLOCATE_ENTRY'', Some 0xE1),
    (''EZSP_GP_SINK_TABLE_CLEAR_ALL'', Some 0xE2), (''EZSP_GP_SINK_TABLE_INIT'', Some 0x70)]"

definition EEzspCmd_secure_ezsp :: enum_list where
  "EEzspCmd_secure_ezsp = [
    (''EZSP_SET_SECURITY_KEY'', Some 0xCA), (''EZSP_SET_SECURITY_PARAMETERS'', Some 0xCB),
    (''EZSP_RESET_TO_FACTORY_DEFAULTS'', Some 0xCC), (''EZSP_GET_SECURITY_KEY_STATUS'', Some 0xCD)]"

definition EEzspCmd_list :: enum_list where
  "EEzspCmd_list =
    EEzspCmd_configuration @ EEzspCmd_utilities @ EEzspCmd_networking @ EEzspCmd_binding @
    EEzspCmd_messaging @ EEzspCmd_security @ EEzspCmd_trust_center @ EEzspCmd_cbke @ EEzspCmd_mfglib @
    EEzspCmd_bootloader @ EEzspCmd_zll @ EEzspCmd_wwah @ EEzspCmd_green_power @ EEzspCmd_secure_ezsp"

definition EEzspCmdStrings_configuration :: name_table where
  "EEzspCmdStrings_configuration = [
    (0, ''EZSP_VERSION''), (0x52, ''EZSP_GET_CONFIGURATION_VALUE''),
    (0x53, ''EZSP_SET_CONFIGURATION_VALUE''), (2, ''EZSP_ADD_ENDPOINT''), (0x55, ''EZSP_SET_POLICY''),
    (0x56, ''EZSP_GET_POLICY''), (0x57, ''EZSP_SEND_PAN_ID_UPDATE''), (0xaa, ''EZSP_GET_VALUE''),
    (3, ''EZSP_GET_EXTENDED_VALUE''), (0xab, ''EZSP_SET_VALUE''),
    (0xac, ''EZSP_SET_GPIO_CURRENT_CONFIGURATION''), (0xad, ''EZSP_SET_GPIO_POWER_UP_DOWN_CONFIGURATION''),
    (0xae, ''EZSP_SET_GPIO_RADIO_POWER_MASK''), (0xf5, ''EZSP_SET_CTUNE''), (0xf6, ''EZSP_GET_CTUNE'')]"

definition EEzspCmdStrings_utilities :: name_table where
  "EEzspCmdStrings_utilities = [
    (5, ''EZSP_NOP''), (0x81, ''EZSP_ECHO''), (0x58, ''EZSP_INVALID_COMMAND''), (6, ''EZSP_CALLBACK''),
    (7, ''EZSP_NO_CALLBACKS''), (9, ''EZSP_SET_TOKEN''), (0xa, ''EZSP_GET_TOKEN''),
    (0xb, ''EZSP_GET_MFG_TOKEN''), (0xc, ''EZSP_SET_MFG_TOKEN''),
    (0xd, ''EZSP_STACK_TOKEN_CHANGED_HANDLER''), (0x49, ''EZSP_GET_RANDOM_NUMBER''),
    (0xe, ''EZSP_SET_TIMER''), (0x4e, ''EZSP_GET_TIMER''), (0xf, ''EZSP_TIMER_HANDLER''),
    (0x12, ''EZSP_DEBUG_WRITE''), (0x65, ''EZSP_READ_AND_CLEAR_COUNTERS''), (0xf1, ''EZSP_READ_COUNTERS''),
    (0xf2, ''EZSP_COUNTER_ROLLOVER_HANDLER''), (0x9d, ''EZSP_DELAY_TEST''),
    (1, ''EZSP_GET_LIBRARY_STATUS''), (0x13, ''EZSP_GET_XNCP_INFO''), (0x47, ''EZSP_CUSTOM_FRAME''),
    (0x54, ''EZSP_CUSTOM_FRAME_HANDLER''), (0x26, ''EZSP_GET_EUI64''), (0x27, ''EZSP_GET_NODE_ID''),
    (0xfc, ''EZSP_GET_PHY_INTERFACE_COUNT''), (0x4f, ''EZSP_GET_TRUE_RANDOM_ENTROPY_SOURCE'')]"

definition EEzspCmdStrings_networking :: name_table where
  "EEzspCmdStrings_networking = [
    (0x15, ''EZSP_SET_MANUFACTURER_CODE''), (0x16, ''EZSP_SET_POWER_DESCRIPTOR''),
    (0x17, ''EZSP_NETWORK_INIT''), (0x18, ''EZSP_NETWORK_STATE''), (0x19, ''EZSP_STACK_STATUS_HANDLER''),
    (0x1a, ''EZSP_START_SCAN''), (0x48, ''EZSP_ENERGY_SCAN_RESULT_HANDLER''),
    (0x1b, ''EZSP_NETWORK_FOUND_HANDLER''), (0x1c, ''EZSP_SCAN_COMPLETE_HANDLER''),
    (0xd2, ''EZSP_UNUSED_PAN_ID_FOUND_HANDLER''), (0xd3, ''EZSP_FIND_UNUSED_PAN_ID''),
    (0x1d, ''EZSP_STOP_SCAN''), (0x1e, ''EZSP_FORM_NETWORK''), (0x1f, ''EZSP_JOIN_NETWORK''),
    (0x20, ''EZSP_LEAVE_NETWORK''), (0x21, ''EZSP_FIND_AND_REJOIN_NETWORK''),
    (0x22, ''EZSP_PERMIT_JOINING''), (0x23, ''EZSP_CHILD_JOIN_HANDLER''),
    (0x9c, ''EZSP_ENERGY_SCAN_REQUEST''), (0x28, ''EZSP_GET_NETWORK_PARAMETERS''),
    (0xfd, ''EZSP_GET_RADIO_PARAMETERS''), (0x29, ''EZSP_GET_PARENT_CHILD_PARAMETERS''),
    (0x4a, ''EZSP_GET_CHILD_DATA''), (0xc3, ''EZSP_GET_SOURCE_ROUTE_TABLE_TOTAL_SIZE''),
    (0xc2, ''EZSP_GET_SOURCE_ROUTE_TABLE_FILLED_SIZE''), (0xc1, ''EZSP_GET_SOURCE_ROUTE_TABLE_ENTRY''),
    (0x79, ''EZSP_GET_NEIGHBOR''), (0xd0, ''EZSP_SET_ROUTING_SHORTCUT_THRESHOLD''),
    (0xd1, ''EZSP_GET_ROUTING_SHORTCUT_THRESHOLD''), (0x7a, ''EZSP_NEIGHBOR_COUNT''),
    (0x7b, ''EZSP_GET_ROUTE_TABLE_ENTRY''), (0x99, ''EZSP_SET_RADIO_POWER''),
    (0x9a, ''EZSP_SET_RADIO_CHANNEL''), (0x10, ''EZSP_SET_CONCENTRATOR''),
    (0x11, ''EZSP_SET_BROKEN_ROUTE_ERROR_CODE''), (0xf8, ''EZSP_MULTI_PHY_START''),
    (0xf9, ''EZSP_MULTI_PHY_STOP''), (0xfa, ''EZSP_MULTI_PHY_SET_RADIO_POWER''),
    (0xf7, ''EZSP_SEND_LINK_POWER_DELTA_REQUEST''), (0xfb, ''EZSP_MULTI_PHY_SET_RADIO_CHANNEL''),
    (0x35, ''EZSP_GET_DUTY_CYCLE_STATE''), (0x40, ''EZSP_SET_DUTY_CYCLE_LIMITS_IN_STACK''),
    (0x4b, ''EZSP_GET_DUTY_CYCLE_LIMITS''), (0x4c, ''EZSP_GET_CURRENT_DUTY_CYCLE''),
    (0x4d, ''EZSP_DUTY_CYCLE_HANDLER'')]"

definition EEzspCmdStrings_binding :: name_table where
  "EEzspCmdStrings_binding = [
    (0x2a, ''EZSP_CLEAR_BINDING_TABLE''), (0x2b, ''EZSP_SET_BINDING''), (0x2c, ''EZSP_GET_BINDING''),
    (0x2d, ''EZSP_DELETE_BINDING''), (0x2e, ''EZSP_BINDING_IS_ACTIVE''),
    (0x2f, ''EZSP_GET_BINDING_REMOTE_NODE_ID''), (0x30, ''EZSP_SET_BINDING_REMOTE_NODE_ID''),
    (0x31, ''EZSP_REMOTE_SET_BINDING_HANDLER''), (0x32, ''EZSP_REMOTE_DELETE_BINDING_HANDLER'')]"

definition EEzspCmdStrings_messaging :: name_table where
  "EEzspCmdStrings_messaging = [
    (0x33, ''EZSP_MAXIMUM_PAYLOAD_LENGTH''), (0x34, ''EZSP_SEND_UNICAST''), (0x36, ''EZSP_SEND_BROADCAST''),
    (0x37, ''EZSP_PROXY_BROADCAST''), (0x38, ''EZSP_SEND_MULTICAST''),
    (0x3a, ''EZSP_SEND_MULTICAST_WITH_ALIAS''), (0x39, ''EZSP_SEND_REPLY''),
    (0x3f, ''EZSP_MESSAGE_SENT_HANDLER''), (0x41, ''EZSP_SEND_MANY_TO_ONE_ROUTE_REQUEST''),
    (0x42, ''EZSP_POLL_FOR_DATA''), (0x43, ''EZSP_POLL_COMPLETE_HANDLER''), (0x44, ''EZSP_POLL_HANDLER''),
    (0x62, ''EZSP_INCOMING_SENDER_EUI64_HANDLER''), (0x45, ''EZSP_INCOMING_MESSAGE_HANDLER''),
    (0x59, ''EZSP_INCOMING_ROUTE_RECORD_HANDLER''), (0xc4, ''EZSP_CHANGE_SOURCE_ROUTE_HANDLER''),
    (0x5a, ''EZSP_SET_SOURCE_ROUTE''), (0x7d, ''EZSP_INCOMING_MANY_TO_ONE_ROUTE_REQUEST_HANDLER''),
    (0x80, ''EZSP_INCOMING_ROUTE_ERROR_HANDLER''), (0x5b, ''EZSP_ADDRESS_TABLE_ENTRY_IS_ACTIVE''),
    (0x5c, ''EZSP_SET_ADDRESS_TABLE_REMOTE_EUI64''), (0x5d, ''EZSP_SET_ADDRESS_TABLE_REMOTE_NODE_ID''),
    (0x5e, ''EZSP_GET_ADDRESS_TABLE_REMOTE_EUI64''), (0x5f, ''EZSP_GET_ADDRESS_TABLE_REMOTE_NODE_ID''),
    (0x7e, ''EZSP_SET_EXTENDED_TIMEOUT''), (0x7f, ''EZSP_GET_EXTENDED_TIMEOUT''),
    (0x82, ''EZSP_REPLACE_ADDRESS_TABLE_ENTRY''), (0x60, ''EZSP_LOOKUP_NODE_ID_BY_EUI64''),
    (0x61, ''EZSP_LOOKUP_EUI64_BY_NODE_ID''), (0x63, ''EZSP_GET_MULTICAST_TABLE_ENTRY''),
    (0x64, ''EZSP_SET_MULTICAST_TABLE_ENTRY''), (0x7c, ''EZSP_ID_CONFLICT_HANDLER''),
    (0xfe, ''EZSP_WRITE_NODE_DATA''), (0x96, ''EZSP_SEND_RAW_MESSAGE''),
    (0x97, ''EZSP_MAC_PASSTHROUGH_MESSAGE_HANDLER''), (0x46, ''EZSP_MAC_FILTER_MATCH_MESSAGE_HANDLER''),
    (0x98, ''EZSP_RAW_TRANSMIT_COMPLETE_HANDLER''), (0xf4, ''EZSP_SET_MAC_POLL_CCA_WAIT_TIME''),
    (0xef, ''EZSP_SET_BEACON_CLASSIFICATION_PARAMS''), (0xf3, ''EZSP_GET_BEACON_CLASSIFICATION_PARAMS'')]"

definition EEzspCmdStrings_security :: name_table where
  "EEzspCmdStrings_security = [
    (0x68, ''EZSP_SET_INITIAL_SECURITY_STATE''), (0x69, ''EZSP_GET_CURRENT_SECURITY_STATE''),
    (0x6a, ''EZSP_GET_KEY''), (0x6e, ''EZSP_SWITCH_NETWORK_KEY_HANDLER''),
    (0x71, ''EZSP_GET_KEY_TABLE_ENTRY''), (0x72, ''EZSP_SET_KEY_TABLE_ENTRY''),
    (0x75, ''EZSP_FIND_KEY_TABLE_ENTRY''), (0x66, ''EZSP_ADD_OR_UPDATE_KEY_TABLE_ENTRY''),
    (0x67, ''EZSP_SEND_TRUST_CENTER_LINK_KEY''), (0x76, ''EZSP_ERASE_KEY_TABLE_ENTRY''),
    (0xb1, ''EZSP_CLEAR_KEY_TABLE''), (0x14, ''EZSP_REQUEST_LINK_KEY''),
    (0x6c, ''EZSP_UPDATE_TC_LINK_KEY''), (0x9b, ''EZSP_ZIGBEE_KEY_ESTABLISHMENT_HANDLER''),
    (0xaf, ''EZSP_ADD_TRANSIENT_LINK_KEY''), (0x6b, ''EZSP_CLEAR_TRANSIENT_LINK_KEYS''),
    (0xce, ''EZSP_GET_TRANSIENT_LINK_KEY''), (0x6d, ''EZSP_GET_TRANSIENT_KEY_TABLE_ENTRY'')]"

definition EEzspCmdStrings_trust_center :: name_table where
  "EEzspCmdStrings_trust_center = [
    (0x24, ''EZSP_TRUST_CENTER_JOIN_HANDLER''), (0x73, ''EZSP_BROADCAST_NEXT_NETWORK_KEY''),
    (0x74, ''EZSP_BROADCAST_NETWORK_KEY_SWITCH''), (0x77, ''EZSP_BECOME_TRUST_CENTER''),
    (0x6f, ''EZSP_AES_MMO_HASH''), (0xa8, ''EZSP_REMOVE_DEVICE''), (0xa9, ''EZSP_UNICAST_NWK_KEY_UPDATE'')]"

definition EEzspCmdStrings_cbke :: name_table where
  "EEzspCmdStrings_cbke = [
    (0xa4, ''EZSP_GENERATE_CBKE_KEYS''), (0x9e, ''EZSP_GENERATE_CBKE_KEYS_HANDLER''),
    (0x9f, ''EZSP_CALCULATE_SMACS''), (0xa0, ''EZSP_CALCULATE_SMACS_HANDLER''),
    (0xe8, ''EZSP_GENERATE_CBKE_KEYS283K1''), (0xe9, ''EZSP_GENERATE_CBKE_KEYS_HANDLER283K1''),
    (0xea, ''EZSP_CALCULATE_SMACS283K1''), (0xeb, ''EZSP_CALCULATE_SMACS_HANDLER283K1''),
    (0xa1, ''EZSP_CLEAR_TEMPORARY_DATA_MAYBE_STORE_LINK_KEY''),
    (0xee, ''EZSP_CLEAR_TEMPORARY_DATA_MAYBE_STORE_LINK_KEY283K1''), (0xa5, ''EZSP_GET_CERTIFICATE''),
    (0xec, ''EZSP_GET_CERTIFICATE283K1''), (0xa6, ''EZSP_DSA_SIGN''), (0xa7, ''EZSP_DSA_SIGN_HANDLER''),
    (0xa3, ''EZSP_DSA_VERIFY''), (0x78, ''EZSP_DSA_VERIFY_HANDLER''), (0xb0, ''EZSP_DSA_VERIFY283K1''),
    (0xa2, ''EZSP_SET_PREINSTALLED_CBKE_DATA''), (0xed, ''EZSP_SAVE_PREINSTALLED_CBKE_DATA283K1'')]"

definition EEzspCmdStrings_mfglib :: name_table where
  "EEzspCmdStrings_mfglib = [
    (0x8e, ''EZSP_MFGLIB_RX_HANDLER'')]"

definition EEzspCmdStrings_bootloader :: name_table where
  "EEzspCmdStrings_bootloader = [
    (0x8f, ''EZSP_LAUNCH_STANDALONE_BOOTLOADER''), (0x90, ''EZSP_SEND_BOOTLOAD_MESSAGE''),
    (0x91, ''EZSP_GET_STANDALONE_BOOTLOADER_VERSION_PLAT_MICRO_PHY''),
    (0x92, ''EZSP_INCOMING_BOOTLOAD_MESSAGE_HANDLER''), (0x93, ''EZSP_BOOTLOAD_TRANSMIT_COMPLETE_HANDLER''),
    (0x94, ''EZSP_AES_ENCRYPT''), (0x95, ''EZSP_OVERRIDE_CURRENT_CHANNEL'')]"

definition EEzspCmdStrings_green_power :: name_table where
  "EEzspCmdStrings_green_power = [
    (0xc9, ''EZSP_GP_PROXY_TABLE_PROCESS_GP_PAIRING''), (0xc6, ''EZSP_D_GP_SEND''),
    (0xc7, ''EZSP_D_GP_SENT_HANDLER''), (0xc5, ''EZSP_GPEP_INCOMING_MESSAGE_HANDLER''),
    (0xc8, ''EZSP_GP_PROXY_TABLE_GET_ENTRY''), (0xc0, ''EZSP_GP_PROXY_TABLE_LOOKUP''),
    (0xdd, ''EZSP_GP_SINK_TABLE_GET_ENTRY''), (0xde, ''EZSP_GP_SINK_TABLE_LOOKUP''),
    (0xdf, ''EZSP_GP_SINK_TABLE_SET_ENTRY''), (0xe0, ''EZSP_GP_SINK_TABLE_REMOVE_ENTRY''),
    (0xe1, ''EZSP_GP_SINK_TABLE_FIND_OR_ALLOCATE_ENTRY''), (0xe2, ''EZSP_GP_SINK_TABLE_CLEAR_ALL''),
    (0x70, ''EZSP_GP_SINK_TABLE_INIT'')]"

definition EEzspCmdStrings :: name_table where
  "EEzspCmdStrings =
    EEzspCmdStrings_configuration @ EEzspCmdStrings_utilities @ EEzspCmdStrings_networking @
    EEzspCmdStrings_binding @ EEzspCmdStrings_messaging @ EEzspCmdStrings_security @
    EEzspCmdStrings_trust_center @ EEzspCmdStrings_cbke @ EEzspCmdStrings_mfglib @
    EEzspCmdStrings_bootloader @ EEzspCmdStrings_green_power"

definition EEzspCmdToString :: "int \<Rightarrow> string" where
  "EEzspCmdToString i_in = find_name EEzspCmdStrings i_in (''unknown value'')"

section \<open>Statuses, roles, keys and messages\<close>

definition EEmberStatus_list :: enum_list where
  "EEmberStatus_list = [
    (''EMBER_SUCCESS'', Some 0x00), (''EMBER_ERR_FATAL'', Some 0x01), (''EMBER_NO_BUFFERS'', Some 0x18),
    (''EMBER_MAC_NO_DATA'', Some 0x31), (''EMBER_MAC_INVALID_CHANNEL_MASK'', Some 0x35),
    (''EMBER_MAC_SCANNING'', Some 0x3D), (''EMBER_MAC_NO_ACK_RECEIVED'', Some 0x40),
    (''EMBER_DELIVERY_FAILED'', Some 0x66), (''EMBER_INVALID_CALL'', Some 0x70),
    (''EMBER_MAX_MESSAGE_LIMIT_REACHED'', Some 0x72), (''EMBER_ADDRESS_TABLE_ENTRY_IS_ACTIVE'', Some 0x76),
    (''UNDOCUMENTED_WRONG_MIC_FOR_SOURCE_ID'', Some 0x7E),
    (''UNDOCUMENTED_UNKNOWN_KEY_FOR_SOURCE_ID'', Some 0x7F), (''EMBER_NETWORK_UP'', Some 0x90),
    (''EMBER_NETWORK_DOWN'', Some 0x91), (''EMBER_NOT_JOINED'', Some 0x93),
    (''EMBER_JOIN_FAILED'', Some 0x94), (''EMBER_MOVE_FAILED'', Some 0x96),
    (''EMBER_NETWORK_OPENED'', Some 0x9C), (''EMBER_NETWORK_CLOSED'', Some 0x9D),
    (''EMBER_NETWORK_BUSY'', Some 0xA1), (''EMBER_SECURITY_STATE_NOT_SET'', Some 0xA8),
    (''EMBER_NO_BEACONS'', Some 0xAB), (''EMBER_RECEIVED_KEY_IN_THE_CLEAR'', Some 0xAC),
    (''EMBER_NO_NETWORK_KEY_RECEIVED'', Some 0xAD)]"

definition EEmberStatusStrings :: name_table where
  "EEmberStatusStrings = [
    (0, ''EMBER_SUCCESS''), (1, ''EMBER_ERR_FATAL''), (0x18, ''EMBER_NO_BUFFERS''),
    (0x31, ''EMBER_MAC_NO_DATA''), (0x35, ''EMBER_MAC_INVALID_CHANNEL_MASK''),
    (0x3d, ''EMBER_MAC_SCANNING''), (0x40, ''EMBER_MAC_NO_ACK_RECEIVED''),
    (0x66, ''EMBER_DELIVERY_FAILED''), (0x70, ''EMBER_INVALID_CALL''),
    (0x72, ''EMBER_MAX_MESSAGE_LIMIT_REACHED''), (0x76, ''EMBER_ADDRESS_TABLE_ENTRY_IS_ACTIVE''),
    (0x90, ''EMBER_NETWORK_UP''), (0x91, ''EMBER_NETWORK_DOWN''), (0x93, ''EMBER_NOT_JOINED''),
    (0x94, ''EMBER_JOIN_FAILED''), (0x9c, ''EMBER_NETWORK_OPENED''), (0x9d, ''EMBER_NETWORK_CLOSED''),
    (0x96, ''EMBER_MOVE_FAILED''), (0xa1, ''EMBER_NETWORK_BUSY''), (0xa8, ''EMBER_SECURITY_STATE_NOT_SET''),
    (0xab, ''EMBER_NO_BEACONS''), (0xac, ''EMBER_RECEIVED_KEY_IN_THE_CLEAR''),
    (0xad, ''EMBER_NO_NETWORK_KEY_RECEIVED''), (0x7e, ''UNDOCUMENTED_WRONG_MIC_FOR_SOURCE_ID''),
    (0x7f, ''UNDOCUMENTED_UNKNOWN_KEY_FOR_SOURCE_ID'')]"

definition EEmberStatusToString :: "int \<Rightarrow> string" where
  "EEmberStatusToString i_in = find_name EEmberStatusStrings i_in (int_text i_in @ ''(unknown)'')"

definition EmberNodeType_list :: enum_list where
  "EmberNodeType_list = [
    (''EMBER_UNKNOWN_DEVICE'', Some 0x00), (''EMBER_COORDINATOR'', Some 0x01),
    (''EMBER_ROUTER'', Some 0x02), (''EMBER_END_DEVICE'', Some 0x03),
    (''EMBER_SLEEPY_END_DEVICE'', Some 0x04)]"

definition EmberNodeTypeStrings :: name_table where
  "EmberNodeTypeStrings = [
    (0, ''EMBER_UNKNOWN_DEVICE''), (1, ''EMBER_COORDINATOR''), (2, ''EMBER_ROUTER''),
    (3, ''EMBER_END_DEVICE''), (4, ''EMBER_SLEEPY_END_DEVICE'')]"

definition EmberNodeTypeToString :: "int \<Rightarrow> string" where
  "EmberNodeTypeToString i_in = find_name EmberNodeTypeStrings i_in (''unknown value'')"

definition EmberJoinMethod_list :: enum_list where
  "EmberJoinMethod_list = [
    (''EMBER_USE_MAC_ASSOCIATION'', Some 0x00), (''EMBER_USE_NWK_REJOIN'', Some 0x01),
    (''EMBER_USE_NWK_REJOIN_HAVE_NWK_KEY'', Some 0x02), (''EMBER_USE_NWK_COMMISSIONING'', Some 0x03)]"

definition EmberJoinMethodStrings :: name_table where
  "EmberJoinMethodStrings = [
    (0, ''EMBER_USE_MAC_ASSOCIATION''), (1, ''EMBER_USE_NWK_REJOIN''),
    (2, ''EMBER_USE_NWK_REJOIN_HAVE_NWK_KEY''), (3, ''EMBER_USE_NWK_COMMISSIONING'')]"

definition EmberJoinMethodToString :: "int \<Rightarrow> string" where
  "EmberJoinMethodToString i_in = find_name EmberJoinMethodStrings i_in (''unknown value'')"

definition EmberKeyType_list :: enum_list where
  "EmberKeyType_list = [
    (''EMBER_TRUST_CENTER_LINK_KEY'', Some 0x01), (''EMBER_CURRENT_NETWORK_KEY'', Some 0x03),
    (''EMBER_NEXT_NETWORK_KEY'', Some 0x04), (''EMBER_APPLICATION_LINK_KEY'', Some 0x05)]"

definition EmberKeyTypeStrings :: name_table where
  "EmberKeyTypeStrings = [
    (1, ''EMBER_TRUST_CENTER_LINK_KEY''), (3, ''EMBER_CURRENT_NETWORK_KEY''),
    (4, ''EMBER_NEXT_NETWORK_KEY''), (5, ''EMBER_APPLICATION_LINK_KEY'')]"

definition EmberKeyTypeToString :: "int \<Rightarrow> string" where
  "EmberKeyTypeToString i_in = find_name EmberKeyTypeStrings i_in (''unknown value'')"

definition EmberIncomingMessageType_list :: enum_list where
  "EmberIncomingMessageType_list = [
    (''EMBER_INCOMING_UNICAST'', None), (''EMBER_INCOMING_UNICAST_REPLY'', None),
    (''EMBER_INCOMING_MULTICAST'', None), (''EMBER_INCOMING_MULTICAST_LOOPBACK'', None),
    (''EMBER_INCOMING_BROADCAST'', None), (''EMBER_INCOMING_BROADCAST_LOOPBACK'', None),
    (''EMBER_INCOMING_MANY_TO_ONE_ROUTE_REQUEST'', None)]"

definition EmberIncomingMessageTypeStrings :: name_table where
  "EmberIncomingMessageTypeStrings = [
    (0, ''EMBER_INCOMING_UNICAST''), (1, ''EMBER_INCOMING_UNICAST_REPLY''),
    (2, ''EMBER_INCOMING_MULTICAST''), (3, ''EMBER_INCOMING_MULTICAST_LOOPBACK''),
    (4, ''EMBER_INCOMING_BROADCAST''), (5, ''EMBER_INCOMING_BROADCAST_LOOPBACK''),
    (6, ''EMBER_INCOMING_MANY_TO_ONE_ROUTE_REQUEST'')]"

definition EmberIncomingMessageTypeToString :: "int \<Rightarrow> string" where
  "EmberIncomingMessageTypeToString i_in = find_name EmberIncomingMessageTypeStrings i_in (''unknown value'')"

definition EZdpLowByte_list :: enum_list where
  "EZdpLowByte_list = [
    (''ZDP_NWK_ADDR'', Some 0x00), (''ZDP_IEEE_ADDR'', Some 0x01), (''ZDP_NODE_DESC'', Some 0x02),
    (''ZDP_POWER_DESC'', Some 0x03), (''ZDP_SIMPLE_DESC'', Some 0x04), (''ZDP_ACTIVE_EP'', Some 0x05),
    (''ZDP_MATCH_DESC'', Some 0x06), (''ZDP_COMPLEX_DESC'', Some 0x10), (''ZDP_USER_DESC'', Some 0x11),
    (''ZDP_DISCOVERY_CACHE'', Some 0x12), (''ZDP_DEVICE_ANNOUNCE'', Some 0x13), (''ZDP_BIND'', Some 0x21),
    (''ZDP_MGMT_LQI'', Some 0x31), (''ZDP_MGMT_RTG'', Some 0x32), (''ZDP_MGMT_BIND'', Some 0x33)]"

definition EZdpLowByteStrings :: name_table where
  "EZdpLowByteStrings = [
    (0x33, ''ZDP_MGMT_BIND''), (0x32, ''ZDP_MGMT_RTG''), (0x31, ''ZDP_MGMT_LQI''),
    (0x12, ''ZDP_DISCOVERY_CACHE''), (0x13, ''ZDP_DEVICE_ANNOUNCE''), (0x21, ''ZDP_BIND''),
    (0x11, ''ZDP_USER_DESC''), (0x10, ''ZDP_COMPLEX_DESC''), (6, ''ZDP_MATCH_DESC''),
    (5, ''ZDP_ACTIVE_EP''), (4, ''ZDP_SIMPLE_DESC''), (3, ''ZDP_POWER_DESC''), (2, ''ZDP_NODE_DESC''),
    (1, ''ZDP_IEEE_ADDR''), (0, ''ZDP_NWK_ADDR'')]"

definition EZdpLowByteToString :: "int \<Rightarrow> string" where
  "EZdpLowByteToString i_in = find_name EZdpLowByteStrings i_in (''OUT_OF_RANGE'')"

section \<open>Configuration, policies and the rest\<close>

definition EEzspConfigId_tables :: enum_list where
  "EEzspConfigId_tables = [
    (''EZSP_CONFIG_PACKET_BUFFER_COUNT'', Some 0x0001), (''EZSP_CONFIG_NEIGHBOR_TABLE_SIZE'', Some 0x0002),
    (''EZSP_CONFIG_APS_UNICAST_MESSAGE_COUNT'', Some 0x0003),
    (''EZSP_CONFIG_BINDING_TABLE_SIZE'', Some 0x0004), (''EZSP_CONFIG_ADDRESS_TABLE_SIZE'', Some 0x0005),
    (''EZSP_CONFIG_MULTICAST_TABLE_SIZE'', Some 0x0006), (''EZSP_CONFIG_ROUTE_TABLE_SIZE'', Some 0x0007),
    (''EZSP_CONFIG_DISCOVERY_TABLE_SIZE'', Some 0x0008), (''EZSP_CONFIG_STACK_PROFILE'', Some 0x000C),
    (''EZSP_CONFIG_SECURITY_LEVEL'', Some 0x000D), (''EZSP_CONFIG_MAX_HOPS'', Some 0x0010),
    (''EZSP_CONFIG_MAX_END_DEVICE_CHILDREN'', Some 0x0011),
    (''EZSP_CONFIG_INDIRECT_TRANSMISSION_TIMEOUT'', Some 0x0012),
    (''EZSP_CONFIG_END_DEVICE_POLL_TIMEOUT'', Some 0x0013),
    (''EZSP_CONFIG_MOBILE_NODE_POLL_TIMEOUT'', Some 0x0014),
    (''EZSP_CONFIG_RESERVED_MOBILE_CHILD_ENTRIES'', Some 0x0015),
    (''EZSP_CONFIG_TX_POWER_MODE'', Some 0x0017), (''EZSP_CONFIG_DISABLE_RELAY'', Some 0x0018),
    (''EZSP_CONFIG_TRUST_CENTER_ADDRESS_CACHE_SIZE'', Some 0x0019),
    (''EZSP_CONFIG_SOURCE_ROUTE_TABLE_SIZE'', Some 0x001A),
    (''EZSP_CONFIG_END_DEVICE_POLL_TIMEOUT_SHIFT'', Some 0x001B),
    (''EZSP_CONFIG_FRAGMENT_WINDOW_SIZE'', Some 0x001C)]"

definition EEzspConfigId_stack :: enum_list where
  "EEzspConfigId_stack = [
    (''EZSP_CONFIG_FRAGMENT_DELAY_MS'', Some 0x001D), (''EZSP_CONFIG_KEY_TABLE_SIZE'', Some 0x001E),
    (''EZSP_CONFIG_APS_ACK_TIMEOUT'', Some 0x001F), (''EZSP_CONFIG_BEACON_JITTER_DURATION'', Some 0x0020),
    (''EZSP_CONFIG_END_DEVICE_BIND_TIMEOUT'', Some 0x0021),
    (''EZSP_CONFIG_PAN_ID_CONFLICT_REPORT_THRESHOLD'', Some 0x0022),
    (''EZSP_CONFIG_REQUEST_KEY_TIMEOUT'', Some 0x0024),
    (''EZSP_CONFIG_CERTIFICATE_TABLE_SIZE'', Some 0x0029),
    (''EZSP_CONFIG_APPLICATION_ZDO_FLAGS'', Some 0x002A),
    (''EZSP_CONFIG_BROADCAST_TABLE_SIZE'', Some 0x002B),
    (''EZSP_CONFIG_MAC_FILTER_TABLE_SIZE'', Some 0x002C), (''EZSP_CONFIG_SUPPORTED_NETWORKS'', Some 0x002D),
    (''EZSP_CONFIG_SEND_MULTICASTS_TO_SLEEPY_ADDRESS'', Some 0x002E),
    (''EZSP_CONFIG_ZLL_GROUP_ADDRESSES'', Some 0x002F), (''EZSP_CONFIG_ZLL_RSSI_THRESHOLD'', Some 0x0030),
    (''EZSP_CONFIG_MTORR_FLOW_CONTROL'', Some 0x0033), (''EZSP_CONFIG_RETRY_QUEUE_SIZE'', Some 0x0034),
    (''EZSP_CONFIG_NEW_BROADCAST_ENTRY_THRESHOLD'', Some 0x0035),
    (''EZSP_CONFIG_TRANSIENT_KEY_TIMEOUT_S'', Some 0x0036),
    (''EZSP_CONFIG_BROADCAST_MIN_ACKS_NEEDED'', Some 0x0037),
    (''EZSP_CONFIG_TC_REJOINS_USING_WELL_KNOWN_KEY_TIMEOUT_S'', Some 0x0038)]"

definition EEzspConfigId_list :: enum_list where
  "EEzspConfigId_list =
    EEzspConfigId_tables @ EEzspConfigId_stack"

definition EEzspPolicyId_list :: enum_list where
  "EEzspPolicyId_list = [
    (''EZSP_TRUST_CENTER_POLICY'', Some 0x0000), (''EZSP_BINDING_MODIFICATION_POLICY'', Some 0x0001),
    (''EZSP_UNICAST_REPLIES_POLICY'', Some 0x0002), (''EZSP_POLL_HANDLER_POLICY'', Some 0x0003),
    (''EZSP_MESSAGE_CONTENTS_IN_CALLBACK_POLICY'', Some 0x0004),
    (''EZSP_TC_KEY_REQUEST_POLICY'', Some 0x0005), (''EZSP_APP_KEY_REQUEST_POLICY'', Some 0x0006),
    (''EZSP_PACKET_VALIDATE_LIBRARY_POLICY'', Some 0x0007), (''EZSP_ZLL_POLICY'', Some 0x0008),
    (''EZSP_TC_REJOINS_USING_WELL_KNOWN_KEY_POLICY'', Some 0x0009)]"

definition EEzspDecisionId_list :: enum_list where
  "EEzspDecisionId_list = [
    (''EZSP_ALLOW_JOINS'', Some 0x0000), (''EZSP_ALLOW_JOINS_REJOINS_HAVE_LINK_KEY'', Some 0x0004),
    (''EZSP_ALLOW_PRECONFIGURED_KEY_JOINS'', Some 0x0001), (''EZSP_ALLOW_REJOINS_ONLY'', Some 0x0002),
    (''EZSP_DISALLOW_ALL_JOINS_AND_REJOINS'', Some 0x0003),
    (''EZSP_IGNORE_TRUST_CENTER_REJOINS'', Some 0x0005),
    (''EZSP_DISALLOW_BINDING_MODIFICATION'', Some 0x0010),
    (''EZSP_ALLOW_BINDING_MODIFICATION'', Some 0x0011),
    (''EZSP_CHECK_BINDING_MODIFICATIONS_ARE_VALID_ENDPOINT_CLUSTERS'', Some 0x0012),
    (''EZSP_HOST_WILL_NOT_SUPPLY_REPLY'', Some 0x0020), (''EZSP_HOST_WILL_SUPPLY_REPLY'', Some 0x0021),
    (''EZSP_POLL_HANDLER_IGNORE'', Some 0x0030), (''EZSP_POLL_HANDLER_CALLBACK'', Some 0x0031),
    (''EZSP_MESSAGE_TAG_ONLY_IN_CALLBACK'', Some 0x0040),
    (''EZSP_MESSAGE_TAG_AND_CONTENTS_IN_CALLBACK'', Some 0x0041),
    (''EZSP_DENY_TC_KEY_REQUESTS'', Some 0x0050), (''EZSP_ALLOW_TC_KEY_REQUESTS'', Some 0x0051),
    (''EZSP_GENERATE_NEW_TC_LINK_KEY'', Some 0x0052), (''EZSP_DENY_APP_KEY_REQUESTS'', Some 0x0060),
    (''EZSP_ALLOW_APP_KEY_REQUESTS'', Some 0x0061),
    (''EZSP_PACKET_VALIDATE_LIBRARY_CHECKS_ENABLED'', Some 0x0062),
    (''EZSP_PACKET_VALIDATE_LIBRARY_CHECKS_DISABLED'', Some 0x0063)]"

definition EmberNetworkStatus_list :: enum_list where
  "EmberNetworkStatus_list = [
    (''EMBER_NO_NETWORK'', Some 0x00), (''EMBER_JOINING_NETWORK'', None), (''EMBER_JOINED_NETWORK'', None),
    (''EMBER_JOINED_NETWORK_NO_PARENT'', None), (''EMBER_LEAVING_NETWORK'', None)]"

definition EmberOutgoingMessageType_list :: enum_list where
  "EmberOutgoingMessageType_list = [
    (''EMBER_OUTGOING_DIRECT'', None), (''EMBER_OUTGOING_VIA_ADDRESS_TABLE'', None),
    (''EMBER_OUTGOING_VIA_BINDING'', None), (''EMBER_OUTGOING_MULTICAST'', None),
    (''EMBER_OUTGOING_BROADCAST'', None)]"

definition EInMsgType_list :: enum_list where
  "EInMsgType_list = [
    (''E_IN_MSG_TYPE_UNICAST'', None), (''E_IN_MSG_TYPE_UNICAST_REPLY'', None),
    (''E_IN_MSG_TYPE_MULTICAST'', None), (''E_IN_MSG_TYPE_MULTICAST_LOOPBACK'', None),
    (''E_IN_MSG_TYPE_BROADCAST'', None), (''E_IN_MSG_TYPE_BROADCAST_LOOPBACK'', None)]"

definition EOutBroadcastDestination_list :: enum_list where
  "EOutBroadcastDestination_list = [
    (''E_OUT_MSG_BR_DEST_ALL_DEVICES'', Some 0xFFFF), (''E_OUT_MSG_BR_DEST_NON_SLEEPY'', Some 0xFFFD),
    (''E_OUT_MSG_BR_DEST_ROUTER_ONLY'', Some 0xFFFC)]"

definition EmberKeyStructBitmask_list :: enum_list where
  "EmberKeyStructBitmask_list = [
    (''EMBER_KEY_HAS_SEQUENCE_NUMBER'', Some 0x0001),
    (''EMBER_KEY_HAS_OUTGOING_FRAME_COUNTER'', Some 0x0002),
    (''EMBER_KEY_HAS_INCOMING_FRAME_COUNTER'', Some 0x0004), (''EMBER_KEY_HAS_PARTNER_EUI64'', Some 0x0008)]"

section \<open>Properties\<close>

definition generated_enums :: "enum_list list" where
  "generated_enums = [ASH_INFO_list, BOOTLOADER_STAGE_list, EZSP_DONGLE_MODE_list, SINK_STATE_list,
    CLIBEZSP_INTERNAL_STATE_list, CLIBEZSP_STATE_list]"

text \<open>The commands which the library sends or handles.\<close>

definition used_configuration :: "(ezsp_cmd \<times> string) list" where
  "used_configuration = [
    (EZSP_VERSION, ''EZSP_VERSION''), (EZSP_SET_CONFIGURATION_VALUE, ''EZSP_SET_CONFIGURATION_VALUE''),
    (EZSP_ADD_ENDPOINT, ''EZSP_ADD_ENDPOINT''), (EZSP_SET_POLICY, ''EZSP_SET_POLICY'')]"

definition used_utilities :: "(ezsp_cmd \<times> string) list" where
  "used_utilities = [
    (EZSP_GET_XNCP_INFO, ''EZSP_GET_XNCP_INFO'')]"

definition used_networking :: "(ezsp_cmd \<times> string) list" where
  "used_networking = [
    (EZSP_NETWORK_INIT, ''EZSP_NETWORK_INIT''), (EZSP_NETWORK_STATE, ''EZSP_NETWORK_STATE''),
    (EZSP_STACK_STATUS_HANDLER, ''EZSP_STACK_STATUS_HANDLER''), (EZSP_START_SCAN, ''EZSP_START_SCAN''),
    (EZSP_ENERGY_SCAN_RESULT_HANDLER, ''EZSP_ENERGY_SCAN_RESULT_HANDLER''),
    (EZSP_NETWORK_FOUND_HANDLER, ''EZSP_NETWORK_FOUND_HANDLER''),
    (EZSP_SCAN_COMPLETE_HANDLER, ''EZSP_SCAN_COMPLETE_HANDLER''),
    (EZSP_FORM_NETWORK, ''EZSP_FORM_NETWORK''), (EZSP_JOIN_NETWORK, ''EZSP_JOIN_NETWORK''),
    (EZSP_LEAVE_NETWORK, ''EZSP_LEAVE_NETWORK''), (EZSP_PERMIT_JOINING, ''EZSP_PERMIT_JOINING''),
    (EZSP_GET_NETWORK_PARAMETERS, ''EZSP_GET_NETWORK_PARAMETERS''),
    (EZSP_GET_CHILD_DATA, ''EZSP_GET_CHILD_DATA''), (EZSP_SET_RADIO_CHANNEL, ''EZSP_SET_RADIO_CHANNEL'')]"

definition used_messaging :: "(ezsp_cmd \<times> string) list" where
  "used_messaging = [
    (EZSP_SEND_UNICAST, ''EZSP_SEND_UNICAST''), (EZSP_SEND_BROADCAST, ''EZSP_SEND_BROADCAST''),
    (EZSP_MESSAGE_SENT_HANDLER, ''EZSP_MESSAGE_SENT_HANDLER''),
    (EZSP_SEND_RAW_MESSAGE, ''EZSP_SEND_RAW_MESSAGE''),
    (EZSP_RAW_TRANSMIT_COMPLETE_HANDLER, ''EZSP_RAW_TRANSMIT_COMPLETE_HANDLER'')]"

definition used_security :: "(ezsp_cmd \<times> string) list" where
  "used_security = [
    (EZSP_SET_INITIAL_SECURITY_STATE, ''EZSP_SET_INITIAL_SECURITY_STATE''), (EZSP_GET_KEY, ''EZSP_GET_KEY'')]"

definition used_bootloader :: "(ezsp_cmd \<times> string) list" where
  "used_bootloader = [
    (EZSP_LAUNCH_STANDALONE_BOOTLOADER, ''EZSP_LAUNCH_STANDALONE_BOOTLOADER'')]"

definition used_green_power :: "(ezsp_cmd \<times> string) list" where
  "used_green_power = [
    (EZSP_GP_PROXY_TABLE_PROCESS_GP_PAIRING, ''EZSP_GP_PROXY_TABLE_PROCESS_GP_PAIRING''),
    (EZSP_D_GP_SEND, ''EZSP_D_GP_SEND''), (EZSP_D_GP_SENT_HANDLER, ''EZSP_D_GP_SENT_HANDLER''),
    (EZSP_GPEP_INCOMING_MESSAGE_HANDLER, ''EZSP_GPEP_INCOMING_MESSAGE_HANDLER''),
    (EZSP_GP_PROXY_TABLE_GET_ENTRY, ''EZSP_GP_PROXY_TABLE_GET_ENTRY''),
    (EZSP_GP_PROXY_TABLE_LOOKUP, ''EZSP_GP_PROXY_TABLE_LOOKUP''),
    (EZSP_GP_SINK_TABLE_GET_ENTRY, ''EZSP_GP_SINK_TABLE_GET_ENTRY''),
    (EZSP_GP_SINK_TABLE_LOOKUP, ''EZSP_GP_SINK_TABLE_LOOKUP''),
    (EZSP_GP_SINK_TABLE_SET_ENTRY, ''EZSP_GP_SINK_TABLE_SET_ENTRY''),
    (EZSP_GP_SINK_TABLE_REMOVE_ENTRY, ''EZSP_GP_SINK_TABLE_REMOVE_ENTRY''),
    (EZSP_GP_SINK_TABLE_FIND_OR_ALLOCATE_ENTRY, ''EZSP_GP_SINK_TABLE_FIND_OR_ALLOCATE_ENTRY''),
    (EZSP_GP_SINK_TABLE_CLEAR_ALL, ''EZSP_GP_SINK_TABLE_CLEAR_ALL''),
    (EZSP_GP_SINK_TABLE_INIT, ''EZSP_GP_SINK_TABLE_INIT'')]"

definition used_commands :: "(ezsp_cmd \<times> string) list" where
  "used_commands =
    used_configuration @ used_utilities @ used_networking @ used_messaging @ used_security @ used_bootloader @ used_green_power"

text \<open>The commands of the enumeration for which the table has no name: those of four of its groups, but for
  the last of the first of these.\<close>

definition unnamed_commands :: "(string \<times> int) list" where
  "unnamed_commands = enumerators (butlast EEzspCmd_mfglib) @ enumerators EEzspCmd_zll
     @ enumerators EEzspCmd_wwah @ enumerators EEzspCmd_secure_ezsp"

lemma enum_case_set: "enum_case es v = Some name \<Longrightarrow> (name, v) \<in> set es"
  by (induction es v rule: enum_case.induct) (auto split: if_splits)

lemma enum_case_iff:
  "distinct (map fst es) \<Longrightarrow> distinct (map snd es) \<Longrightarrow> map_of es name = Some v \<longleftrightarrow> enum_case es v = Some name"
proof (induction es)
  case (Cons e es)
  obtain n k where e: "e = (n, k)" by fastforce
  have "enum_case es v \<noteq> Some n" "map_of es name \<noteq> Some k"
    using Cons.prems e enum_case_set by (force, force dest: map_of_SomeD)
  then show ?case using Cons e by auto
qed simp

lemma generated_distinct:
  "list_all (\<lambda>es. distinct (map fst (enumerators es)) \<and> distinct (map snd (enumerators es))
     \<and> enum_case (enumerators es) 0 = None) generated_enums"
  by code_simp

text \<open>For every generated enumeration the function from names to values is the inverse of the function
  from values to names: a name is accepted for exactly the value which prints as this name, every member
  prints as its own name, and nothing prints for 0, which is no member of any of them.\<close>

theorem enum_names_roundtrip:
  "list_all (\<lambda>es. (\<forall>name v. getValue es name = Some v \<longleftrightarrow> getAsString es v = Some name)
     \<and> getAsString es 0 = None) generated_enums"
  using generated_distinct unfolding list_all_iff getValue_def getAsString_def
  by (metis enum_case_iff)

text \<open>Where every member has its value written, an enumeration is the sum of its parts.\<close>

definition explicit :: "enum_list \<Rightarrow> bool" where
  "explicit es \<longleftrightarrow> list_all (\<lambda>(name, a). a \<noteq> None) es"

lemma enumerate_explicit: "explicit es \<Longrightarrow> enumerate_from k es = map (map_prod id the) es"
  by (induction es arbitrary: k) (auto simp: explicit_def Let_def)

lemma enumerators_append [simp]:
  "explicit xs \<Longrightarrow> explicit ys \<Longrightarrow> enumerators (xs @ ys) = enumerators xs @ enumerators ys"
  by (simp add: enumerators_def enumerate_explicit explicit_def)

lemma explicit_append [simp]: "explicit (xs @ ys) \<longleftrightarrow> explicit xs \<and> explicit ys"
  by (simp add: explicit_def)

lemma explicit_butlast: "explicit es \<Longrightarrow> explicit (butlast es)"
  by (auto simp: explicit_def list_all_iff dest: in_set_butlastD)

lemmas command_groups = EEzspCmd_configuration_def EEzspCmd_utilities_def EEzspCmd_networking_def EEzspCmd_binding_def
  EEzspCmd_messaging_def EEzspCmd_security_def EEzspCmd_trust_center_def EEzspCmd_cbke_def EEzspCmd_mfglib_def
  EEzspCmd_bootloader_def EEzspCmd_zll_def EEzspCmd_wwah_def EEzspCmd_green_power_def EEzspCmd_secure_ezsp_def

lemmas name_groups = EEzspCmdStrings_configuration_def EEzspCmdStrings_utilities_def EEzspCmdStrings_networking_def
  EEzspCmdStrings_binding_def EEzspCmdStrings_messaging_def EEzspCmdStrings_security_def
  EEzspCmdStrings_trust_center_def EEzspCmdStrings_cbke_def EEzspCmdStrings_mfglib_def
  EEzspCmdStrings_bootloader_def EEzspCmdStrings_green_power_def

lemma groups_explicit [simp]:
  "explicit EEzspCmd_configuration"
  "explicit EEzspCmd_utilities"
  "explicit EEzspCmd_networking"
  "explicit EEzspCmd_binding"
  "explicit EEzspCmd_messaging"
  "explicit EEzspCmd_security"
  "explicit EEzspCmd_trust_center"
  "explicit EEzspCmd_cbke"
  "explicit EEzspCmd_bootloader"
  "explicit EEzspCmd_green_power"
  "explicit EEzspCmd_mfglib"
  "explicit EEzspCmd_zll"
  "explicit EEzspCmd_wwah"
  "explicit EEzspCmd_secure_ezsp"
  by (simp_all add: explicit_def command_groups)

lemma groups_named:
  "enumerators EEzspCmd_configuration = map prod.swap EEzspCmdStrings_configuration"
  "enumerators EEzspCmd_utilities = map prod.swap EEzspCmdStrings_utilities"
  "enumerators EEzspCmd_networking = map prod.swap EEzspCmdStrings_networking"
  "enumerators EEzspCmd_binding = map prod.swap EEzspCmdStrings_binding"
  "enumerators EEzspCmd_messaging = map prod.swap EEzspCmdStrings_messaging"
  "enumerators EEzspCmd_security = map prod.swap EEzspCmdStrings_security"
  "enumerators EEzspCmd_trust_center = map prod.swap EEzspCmdStrings_trust_center"
  "enumerators EEzspCmd_cbke = map prod.swap EEzspCmdStrings_cbke"
  "enumerators EEzspCmd_bootloader = map prod.swap EEzspCmdStrings_bootloader"
  "enumerators EEzspCmd_green_power = map prod.swap EEzspCmdStrings_green_power"
  "enumerators EEzspCmd_mfglib = enumerators (butlast EEzspCmd_mfglib) @ map prod.swap EEzspCmdStrings_mfglib"
  by (simp_all add: enumerators_def command_groups name_groups)

lemma command_table: "mset (enumerators EEzspCmd_list) = mset (map prod.swap EEzspCmdStrings) + mset unnamed_commands"
  unfolding EEzspCmd_list_def EEzspCmdStrings_def unnamed_commands_def
  by (simp add: groups_named)

lemma table_distinct:
  assumes "mset es = mset (map prod.swap ts) + mset us" "distinct (map snd es)"
  shows "distinct (map fst ts @ map snd us)"
proof -
  have "mset (map snd es) = mset (map snd (map prod.swap ts)) + mset (map snd us)"
    unfolding mset_map assms(1) by (simp only: mset_map image_mset_union)
  also have "map snd (map prod.swap ts) = map fst ts" by simp
  finally have "mset (map snd es) = mset (map fst ts @ map snd us)" by (simp only: mset_append)
  then show ?thesis using assms(2) by (metis mset_eq_imp_distinct_iff)
qed

lemma table_entry:
  assumes "mset es = mset (map prod.swap ts) + mset us" "distinct (map snd es)" "(v, name) \<in> set ts"
  shows "map_of ts v = Some name"
  using table_distinct [OF assms(1,2)] assms(3) by (auto intro: map_of_is_SomeI)

lemma names_looked_up:
  assumes "mset es = mset (map prod.swap ts) + mset us" "distinct (map snd es)" "(name, v) \<in> set es"
  shows "map_of ts v = (if v \<in> snd ` set us then None else Some name)"
proof -
  have "(v, name) \<in> set ts \<or> (name, v) \<in> set us"
    using arg_cong [OF assms(1), of set_mset] assms(3) by auto
  then show ?thesis
    using table_distinct [OF assms(1,2)] table_entry [OF assms(1,2)]
    by (force simp: map_of_eq_None_iff)
qed

text \<open>Values are compared within blocks of sixteen only.\<close>

definition distinct_in_blocks :: "int list \<Rightarrow> int list \<Rightarrow> bool" where
  "distinct_in_blocks hs xs \<longleftrightarrow>
     list_all (\<lambda>h. distinct (filter (\<lambda>v. v div 16 = h) xs)) hs \<and> list_all (\<lambda>v. v div 16 \<in> set hs) xs"

lemma distinct_in_blocksD: "distinct_in_blocks hs xs \<Longrightarrow> distinct xs"
proof (induction xs)
  case (Cons x xs)
  then have "distinct (filter (\<lambda>v. v div 16 = x div 16) (x # xs))"
    by (auto simp: distinct_in_blocks_def list_all_iff)
  then have "x \<notin> set xs" by auto
  moreover have "distinct_in_blocks hs xs"
    using Cons.prems by (auto simp: distinct_in_blocks_def list_all_iff split: if_splits)
  ultimately show ?case using Cons.IH by simp
qed simp

lemma command_values:
  "distinct_in_blocks [0, 1, 2, 3, 4, 5, 6, 7, 8, 9, 10, 11, 12, 13, 14, 15] (map snd (enumerators EEzspCmd_list))"
  by code_simp

definition named_by :: "name_table \<Rightarrow> (ezsp_cmd \<times> string) list \<Rightarrow> bool" where
  "named_by ts cs \<longleftrightarrow> list_all (\<lambda>(c, name). map_of ts (uint c) = Some name) cs"

lemma groups_used:
  "named_by EEzspCmdStrings_configuration used_configuration"
  "named_by EEzspCmdStrings_utilities used_utilities"
  "named_by EEzspCmdStrings_networking used_networking"
  "named_by EEzspCmdStrings_messaging used_messaging"
  "named_by EEzspCmdStrings_security used_security"
  "named_by EEzspCmdStrings_bootloader used_bootloader"
  "named_by EEzspCmdStrings_green_power used_green_power"
  by (simp_all add: named_by_def name_groups ezsp_ids EZSP_VERSION_def EZSP_LAUNCH_STANDALONE_BOOTLOADER_def
      used_configuration_def
      used_utilities_def
      used_networking_def
      used_messaging_def
      used_security_def
      used_bootloader_def
      used_green_power_def)

lemma named_byD: "named_by ts cs \<Longrightarrow> (c, name) \<in> set cs \<Longrightarrow> (uint c, name) \<in> set ts"
  by (auto simp: named_by_def list_all_iff dest: map_of_SomeD)

lemma used_commands_named:
  assumes "(c, name) \<in> set used_commands"
  shows "(uint c, name) \<in> set EEzspCmdStrings"
  using assms groups_used [THEN named_byD, of c name]
  unfolding used_commands_def EEzspCmdStrings_def set_append Un_iff by blast

text \<open>A command of the enumeration prints as its own identifier, unless it is one of the forty-six that
  the table leaves out, which print as unknown; and every command which the library sends or handles has
  the value of its identifier in the enumeration, and prints as this identifier.\<close>

theorem command_names:
  "list_all (\<lambda>(name, v). EEzspCmdToString v = (if v \<in> snd ` set unnamed_commands then ''unknown value'' else name))
     (enumerators EEzspCmd_list)
   \<and> list_all (\<lambda>(c, name). (name, uint c) \<in> set (enumerators EEzspCmd_list) \<and> EEzspCmdToString (uint c) = name)
       used_commands
   \<and> length unnamed_commands = 46"
proof -
  have "EEzspCmdToString v = (if v \<in> snd ` set unnamed_commands then ''unknown value'' else name)"
    if "(name, v) \<in> set (enumerators EEzspCmd_list)" for name v
    using names_looked_up [OF command_table distinct_in_blocksD [OF command_values] that]
    by (simp add: EEzspCmdToString_def find_name_def)
  moreover have "(name, uint c) \<in> set (enumerators EEzspCmd_list) \<and> EEzspCmdToString (uint c) = name"
    if "(c, name) \<in> set used_commands" for c name
  proof -
    have entry: "(uint c, name) \<in> set EEzspCmdStrings" by (rule used_commands_named) (fact that)
    then have "(name, uint c) \<in> set (map prod.swap EEzspCmdStrings)" by force
    then show ?thesis
      using arg_cong [OF command_table, of set_mset] table_entry [OF command_table _ entry]
        distinct_in_blocksD [OF command_values]
      by (auto simp: EEzspCmdToString_def find_name_def)
  qed
  moreover have "length unnamed_commands = 46"
    by (simp add: unnamed_commands_def enumerators_def enumerate_explicit explicit_butlast)
      (simp add: command_groups)
  ultimately show ?thesis unfolding list_all_iff by fastforce
qed

lemma other_names:
  "list_all (\<lambda>(name, v). EEmberStatusToString v = name) (enumerators EEmberStatus_list)"
  "list_all (\<lambda>(name, v). EmberNodeTypeToString v = name) (enumerators EmberNodeType_list)"
  "list_all (\<lambda>(name, v). EmberJoinMethodToString v = name) (enumerators EmberJoinMethod_list)"
  "list_all (\<lambda>(name, v). EmberKeyTypeToString v = name) (enumerators EmberKeyType_list)"
  "list_all (\<lambda>(name, v). EmberIncomingMessageTypeToString v = name) (enumerators EmberIncomingMessageType_list)"
  "list_all (\<lambda>(name, v). EZdpLowByteToString v = name) (enumerators EZdpLowByte_list)"
  by code_simp+

end
