(* ===== verification/AttributeReports.thy ===== *)
theory AttributeReports
  imports GpFrame HexText "HOL-Library.Signed_Division"
begin

text \<open>
  What the sample application of \<open>src/example/mainEzspStateMachine.h\<close> does with the green power frames it
  receives: it decodes the attribute reports of sensors and prints them. The result is what is printed to
  the standard output; the log is left out.
\<close>

section \<open>Reports\<close>

definition ZCL_BOOLEAN_ATTRIBUTE_TYPE :: u8 where "ZCL_BOOLEAN_ATTRIBUTE_TYPE = 0x10"
definition ZCL_INT8U_ATTRIBUTE_TYPE :: u8 where "ZCL_INT8U_ATTRIBUTE_TYPE = 0x20"
definition ZCL_INT16U_ATTRIBUTE_TYPE :: u8 where "ZCL_INT16U_ATTRIBUTE_TYPE = 0x21"
definition ZCL_INT16S_ATTRIBUTE_TYPE :: u8 where "ZCL_INT16S_ATTRIBUTE_TYPE = 0x29"
definition ZCL_CHAR_STRING_ATTRIBUTE_TYPE :: u8 where "ZCL_CHAR_STRING_ATTRIBUTE_TYPE = 0x42"

lemmas zcl_types = ZCL_BOOLEAN_ATTRIBUTE_TYPE_def ZCL_INT8U_ATTRIBUTE_TYPE_def ZCL_INT16U_ATTRIBUTE_TYPE_def
  ZCL_INT16S_ATTRIBUTE_TYPE_def ZCL_CHAR_STRING_ATTRIBUTE_TYPE_def

text \<open>The lines which are printed. An \<open>int16_t\<close> is divided as an \<open>int\<close>, towards zero.\<close>

definition firmware_text :: "byte_buffer \<Rightarrow> string" where
  "firmware_text fwVersion =
     ''Firmware version is '' @ [CHR 0x22] @ map (\<lambda>b. char_of (unat b)) fwVersion @ [CHR 0x22, CHR 0x0A]"

definition door_text :: "u8 \<Rightarrow> string" where
  "door_text value_in = ''Door is '' @ (if value_in \<noteq> 0 then ''closed'' else ''open'') @ [CHR 0x0A]"

definition temperature_text :: "int \<Rightarrow> string" where
  "temperature_text value_in =
     ''Temperature: '' @ int_text (value_in sdiv 100) @ ''.'' @ setw 2 CHR ''0'' (int_text (abs (value_in smod 100)))
       @ [CHR 0xC2, CHR 0xB0, CHR ''C'', CHR 0x0A]"

definition humidity_text :: "int \<Rightarrow> string" where
  "humidity_text value_in =
     ''Humidity: '' @ int_text (value_in sdiv 100) @ ''.'' @ setw 2 CHR ''0'' (int_text (value_in smod 100))
       @ [CHR ''%'', CHR 0x0A]"

definition battery_text :: "u8 \<Rightarrow> string" where
  "battery_text value_in =
     ''Battery level: '' @ int_text (uint value_in div 10) @ ''.'' @ setw 1 CHR ''0'' (int_text (uint value_in mod 10))
       @ [CHR ''V'', CHR 0x0A]"

text \<open>The number of bytes which the report has taken, an \<open>uint8_t\<close>, and the line; \<open>None\<close> when the function
  returns false, where it sets the number to 0.\<close>

definition extractClusterReport :: "byte_buffer \<Rightarrow> (u8 \<times> string) option" where
  "extractClusterReport payload =
     (if length payload < 5 then None
      else
        let clusterId = dble_u8_to_u16 (payload ! 1) (payload ! 0);
            attributeId = dble_u8_to_u16 (payload ! 3) (payload ! 2);
            ty = payload ! 4
        in if clusterId = 0x0000 then
             (if attributeId = 0x4000 \<and> ty = ZCL_CHAR_STRING_ATTRIBUTE_TYPE then
                (if length payload < 6 then None
                 else let strLength = payload ! 5 in
                   if length payload < 6 + unat strLength then None
                   else Some (6 + strLength, firmware_text (take (unat strLength) (drop 6 payload))))
              else None)
           else if clusterId = 0x000F then
             (if attributeId = 0x0055 \<and> ty = ZCL_BOOLEAN_ATTRIBUTE_TYPE then
                (if length payload < 6 then None else Some (6, door_text (payload ! 5)))
              else None)
           else if clusterId = 0x0402 then
             (if attributeId = 0x0000 \<and> ty = ZCL_INT16S_ATTRIBUTE_TYPE then
                (if length payload < 7 then None
                 else Some (7, temperature_text (sint (dble_u8_to_u16 (payload ! 6) (payload ! 5)))))
              else None)
           else if clusterId = 0x0405 then
             (if attributeId = 0x0000 \<and> ty = ZCL_INT16U_ATTRIBUTE_TYPE then
                (if length payload < 7 then None
                 else Some (7, humidity_text (sint (dble_u8_to_u16 (payload ! 6) (payload ! 5)))))
              else None)
           else if clusterId = 0x0001 then
             (if attributeId = 0x0020 \<and> ty = ZCL_INT8U_ATTRIBUTE_TYPE then
                (if length payload < 6 then None else Some (6, battery_text (payload ! 5)))
              else None)
           else None)"

text \<open>A report that has taken no bytes leaves the buffer of the loop as it was.\<close>

function extractMultiClusterReport :: "byte_buffer \<Rightarrow> (bool \<times> string) result" where
  "extractMultiClusterReport payload =
     (if payload = [] then Inr (True, [])
      else case extractClusterReport payload of
        None \<Rightarrow> Inr (False, [])
      | Some (usedBytes, text) \<Rightarrow>
          if usedBytes = 0 then Inl Diverges
          else bindR (extractMultiClusterReport (drop (unat usedBytes) payload))
                 (\<lambda>(validBuffer, rest). Inr (validBuffer, text @ rest)))"
  by pat_completeness auto
termination
  by (relation "measure length") (auto simp: unat_gt_0)

declare extractMultiClusterReport.simps [simp del]

definition onReceivedGPFrame :: "gp_frame \<Rightarrow> string result" where
  "onReceivedGPFrame i_gpf =
     (if gf_command_id i_gpf = 0xa0 then
        Inr (case extractClusterReport (gf_payload i_gpf) of None \<Rightarrow> [] | Some (_, text) \<Rightarrow> text)
      else if gf_command_id i_gpf = 0xa2 then
        bindR (extractMultiClusterReport (gf_payload i_gpf)) (\<lambda>(_, text). Inr text)
      else if gf_command_id i_gpf = 0x20 then Inr (''Received Off Command'' @ [CHR 0x0A])
      else if gf_command_id i_gpf = 0x21 then Inr (''Received On Command'' @ [CHR 0x0A])
      else Inr [])"

section \<open>What can be reported\<close>

text \<open>A report as a device means it, its bytes and its line.\<close>

datatype report = SwBuild byte_buffer | Door u8 | MeasuredTemperature u16 | MeasuredHumidity u16 | BatteryVoltage u8

fun report_bytes :: "report \<Rightarrow> byte_buffer" where
  "report_bytes (SwBuild s) = [0x00, 0x00, 0x00, 0x40, 0x42, of_nat (length s)] @ s"
| "report_bytes (Door v) = [0x0F, 0x00, 0x55, 0x00, 0x10, v]"
| "report_bytes (MeasuredTemperature w) = [0x02, 0x04, 0x00, 0x00, 0x29, u16_get_lo_u8 w, u16_get_hi_u8 w]"
| "report_bytes (MeasuredHumidity w) = [0x05, 0x04, 0x00, 0x00, 0x21, u16_get_lo_u8 w, u16_get_hi_u8 w]"
| "report_bytes (BatteryVoltage v) = [0x01, 0x00, 0x20, 0x00, 0x20, v]"

fun report_text :: "report \<Rightarrow> string" where
  "report_text (SwBuild s) = firmware_text s"
| "report_text (Door v) = door_text v"
| "report_text (MeasuredTemperature w) = temperature_text (sint w)"
| "report_text (MeasuredHumidity w) = humidity_text (sint w)"
| "report_text (BatteryVoltage v) = battery_text v"

lemma dble_eq_iff: "dble_u8_to_u16 h l = w \<longleftrightarrow> h = u16_get_hi_u8 w \<and> l = u16_get_lo_u8 w"
  by (metis dble_hi_lo dble_inject)

lemma report_ids:
  "dble_u8_to_u16 h l = 0x0000 \<longleftrightarrow> h = 0 \<and> l = 0"
  "dble_u8_to_u16 h l = 0x4000 \<longleftrightarrow> h = 0x40 \<and> l = 0"
  "dble_u8_to_u16 h l = 0x000F \<longleftrightarrow> h = 0 \<and> l = 0x0F"
  "dble_u8_to_u16 h l = 0x0055 \<longleftrightarrow> h = 0 \<and> l = 0x55"
  "dble_u8_to_u16 h l = 0x0402 \<longleftrightarrow> h = 4 \<and> l = 2"
  "dble_u8_to_u16 h l = 0x0405 \<longleftrightarrow> h = 4 \<and> l = 5"
  "dble_u8_to_u16 h l = 0x0001 \<longleftrightarrow> h = 0 \<and> l = 1"
  "dble_u8_to_u16 h l = 0x0020 \<longleftrightarrow> h = 0 \<and> l = 0x20"
  by (simp_all add: dble_eq_iff u16_get_hi_u8_def u16_get_lo_u8_def)

definition fits :: "report \<Rightarrow> bool" where
  "fits r \<longleftrightarrow> length (report_bytes r) < 256"

lemma report_bytes_take:
  assumes "fits r"
  shows "extractClusterReport (report_bytes r @ rest) = Some (of_nat (length (report_bytes r)), report_text r)"
proof (cases r)
  case (SwBuild s)
  then have "unat (of_nat (length s) :: u8) = length s" using assms by (simp add: fits_def unat_u8)
  then show ?thesis
    using SwBuild by (simp add: extractClusterReport_def report_ids zcl_types Let_def)
qed (simp_all add: extractClusterReport_def report_ids zcl_types Let_def)

lemma extract_Cons:
  "extractClusterReport (a # b # c # d # e # q) =
     (if (a, b, c, d, e) = (0, 0, 0, 0x40, 0x42) then
        (case q of [] \<Rightarrow> None
         | f # r \<Rightarrow> if length r < unat f then None else Some (6 + f, firmware_text (take (unat f) r)))
      else if (a, b, c, d, e) = (0x0F, 0, 0x55, 0, 0x10) then
        (case q of [] \<Rightarrow> None | f # r \<Rightarrow> Some (6, door_text f))
      else if (a, b, c, d, e) = (2, 4, 0, 0, 0x29) then
        (case q of f # g # r \<Rightarrow> Some (7, temperature_text (sint (dble_u8_to_u16 g f))) | _ \<Rightarrow> None)
      else if (a, b, c, d, e) = (5, 4, 0, 0, 0x21) then
        (case q of f # g # r \<Rightarrow> Some (7, humidity_text (sint (dble_u8_to_u16 g f))) | _ \<Rightarrow> None)
      else if (a, b, c, d, e) = (1, 0, 0x20, 0, 0x20) then
        (case q of [] \<Rightarrow> None | f # r \<Rightarrow> Some (6, battery_text f))
      else None)"
  by (cases q; cases "tl q"; auto simp: extractClusterReport_def Let_def report_ids zcl_types)

lemma extracted_report:
  assumes "extractClusterReport p = Some (used, text)" "length p < 256"
  shows "\<exists>r rest. fits r \<and> p = report_bytes r @ rest \<and> used = of_nat (length (report_bytes r)) \<and> text = report_text r"
proof -
  have "5 \<le> length p" using assms(1) by (simp add: extractClusterReport_def split: if_splits)
  then obtain a b c d e q where p: "p = a # b # c # d # e # q"
    by (auto simp: numeral_eq_Suc Suc_le_length_iff)
  have found: ?thesis if "fits r" "p = report_bytes r @ rest" "used = of_nat (length (report_bytes r))"
    "text = report_text r" for r rest using that by blast
  from assms(1) [unfolded p extract_Cons]
  consider (sw) f r where "(a, b, c, d, e) = (0, 0, 0, 0x40, 0x42)" "q = f # r" "unat f \<le> length r" "used = 6 + f"
      "text = firmware_text (take (unat f) r)"
    | (door) f r where "(a, b, c, d, e) = (0x0F, 0, 0x55, 0, 0x10)" "q = f # r" "used = 6" "text = door_text f"
    | (temp) f g r where "(a, b, c, d, e) = (2, 4, 0, 0, 0x29)" "q = f # g # r" "used = 7"
        "text = temperature_text (sint (dble_u8_to_u16 g f))"
    | (hum) f g r where "(a, b, c, d, e) = (5, 4, 0, 0, 0x21)" "q = f # g # r" "used = 7"
        "text = humidity_text (sint (dble_u8_to_u16 g f))"
    | (bat) f r where "(a, b, c, d, e) = (1, 0, 0x20, 0, 0x20)" "q = f # r" "used = 6" "text = battery_text f"
    by (auto split: if_splits list.splits)
  then show ?thesis
  proof cases
    case sw
    then show ?thesis
      using assms(2) by (intro found [of "SwBuild (take (unat f) r)" "drop (unat f) r"]) (auto simp: p fits_def)
  next
    case door
    then show ?thesis by (intro found [of "Door f" r]) (auto simp: p fits_def)
  next
    case temp
    then show ?thesis by (intro found [of "MeasuredTemperature (dble_u8_to_u16 g f)" r]) (auto simp: p fits_def)
  next
    case hum
    then show ?thesis by (intro found [of "MeasuredHumidity (dble_u8_to_u16 g f)" r]) (auto simp: p fits_def)
  next
    case bat
    then show ?thesis by (intro found [of "BatteryVoltage f" r]) (auto simp: p fits_def)
  qed
qed

section \<open>Properties\<close>

lemma reports_taken:
  assumes "list_all fits rs"
  shows "extractMultiClusterReport (concat (map report_bytes rs)) = Inr (True, concat (map report_text rs))"
  using assms
proof (induction rs)
  case (Cons r rs)
  then have len: "unat (of_nat (length (report_bytes r)) :: u8) = length (report_bytes r)"
    by (simp add: fits_def unat_u8)
  have "report_bytes r \<noteq> []" by (cases r) simp_all
  then have "(of_nat (length (report_bytes r)) :: u8) \<noteq> 0"
    using len by (metis length_0_conv unsigned_0)
  then show ?case
    using Cons len \<open>report_bytes r \<noteq> []\<close>
    by (subst extractMultiClusterReport.simps) (simp add: report_bytes_take)
qed (simp add: extractMultiClusterReport.simps)

lemma reports_found:
  assumes "length p < 256"
  shows "\<exists>ok text. extractMultiClusterReport p = Inr (ok, text)
     \<and> (ok \<longrightarrow> (\<exists>rs. list_all fits rs \<and> p = concat (map report_bytes rs) \<and> text = concat (map report_text rs)))"
  using assms
proof (induction "length p" arbitrary: p rule: less_induct)
  case less
  show ?case
  proof (cases "p = [] \<or> extractClusterReport p = None")
    case True
    then have "extractMultiClusterReport p = Inr (p = [], [])"
      by (subst extractMultiClusterReport.simps) auto
    then show ?thesis by (auto intro: exI [of _ "[]"])
  next
    case False
    then obtain used t where used: "extractClusterReport p = Some (used, t)" by auto
    from extracted_report [OF used less.prems] obtain r rest where
      r: "fits r" "p = report_bytes r @ rest" "used = of_nat (length (report_bytes r))" "t = report_text r" by blast
    then have len: "unat used = length (report_bytes r)" by (simp add: fits_def unat_u8)
    have "report_bytes r \<noteq> []" by (cases r) simp_all
    then have "used \<noteq> 0" "length rest < length p" using len r(2) by auto
    then obtain ok t2 where rest: "extractMultiClusterReport rest = Inr (ok, t2)"
      "ok \<longrightarrow> (\<exists>rs. list_all fits rs \<and> rest = concat (map report_bytes rs) \<and> t2 = concat (map report_text rs))"
      using less.hyps [of rest] less.prems r(2) by auto
    have "extractMultiClusterReport p = Inr (ok, t @ t2)"
      using False used \<open>used \<noteq> 0\<close> \<open>report_bytes r \<noteq> []\<close> len rest(1) r(2)
      by (subst extractMultiClusterReport.simps) simp
    moreover have "\<exists>rs. list_all fits rs \<and> p = concat (map report_bytes rs) \<and> t @ t2 = concat (map report_text rs)"
      if good: "ok"
    proof -
      obtain rs where "list_all fits rs" "rest = concat (map report_bytes rs)" "t2 = concat (map report_text rs)"
        using rest(2) good by blast
      then show ?thesis using r by (intro exI [of _ "r # rs"]) simp
    qed
    ultimately show ?thesis by blast
  qed
qed

text \<open>C33: A payload of at most 255 bytes is decoded completely exactly when it is a sequence of reports which
  the application knows; what is printed is then the lines of these reports in their order.\<close>

theorem reports_decoded:
  assumes "length p < 256"
  shows "extractMultiClusterReport p = Inr (True, text) \<longleftrightarrow>
    (\<exists>rs. list_all fits rs \<and> p = concat (map report_bytes rs) \<and> text = concat (map report_text rs))"
  using reports_found [OF assms] reports_taken by (metis Inr_inject prod.inject)

theorem reports_decoded_witness:
  "extractMultiClusterReport [0x0F, 0, 0x55, 0, 0x10, 1, 1, 0, 0x20, 0, 0x20, 31] = Inr (True, door_text 1 @ battery_text 31)"
  using reports_decoded [of "[0x0F, 0, 0x55, 0, 0x10, 1, 1, 0, 0x20, 0, 0x20, 31]" "door_text 1 @ battery_text 31"]
  by (auto simp: fits_def intro!: exI [of _ "[Door 1, BatteryVoltage 31]"])

text \<open>C36: The application comes to an end with every frame that the adapter can deliver, because its payload
  has at most 255 bytes; but the loop over the reports would not end with a longer payload that
  has a version string of 250 characters, since the number of bytes taken wraps around to 0.\<close>

theorem frames_handled:
  "(\<forall>raw. case parse_gp_frame raw of Inl _ \<Rightarrow> True | Inr f \<Rightarrow> \<exists>text. onReceivedGPFrame f = Inr text)
   \<and> extractMultiClusterReport (report_bytes (SwBuild (replicate 250 c)) @ rest) = Inl Diverges"
proof -
  have "\<exists>text. onReceivedGPFrame f = Inr text" if "parse_gp_frame raw = Inr f" for raw f
  proof -
    have "length (gf_payload f) < 256"
    proof (cases "gf_application_id f = 0")
      case True
      then have "length (gf_payload f) \<le> unat (raw ! 27)" using parse_gp_frame_payload [OF that] by simp
      also have "\<dots> < 2 ^ LENGTH(8)" by (rule unsigned_less)
      finally show ?thesis by simp
    next
      case False
      then have "gf_payload f = []"
        using that by (auto simp: parse_gp_frame_def new_gp_frame_def Let_def split: if_splits)
      then show ?thesis by simp
    qed
    then show ?thesis
      using reports_found [of "gf_payload f"] by (auto simp: onReceivedGPFrame_def)
  qed
  moreover have "extractClusterReport (report_bytes (SwBuild (replicate 250 c)) @ rest) = Some (0, firmware_text (replicate 250 c))"
    by (simp add: extract_Cons)
  then have "extractMultiClusterReport (report_bytes (SwBuild (replicate 250 c)) @ rest) = Inl Diverges"
    by (subst extractMultiClusterReport.simps) simp
  ultimately show ?thesis by (auto split: sum.split)
qed

text \<open>A temperature between minus one and zero degrees is printed without its sign, as the positive one.\<close>

theorem temperature_sign_lost:
  assumes "-100 < t" "t < 0"
  shows "temperature_text t = temperature_text (- t)"
  using assms by (simp add: temperature_text_def signed_divide_int_def signed_modulo_int_def sgn_if)

theorem temperature_sign_lost_witness: "temperature_text (- 50) = temperature_text 50"
  using temperature_sign_lost [of "- 50"] by simp

end
