(* ===== verification/ExampleApp.thy ===== *)
theory ExampleApp
  imports LibEvents HexText
begin

text \<open>
  The sample application: its state machine, \<open>MainStateMachine\<close> of \<open>src/example/mainEzspStateMachine.h\<close>, which
  drives the library through its facade. A method returns the new state of the machine and its calls of the
  library and of its timer, in their order; what the library answers is only logged.
\<close>

section \<open>State\<close>

datatype MainState =
    INIT_PENDING | REMOVE_ALL_GPD | REMOVE_SPECIFIC_GPD | ADD_GPD | COMMISSION_GPD | SCAN_CHANNELS
  | GET_NW_KEY | RUN | FW_UPGRADE

record main_fsm =
  openGpCommissionningAtStartup :: bool
  channelRequestAnswerTimeoutAtStartup :: u8
  openZigbeeCommissionningAtStartup :: bool
  removeAllGPDAtStartup :: bool
  gpdAddList :: "gp_device list"
  gpdRemoveList :: "u32 list"
  displayNetworkKey :: bool
  currentState :: MainState
  startFirmwareUpgrade :: bool

datatype app_call =
    Request lib_op
  | ForceUpgradeOnTimeout           \<comment> \<open>\<open>forceFirmwareUpgradeOnInitTimeout\<close>, on the dongle\<close>
  | StartTimer u32                  \<comment> \<open>the timer that closes the window for channel requests\<close>

type_synonym app_result = "main_fsm \<times> app_call list"

definition new_main_fsm ::
    "bool \<Rightarrow> u8 \<Rightarrow> bool \<Rightarrow> bool \<Rightarrow> gp_device list \<Rightarrow> u32 list \<Rightarrow> bool \<Rightarrow> bool \<Rightarrow> app_result" where
  "new_main_fsm openGpCommissionning authorizeChannelRequestAnswerTimeout openZigbeeCommissionning
     gpRemoveAllDevices gpDevicesToAdd gpDevicesToRemove displayKey switchToFirmwareUpgradeMode =
     (\<lparr>openGpCommissionningAtStartup = openGpCommissionning,
       channelRequestAnswerTimeoutAtStartup = authorizeChannelRequestAnswerTimeout,
       openZigbeeCommissionningAtStartup = openZigbeeCommissionning,
       removeAllGPDAtStartup = gpRemoveAllDevices, gpdAddList = gpDevicesToAdd,
       gpdRemoveList = gpDevicesToRemove, displayNetworkKey = displayKey,
       currentState = INIT_PENDING, startFirmwareUpgrade = switchToFirmwareUpgradeMode\<rparr>,
      if switchToFirmwareUpgradeMode then [ForceUpgradeOnTimeout] else [])"

section \<open>Steps\<close>

definition ezspRun :: "main_fsm \<Rightarrow> app_result" where
  "ezspRun f = (f\<lparr>currentState := RUN\<rparr>, [])"

definition ezspInitDone :: "main_fsm \<Rightarrow> app_result" where
  "ezspInitDone f =
     (if displayNetworkKey f then (f\<lparr>currentState := GET_NW_KEY\<rparr>, [Request (LibKey True)]) else ezspRun f)"

text \<open>\<open>processNetworkKey\<close>, \<open>processEnergyScanResults\<close> and the function of the timer. The channel which the
  second elects among the results is logged.\<close>

definition processNetworkKey :: "main_fsm \<Rightarrow> app_result" where
  "processNetworkKey f = ezspRun f"

definition electedChannelRssi :: "(u8 \<times> int) list \<Rightarrow> u8 \<times> int" where
  "electedChannelRssi channelToEnergyScan =
     foldl (\<lambda>elected scanned. if snd scanned < snd elected then scanned else elected) (0xFF, 20) channelToEnergyScan"

definition processEnergyScanResults :: "main_fsm \<Rightarrow> app_result" where
  "processEnergyScanResults f = ezspInitDone f"

definition closeChannelRequestWindow :: "main_fsm \<Rightarrow> app_result" where
  "closeChannelRequestWindow f = (f, [Request (LibPolicy False)])"

definition ezspFirmwareUpgrade :: "main_fsm \<Rightarrow> app_result" where
  "ezspFirmwareUpgrade f = (f\<lparr>currentState := FW_UPGRADE\<rparr>, [Request LibUpgrade])"

definition app_clearAllGPDevices :: "main_fsm \<Rightarrow> app_result" where
  "app_clearAllGPDevices f =
     (f\<lparr>currentState := REMOVE_ALL_GPD, removeAllGPDAtStartup := False, gpdRemoveList := []\<rparr>, [Request LibClear])"

definition app_removeGPDevices :: "u32 list \<Rightarrow> main_fsm \<Rightarrow> app_result" where
  "app_removeGPDevices gpdToRemove f =
     (f\<lparr>currentState := REMOVE_SPECIFIC_GPD\<rparr>, [Request (LibRemove gpdToRemove)])"

definition app_addGPDevices :: "gp_device list \<Rightarrow> main_fsm \<Rightarrow> app_result" where
  "app_addGPDevices gpdToAdd f = (f\<lparr>currentState := ADD_GPD\<rparr>, [Request (LibAdd gpdToAdd)])"

definition scanChannelsThenRun :: "main_fsm \<Rightarrow> app_result" where
  "scanChannelsThenRun f = (f\<lparr>currentState := SCAN_CHANNELS\<rparr>, [Request (LibEnergyScan True 3 0)])"

definition app_seq :: "app_result \<Rightarrow> (main_fsm \<Rightarrow> app_result) \<Rightarrow> app_result" where
  "app_seq r k = (case r of (f, cs) \<Rightarrow> case k f of (f', ds) \<Rightarrow> (f', cs @ ds))"

text \<open>What is done when the commissioning is due, before the scan.\<close>

definition openCommissioning :: "main_fsm \<Rightarrow> app_result" where
  "openCommissioning f =
     (f, (if openGpCommissionningAtStartup f then [Request LibOpen] else [])
         @ (if channelRequestAnswerTimeoutAtStartup f \<noteq> 0
            then [Request (LibPolicy True), StartTimer (ucast (channelRequestAnswerTimeoutAtStartup f) * 1000)]
            else []))"

definition ezspStateChangeCallback :: "public_state \<Rightarrow> main_fsm \<Rightarrow> app_result" where
  "ezspStateChangeCallback i_state f =
     (if i_state = PubREADY then
        app_seq (if currentState f = INIT_PENDING \<and> startFirmwareUpgrade f then ezspFirmwareUpgrade f else (f, []))
          (\<lambda>f. if currentState f = INIT_PENDING \<and> removeAllGPDAtStartup f then app_clearAllGPDevices f
               else if currentState f = INIT_PENDING \<and> gpdRemoveList f \<noteq> [] then
                 app_removeGPDevices (gpdRemoveList f) (f\<lparr>gpdRemoveList := []\<rparr>)
               else if currentState f \<in> {INIT_PENDING, REMOVE_ALL_GPD, REMOVE_SPECIFIC_GPD} \<and> gpdAddList f \<noteq> [] then
                 app_addGPDevices (gpdAddList f) (f\<lparr>gpdAddList := []\<rparr>)
               else if currentState f \<in> {INIT_PENDING, REMOVE_ALL_GPD, REMOVE_SPECIFIC_GPD, ADD_GPD}
                 \<and> (channelRequestAnswerTimeoutAtStartup f \<noteq> 0 \<or> openGpCommissionningAtStartup f) then
                 app_seq (openCommissioning f) scanChannelsThenRun
               else (f, []))
      else (f, []))"

text \<open>What the machine is told: states of the library, and the functions it has registered.\<close>

datatype app_input = StateIs public_state | ScanDone | KeyDone | TimerDone

fun app_step :: "app_input \<Rightarrow> main_fsm \<Rightarrow> app_result" where
  "app_step (StateIs st) f = ezspStateChangeCallback st f"
| "app_step ScanDone f = processEnergyScanResults f"
| "app_step KeyDone f = processNetworkKey f"
| "app_step TimerDone f = closeChannelRequestWindow f"

fun app_run :: "app_input list \<Rightarrow> main_fsm \<Rightarrow> app_result" where
  "app_run [] f = (f, [])"
| "app_run (i # ins) f = app_seq (app_step i f) (app_run ins)"

lemma app_seq_pair [simp]: "app_seq (f, cs) k = (fst (k f), cs @ snd (k f))"
  by (simp add: app_seq_def split_beta)

section \<open>The plan of the start-up\<close>

text \<open>What a machine that is configured so has to do, one group of calls for each time the library is ready.\<close>

definition commissioning_calls :: "bool \<Rightarrow> u8 \<Rightarrow> app_call list" where
  "commissioning_calls openGp timeout =
     (if openGp then [Request LibOpen] else [])
     @ (if timeout \<noteq> 0 then [Request (LibPolicy True), StartTimer (ucast timeout * 1000)] else [])
     @ [Request (LibEnergyScan True 3 0)]"

definition startup_plan ::
    "bool \<Rightarrow> u8 \<Rightarrow> bool \<Rightarrow> gp_device list \<Rightarrow> u32 list \<Rightarrow> bool \<Rightarrow> app_call list list" where
  "startup_plan openGp timeout clearAll toAdd toRemove upgrade =
     (if upgrade then [[Request LibUpgrade]]
      else (if clearAll then [[Request LibClear]] else if toRemove \<noteq> [] then [[Request (LibRemove toRemove)]] else [])
         @ (if toAdd \<noteq> [] then [[Request (LibAdd toAdd)]] else [])
         @ (if timeout \<noteq> 0 \<or> openGp then [commissioning_calls openGp timeout] else []))"

text \<open>The part of the plan that is left in a state of the machine.\<close>

definition agenda :: "main_fsm \<Rightarrow> app_call list list" where
  "agenda f =
     (let plan = startup_plan (openGpCommissionningAtStartup f) (channelRequestAnswerTimeoutAtStartup f) in
      case currentState f of
        INIT_PENDING \<Rightarrow> plan (removeAllGPDAtStartup f) (gpdAddList f) (gpdRemoveList f) (startFirmwareUpgrade f)
      | REMOVE_ALL_GPD \<Rightarrow> plan False (gpdAddList f) [] False
      | REMOVE_SPECIFIC_GPD \<Rightarrow> plan False (gpdAddList f) [] False
      | ADD_GPD \<Rightarrow> plan False [] [] False
      | _ \<Rightarrow> [])"

lemma commissioning_step:
  "app_seq (openCommissioning f) scanChannelsThenRun =
     (f\<lparr>currentState := SCAN_CHANNELS\<rparr>,
      commissioning_calls (openGpCommissionningAtStartup f) (channelRequestAnswerTimeoutAtStartup f))"
  by (simp add: openCommissioning_def scanChannelsThenRun_def commissioning_calls_def)

lemmas app_steps = ezspStateChangeCallback_def ezspFirmwareUpgrade_def app_clearAllGPDevices_def
  app_removeGPDevices_def app_addGPDevices_def commissioning_step

definition commissioning_due :: "main_fsm \<Rightarrow> bool" where
  "commissioning_due f \<longleftrightarrow> channelRequestAnswerTimeoutAtStartup f \<noteq> 0 \<or> openGpCommissionningAtStartup f"

text \<open>What happens when the library is ready, by the state of the machine.\<close>

definition ready_after_removal :: "main_fsm \<Rightarrow> app_result" where
  "ready_after_removal f =
     (if gpdAddList f \<noteq> [] then app_addGPDevices (gpdAddList f) (f\<lparr>gpdAddList := []\<rparr>)
      else if commissioning_due f then app_seq (openCommissioning f) scanChannelsThenRun else (f, []))"

lemma ready_step:
  "ezspStateChangeCallback PubREADY f =
     (case currentState f of
        INIT_PENDING \<Rightarrow>
          if startFirmwareUpgrade f then ezspFirmwareUpgrade f
          else if removeAllGPDAtStartup f then app_clearAllGPDevices f
          else if gpdRemoveList f \<noteq> [] then app_removeGPDevices (gpdRemoveList f) (f\<lparr>gpdRemoveList := []\<rparr>)
          else ready_after_removal f
      | REMOVE_ALL_GPD \<Rightarrow> ready_after_removal f
      | REMOVE_SPECIFIC_GPD \<Rightarrow> ready_after_removal f
      | ADD_GPD \<Rightarrow> if commissioning_due f then app_seq (openCommissioning f) scanChannelsThenRun else (f, [])
      | _ \<Rightarrow> (f, []))"
  by (cases "currentState f")
    (simp_all add: ezspStateChangeCallback_def ready_after_removal_def commissioning_due_def ezspFirmwareUpgrade_def
      split_beta)

lemma agenda_after_removal:
  "currentState f \<in> {INIT_PENDING, REMOVE_ALL_GPD, REMOVE_SPECIFIC_GPD} \<Longrightarrow>
     (currentState f = INIT_PENDING \<Longrightarrow>
       \<not> startFirmwareUpgrade f \<and> \<not> removeAllGPDAtStartup f \<and> gpdRemoveList f = []) \<Longrightarrow>
     ready_after_removal f = (f', cs) \<Longrightarrow>
     cs = concat (take 1 (startup_plan (openGpCommissionningAtStartup f) (channelRequestAnswerTimeoutAtStartup f)
       False (gpdAddList f) [] False))
     \<and> agenda f' = drop 1 (startup_plan (openGpCommissionningAtStartup f) (channelRequestAnswerTimeoutAtStartup f)
       False (gpdAddList f) [] False)"
  by (cases "gpdAddList f = []"; cases "commissioning_due f")
    (auto simp: ready_after_removal_def app_addGPDevices_def commissioning_step commissioning_due_def agenda_def
      startup_plan_def)

lemma agenda_step:
  "snd (ezspStateChangeCallback st f) = (if st = PubREADY then concat (take 1 (agenda f)) else [])
   \<and> agenda (fst (ezspStateChangeCallback st f)) = (if st = PubREADY then drop 1 (agenda f) else agenda f)"
proof (cases "st = PubREADY")
  case True
  obtain f1 cs1 where after: "ready_after_removal f = (f1, cs1)" by fastforce
  note step = True ready_step after agenda_def
  show ?thesis
  proof (cases "currentState f")
    case INIT_PENDING
    then show ?thesis
      using agenda_after_removal [of f f1 cs1]
      by (cases "startFirmwareUpgrade f"; cases "removeAllGPDAtStartup f"; cases "gpdRemoveList f = []")
        (simp_all add: step app_steps startup_plan_def)
  next
    case ADD_GPD
    then show ?thesis
      by (cases "commissioning_due f") (auto simp: step commissioning_step commissioning_due_def startup_plan_def)
  qed (use agenda_after_removal [of f f1 cs1] in \<open>simp_all add: step\<close>)
qed (simp add: ezspStateChangeCallback_def)

lemma agenda_run:
  "snd (app_run (map StateIs evs) f) = concat (take (count_list evs PubREADY) (agenda f))"
proof (induction evs arbitrary: f)
  case (Cons st evs)
  have split: "concat (take (Suc n) xs) = concat (take 1 xs) @ concat (take n (drop 1 xs))"
    for n and xs :: "app_call list list"
    by (cases xs) simp_all
  obtain f1 cs1 where cb: "ezspStateChangeCallback st f = (f1, cs1)" by fastforce
  have "snd (app_run (map StateIs (st # evs)) f) = cs1 @ concat (take (count_list evs PubREADY) (agenda f1))"
    by (simp add: cb Cons.IH)
  also have "\<dots> = concat (take (count_list (st # evs) PubREADY) (agenda f))"
    using agenda_step [of st f] split [of "count_list evs PubREADY" "agenda f"] unfolding cb
    by (cases "st = PubREADY") simp_all
  finally show ?case .
qed simp

text \<open>C31: The sample application works off a plan. Each time the library becomes ready it makes the calls of the
  next part of the plan, and only then: a switch to the boot loader alone when that is asked for;
  otherwise removal of all devices or of those that are listed, registration of devices, and the opening
  of the commissioning followed by a scan, each once and only if it was configured.\<close>

theorem app_startup_plan:
  "snd (app_run (map StateIs evs)
      (fst (new_main_fsm openGp timeout openZigbee clearAll toAdd toRemove showKey upgrade))) =
    concat (take (count_list evs PubREADY) (startup_plan openGp timeout clearAll toAdd toRemove upgrade))"
proof -
  have "agenda (fst (new_main_fsm openGp timeout openZigbee clearAll toAdd toRemove showKey upgrade)) =
      startup_plan openGp timeout clearAll toAdd toRemove upgrade"
    by (simp add: agenda_def new_main_fsm_def)
  then show ?thesis by (simp only: agenda_run)
qed

text \<open>Without a commissioning in the plan the machine stays in the states of the start-up.\<close>

definition idle_start :: "main_fsm \<Rightarrow> bool" where
  "idle_start f \<longleftrightarrow> \<not> openGpCommissionningAtStartup f \<and> channelRequestAnswerTimeoutAtStartup f = 0
     \<and> currentState f \<in> {INIT_PENDING, REMOVE_ALL_GPD, REMOVE_SPECIFIC_GPD, ADD_GPD, FW_UPGRADE}"

lemma idle_start_step: "idle_start f \<Longrightarrow> idle_start (fst (ezspStateChangeCallback st f))"
  by (cases "st = PubREADY"; cases "currentState f")
    (auto simp: idle_start_def ready_step ready_after_removal_def commissioning_due_def ezspFirmwareUpgrade_def
      app_clearAllGPDevices_def app_removeGPDevices_def app_addGPDevices_def ezspStateChangeCallback_def)

text \<open>Without a commissioning session and without a window for channel requests the application never gets
  to its state RUN, and never asks for the network key, even when it was told to show the key before it
  runs: however often the library becomes ready, it stays in the states of the start-up.\<close>

theorem app_never_runs:
  "\<exists>f cs. app_run (map StateIs evs)
       (fst (new_main_fsm False 0 openZigbee clearAll toAdd toRemove True upgrade)) = (f, cs)
     \<and> currentState f \<notin> {SCAN_CHANNELS, GET_NW_KEY, RUN} \<and> Request (LibKey True) \<notin> set cs"
proof -
  let ?f = "fst (new_main_fsm False 0 openZigbee clearAll toAdd toRemove True upgrade)"
  have "idle_start (fst (app_run (map StateIs evs) f))" if "idle_start f" for f
    using that by (induction evs arbitrary: f) (simp_all add: app_seq_def split_beta idle_start_step)
  moreover have "idle_start ?f" by (simp add: idle_start_def new_main_fsm_def)
  ultimately have "idle_start (fst (app_run (map StateIs evs) ?f))" by blast
  moreover have "agenda ?f = startup_plan False 0 clearAll toAdd toRemove upgrade"
    by (simp add: agenda_def new_main_fsm_def)
  then have "Request (LibKey True) \<notin> set (snd (app_run (map StateIs evs) ?f))"
    unfolding agenda_run by (auto simp: startup_plan_def dest!: in_set_takeD split: if_splits)
  ultimately show ?thesis
    by (cases "app_run (map StateIs evs) ?f") (auto simp: idle_start_def)
qed

text \<open>The application never asks the library to remove or to add an empty list of devices, which
  would block the library, whatever it is configured to do and in whatever order it is called.\<close>

theorem app_requests_devices:
  "\<exists>f cs. app_run ins (fst (new_main_fsm openGp timeout openZigbee clearAll toAdd toRemove showKey upgrade)) = (f, cs)
     \<and> Request (LibRemove []) \<notin> set cs \<and> Request (LibAdd []) \<notin> set cs"
proof -
  have "Request (LibRemove []) \<notin> set (snd (app_run ins f)) \<and> Request (LibAdd []) \<notin> set (snd (app_run ins f))" for f
  proof (induction ins arbitrary: f)
    case (Cons i ins)
    have "Request (LibRemove []) \<notin> set (snd (app_step i f)) \<and> Request (LibAdd []) \<notin> set (snd (app_step i f))"
    proof (cases i)
      case (StateIs st)
      then show ?thesis
        by (cases "st = PubREADY"; cases "currentState f")
          (simp_all add: ready_step ready_after_removal_def app_clearAllGPDevices_def app_removeGPDevices_def
            app_addGPDevices_def ezspFirmwareUpgrade_def commissioning_step commissioning_calls_def,
           simp_all add: ezspStateChangeCallback_def)
    qed (simp_all add: processEnergyScanResults_def ezspInitDone_def ezspRun_def
          processNetworkKey_def closeChannelRequestWindow_def)
    then show ?case using Cons.IH [of "fst (app_step i f)"] by (simp add: app_seq_def split_beta)
  qed simp
  then show ?thesis by (metis prod.collapse)
qed

end
