(* ===== verification/CommandLine.thy ===== *)
theory CommandLine
  imports ExampleApp
begin

text \<open>
  The main program of the sample, \<open>src/example/mainEzspTest.cpp\<close>: what its options mean, how it reads the devices
  that are given with them, and the objects it makes of them. The options are the pairs of a character and
  an argument which \<open>getopt_long\<close> returns one after the other (for \<open>?\<close> too).
\<close>

section \<open>Numbers\<close>

text \<open>\<open>operator>>\<close> of a stream with \<open>std::hex\<close> or \<open>std::dec\<close>, into an unsigned integer: blanks are skipped; with
  nothing behind them the variable stays as it was (\<open>None\<close>); without a digit it becomes 0, and the greatest
  value when the number is too large. A sign is accepted, and the number negated.\<close>

definition is_blank :: "char \<Rightarrow> bool" where
  "is_blank c \<longleftrightarrow> c \<in> set [CHR '' '', CHR 0x09, CHR 0x0A, CHR 0x0B, CHR 0x0C, CHR 0x0D]"

definition is_digit :: "char \<Rightarrow> bool" where
  "is_digit c \<longleftrightarrow> (of_char c :: int) \<in> {0x30..0x39}"

definition split_sign :: "string \<Rightarrow> bool \<times> string" where
  "split_sign s = (case s of
     [] \<Rightarrow> (False, [])
   | c # cs \<Rightarrow> if c = CHR ''-'' then (True, cs) else if c = CHR ''+'' then (False, cs) else (False, s))"

definition strip_0x :: "string \<Rightarrow> string" where
  "strip_0x s = (case s of
     c # d # cs \<Rightarrow> if c = CHR ''0'' \<and> d \<in> {CHR ''x'', CHR ''X''} then cs else s
   | _ \<Rightarrow> s)"

definition hex_value :: "string \<Rightarrow> nat" where
  "hex_value = foldl (\<lambda>v c. 16 * v + (case hexDigitToNibble c of Some n \<Rightarrow> unat n | None \<Rightarrow> 0)) 0"

definition dec_value :: "string \<Rightarrow> int" where
  "dec_value = foldl (\<lambda>v c. 10 * v + (of_char c - 0x30)) 0"

definition to_unsigned :: "bool \<Rightarrow> int \<Rightarrow> u32" where
  "to_unsigned neg v = (if 2 ^ 32 \<le> v then - 1 else if neg then - of_int v else of_int v)"

definition read_hex :: "string \<Rightarrow> u32 option" where
  "read_hex s =
     (let s = dropWhile is_blank s in
      if s = [] then None
      else case split_sign s of (neg, s) \<Rightarrow>
        Some (to_unsigned neg (int (hex_value (takeWhile (\<lambda>c. hexDigitToNibble c \<noteq> None) (strip_0x s))))))"

definition read_dec :: "string \<Rightarrow> u32 option" where
  "read_dec s =
     (let s = dropWhile is_blank s in
      if s = [] then None
      else case split_sign s of (neg, s) \<Rightarrow> Some (to_unsigned neg (dec_value (takeWhile is_digit s))))"

text \<open>\<open>strtol\<close> with base 10, on 64 bits, and \<open>std::stoi\<close> of a string.\<close>

definition strtol_dec :: "string \<Rightarrow> int" where
  "strtol_dec s =
     (case split_sign (dropWhile is_blank s) of (neg, s) \<Rightarrow>
        let v = dec_value (takeWhile is_digit s)
        in max (- (2 ^ 63)) (min (2 ^ 63 - 1) (if neg then - v else v)))"

section \<open>How the program ends before it has started\<close>

datatype main_end =
    Return int            \<comment> \<open>\<open>main\<close> returns\<close>
  | InvalidArgument       \<comment> \<open>\<open>std::invalid_argument\<close>, which is not caught\<close>
  | StoiOutOfRange        \<comment> \<open>\<open>std::out_of_range\<close>, which is not caught\<close>
  | ReadUninitialised     \<comment> \<open>undefined behaviour: a variable is read that was never written\<close>

type_synonym 'a parsed = "main_end + 'a"

definition stoi :: "string \<Rightarrow> int parsed" where
  "stoi s =
     (case split_sign (dropWhile is_blank s) of (neg, ds) \<Rightarrow>
        if takeWhile is_digit ds = [] then Inl InvalidArgument
        else let v = strtol_dec s in
          if v < - (2 ^ 31) \<or> 2 ^ 31 \<le> v then Inl StoiOutOfRange else Inr v)"

section \<open>Devices\<close>

fun key_bytes :: "string \<Rightarrow> byte_buffer option" where
  "key_bytes (h # l # cs) =
     (case hexDigitToNibble h of
        None \<Rightarrow> None
      | Some hiNibble \<Rightarrow>
          (case hexDigitToNibble l of
             None \<Rightarrow> None
           | Some loNibble \<Rightarrow>
               (case key_bytes cs of
                  None \<Rightarrow> None
                | Some bs \<Rightarrow> Some ((push_bit 4 hiNibble OR loNibble) # bs))))"
| "key_bytes _ = Some []"

definition appendSourceIdToAddedDevList :: "string \<Rightarrow> gp_device list \<Rightarrow> gp_device list parsed" where
  "appendSourceIdToAddedDevList devSpecs addedDevList =
     (if devSpecs = [] then Inl (Return 1)
      else
        let gpDevSourceIdstr = takeWhile (\<lambda>c. c \<noteq> CHR ''/'') devSpecs;
            gpDevDataStream = drop (length gpDevSourceIdstr + 1) devSpecs
        in case read_hex gpDevSourceIdstr of
          None \<Rightarrow> Inl ReadUninitialised
        | Some sourceIdValue \<Rightarrow>
            if 0xFFFFFFFF \<le> sourceIdValue then Inl (Return 1)
            else let gpDevKeyStr = takeWhile (\<lambda>c. \<not> is_blank c) (dropWhile is_blank gpDevDataStream) in
              if length gpDevKeyStr \<noteq> 2 * 16 then Inl (Return 1)
              else case key_bytes gpDevKeyStr of
                None \<Rightarrow> Inl (Return 1)
              | Some keyValue \<Rightarrow> Inr (addedDevList @ [new_gp_device sourceIdValue keyValue]))"

definition appendSourceIdToRemovedDevList :: "string \<Rightarrow> u32 list \<Rightarrow> bool \<Rightarrow> (u32 list \<times> bool) parsed" where
  "appendSourceIdToRemovedDevList devSpecs removedDevList removeAllDevs =
     (if devSpecs = ''*'' then
        (if removedDevList \<noteq> [] then Inl (Return 1) else Inr (removedDevList, True))
      else if removeAllDevs then Inl (Return 1)
      else case read_hex devSpecs of
        None \<Rightarrow> Inl ReadUninitialised
      | Some sourceIdValue \<Rightarrow>
          if 0xFFFFFFFF \<le> sourceIdValue then Inl (Return 1)
          else Inr (removedDevList @ [sourceIdValue], removeAllDevs))"

section \<open>Options\<close>

record main_options =
  mo_debugEnabled :: bool
  mo_switchToFirmwareUpgradeMode :: bool
  mo_gpAddedDevDataList :: "gp_device list"
  mo_gpRemovedDevDataList :: "u32 list"
  mo_removeAllGpDevs :: bool
  mo_resetToChannel :: u32
  mo_serialPort :: string
  mo_openGpCommissionningAtStartup :: bool
  mo_openZigbeeNetworkAtStartup :: bool
  mo_displayNetworkKey :: bool
  mo_authorizeChRqstAnswerTimeout :: u8
  mo_baudrate :: "32 word"

definition no_options :: main_options where
  "no_options = \<lparr>mo_debugEnabled = False, mo_switchToFirmwareUpgradeMode = False, mo_gpAddedDevDataList = [],
     mo_gpRemovedDevDataList = [], mo_removeAllGpDevs = False, mo_resetToChannel = 0,
     mo_serialPort = ''/dev/ttyUSB0'', mo_openGpCommissionningAtStartup = False,
     mo_openZigbeeNetworkAtStartup = False, mo_displayNetworkKey = False,
     mo_authorizeChRqstAnswerTimeout = 0, mo_baudrate = 115200\<rparr>"

definition main_option :: "char \<Rightarrow> string \<Rightarrow> main_options \<Rightarrow> main_options parsed" where
  "main_option c optarg mo =
     (if c = CHR ''s'' then
        (case appendSourceIdToAddedDevList optarg (mo_gpAddedDevDataList mo) of
           Inl e \<Rightarrow> Inl e
         | Inr devices \<Rightarrow> Inr (mo\<lparr>mo_gpAddedDevDataList := devices\<rparr>))
      else if c = CHR ''r'' then
        (case appendSourceIdToRemovedDevList optarg (mo_gpRemovedDevDataList mo) (mo_removeAllGpDevs mo) of
           Inl e \<Rightarrow> Inl e
         | Inr (ids, clearAll) \<Rightarrow> Inr (mo\<lparr>mo_gpRemovedDevDataList := ids, mo_removeAllGpDevs := clearAll\<rparr>))
      else if c = CHR ''b'' then Inr (mo\<lparr>mo_baudrate := of_int (strtol_dec optarg)\<rparr>)
      else if c = CHR ''u'' then Inr (mo\<lparr>mo_serialPort := optarg\<rparr>)
      else if c = CHR ''c'' then
        Inr (case read_dec optarg of None \<Rightarrow> mo | Some channel \<Rightarrow> mo\<lparr>mo_resetToChannel := channel\<rparr>)
      else if c = CHR ''l'' then Inr (if mo_resetToChannel mo = 0 then mo\<lparr>mo_resetToChannel := - 1\<rparr> else mo)
      else if c = CHR ''G'' then Inr (mo\<lparr>mo_openGpCommissionningAtStartup := True\<rparr>)
      else if c = CHR ''C'' then
        (case stoi optarg of
           Inl e \<Rightarrow> Inl e
         | Inr time \<Rightarrow> Inr (mo\<lparr>mo_authorizeChRqstAnswerTimeout := of_int time\<rparr>))
      else if c = CHR ''Z'' then Inr (mo\<lparr>mo_openZigbeeNetworkAtStartup := True\<rparr>)
      else if c = CHR ''k'' then Inr (mo\<lparr>mo_displayNetworkKey := True\<rparr>)
      else if c = CHR ''w'' then Inr (mo\<lparr>mo_switchToFirmwareUpgradeMode := True\<rparr>)
      else if c = CHR ''d'' then Inr (mo\<lparr>mo_debugEnabled := True\<rparr>)
      else if c = CHR ''h'' then Inl (Return 0)
      else Inl (Return 1))"

fun read_options :: "(char \<times> string) list \<Rightarrow> main_options \<Rightarrow> main_options parsed" where
  "read_options [] mo = Inr mo"
| "read_options ((c, optarg) # opts) mo =
     (case main_option c optarg mo of Inl e \<Rightarrow> Inl e | Inr mo \<Rightarrow> read_options opts mo)"

text \<open>The objects, with the functions that are registered on the library before it is started; \<open>opened\<close> tells
  whether the serial port could be opened.\<close>

definition main_objects ::
    "(char \<times> string) list \<Rightarrow> bool \<Rightarrow> (nat \<Rightarrow> u16) \<Rightarrow> (lib_main \<times> app_result) parsed" where
  "main_objects opts opened numbers =
     (case read_options opts no_options of
        Inl e \<Rightarrow> Inl e
      | Inr mo \<Rightarrow>
          if \<not> opened then Inl (Return 1)
          else Inr (registerGPFrameRecvCallback True (registerLibraryStateCallback True
                      (new_lib numbers (mo_resetToChannel mo))),
                    new_main_fsm (mo_openGpCommissionningAtStartup mo) (mo_authorizeChRqstAnswerTimeout mo)
                      (mo_openZigbeeNetworkAtStartup mo) (mo_removeAllGpDevs mo) (mo_gpAddedDevDataList mo)
                      (mo_gpRemovedDevDataList mo) (mo_displayNetworkKey mo) (mo_switchToFirmwareUpgradeMode mo)))"

text \<open>The function for the states of the library: the step of the machine, and whether the program ends.\<close>

definition main_clibobs :: "public_state \<Rightarrow> main_fsm \<Rightarrow> app_result \<times> bool" where
  "main_clibobs i_state fsm =
     (ezspStateChangeCallback i_state fsm, i_state = PubIN_XMODEM_XFR \<or> i_state = PubTERMINATING)"

section \<open>Reading what was written\<close>

definition byte_text :: "u8 \<Rightarrow> string" where
  "byte_text b = [nibble_char (drop_bit 4 b), nibble_char (b AND 0xF)]"

definition device_text :: "u32 \<times> byte_buffer \<Rightarrow> string" where
  "device_text d = hex_text 8 (fst d) @ ''/'' @ concat (map byte_text (snd d))"

lemma low_nibble: "b AND 0xF = take_bit 4 (b :: u8)"
  by (simp add: take_bit_eq_mask mask_numeral)

lemma nibble_word: "(ucast (take_bit 4 w) :: u8) < 16" "unat (ucast (take_bit 4 w) :: u8) = unat w mod 16"
proof -
  show eq: "unat (ucast (take_bit 4 w) :: u8) = unat w mod 16"
    by (simp add: unsigned_ucast_eq unsigned_take_bit_eq take_bit_take_bit) (simp add: take_bit_eq_mod)
  show "(ucast (take_bit 4 w) :: u8) < 16" by (simp add: word_less_nat_alt eq)
qed

lemma unat_drop4: "unat (drop_bit 4 w) = unat w div 16"
proof -
  have "take_bit LENGTH('a) (unat w) = unat w" for w :: "'a::len word"
    by (rule take_bit_nat_eq_self) (rule unsigned_less)
  then show ?thesis by (simp only: unsigned_drop_bit_eq) (simp add: drop_bit_eq_div)
qed

lemma nibble_bounds: "drop_bit 4 b < (16 :: u8)" "b AND 0xF < (16 :: u8)"
proof -
  have "unat b < 2 ^ LENGTH(8)" by (rule unsigned_less)
  then have "unat b < 256" by simp
  then have "unat (drop_bit 4 b) < 16" unfolding unat_drop4 by presburger
  then show "drop_bit 4 b < 16" by (simp add: word_less_nat_alt)
  show "b AND 0xF < 16" using nibble_word(1) [of b] by (simp add: low_nibble)
qed

lemma key_bytes_text: "key_bytes (concat (map byte_text bs)) = Some bs"
proof (induction bs)
  case (Cons b bs)
  have "push_bit 4 (drop_bit 4 b) OR (b AND 0xF) = b"
    unfolding low_nibble by (rule bit_word_eqI) (auto simp: bit_simps)
  then show ?case by (simp add: byte_text_def [of b] nibble_bounds Cons)
qed simp

lemma hex_text_chars: "c \<in> set (hex_text n w) \<Longrightarrow> \<exists>k < 16. c = nibble_char k"
proof (induction n arbitrary: w)
  case (Suc n)
  then show ?case using nibble_word(1) [of w] by auto
qed simp

lemma key_text_chars: "c \<in> set (concat (map byte_text bs)) \<Longrightarrow> \<exists>k < 16. c = nibble_char k"
  using nibble_bounds by (auto simp: byte_text_def)

lemma hex_value_snoc: "hex_value (s @ [c]) = 16 * hex_value s + (case hexDigitToNibble c of Some n \<Rightarrow> unat n | None \<Rightarrow> 0)"
  by (simp add: hex_value_def)

lemma hex_value_text: "hex_value (hex_text n w) = take_bit (4 * n) (unat w)"
proof (induction n arbitrary: w)
  case (Suc n)
  have "take_bit (4 * Suc n) x = 16 * take_bit (4 * n) (x div 16) + x mod 16" for x :: nat
    by (simp add: take_bit_eq_mod mod_mult2_eq power_add mult.commute)
  then show ?case
    using Suc [of "drop_bit 4 w"] nibble_word [of w] unfolding unat_drop4 by (simp add: hex_value_snoc)
qed (simp add: hex_value_def)

lemma hex_char_facts:
  assumes "\<exists>k < 16. c = nibble_char k"
  shows "\<not> is_blank c" "c \<noteq> CHR ''/''" "c \<noteq> CHR ''-''" "c \<noteq> CHR ''+''" "c \<notin> {CHR ''x'', CHR ''X''}"
    "hexDigitToNibble c \<noteq> None" "c \<noteq> CHR ''*''"
proof -
  obtain k where k: "k < 16" "c = nibble_char k" using assms by blast
  have star: "nibble_char k \<noteq> CHR ''*''" using k(1) by (rule nibble_cases) code_simp
  show "\<not> is_blank c" "c \<noteq> CHR ''/''" "c \<noteq> CHR ''-''" "c \<noteq> CHR ''+''" "c \<notin> {CHR ''x'', CHR ''X''}"
    "hexDigitToNibble c \<noteq> None" "c \<noteq> CHR ''*''"
    using hex_digit_char [OF k(1)] star k by (auto simp: is_blank_def)
qed

lemma read_hex_text:
  fixes w :: u32
  shows "read_hex (hex_text 8 w) = Some w"
proof -
  have chars: "\<exists>k < 16. c = nibble_char k" if "c \<in> set (hex_text 8 w)" for c
    using that by (rule hex_text_chars)
  have len: "length (hex_text 8 w) = 8" by simp
  then obtain c d cs where s: "hex_text 8 w = c # d # cs"
    by (cases "hex_text 8 w"; cases "tl (hex_text 8 w)") simp_all
  then have c: "\<exists>k < 16. c = nibble_char k" "\<exists>k < 16. d = nibble_char k" using chars by simp_all
  have digits: "takeWhile (\<lambda>c. hexDigitToNibble c \<noteq> None) (hex_text 8 w) = hex_text 8 w"
    using hex_char_facts(6) [OF chars] by (simp add: takeWhile_eq_all_conv)
  have "dropWhile is_blank (hex_text 8 w) = hex_text 8 w" "split_sign (hex_text 8 w) = (False, hex_text 8 w)"
    "strip_0x (hex_text 8 w) = hex_text 8 w"
    using hex_char_facts [OF c(1)] hex_char_facts [OF c(2)]
    by (simp_all add: s split_sign_def strip_0x_def)
  then have "read_hex (hex_text 8 w) = Some (to_unsigned False (int (hex_value (hex_text 8 w))))"
    using len by (simp only: read_hex_def Let_def digits prod.case) (metis list.size(3) zero_neq_numeral)
  also have "hex_value (hex_text 8 w) = unat w"
    using unsigned_less [of w] unfolding hex_value_text by (intro take_bit_nat_eq_self) simp
  finally show ?thesis
    using unsigned_less [of w, where 'a = int] by (simp add: to_unsigned_def)
qed

lemma device_text_read:
  assumes "i < 0xFFFFFFFF" "length k = 16"
  shows "appendSourceIdToAddedDevList (device_text (i, k)) l = Inr (l @ [new_gp_device i k])"
proof -
  let ?key = "concat (map byte_text k)"
  have split: "takeWhile (\<lambda>c. c \<noteq> CHR ''/'') (hex_text 8 i @ CHR ''/'' # cs) = hex_text 8 i" for cs
    using hex_char_facts(2) [OF hex_text_chars, of _ 8 i] by (subst takeWhile_append2) auto
  have blanks: "\<not> is_blank c" if "c \<in> set ?key" for c
    using that by (intro hex_char_facts(1) key_text_chars)
  have len: "length ?key = 32"
    using assms(2) by (simp add: length_concat comp_def byte_text_def sum_list_triv)
  have "dropWhile is_blank ?key = ?key"
    using blanks len by (cases ?key) (auto simp del: set_concat)
  moreover have "takeWhile (\<lambda>c. \<not> is_blank c) ?key = ?key"
    using blanks unfolding takeWhile_eq_all_conv by blast
  ultimately have "takeWhile (\<lambda>c. \<not> is_blank c) (dropWhile is_blank ?key) = ?key" by (simp only:)
  note word = this [THEN arg_cong [of _ _ length], unfolded len] this [THEN arg_cong [of _ _ key_bytes]]
  show ?thesis
    using len assms(1) word
    by (simp add: appendSourceIdToAddedDevList_def device_text_def split read_hex_text Let_def key_bytes_text
        linorder_not_le [symmetric] del: takeWhile_eq_all_conv)
qed

lemma source_id_read:
  assumes "i < 0xFFFFFFFF"
  shows "appendSourceIdToRemovedDevList (hex_text 8 i) l False = Inr (l @ [i], False)"
proof -
  have "hex_text 8 i \<noteq> ''*''"
  proof
    assume "hex_text 8 i = ''*''"
    from arg_cong [OF this, of length] show False by simp
  qed
  then show ?thesis
    using assms by (simp add: appendSourceIdToRemovedDevList_def read_hex_text linorder_not_le [symmetric])
qed

text \<open>Devices to add and to remove, as options in any order.\<close>

datatype device_option = AddDevice u32 byte_buffer | RemoveDevice u32

fun option_text :: "device_option \<Rightarrow> char \<times> string" where
  "option_text (AddDevice i k) = (CHR ''s'', device_text (i, k))"
| "option_text (RemoveDevice i) = (CHR ''r'', hex_text 8 i)"

fun option_ok :: "device_option \<Rightarrow> bool" where
  "option_ok (AddDevice i k) \<longleftrightarrow> i < 0xFFFFFFFF \<and> length k = 16"
| "option_ok (RemoveDevice i) \<longleftrightarrow> i < 0xFFFFFFFF"

definition devices_added :: "device_option list \<Rightarrow> gp_device list" where
  "devices_added xs = [new_gp_device i k. AddDevice i k \<leftarrow> xs]"

definition devices_removed :: "device_option list \<Rightarrow> u32 list" where
  "devices_removed xs = [i. RemoveDevice i \<leftarrow> xs]"

lemma device_options_read:
  "list_all option_ok xs \<Longrightarrow> \<not> mo_removeAllGpDevs mo \<Longrightarrow> read_options (map option_text xs) mo =
     Inr (mo\<lparr>mo_gpAddedDevDataList := mo_gpAddedDevDataList mo @ devices_added xs,
             mo_gpRemovedDevDataList := mo_gpRemovedDevDataList mo @ devices_removed xs\<rparr>)"
proof (induction xs arbitrary: mo)
  case (Cons x xs)
  show ?case
  proof (cases x)
    case (AddDevice i k)
    then show ?thesis
      using Cons by (simp add: main_option_def device_text_read devices_added_def devices_removed_def)
  next
    case (RemoveDevice i)
    then have "mo_removeAllGpDevs mo = False" using Cons.prems by simp
    then show ?thesis
      using Cons RemoveDevice by (simp add: main_option_def source_id_read devices_added_def devices_removed_def)
  qed
qed (simp add: devices_added_def devices_removed_def)

text \<open>C32: The devices on the command line reach the adapter's tables as they were written. Options that give
  devices as the usage describes them, eight hexadecimal digits and for a device to add its key of 32
  digits, in any order, are read without loss; and whatever the library reports then, the sample first
  asks for the removal of exactly the devices to remove, and next for the registration of exactly the
  devices to add.\<close>

theorem command_line_devices:
  assumes "list_all option_ok xs"
  shows "\<exists>m f. main_objects (map option_text xs) True numbers = Inr (m, f, [])
    \<and> snd (app_run (map StateIs evs) f) = concat (take (count_list evs PubREADY)
        ((if devices_removed xs \<noteq> [] then [[Request (LibRemove (devices_removed xs))]] else [])
         @ (if devices_added xs \<noteq> [] then [[Request (LibAdd (devices_added xs))]] else [])))"
proof -
  let ?f = "fst (new_main_fsm False 0 False False (devices_added xs) (devices_removed xs) False False)"
  obtain m where m: "main_objects (map option_text xs) True numbers = Inr (m, ?f, [])"
    using device_options_read [OF assms, of no_options]
    by (auto simp: main_objects_def no_options_def new_main_fsm_def)
  have "agenda ?f = startup_plan False 0 False (devices_added xs) (devices_removed xs) False"
    by (simp add: agenda_def new_main_fsm_def)
  also have "\<dots> = (if devices_removed xs \<noteq> [] then [[Request (LibRemove (devices_removed xs))]] else [])
      @ (if devices_added xs \<noteq> [] then [[Request (LibAdd (devices_added xs))]] else [])"
    by (simp add: startup_plan_def)
  finally show ?thesis
    using m by (intro exI [of _ m] exI [of _ ?f]) (simp only: agenda_run simp_thms)
qed

theorem command_line_devices_witness:
  "\<exists>m f. main_objects [(CHR ''r'', hex_text 8 (0x0151F2A0 :: u32)),
        (CHR ''s'', device_text (0xFFAE1245, replicate 16 0x5A))] True (\<lambda>_. 0) = Inr (m, f, [])
    \<and> snd (app_run [StateIs PubREADY, StateIs PubSINK_BUSY, StateIs PubREADY] f) =
      [Request (LibRemove [0x0151F2A0]), Request (LibAdd [new_gp_device 0xFFAE1245 (replicate 16 0x5A)])]"
  using command_line_devices [of "[RemoveDevice 0x0151F2A0, AddDevice 0xFFAE1245 (replicate 16 0x5A)]" "\<lambda>_. 0"
      "[PubREADY, PubSINK_BUSY, PubREADY]"]
  by (simp add: devices_added_def devices_removed_def del: app_run.simps hex_text.simps)

section \<open>Options that are misread\<close>

lemma digit_char: "(of_char (char_of (48 + n mod 10 :: nat)) :: int) = int (48 + n mod 10)"
proof -
  have "(48 + k) mod 256 = 48 + k" if "k < 10" for k :: nat using that by (intro mod_less) simp
  then have "of_char (char_of (48 + n mod 10)) = 48 + n mod 10" by (simp only: of_char_of mod_less_divisor zero_less_numeral)
  then show ?thesis by (metis of_nat_of_char)
qed

lemma digits_text_value: "dec_value (digits_text n) = int n \<and> (\<forall>c \<in> set (digits_text n). is_digit c) \<and> digits_text n \<noteq> []"
proof (induction n rule: digits_text.induct)
  case (1 n)
  have "n mod 10 < 10" by simp
  then have c: "is_digit (char_of (48 + n mod 10))" unfolding is_digit_def digit_char by simp
  have snoc: "dec_value (s @ [char_of (48 + n mod 10)]) = 10 * dec_value s + int (n mod 10)" for s
    using digit_char [of n] by (simp add: dec_value_def)
  show ?case
  proof (cases "n < 10")
    case True
    then show ?thesis using c snoc [of "[]"] by (subst (1 2 3) digits_text.simps) (simp add: dec_value_def)
  next
    case False
    then have "dec_value (digits_text n) = 10 * int (n div 10) + int (n mod 10)"
      using 1 snoc by (subst digits_text.simps) simp
    also have "\<dots> = int n" by presburger
    finally show ?thesis using False 1 c by (subst (2 3) digits_text.simps) simp
  qed
qed

lemma stoi_text: "n < 2 ^ 31 \<Longrightarrow> stoi (int_text (int n)) = Inr (int n)"
proof -
  assume n: "n < 2 ^ 31"
  let ?s = "digits_text n"
  have all: "\<forall>c \<in> set ?s. is_digit c" "?s \<noteq> []" "dec_value ?s = int n" using digits_text_value [of n] by blast+
  then obtain c cs where s: "?s = c # cs" by (cases ?s) auto
  have c: "is_digit c" using all(1) s by simp
  have facts: "\<not> is_blank c" "c \<noteq> CHR ''-''" "c \<noteq> CHR ''+''"
    using c by (auto simp: is_digit_def is_blank_def)
  have tw: "takeWhile is_digit ?s = ?s" using all(1) by (simp only: takeWhile_eq_all_conv)
  have "split_sign (dropWhile is_blank ?s) = (False, ?s)" using facts by (simp add: s split_sign_def)
  then have "stoi ?s = Inr (int n)"
    using all(2,3) n unfolding stoi_def strtol_dec_def by (simp only: prod.case tw) (simp add: Let_def)
  then show ?thesis by (simp add: int_text_def)
qed

text \<open>The time that is given for answers to channel requests is cut to eight bits without a check: for a
  multiple of 256 seconds the sample reads the option as if it were not there and makes no call at all,
  and for any other number it opens the window for the rest of the division by 256, and scans.\<close>

theorem channel_window_wraps:
  assumes "n < 2 ^ 31"
  shows "\<exists>m f. main_objects [(CHR ''C'', int_text (int n))] True numbers = Inr (m, f, [])
    \<and> snd (app_run (map StateIs evs) f) = (if n mod 256 = 0 \<or> PubREADY \<notin> set evs then []
        else [Request (LibPolicy True), StartTimer (of_nat (n mod 256) * 1000), Request (LibEnergyScan True 3 0)])"
proof -
  let ?t = "of_nat n :: u8"
  let ?f = "fst (new_main_fsm False ?t False False [] [] False False)"
  have t: "unat ?t = n mod 256" by (simp add: unat_of_nat take_bit_eq_mod)
  then have zero: "?t = 0 \<longleftrightarrow> n mod 256 = 0" by (simp add: unat_eq_0 [symmetric])
  have cast: "(ucast ?t :: u32) = of_nat (n mod 256)" by (simp flip: t)
  obtain m where m: "main_objects [(CHR ''C'', int_text (int n))] True numbers = Inr (m, ?f, [])"
    using stoi_text [OF assms] by (auto simp: main_objects_def main_option_def no_options_def new_main_fsm_def)
  have plan: "agenda ?f = (if ?t = 0 then [] else [[Request (LibPolicy True), StartTimer (ucast ?t * 1000),
      Request (LibEnergyScan True 3 0)]])"
    by (simp add: agenda_def new_main_fsm_def startup_plan_def commissioning_calls_def)
  have "count_list evs PubREADY = 0 \<longleftrightarrow> PubREADY \<notin> set evs" by (simp add: count_list_0_iff)
  then have "concat (take (count_list evs PubREADY) [xs]) = (if PubREADY \<notin> set evs then [] else xs)"
    for xs :: "app_call list"
    by (cases "count_list evs PubREADY") simp_all
  then have "snd (app_run (map StateIs evs) ?f) = (if n mod 256 = 0 \<or> PubREADY \<notin> set evs then []
        else [Request (LibPolicy True), StartTimer (of_nat (n mod 256) * 1000), Request (LibEnergyScan True 3 0)])"
    unfolding agenda_run plan zero cast by simp
  then show ?thesis using m by blast
qed

theorem channel_window_wraps_witness:
  "\<exists>m f. main_objects [(CHR ''C'', int_text 256)] True (\<lambda>_. 0) = Inr (m, f, [])
    \<and> snd (app_run [StateIs PubREADY] f) = []"
  using channel_window_wraps [of 256 "\<lambda>_. 0" "[PubREADY]"] by (simp del: app_run.simps)

text \<open>C1: Whatever the options are, the program fails to read them only in these ways: it ends with the usage
  or an error message; the time of option \<open>-C\<close> is no number, or one that does not fit, and the exception
  is not caught; or it reads a variable which it has not written, when a source identifier is missing.\<close>

theorem command_line_faults:
  assumes "read_options opts mo = Inl e"
  shows "e = Return 0 \<and> CHR ''h'' \<in> fst ` set opts \<or> e = Return 1
    \<or> (\<exists>a. (CHR ''C'', a) \<in> set opts \<and> stoi a = Inl e \<and> e \<in> {InvalidArgument, StoiOutOfRange})
    \<or> e = ReadUninitialised \<and> (\<exists>a. (CHR ''s'', a) \<in> set opts \<and> (\<forall>c \<in> set (takeWhile (\<lambda>c. c \<noteq> CHR ''/'') a). is_blank c)
        \<or> (CHR ''r'', a) \<in> set opts \<and> (\<forall>c \<in> set a. is_blank c))"
  using assms
proof (induction opts arbitrary: mo)
  case (Cons o1 opts)
  obtain c a where o1: "o1 = (c, a)" by fastforce
  have hex: "read_hex s = None \<longleftrightarrow> (\<forall>c \<in> set s. is_blank c)" for s
    by (auto simp: read_hex_def Let_def split: prod.splits)
  have added: "e = Return 1 \<or> e = ReadUninitialised \<and> (\<forall>c \<in> set (takeWhile (\<lambda>c. c \<noteq> CHR ''/'') a). is_blank c)"
    if "appendSourceIdToAddedDevList a l = Inl e" for l
    using that hex [of "takeWhile (\<lambda>c. c \<noteq> CHR ''/'') a"]
    by (auto simp: appendSourceIdToAddedDevList_def Let_def split: if_splits option.splits)
  have removed: "e = Return 1 \<or> e = ReadUninitialised \<and> (\<forall>c \<in> set a. is_blank c)"
    if "appendSourceIdToRemovedDevList a l b = Inl e" for l b
    using that hex [of a] by (auto simp: appendSourceIdToRemovedDevList_def split: if_splits option.splits)
  have window: "e \<in> {InvalidArgument, StoiOutOfRange}" if "stoi a = Inl e"
    using that by (auto simp: stoi_def Let_def split: if_splits prod.splits)
  show ?case
  proof (cases "main_option c a mo")
    case (Inl e')
    then have "main_option c a mo = Inl e" using Cons.prems o1 by simp
    then consider "c = CHR ''s''" "appendSourceIdToAddedDevList a (mo_gpAddedDevDataList mo) = Inl e"
      | "c = CHR ''r''" "appendSourceIdToRemovedDevList a (mo_gpRemovedDevDataList mo) (mo_removeAllGpDevs mo) = Inl e"
      | "c = CHR ''C''" "stoi a = Inl e" | "c = CHR ''h''" "e = Return 0" | "e = Return 1"
      by (auto simp: main_option_def split: if_splits sum.splits)
    then show ?thesis using added removed window o1 by cases auto
  next
    case (Inr mo')
    then have "read_options opts mo' = Inl e" using Cons.prems o1 by simp
    from Cons.IH [OF this] show ?thesis by auto
  qed
qed simp

theorem command_line_faults_witness:
  "read_options [(CHR ''s'', ''/00'')] no_options = Inl ReadUninitialised
   \<and> (\<exists>a. (CHR ''s'', a) \<in> set [(CHR ''s'', ''/00'')] \<and> (\<forall>c \<in> set (takeWhile (\<lambda>c. c \<noteq> CHR ''/'') a). is_blank c))"
proof -
  have "read_options [(CHR ''s'', ''/00'')] no_options = Inl ReadUninitialised"
    by (simp add: main_option_def appendSourceIdToAddedDevList_def read_hex_def Let_def)
  from command_line_faults [OF this] show ?thesis
    by (simp add: main_option_def appendSourceIdToAddedDevList_def read_hex_def Let_def)
qed

end
