(* ===== verification/AppSystem.thy ===== *)
theory AppSystem
  imports ExampleApp LibDevices
begin

text \<open>
  The sample application on top of the library: the calls of the application are operations of the
  library, and what the library reports are steps of the application, which may call the library again
  before the report returns. The devices of the command line, removed and registered in one conversation
  with an adapter, and the device which is lost when the adapter still had a pairing of the removed one.
\<close>

section \<open>Both state machines\<close>

record world =
  w_app :: main_fsm
  w_lib :: lib_main

text \<open>The functions which the application has registered.\<close>

fun heard :: "effect \<Rightarrow> app_input option" where
  "heard (App (LibState p)) = Some (StateIs p)"
| "heard (App (EnergyScan _)) = Some ScanDone"
| "heard (App (NetworkKey _ _)) = Some KeyDone"
| "heard _ = None"

text \<open>What is left to do: effects of the library, and calls of the application. A call that is made while
  the library reports is done before the effects that follow the report; the number bounds the steps.\<close>

datatype pending = Effect effect | Call app_call

fun carry_out :: "nat \<Rightarrow> pending list \<Rightarrow> world \<Rightarrow> (world \<times> ezsp_msg list) result" where
  "carry_out n [] w = Inr (w, [])"
| "carry_out 0 (x # q) w = Inl Diverges"
| "carry_out (Suc n) (Effect e # q) w =
     (case heard e of
        None \<Rightarrow> bindR (carry_out n q w) (\<lambda>(w, out). Inr (w, sent [e] @ out))
      | Some i \<Rightarrow> (case app_step i (w_app w) of (f, cs) \<Rightarrow> carry_out n (map Call cs @ q) (w\<lparr>w_app := f\<rparr>)))"
| "carry_out (Suc n) (Call (Request op) # q) w =
     bindR (lib_do op (w_lib w)) (\<lambda>(m, es). carry_out n (map Effect es @ q) (w\<lparr>w_lib := m\<rparr>))"
| "carry_out (Suc n) (Call _ # q) w = carry_out n q w"

definition world_fuel :: nat where "world_fuel = 200"

definition world_do :: "effect list \<Rightarrow> world \<Rightarrow> (world \<times> ezsp_msg list) result" where
  "world_do es = carry_out world_fuel (map Effect es)"

text \<open>The conversation with an adapter that answers every command, as in \<open>lib_converse\<close>.\<close>

fun world_converse :: "nat \<Rightarrow> (ezsp_msg \<Rightarrow> byte_buffer) \<Rightarrow> ezsp_msg list \<Rightarrow> world
     \<Rightarrow> (world \<times> ezsp_msg list \<times> ezsp_msg list) result" where
  "world_converse n ad [] w = Inr (w, [], [])"
| "world_converse 0 ad (c # q) w = Inr (w, c # q, [])"
| "world_converse (Suc n) ad (c # q) w =
     bindR (lib_rx (fst c) (ad c) (w_lib w)) (\<lambda>(m, es).
     bindR (world_do es (w\<lparr>w_lib := m\<rparr>)) (\<lambda>(w, out).
     bindR (world_converse n ad (q @ out) w) (\<lambda>(w, q, log). Inr (w, q, c # log))))"

definition world_converses :: "(ezsp_msg \<Rightarrow> byte_buffer) \<Rightarrow> ezsp_msg list \<Rightarrow> world \<Rightarrow> world
     \<Rightarrow> ezsp_msg list \<Rightarrow> bool" where
  "world_converses ad q w w' log \<longleftrightarrow> world_converse (length log) ad q w = Inr (w', [], log)"

lemma world_converses_Nil [simp]: "world_converses ad [] w w' log \<longleftrightarrow> w' = w \<and> log = []"
  by (auto simp: world_converses_def)

lemma world_converses_Cons:
  "world_converses ad (c # q) w w' log \<longleftrightarrow>
     (\<exists>m es w1 out log'. log = c # log' \<and> lib_rx (fst c) (ad c) (w_lib w) = Inr (m, es)
        \<and> world_do es (w\<lparr>w_lib := m\<rparr>) = Inr (w1, out) \<and> world_converses ad (q @ out) w1 w' log')"
  by (cases log) (auto simp: world_converses_def)

section \<open>Steps of the sink which the application does not see\<close>

fun sends :: "ezsp_msg list \<Rightarrow> effect list" where
  "sends [] = []"
| "sends ((c, p) # ms) = Send c p # sends ms"

definition quiet :: "effect list \<Rightarrow> bool" where
  "quiet es \<longleftrightarrow> es = sends (sent es)"

lemma quiet_simps [simp]:
  "quiet []" "quiet (Send c p # es) \<longleftrightarrow> quiet es"
  by (simp_all add: quiet_def)

lemma sends_append: "sends (xs @ ys) = sends xs @ sends ys"
  by (induction xs rule: sends.induct) simp_all

lemma quiet_append [simp]: "quiet xs \<Longrightarrow> quiet ys \<Longrightarrow> quiet (xs @ ys)"
  unfolding quiet_def by (metis sends_append sent_append)

lemma quiet_effects: "steps (map on_sink_effect (sends ms)) m = Inr (m, sends ms)"
  by (induction ms rule: sends.induct) (auto simp: emit_def skip_def)

lemma sent_sends [simp]: "sent (sends ms) = ms"
  by (induction ms rule: sends.induct) auto

lemma length_sends [simp]: "length (sends ms) = length ms"
  by (induction ms rule: sends.induct) auto

lemma carry_sends:
  "carry_out (length ms + n) (map Effect (sends ms) @ q) w =
     bindR (carry_out n q w) (\<lambda>(w, out). Inr (w, ms @ out))"
  by (induction ms rule: sends.induct) (auto simp: bindR_assoc split_beta)

text \<open>A conversation of the sink, of which the application hears nothing, up to some of its commands.\<close>

inductive quietly :: "(ezsp_msg \<Rightarrow> byte_buffer) \<Rightarrow> ezsp_msg list \<Rightarrow> gp_sink \<Rightarrow> gp_sink \<Rightarrow> ezsp_msg list
    \<Rightarrow> ezsp_msg list \<Rightarrow> bool" for ad where
  stop: "quietly ad q s s q []"
| go: "quietly ad (c # q) s s2 q2 (c # log)"
  if "sink_rx (fst c) (ad c) s = Inr (s1, es)" "quiet es" "length es \<le> 2" "fst c \<in> gp_cmds"
    "quietly ad (q @ sent es) s1 s2 q2 log"

lemma carry_Suc: "carry_out n q w = Inr r \<Longrightarrow> carry_out (Suc n) q w = Inr r"
proof (induction n q w arbitrary: r rule: carry_out.induct)
  case (3 n e q w)
  show ?case
  proof (cases "heard e")
    case None
    then obtain w' out where r: "carry_out n q w = Inr (w', out)" "r = (w', sent [e] @ out)"
      using "3.prems" by (auto simp: bindR_eq_Inr)
    then show ?thesis using "3.IH"(1) [OF None r(1)] None by simp
  next
    case (Some i)
    obtain f cs where i: "app_step i (w_app w) = (f, cs)" by fastforce
    then have "carry_out n (map Call cs @ q) (w\<lparr>w_app := f\<rparr>) = Inr r" using "3.prems" Some by simp
    from "3.IH"(2) [OF Some i [symmetric] this] show ?thesis
      by (simp add: Some i)
  qed
next
  case (4 n op q w)
  then obtain m es where op: "lib_do op (w_lib w) = Inr (m, es)"
    "carry_out n (map Effect es @ q) (w\<lparr>w_lib := m\<rparr>) = Inr r"
    by (auto simp: bindR_eq_Inr)
  from "4.IH" [OF op(1) refl op(2)] show ?case by (simp add: op(1))
qed (simp_all del: carry_out.simps(3,4))

lemma carry_more: "carry_out n q w = Inr r \<Longrightarrow> n \<le> m \<Longrightarrow> carry_out m q w = Inr r"
  by (induction m) (auto simp: le_Suc_eq intro: carry_Suc)

lemma quiet_sends: "quiet es \<Longrightarrow> es = sends (sent es)"
  by (simp add: quiet_def)

lemma world_do_quiet:
  assumes "quiet es" "length es \<le> 100"
  shows "world_do es w = Inr (w, sent es)"
proof -
  have "carry_out (length (sent es) + 0) (map Effect es) w = Inr (w, sent es)"
    using carry_sends [of "sent es" 0 "[]" w] by (simp add: quiet_sends [OF assms(1), symmetric])
  moreover have "length (sent es) \<le> world_fuel"
    using assms(2) arg_cong [OF quiet_sends [OF assms(1)], of length] by (simp add: world_fuel_def)
  ultimately show ?thesis by (auto simp: world_do_def intro: carry_more)
qed

text \<open>A report that the library is ready, and the request with which the application answers.\<close>

lemma world_do_ready:
  assumes "ezspStateChangeCallback PubREADY (w_app w) = (f, [Request op])"
    and "lib_do op (w_lib w) = Inr (m, told (w_lib w) PubSINK_BUSY @ sends ms2)"
    and "length ms + length ms2 \<le> 100"
  shows "world_do (sends ms @ [App (LibState PubREADY)]) w =
    Inr (w\<lparr>w_app := f, w_lib := m\<rparr>, ms @ ms2)"
proof -
  have busy: "ezspStateChangeCallback PubSINK_BUSY f = (f, [])" for f
    by (simp add: ezspStateChangeCallback_def)
  have rest: "carry_out (Suc (length ms2 + 0)) (map Effect (told (w_lib w) PubSINK_BUSY @ sends ms2) @ [])
      (w\<lparr>w_app := f, w_lib := m\<rparr>) = Inr (w\<lparr>w_app := f, w_lib := m\<rparr>, ms2)"
    using carry_sends [of ms2 1 "[]"] carry_sends [of ms2 0 "[]"]
    by (simp add: told_def busy)
  have "carry_out (length ms + Suc (Suc (Suc (length ms2 + 0))))
      (map Effect (sends ms) @ [Effect (App (LibState PubREADY))]) w =
    Inr (w\<lparr>w_app := f, w_lib := m\<rparr>, ms @ ms2)"
    unfolding carry_sends using rest by (simp add: assms(1,2))
  from carry_more [OF this, of world_fuel] show ?thesis
    using assms(3) by (simp add: world_do_def world_fuel_def)
qed

lemma world_do_ready_idle:
  assumes "ezspStateChangeCallback PubREADY (w_app w) = (w_app w, [])" "length ms \<le> 100"
  shows "world_do (sends ms @ [App (LibState PubREADY)]) w = Inr (w, ms)"
proof -
  have "carry_out (length ms + Suc 0)
      (map Effect (sends ms) @ [Effect (App (LibState PubREADY))]) w = Inr (w, ms)"
    unfolding carry_sends by (simp add: assms(1))
  from carry_more [OF this, of world_fuel] show ?thesis
    using assms(2) by (simp add: world_do_def world_fuel_def)
qed

text \<open>The library in a step of its sink which is quiet, or after which the sink is ready.\<close>

lemma lib_rx_quiet:
  assumes "c \<in> gp_cmds" "sink_rx c p (lib_sink m) = Inr (s, es)" "quiet es"
  shows "lib_rx c p m = Inr (m\<lparr>lib_sink := s\<rparr>, es)"
  using assms(2) quiet_effects [of "sent es" "m\<lparr>lib_sink := s\<rparr>"] quiet_sends [OF assms(3)]
  by (simp add: lib_rx_sink [OF assms(1)] sink_call_def)

lemma lib_rx_ready:
  assumes "c \<in> gp_cmds" "sink_rx c p (lib_sink m) = Inr (s, sends ms @ [SinkStateIs SINK_READY])"
    and "lib_state m = SINK_BUSY"
  shows "lib_rx c p m = Inr (m\<lparr>lib_sink := s, lib_state := READY\<rparr>,
    sends ms @ told m PubREADY)"
  using assms(2,3) quiet_effects [of ms "m\<lparr>lib_sink := s\<rparr>"]
  by (simp add: lib_rx_sink [OF assms(1)] sink_call_def steps_append clibobs_def setState_told told_def)

text \<open>The library follows a quiet conversation, and the application stays as it is.\<close>

lemma world_quietly:
  "quietly ad q s s2 q2 log \<Longrightarrow> lib_sink (w_lib w) = s \<Longrightarrow>
     world_converses ad q2 (w\<lparr>w_lib := (w_lib w)\<lparr>lib_sink := s2\<rparr>\<rparr>) w' log' \<Longrightarrow>
     world_converses ad q w w' (log @ log')"
proof (induction arbitrary: w rule: quietly.induct)
  case (go c s s1 es q s2 q2 log)
  let ?w = "w\<lparr>w_lib := (w_lib w)\<lparr>lib_sink := s1\<rparr>\<rparr>"
  have "lib_rx (fst c) (ad c) (w_lib w) = Inr ((w_lib w)\<lparr>lib_sink := s1\<rparr>, es)"
    using go.hyps go.prems(1) by (intro lib_rx_quiet) simp_all
  moreover have "world_do es ?w = Inr (?w, sent es)"
    using go.hyps by (intro world_do_quiet) simp_all
  moreover have "world_converses ad (q @ sent es) ?w w' (log @ log')"
    using go.prems by (intro go.IH) simp_all
  ultimately show ?case by (auto simp: world_converses_Cons)
qed auto

lemma quietly_trans:
  "quietly ad q s s1 q1 log1 \<Longrightarrow> quietly ad q1 s1 s2 q2 log2 \<Longrightarrow> quietly ad q s s2 q2 (log1 @ log2)"
  by (induction rule: quietly.induct) (auto intro: quietly.go)

lemma quietly_step:
  "sink_rx (fst c) (ad c) s = Inr (s1, es) \<Longrightarrow> quiet es \<Longrightarrow> length es \<le> 2 \<Longrightarrow> fst c \<in> gp_cmds \<Longrightarrow>
     quietly ad (q @ sent es) s1 s2 q2 log \<Longrightarrow> quietly ad (c # q) s s2 q2 (c # log)"
  by (rule quietly.go)

lemma quietly_sends:
  "sink_rx c (ad (c, p)) s = Inr (s1, sends ms) \<Longrightarrow> length ms \<le> 2 \<Longrightarrow> c \<in> gp_cmds \<Longrightarrow>
     quietly ad (q @ ms) s1 s2 q2 log \<Longrightarrow> quietly ad ((c, p) # q) s s2 q2 ((c, p) # log)"
  using quietly.go [of "(c, p)" ad s s1 "sends ms" q] by (simp add: quiet_def)

section \<open>Removal\<close>

definition lookup_part :: "(ezsp_msg \<Rightarrow> byte_buffer) \<Rightarrow> u32 \<Rightarrow> ezsp_msg list" where
  "lookup_part ad i = sink_lookup_cmd i # (if ad (sink_lookup_cmd i) ! 0 \<noteq> 0xFF
     then [(EZSP_GP_SINK_TABLE_REMOVE_ENTRY, [ad (sink_lookup_cmd i) ! 0])] else [])"

definition unpair_part :: "(ezsp_msg \<Rightarrow> byte_buffer) \<Rightarrow> u32 \<Rightarrow> ezsp_msg list" where
  "unpair_part ad i = (if ad (proxy_lookup_cmd i) ! 0 \<noteq> 0xFF then [unpair_cmd i] else [])"

lemma removal_dialogue_parts: "removal_dialogue ad i = lookup_part ad i @ [proxy_lookup_cmd i] @ unpair_part ad i"
  by (simp add: removal_dialogue_def lookup_part_def unpair_part_def Let_def)

lemma proxy_lookup_effects:
  assumes "gs_sink_state s = SINK_REMOVE_IN_PROGRESS" "gs_gpds_to_remove s = js @ [i]"
    and "ad (proxy_lookup_cmd i) \<noteq> []" "gs_obsStateCallback s = Some (\<lambda>_. True)"
  shows "sink_rx EZSP_GP_PROXY_TABLE_LOOKUP (ad (proxy_lookup_cmd i)) s =
    Inr (s\<lparr>gs_gpds_to_remove := js, gs_sink_state := if js = [] then SINK_READY else SINK_REMOVE_IN_PROGRESS\<rparr>,
      sends (unpair_part ad i) @ (if js = [] then [SinkStateIs SINK_READY] else sends [sink_lookup_cmd (last js)]))"
  using assms
  by (simp add: sink_rx_simps rx_proxy_lookup_def sink_commands step_simps Let_def setSinkState_eq unpair_part_def)

lemma lookup_quietly:
  assumes "gs_sink_state s = SINK_REMOVE_IN_PROGRESS" "gs_gpds_to_remove s = js @ [i]" "\<And>c. ad c \<noteq> []"
  shows "quietly ad [sink_lookup_cmd i] s s [proxy_lookup_cmd i] (lookup_part ad i)"
  unfolding lookup_part_def
  using assms
  by (auto simp: sink_lookup_answered remove_entry_answered gp_cmds_def intro!: quietly_step quietly.stop)

lemma removal_quietly:
  assumes "\<And>c. ad c \<noteq> []"
  shows "gs_sink_state s = SINK_REMOVE_IN_PROGRESS \<Longrightarrow> gs_obsStateCallback s = Some (\<lambda>_. True) \<Longrightarrow>
    gs_gpds_to_remove s = i # ids \<Longrightarrow>
    quietly ad [sink_lookup_cmd (last (i # ids))] s (s\<lparr>gs_gpds_to_remove := [i]\<rparr>) [proxy_lookup_cmd i]
      (concat (map (removal_dialogue ad) (rev ids)) @ lookup_part ad i)"
proof (induction ids arbitrary: s rule: rev_induct)
  case Nil
  then have eq: "s\<lparr>gs_gpds_to_remove := [i]\<rparr> = s" by (cases s) auto
  show ?case unfolding eq using lookup_quietly [of s "[]" i ad] assms Nil by simp
next
  case (snoc j js)
  let ?s = "s\<lparr>gs_gpds_to_remove := i # js\<rparr>"
  have rx: "sink_rx EZSP_GP_PROXY_TABLE_LOOKUP (ad (proxy_lookup_cmd j)) s =
      Inr (?s, sends (unpair_part ad j @ [sink_lookup_cmd (last (i # js))]))"
    using proxy_lookup_effects [where ad = ad and i = j, of s "i # js"] snoc.prems assms by (simp add: sends_append)
  have "quietly ad (unpair_part ad j @ [sink_lookup_cmd (last (i # js))]) ?s (?s\<lparr>gs_gpds_to_remove := [i]\<rparr>)
      [proxy_lookup_cmd i] (unpair_part ad j @ concat (map (removal_dialogue ad) (rev js)) @ lookup_part ad i)"
    using snoc.IH [of ?s] snoc.prems
    by (auto simp: unpair_part_def unpair_confirmed gp_cmds_def intro!: quietly_step)
  then have moved: "quietly ad [proxy_lookup_cmd j] s (?s\<lparr>gs_gpds_to_remove := [i]\<rparr>) [proxy_lookup_cmd i]
      (proxy_lookup_cmd j # unpair_part ad j @ concat (map (removal_dialogue ad) (rev js)) @ lookup_part ad i)"
    using quietly_sends [where ad = ad and q = "[]", OF rx] by (simp add: gp_cmds_def unpair_part_def)
  from quietly_trans [OF lookup_quietly [where ad = ad, of s "i # js" j] this] show ?case
    using snoc.prems assms by (simp add: removal_dialogue_parts [of ad j])
qed

section \<open>Registration\<close>

lemma entry_quietly:
  assumes "accepts ad slot table" "gs_sink_state s = SINK_COM_OFFLINE_IN_PROGRESS"
    and "gs_gpds_to_register s = ds @ [d]" "i = gd_source_id d" "e = device_entry d (table (slot i))"
  shows "quietly ad [allocate_cmd i] s (s\<lparr>gs_sink_table_index := slot i, gs_sink_table_entry := e\<rparr>) [pair_cmd e]
    [allocate_cmd i, get_entry_cmd (slot i), set_entry_cmd (slot i) e]"
proof -
  have adv: "ad (allocate_cmd i) = [slot i]" "slot i \<noteq> 0xFF"
    "ad (set_entry_cmd (slot i) e) = [EMBER_SUCCESS]"
    using assms(1) by (simp_all add: accepts_def)
  obtain st raw where ge: "ad (get_entry_cmd (slot i)) = st # raw"
      "parse_sink_table_entry raw = Inr (table (slot i))"
    using assms(1) unfolding accepts_def by blast
  let ?s1 = "s\<lparr>gs_sink_table_index := slot i\<rparr>"
  let ?s2 = "?s1\<lparr>gs_sink_table_entry := e\<rparr>"
  have r1: "sink_rx EZSP_GP_SINK_TABLE_FIND_OR_ALLOCATE_ENTRY (ad (allocate_cmd i)) s
      = Inr (?s1, sends [get_entry_cmd (slot i)])"
    using assms adv by (simp add: sink_rx_simps rx_find_or_allocate_def sink_commands step_simps)
  have r2: "sink_rx EZSP_GP_SINK_TABLE_GET_ENTRY (ad (get_entry_cmd (slot i))) ?s1
      = Inr (?s2, sends [set_entry_cmd (slot i) e])"
    using assms ge by (simp add: sink_rx_simps rx_sink_get_entry_def sink_commands step_simps offline_entry_last)
  have r3: "sink_rx EZSP_GP_SINK_TABLE_SET_ENTRY (ad (set_entry_cmd (slot i) e)) ?s2
      = Inr (?s2, sends [pair_cmd e])"
    using assms adv by (simp add: sink_rx_simps rx_sink_set_entry_def sink_commands step_simps)
  note stop = quietly.stop [of ad "[pair_cmd e]" ?s2]
  show ?thesis
    by (rule quietly_sends [where ad = ad, OF r1]; (simp add: gp_cmds_def)?)
      (rule quietly_sends [where ad = ad, OF r2]; (simp add: gp_cmds_def)?;
       rule quietly_sends [where ad = ad, OF r3]; (simp add: gp_cmds_def)?; use stop in simp)
qed

lemma pairing_effects:
  assumes "gs_sink_state s = SINK_COM_OFFLINE_IN_PROGRESS" "gs_gpds_to_register s = ds @ [d]" "p \<noteq> []"
    and "gs_obsStateCallback s = Some (\<lambda>_. True)"
  shows "sink_rx EZSP_GP_PROXY_TABLE_PROCESS_GP_PAIRING p s =
    Inr (s\<lparr>gs_gpds_to_register := ds, gs_sink_state := if ds = [] then SINK_READY else SINK_COM_OFFLINE_IN_PROGRESS\<rparr>,
      if ds = [] then [SinkStateIs SINK_READY] else sends [allocate_cmd (gd_source_id (last ds))])"
  using assms by (simp add: sink_rx_simps rx_pairing_done_def sink_commands step_simps setSinkState_eq Let_def)

lemma registration_quietly:
  assumes acc: "accepts ad slot table"
  shows "gs_sink_state s = SINK_COM_OFFLINE_IN_PROGRESS \<Longrightarrow> gs_obsStateCallback s = Some (\<lambda>_. True) \<Longrightarrow>
    gs_gpds_to_register s = d # ds \<Longrightarrow> i = gd_source_id d \<Longrightarrow> e = device_entry d (table (slot i)) \<Longrightarrow>
    \<exists>s1. quietly ad [allocate_cmd (gd_source_id (last (d # ds)))] s s1 [pair_cmd e]
        (concat (map (registration_dialogue slot table) (rev ds))
          @ [allocate_cmd i, get_entry_cmd (slot i), set_entry_cmd (slot i) e])
      \<and> gs_sink_state s1 = SINK_COM_OFFLINE_IN_PROGRESS \<and> gs_obsStateCallback s1 = Some (\<lambda>_. True)
      \<and> gs_gpds_to_register s1 = [d] \<and> gs_gpds_to_remove s1 = gs_gpds_to_remove s"
proof (induction ds arbitrary: s rule: rev_induct)
  case Nil
  then show ?case
    using entry_quietly [OF acc, of s "[]" d i e] by fastforce
next
  case (snoc b ds)
  let ?i = "gd_source_id b"
  let ?e = "device_entry b (table (slot ?i))"
  let ?s = "s\<lparr>gs_sink_table_index := slot ?i, gs_sink_table_entry := ?e\<rparr>"
  have "ad (pair_cmd ?e) \<noteq> []" using acc by (simp add: accepts_def)
  then have rx: "sink_rx EZSP_GP_PROXY_TABLE_PROCESS_GP_PAIRING (ad (pair_cmd ?e)) ?s =
      Inr (?s\<lparr>gs_gpds_to_register := d # ds\<rparr>, sends [allocate_cmd (gd_source_id (last (d # ds)))])"
    using pairing_effects [of ?s "d # ds" b] snoc.prems by simp
  obtain s1 where s1: "quietly ad [allocate_cmd (gd_source_id (last (d # ds)))] (?s\<lparr>gs_gpds_to_register := d # ds\<rparr>)
      s1 [pair_cmd e] (concat (map (registration_dialogue slot table) (rev ds))
          @ [allocate_cmd i, get_entry_cmd (slot i), set_entry_cmd (slot i) e])"
    and s1': "gs_sink_state s1 = SINK_COM_OFFLINE_IN_PROGRESS" "gs_obsStateCallback s1 = Some (\<lambda>_. True)"
      "gs_gpds_to_register s1 = [d]" "gs_gpds_to_remove s1 = gs_gpds_to_remove s"
    using snoc.IH [of "?s\<lparr>gs_gpds_to_register := d # ds\<rparr>"] snoc.prems by auto
  have "quietly ad [pair_cmd ?e] ?s s1 [pair_cmd e] (pair_cmd ?e # concat (map (registration_dialogue slot table) (rev ds))
          @ [allocate_cmd i, get_entry_cmd (slot i), set_entry_cmd (slot i) e])"
    by (rule quietly_sends [where ad = ad, OF rx]) (use s1 in \<open>simp_all add: gp_cmds_def\<close>)
  from quietly_trans [OF entry_quietly [OF acc, of s "d # ds" b ?i ?e] this] show ?case
    using snoc.prems s1' by (intro exI [of _ s1]) (simp add: registration_dialogue_def [of slot table b] Let_def)
qed

section \<open>The devices of the command line\<close>

text \<open>Application and library when the library has become ready for the first time.\<close>

definition sample_start :: "bool \<Rightarrow> gp_device list \<Rightarrow> u32 list \<Rightarrow> bool \<Rightarrow> lib_main \<Rightarrow> world" where
  "sample_start openZigbee toAdd toRemove showKey m =
     \<lparr>w_app = fst (new_main_fsm False 0 openZigbee False toAdd toRemove showKey False), w_lib = m\<rparr>"

definition lib_up :: "lib_main \<Rightarrow> bool" where
  "lib_up m \<longleftrightarrow> lib_state m = READY \<and> obsStateCallback m \<and> gs_sink_state (lib_sink m) = SINK_READY
     \<and> gs_obsStateCallback (lib_sink m) = Some (\<lambda>_. True)"

lemma request_removal:
  assumes "lib_up m" "ids \<noteq> []"
  shows "lib_do (LibRemove ids) m = Inr (m\<lparr>lib_state := SINK_BUSY, lib_sink := (lib_sink m)\<lparr>
      gs_sink_state := SINK_REMOVE_IN_PROGRESS, gs_gpds_to_remove := ids\<rparr>\<rparr>,
    told m PubSINK_BUSY @ sends [sink_lookup_cmd (last ids)])"
  using assms
  by (simp add: lib_up_def removeGPDevices_def setState_told sink_request_def removeGpds_def step_simps
      setSinkState_eq sink_commands clibobs_def no_result_simps)

lemma request_registration:
  assumes "lib_up m" "ds \<noteq> []"
  shows "lib_do (LibAdd ds) m = Inr (m\<lparr>lib_state := SINK_BUSY, lib_sink := (lib_sink m)\<lparr>
      gs_sink_state := SINK_COM_OFFLINE_IN_PROGRESS, gs_gpds_to_register := ds\<rparr>\<rparr>,
    told m PubSINK_BUSY @ sends [allocate_cmd (gd_source_id (last ds))])"
  using assms
  by (simp add: lib_up_def addGPDevices_def setState_told sink_request_def registerGpds_def step_simps
      setSinkState_eq sink_commands clibobs_def no_result_simps)

lemma told_up: "lib_up m \<Longrightarrow> told m p = [App (LibState p)]"
  by (simp add: lib_up_def told_def)

text \<open>The state after the removal is complete: the library reports that it is ready, from within the answer
  to the last lookup, and the application registers its devices.\<close>

definition adding :: "bool \<Rightarrow> bool \<Rightarrow> main_fsm" where
  "adding openZigbee showKey =
     \<lparr>openGpCommissionningAtStartup = False, channelRequestAnswerTimeoutAtStartup = 0,
       openZigbeeCommissionningAtStartup = openZigbee, removeAllGPDAtStartup = False, gpdAddList = [],
       gpdRemoveList = [], displayNetworkKey = showKey, currentState = ADD_GPD, startFirmwareUpgrade = False\<rparr>"

definition registering :: "bool \<Rightarrow> bool \<Rightarrow> gp_device list \<Rightarrow> world \<Rightarrow> bool" where
  "registering openZigbee showKey ds w \<longleftrightarrow> w_app w = adding openZigbee showKey \<and> lib_state (w_lib w) = SINK_BUSY
     \<and> obsStateCallback (w_lib w) \<and> gs_sink_state (lib_sink (w_lib w)) = SINK_COM_OFFLINE_IN_PROGRESS
     \<and> gs_obsStateCallback (lib_sink (w_lib w)) = Some (\<lambda>_. True)
     \<and> gs_gpds_to_register (lib_sink (w_lib w)) = ds \<and> gs_gpds_to_remove (lib_sink (w_lib w)) = []"

lemma sample_removes:
  assumes up: "lib_up m" and ids: "ids \<noteq> []" and ds: "ds \<noteq> []" and ad: "\<And>c. ad c \<noteq> []"
  shows "\<exists>w1 w2. world_do [App (LibState PubREADY)] (sample_start openZigbee ds ids showKey m) =
      Inr (w1, [sink_lookup_cmd (last ids)])
    \<and> registering openZigbee showKey ds w2
    \<and> (\<forall>w' log. world_converses ad (unpair_part ad (hd ids) @ [allocate_cmd (gd_source_id (last ds))]) w2 w' log \<longrightarrow>
       world_converses ad [sink_lookup_cmd (last ids)] w1 w' (concat (map (removal_dialogue ad) (rev (tl ids)))
         @ lookup_part ad (hd ids) @ proxy_lookup_cmd (hd ids) # log))"
proof -
  let ?w0 = "sample_start openZigbee ds ids showKey m"
  obtain i js where i: "ids = i # js" using ids by (cases ids) auto
  obtain f1 where f1: "ezspStateChangeCallback PubREADY (w_app ?w0) = (f1, [Request (LibRemove ids)])"
    "ezspStateChangeCallback PubREADY f1 = (adding openZigbee showKey, [Request (LibAdd ds)])"
    using ids ds by (simp add: sample_start_def new_main_fsm_def ready_step ready_after_removal_def
        app_removeGPDevices_def app_addGPDevices_def adding_def)
  let ?s1 = "(lib_sink m)\<lparr>gs_sink_state := SINK_REMOVE_IN_PROGRESS, gs_gpds_to_remove := ids\<rparr>"
  let ?m1 = "m\<lparr>lib_state := SINK_BUSY, lib_sink := ?s1\<rparr>"
  let ?w1 = "?w0\<lparr>w_app := f1, w_lib := ?m1\<rparr>"
  have m: "w_lib ?w0 = m" by (simp add: sample_start_def)
  have w1: "world_do [App (LibState PubREADY)] ?w0 = Inr (?w1, [sink_lookup_cmd (last ids)])"
    using world_do_ready [OF f1(1), of ?m1 "[sink_lookup_cmd (last ids)]" "[]"] request_removal [OF up ids]
    by (simp add: m)
  let ?s2 = "?s1\<lparr>gs_gpds_to_remove := [i]\<rparr>"
  let ?s3 = "?s2\<lparr>gs_gpds_to_remove := [], gs_sink_state := SINK_READY\<rparr>"
  let ?m2 = "?m1\<lparr>lib_sink := ?s2\<rparr>"
  let ?m3 = "?m2\<lparr>lib_sink := ?s3, lib_state := READY\<rparr>"
  have "quietly ad [sink_lookup_cmd (last ids)] ?s1 ?s2 [proxy_lookup_cmd i]
      (concat (map (removal_dialogue ad) (rev js)) @ lookup_part ad i)"
    unfolding i using up i by (intro removal_quietly ad) (simp_all add: lib_up_def)
  note removal = world_quietly [OF this, of ?w1]
  have "sink_rx EZSP_GP_PROXY_TABLE_LOOKUP (ad (proxy_lookup_cmd i)) ?s2 =
      Inr (?s3, sends (unpair_part ad i) @ [SinkStateIs SINK_READY])"
    using proxy_lookup_effects [where ad = ad and s = ?s2 and js = "[]" and i = i] ad up by (simp add: lib_up_def)
  then have rx: "lib_rx EZSP_GP_PROXY_TABLE_LOOKUP (ad (proxy_lookup_cmd i)) ?m2 =
      Inr (?m3, sends (unpair_part ad i) @ told ?m2 PubREADY)"
    by (intro lib_rx_ready) (simp_all add: gp_cmds_def)
  have up3: "lib_up ?m3" using up by (simp add: lib_up_def)
  let ?m4 = "?m3\<lparr>lib_state := SINK_BUSY, lib_sink := ?s3\<lparr>gs_sink_state := SINK_COM_OFFLINE_IN_PROGRESS,
      gs_gpds_to_register := ds\<rparr>\<rparr>"
  let ?w3 = "?w1\<lparr>w_lib := ?m3\<rparr>"
  let ?w4 = "?w3\<lparr>w_app := adding openZigbee showKey, w_lib := ?m4\<rparr>"
  have "world_do (sends (unpair_part ad i) @ [App (LibState PubREADY)]) ?w3 =
      Inr (?w4, unpair_part ad i @ [allocate_cmd (gd_source_id (last ds))])"
    using request_registration [OF up3 ds] f1(2)
    by (intro world_do_ready [where ?op = "LibAdd ds"]) (simp_all add: unpair_part_def)
  moreover have "told ?m2 PubREADY = [App (LibState PubREADY)]" using up by (simp add: told_def lib_up_def)
  ultimately have last: "world_converses ad [proxy_lookup_cmd i] (?w1\<lparr>w_lib := ?m2\<rparr>) w' (proxy_lookup_cmd i # log)"
    if rest: "world_converses ad (unpair_part ad i @ [allocate_cmd (gd_source_id (last ds))]) ?w4 w' log" for w' log
    using rx rest by (auto simp: world_converses_Cons)
  have "registering openZigbee showKey ds ?w4" using up by (simp add: registering_def lib_up_def)
  moreover have "world_converses ad [sink_lookup_cmd (last ids)] ?w1 w'
       (concat (map (removal_dialogue ad) (rev (tl ids))) @ lookup_part ad (hd ids) @ proxy_lookup_cmd (hd ids) # log)"
    if "world_converses ad (unpair_part ad (hd ids) @ [allocate_cmd (gd_source_id (last ds))]) ?w4 w' log" for w' log
    using removal [of w' "proxy_lookup_cmd i # log"] last [of w' log] that by (simp add: i)
  ultimately show ?thesis using w1 by blast
qed

text \<open>C9: The devices which the sample is given on its command line are removed and installed. When the library
  becomes ready, the adapter answers every command, has room for the devices, and has no pairing left of
  the removed device that comes first in the list, the application and the library together have one
  conversation with the adapter: the commands that remove the devices, and then, for every device to
  add, the commands that give it a slot, write its entry and pair it. In the end application, library
  and sink have nothing left to do.\<close>

theorem sample_installs_devices:
  assumes "lib_up m" "ids \<noteq> []" "ds \<noteq> []" "\<And>c. ad c \<noteq> []" "accepts ad slot table"
    and "ad (proxy_lookup_cmd (hd ids)) ! 0 = 0xFF"
  shows "\<exists>w1 w'. world_do [App (LibState PubREADY)] (sample_start openZigbee ds ids showKey m) =
      Inr (w1, [sink_lookup_cmd (last ids)])
    \<and> world_converses ad [sink_lookup_cmd (last ids)] w1 w'
        (concat (map (removal_dialogue ad) (rev ids)) @ concat (map (registration_dialogue slot table) (rev ds)))
    \<and> currentState (w_app w') = ADD_GPD \<and> lib_state (w_lib w') = READY
    \<and> gs_gpds_to_remove (lib_sink (w_lib w')) = [] \<and> gs_gpds_to_register (lib_sink (w_lib w')) = []"
proof -
  obtain w1 w2 where w1: "world_do [App (LibState PubREADY)] (sample_start openZigbee ds ids showKey m) =
        Inr (w1, [sink_lookup_cmd (last ids)])"
    and w2: "registering openZigbee showKey ds w2"
    and removed: "\<And>w' log. world_converses ad (unpair_part ad (hd ids) @ [allocate_cmd (gd_source_id (last ds))]) w2 w' log \<Longrightarrow>
       world_converses ad [sink_lookup_cmd (last ids)] w1 w'
         (concat (map (removal_dialogue ad) (rev (tl ids))) @ lookup_part ad (hd ids) @ proxy_lookup_cmd (hd ids) # log)"
    using sample_removes [where ad = ad and m = m and ids = ids and ds = ds] assms(1-4) by blast
  obtain d bs where ds: "ds = d # bs" using assms(3) by (cases ds) auto
  let ?i = "gd_source_id d"
  let ?e = "device_entry d (table (slot ?i))"
  obtain s1 where s1: "quietly ad [allocate_cmd (gd_source_id (last ds))] (lib_sink (w_lib w2)) s1 [pair_cmd ?e]
        (concat (map (registration_dialogue slot table) (rev bs))
          @ [allocate_cmd ?i, get_entry_cmd (slot ?i), set_entry_cmd (slot ?i) ?e])"
      "gs_sink_state s1 = SINK_COM_OFFLINE_IN_PROGRESS" "gs_obsStateCallback s1 = Some (\<lambda>_. True)"
      "gs_gpds_to_register s1 = [d]" "gs_gpds_to_remove s1 = []"
    using registration_quietly [OF assms(5), of "lib_sink (w_lib w2)" d bs ?i ?e] w2 ds by (auto simp: registering_def)
  let ?m1 = "(w_lib w2)\<lparr>lib_sink := s1\<rparr>"
  let ?s2 = "s1\<lparr>gs_gpds_to_register := [], gs_sink_state := SINK_READY\<rparr>"
  let ?m2 = "?m1\<lparr>lib_sink := ?s2, lib_state := READY\<rparr>"
  let ?w3 = "w2\<lparr>w_lib := ?m2\<rparr>"
  have "sink_rx EZSP_GP_PROXY_TABLE_PROCESS_GP_PAIRING (ad (pair_cmd ?e)) s1 = Inr (?s2, sends [] @ [SinkStateIs SINK_READY])"
    using pairing_effects [of s1 "[]" d] s1 assms(4) by simp
  then have "lib_rx EZSP_GP_PROXY_TABLE_PROCESS_GP_PAIRING (ad (pair_cmd ?e)) ?m1 =
      Inr (?m2, sends [] @ told ?m1 PubREADY)"
    using w2 by (intro lib_rx_ready) (simp_all add: gp_cmds_def registering_def)
  moreover have "world_do (sends [] @ told ?m1 PubREADY) ?w3 = Inr (?w3, [])"
    using world_do_ready_idle [of ?w3 "[]"] w2
    by (simp add: registering_def told_def adding_def ready_step commissioning_due_def)
  ultimately have "world_converses ad [pair_cmd ?e] (w2\<lparr>w_lib := ?m1\<rparr>) ?w3 [pair_cmd ?e]"
    by (auto simp: world_converses_Cons)
  from world_quietly [OF s1(1) refl this]
  have "world_converses ad [allocate_cmd (gd_source_id (last ds))] w2 ?w3
      (concat (map (registration_dialogue slot table) (rev ds)))"
    by (simp add: ds registration_dialogue_def [of slot table d] Let_def)
  moreover have "unpair_part ad (hd ids) = []" using assms(6) by (simp add: unpair_part_def)
  moreover have "concat (map (removal_dialogue ad) (rev ids)) =
      concat (map (removal_dialogue ad) (rev (tl ids))) @ lookup_part ad (hd ids) @ [proxy_lookup_cmd (hd ids)] @ unpair_part ad (hd ids)"
    using assms(2) by (cases ids) (simp_all add: removal_dialogue_parts [of ad "hd ids"] removal_dialogue_parts)
  ultimately show ?thesis
    using w1 removed s1(5) w2 by (intro exI [of _ w1] exI [of _ ?w3]) (simp add: adding_def registering_def)
qed

definition spare_adapter :: "ezsp_msg \<Rightarrow> byte_buffer" where
  "spare_adapter c = (if fst c = EZSP_GP_PROXY_TABLE_LOOKUP then [0xFF] else obliging_adapter c)"

theorem sample_installs_devices_witness:
  "\<exists>w1 w' log. world_do [App (LibState PubREADY)]
      (sample_start False [new_gp_device 9 (replicate 16 1)] [7] True ready_lib) = Inr (w1, [sink_lookup_cmd 7])
    \<and> world_converses spare_adapter [sink_lookup_cmd 7] w1 w' log \<and> length log = 7
    \<and> lib_state (w_lib w') = READY"
proof -
  obtain e where "accepts obliging_adapter (\<lambda>_. 3) (\<lambda>_. e)"
    using obliging_adapter_accepts by blast
  then have acc: "accepts spare_adapter (\<lambda>_. 3) (\<lambda>_. e)"
    unfolding accepts_def spare_adapter_def by (simp add: ezsp_ids)
  have up: "lib_up ready_lib" by (simp add: lib_up_def ready_lib_def)
  have ad: "spare_adapter c \<noteq> []" for c by (simp add: spare_adapter_def obliging_adapter_def)
  have none: "spare_adapter (proxy_lookup_cmd i) = [0xFF]" for i by (simp add: spare_adapter_def)
  have some: "spare_adapter (sink_lookup_cmd i) = [0]" for i
    by (simp add: spare_adapter_def obliging_adapter_def ezsp_ids)
  show ?thesis
    using sample_installs_devices [of ready_lib "[7]" "[new_gp_device 9 (replicate 16 1)]", OF up _ _ ad acc]
    by (fastforce simp: none some removal_dialogue_def)
qed

text \<open>C38: A device which the sample is told to add is lost when it is also told to remove devices and the adapter
  still has a pairing of the one that is removed last. The library reports that it is ready, and the
  application registers the device, before the adapter has confirmed the last unpairing; the
  confirmation is taken for that of the new device. So the conversation ends after a slot was asked
  for: no entry is written and nothing is paired, although the request was accepted, and application,
  library and sink have nothing left to do.\<close>

theorem sample_loses_device:
  assumes "lib_up m" "ids \<noteq> []" "\<And>c. ad c \<noteq> []" "ad (proxy_lookup_cmd (hd ids)) ! 0 \<noteq> 0xFF"
  shows "\<exists>w1 w'. world_do [App (LibState PubREADY)] (sample_start openZigbee [d] ids showKey m) =
      Inr (w1, [sink_lookup_cmd (last ids)])
    \<and> world_converses ad [sink_lookup_cmd (last ids)] w1 w'
        (concat (map (removal_dialogue ad) (rev ids)) @ [allocate_cmd (gd_source_id d)])
    \<and> currentState (w_app w') = ADD_GPD \<and> lib_state (w_lib w') = READY
    \<and> gs_sink_state (lib_sink (w_lib w')) = SINK_READY \<and> gs_gpds_to_register (lib_sink (w_lib w')) = []"
proof -
  let ?i = "hd ids"
  obtain w1 w2 where w1: "world_do [App (LibState PubREADY)] (sample_start openZigbee [d] ids showKey m) =
        Inr (w1, [sink_lookup_cmd (last ids)])"
    and w2: "registering openZigbee showKey [d] w2"
    and removed: "\<And>w' log. world_converses ad (unpair_part ad ?i @ [allocate_cmd (gd_source_id d)]) w2 w' log \<Longrightarrow>
       world_converses ad [sink_lookup_cmd (last ids)] w1 w'
         (concat (map (removal_dialogue ad) (rev (tl ids))) @ lookup_part ad ?i @ proxy_lookup_cmd ?i # log)"
    using sample_removes [where ad = ad and m = m and ids = ids and ds = "[d]"] assms(1-3) by fastforce
  let ?s = "(lib_sink (w_lib w2))\<lparr>gs_gpds_to_register := [], gs_sink_state := SINK_READY\<rparr>"
  let ?m = "(w_lib w2)\<lparr>lib_sink := ?s, lib_state := READY\<rparr>"
  let ?w = "w2\<lparr>w_lib := ?m\<rparr>"
  have "sink_rx EZSP_GP_PROXY_TABLE_PROCESS_GP_PAIRING (ad (unpair_cmd ?i)) (lib_sink (w_lib w2)) =
      Inr (?s, sends [] @ [SinkStateIs SINK_READY])"
    using pairing_effects [of "lib_sink (w_lib w2)" "[]" d] w2 assms(3) by (simp add: registering_def)
  then have "lib_rx EZSP_GP_PROXY_TABLE_PROCESS_GP_PAIRING (ad (unpair_cmd ?i)) (w_lib w2) =
      Inr (?m, sends [] @ told (w_lib w2) PubREADY)"
    using w2 by (intro lib_rx_ready) (simp_all add: gp_cmds_def registering_def)
  moreover have "world_do (sends [] @ told (w_lib w2) PubREADY) ?w = Inr (?w, [])"
    using world_do_ready_idle [of ?w "[]"] w2
    by (simp add: registering_def told_def adding_def ready_step commissioning_due_def)
  moreover have "world_converses ad [allocate_cmd (gd_source_id d)] ?w ?w [allocate_cmd (gd_source_id d)]"
  proof -
    have "sink_rx EZSP_GP_SINK_TABLE_FIND_OR_ALLOCATE_ENTRY p ?s = Inr (?s, sends [])" for p
      by (simp add: sink_rx_simps rx_find_or_allocate_def skip_def)
    then have "lib_rx EZSP_GP_SINK_TABLE_FIND_OR_ALLOCATE_ENTRY p ?m = Inr (?m, [])" for p
      using lib_rx_quiet [of EZSP_GP_SINK_TABLE_FIND_OR_ALLOCATE_ENTRY p ?m ?s "[]"] by (simp add: gp_cmds_def)
    then show ?thesis by (simp add: world_converses_Cons world_do_quiet)
  qed
  ultimately have "world_converses ad (unpair_part ad ?i @ [allocate_cmd (gd_source_id d)]) w2 ?w
      (unpair_part ad ?i @ [allocate_cmd (gd_source_id d)])"
    using assms(4) by (simp add: unpair_part_def world_converses_Cons)
  from removed [OF this] have "world_converses ad [sink_lookup_cmd (last ids)] w1 ?w
      (concat (map (removal_dialogue ad) (rev ids)) @ [allocate_cmd (gd_source_id d)])"
    using assms(2) by (cases ids) (simp_all add: removal_dialogue_parts [of ad ?i] removal_dialogue_parts)
  then show ?thesis
    using w1 w2 by (intro exI [of _ w1] exI [of _ ?w]) (simp add: adding_def registering_def)
qed

theorem sample_loses_device_witness:
  "\<exists>w1 w'. world_do [App (LibState PubREADY)]
      (sample_start False [new_gp_device 9 (replicate 16 1)] [7] True ready_lib) = Inr (w1, [sink_lookup_cmd 7])
    \<and> world_converses (\<lambda>_. [0]) [sink_lookup_cmd 7] w1 w'
        [sink_lookup_cmd 7, (EZSP_GP_SINK_TABLE_REMOVE_ENTRY, [0]), proxy_lookup_cmd 7, unpair_cmd 7, allocate_cmd 9]
    \<and> lib_state (w_lib w') = READY"
  using sample_loses_device [where m = ready_lib and ids = "[7]" and ad = "\<lambda>_. [0]" and d = "new_gp_device 9 (replicate 16 1)"
      and openZigbee = False and showKey = True]
  by (auto simp: lib_up_def ready_lib_def removal_dialogue_def new_gp_device_def)

end
