(* ===== verification/MockUart.thy ===== *)
theory MockUart
  imports HexText
begin

text \<open>
  The emulated serial port of the tests, \<open>spi/mock-uart/MockUartDriver.cpp\<close>: the caller schedules chunks of bytes,
  and a thread of the driver delivers them to the observers of the port. The sections which hold the
  mutex are the steps of the two threads; how long a step waits is left open, so that every delay is
  covered by some interleaving. Also here: the observers of a port, \<open>spi/GenericAsyncDataInputObservable.cpp\<close>.
\<close>

section \<open>State\<close>

text \<open>Where the reading thread is. It sleeps after it has taken a chunk, counts it, and hands it to the
  observers. \<open>NoThread\<close> and \<open>Ended\<close>: there is none, or one that can be joined at once. \<open>Crashed\<close>: it has left
  through an exception, or through undefined behaviour.\<close>

datatype mock_reader =
    NoThread | AtLoop | Sleeping byte_buffer | Notifying byte_buffer | Ended | Crashed

text \<open>Where the caller is: outside, or waiting for the end of the thread in order to start the next one, or
  to destroy it.\<close>

datatype mock_caller = Idle | Starting | Clearing

text \<open>The last two fields are not variables of the program: what the observers have heard, and the chunks that
  were scheduled and not destroyed.\<close>

record mock_uart =
  scheduledReadQueue :: "byte_buffer list"
  scheduledReadBytesCount :: u64
  deliveredReadBytesCount :: u64
  writtenBytesCount :: u64
  readBytesThread :: mock_reader
  mu_caller :: mock_caller
  dataInputObservable :: bool
  mu_heard :: "byte_buffer list"
  mu_kept :: "byte_buffer list"

definition new_mock_uart :: "bool \<Rightarrow> mock_uart" where
  "new_mock_uart observed =
     \<lparr>scheduledReadQueue = [], scheduledReadBytesCount = 0, deliveredReadBytesCount = 0, writtenBytesCount = 0,
       readBytesThread = NoThread, mu_caller = Idle, dataInputObservable = observed, mu_heard = [], mu_kept = []\<rparr>"

text \<open>\<open>write\<close>, with the function that the test has given: its result and the number of bytes it reports.\<close>

definition mock_write :: "(byte_buffer \<Rightarrow> int \<times> nat) option \<Rightarrow> byte_buffer \<Rightarrow> mock_uart \<Rightarrow> int \<times> nat \<times> mock_uart" where
  "mock_write onWriteCallback buf s =
     (case onWriteCallback of
        None \<Rightarrow> (0, 0, s)
      | Some cb \<Rightarrow> (case cb buf of (res, writtenCnt) \<Rightarrow>
          (res, writtenCnt, s\<lparr>writtenBytesCount := writtenBytesCount s + of_nat writtenCnt\<rparr>)))"

section \<open>Steps\<close>

definition schedule_push :: "byte_buffer \<Rightarrow> mock_uart \<Rightarrow> mock_uart" where
  "schedule_push scheduledBytes s =
     s\<lparr>scheduledReadQueue := scheduledReadQueue s @ [scheduledBytes],
       scheduledReadBytesCount := scheduledReadBytesCount s + of_nat (length scheduledBytes),
       mu_kept := mu_kept s @ [scheduledBytes]\<rparr>"

definition destroy_queue :: "mock_uart \<Rightarrow> mock_uart" where
  "destroy_queue s =
     (if scheduledReadQueue s = [] then s
      else s\<lparr>scheduledReadQueue := [], scheduledReadBytesCount := 0,
             mu_kept := take (length (mu_kept s) - length (scheduledReadQueue s)) (mu_kept s)\<rparr>)"

definition count_chunk :: "byte_buffer \<Rightarrow> mock_uart \<Rightarrow> mock_uart" where
  "count_chunk c s =
     s\<lparr>scheduledReadBytesCount := scheduledReadBytesCount s - of_nat (length c),
       deliveredReadBytesCount := deliveredReadBytesCount s + of_nat (length c),
       readBytesThread := Notifying c\<rparr>"

definition joinable_now :: "mock_uart \<Rightarrow> bool" where
  "joinable_now s \<longleftrightarrow> readBytesThread s \<in> {NoThread, Ended}"

text \<open>\<open>Schedule\<close> and \<open>Destroy\<close>: calls from outside. \<open>Answer\<close>: an observer schedules a chunk while it is told of one,
  so that the thread would have to wait for itself when the queue is empty. \<open>Tau\<close>: the threads go on.\<close>

datatype mock_event = Schedule byte_buffer | Answer byte_buffer | Destroy | Tau

inductive mock_step :: "mock_event \<Rightarrow> mock_uart \<Rightarrow> mock_uart \<Rightarrow> bool" where
  schedule: "mock_step (Schedule bs) s
      ((schedule_push bs s)\<lparr>mu_caller := if scheduledReadQueue s = [] then Starting else Idle\<rparr>)"
  if "mu_caller s = Idle"
| start: "mock_step Tau s (s\<lparr>readBytesThread := AtLoop, mu_caller := Idle\<rparr>)"
  if "mu_caller s = Starting" "joinable_now s"
| take_chunk: "mock_step Tau s (s\<lparr>scheduledReadQueue := q, readBytesThread := Sleeping c\<rparr>)"
  if "readBytesThread s = AtLoop" "scheduledReadQueue s = c # q"
| finish: "mock_step Tau s (s\<lparr>readBytesThread := Ended\<rparr>)"
  if "readBytesThread s = AtLoop" "scheduledReadQueue s = []"
| count: "mock_step Tau s (count_chunk c s)"
  if "readBytesThread s = Sleeping c"
| notify: "mock_step Tau s (s\<lparr>readBytesThread := AtLoop, mu_heard := mu_heard s @ [c]\<rparr>)"
  if "readBytesThread s = Notifying c" "dataInputObservable s" "c \<noteq> []"
| notify_empty: "mock_step Tau s (s\<lparr>readBytesThread := Crashed\<rparr>)"
  if "readBytesThread s = Notifying []" "dataInputObservable s"
| notify_nobody: "mock_step Tau s (s\<lparr>readBytesThread := AtLoop\<rparr>)"
  if "readBytesThread s = Notifying c" "\<not> dataInputObservable s"
| answer: "mock_step (Answer bs) s (schedule_push bs s)"
  if "readBytesThread s = Notifying c" "dataInputObservable s" "c \<noteq> []" "scheduledReadQueue s \<noteq> []"
| answer_alone: "mock_step (Answer bs) s ((schedule_push bs s)\<lparr>readBytesThread := Crashed\<rparr>)"
  if "readBytesThread s = Notifying c" "dataInputObservable s" "c \<noteq> []" "scheduledReadQueue s = []"
| destroy: "mock_step Destroy s ((destroy_queue s)\<lparr>mu_caller := Clearing\<rparr>)"
  if "mu_caller s = Idle"
| destroyed: "mock_step Tau s (s\<lparr>readBytesThread := NoThread, mu_caller := Idle\<rparr>)"
  if "mu_caller s = Clearing" "joinable_now s"

inductive_cases TauE: "mock_step Tau s s'"

text \<open>The states which are reached by the calls in \<open>E\<close>, under any interleaving.\<close>

inductive mock_reached :: "mock_event set \<Rightarrow> bool \<Rightarrow> mock_uart \<Rightarrow> bool" for E observed where
  first: "mock_reached E observed (new_mock_uart observed)"
| next_step: "mock_reached E observed s'" if "mock_reached E observed s" "mock_step e s s'" "e \<in> insert Tau E"

definition getScheduledIncomingChunksCount :: "mock_uart \<Rightarrow> nat" where
  "getScheduledIncomingChunksCount s = length (scheduledReadQueue s)"

section \<open>Text\<close>

definition byte_text :: "u8 \<Rightarrow> string" where
  "byte_text byte = map (\<lambda>c. char_of (unat c)) (byteToHexString byte)"

text \<open>\<open>operator<<\<close> of \<open>ByteBuffer\<close>, and \<open>Logger::byteSequenceToString\<close> of a vector, which separates by what has been
  written so far.\<close>

definition buffer_text :: "byte_buffer \<Rightarrow> string" where
  "buffer_text bs = (case bs of [] \<Rightarrow> [] | b # bs \<Rightarrow> byte_text b @ concat (map (\<lambda>b. CHR '' '' # byte_text b) bs))"

definition byteSequenceToString :: "byte_buffer \<Rightarrow> string" where
  "byteSequenceToString input =
     foldl (\<lambda>text b. (if text \<noteq> [] then text @ '' '' else text) @ byte_text b) [] input"

definition scheduledIncomingChunksToString :: "mock_uart \<Rightarrow> string" where
  "scheduledIncomingChunksToString s =
     ''['' @ foldl (\<lambda>text c. (if text \<noteq> [] then text @ '', '' else text) @ buffer_text c) [] (scheduledReadQueue s) @ '']''"

text \<open>Both write the same, as no byte has an empty text.\<close>

lemma byteSequenceToString_behind:
  "t \<noteq> [] \<Longrightarrow> foldl (\<lambda>text b. (if text \<noteq> [] then text @ '' '' else text) @ byte_text b) t bs
     = t @ concat (map (\<lambda>b. CHR '' '' # byte_text b) bs)"
  by (induction bs arbitrary: t) simp_all

lemma byteSequenceToString_is_buffer_text: "byteSequenceToString bs = buffer_text bs"
proof (cases bs)
  case (Cons b bs)
  have "byte_text b \<noteq> []" by (simp add: byte_text_def byteToHexString_def)
  from byteSequenceToString_behind [OF this, of bs] show ?thesis
    by (simp add: Cons byteSequenceToString_def buffer_text_def)
qed (simp add: byteSequenceToString_def buffer_text_def)

section \<open>Observers\<close>

text \<open>A \<open>std::set\<close> of pointers, as their addresses.\<close>

definition registerObserver :: "nat \<Rightarrow> nat set \<Rightarrow> bool \<times> nat set" where
  "registerObserver observer observers = (observer \<notin> observers, insert observer observers)"

definition unregisterObserver :: "nat \<Rightarrow> nat set \<Rightarrow> bool \<times> nat set" where
  "unregisterObserver observer observers = (observer \<in> observers, observers - {observer})"

definition notifyObservers :: "byte_buffer \<Rightarrow> nat set \<Rightarrow> (nat \<times> byte_buffer) list" where
  "notifyObservers inputData observers = map (\<lambda>observer. (observer, inputData)) (sorted_list_of_set observers)"

section \<open>No chunk is lost\<close>

fun in_flight :: "mock_reader \<Rightarrow> byte_buffer list" where
  "in_flight (Sleeping c) = [c]"
| "in_flight (Notifying c) = [c]"
| "in_flight _ = []"

text \<open>What has been kept is what was heard, what is on its way, and what is queued; and when something is
  queued, a thread is running or is about to be started.\<close>

definition mock_inv :: "mock_uart \<Rightarrow> bool" where
  "mock_inv s \<longleftrightarrow>
     (dataInputObservable s \<longrightarrow> mu_kept s = mu_heard s @ in_flight (readBytesThread s) @ scheduledReadQueue s)
     \<and> (scheduledReadQueue s \<noteq> [] \<longrightarrow> mu_caller s = Starting \<or> \<not> joinable_now s)
     \<and> (mu_caller s = Clearing \<longrightarrow> scheduledReadQueue s = [])"

lemmas mock_defs = schedule_push_def destroy_queue_def count_chunk_def joinable_now_def

lemma mock_inv_first: "mock_inv (new_mock_uart observed)"
  by (simp add: mock_inv_def new_mock_uart_def)

text \<open>A thread that has crashed stays so.\<close>

lemma mock_inv_step:
  "mock_step e s s' \<Longrightarrow> readBytesThread s' \<noteq> Crashed \<Longrightarrow> mock_inv s \<Longrightarrow> mock_inv s'"
  by (induction rule: mock_step.induct) (auto simp: mock_inv_def mock_defs split: if_splits)

lemma mock_crashed_step: "mock_step e s s' \<Longrightarrow> readBytesThread s = Crashed \<Longrightarrow> readBytesThread s' = Crashed"
  by (induction rule: mock_step.induct) (auto simp: mock_defs split: if_splits)

lemma mock_observed_step: "mock_step e s s' \<Longrightarrow> dataInputObservable s' = dataInputObservable s"
  by (induction rule: mock_step.induct) (auto simp: mock_defs split: if_splits)

lemma mock_reached_inv:
  "mock_reached E observed s \<Longrightarrow> dataInputObservable s = observed \<and> (readBytesThread s = Crashed \<or> mock_inv s)"
proof (induction rule: mock_reached.induct)
  case first
  then show ?case by (simp add: mock_inv_first) (simp add: new_mock_uart_def)
next
  case (next_step s e s')
  then show ?case using mock_inv_step mock_crashed_step mock_observed_step by blast
qed

text \<open>The work that is left when nobody calls the driver.\<close>

fun reader_work :: "mock_reader \<Rightarrow> nat" where
  "reader_work AtLoop = 1"
| "reader_work (Sleeping _) = 3"
| "reader_work (Notifying _) = 2"
| "reader_work _ = 0"

definition mock_work :: "mock_uart \<Rightarrow> nat" where
  "mock_work s = 4 * length (scheduledReadQueue s) + reader_work (readBytesThread s)
     + (case mu_caller s of Idle \<Rightarrow> 0 | Starting \<Rightarrow> 2 | Clearing \<Rightarrow> 1)"

lemma mock_work_less: "mock_step Tau s s' \<Longrightarrow> mock_work s' < mock_work s"
  by (erule TauE) (auto simp: mock_work_def mock_defs)

lemma mock_tau_kept:
  "mock_step Tau s s' \<Longrightarrow> mu_kept s' = mu_kept s"
  by (erule TauE) (simp_all add: mock_defs)

lemma mock_tau_crash:
  "mock_step Tau s s' \<Longrightarrow> mock_inv s \<Longrightarrow> dataInputObservable s \<Longrightarrow> readBytesThread s \<noteq> Crashed \<Longrightarrow>
     [] \<notin> set (mu_kept s) \<Longrightarrow> readBytesThread s' \<noteq> Crashed"
  by (erule TauE) (auto simp: mock_defs mock_inv_def)

lemma mock_at_rest:
  assumes "\<nexists>s'. mock_step Tau s s'" "mock_inv s" "dataInputObservable s" "readBytesThread s \<noteq> Crashed"
  shows "scheduledReadQueue s = [] \<and> mu_caller s = Idle \<and> mu_heard s = mu_kept s"
proof -
  have still: "\<not> mock_step Tau s s'" for s' using assms(1) by blast
  have "joinable_now s"
  proof (cases "readBytesThread s")
    case AtLoop
    then show ?thesis using still take_chunk [of s] finish [of s] by (cases "scheduledReadQueue s") blast+
  next
    case (Sleeping c)
    then show ?thesis using still count [of s c] by blast
  next
    case (Notifying c)
    then show ?thesis using still notify [of s c] notify_empty [of s] assms(3) by (cases "c = []") blast+
  qed (use assms(4) in \<open>simp_all add: joinable_now_def\<close>)
  moreover from this have "mu_caller s = Idle"
    using still start [of s] destroyed [of s] by (cases "mu_caller s") blast+
  ultimately show ?thesis
    using assms(2,3) by (auto simp: mock_inv_def joinable_now_def)
qed

lemma mock_tau_run:
  "(mock_step Tau ^^ n) s s' \<Longrightarrow> mock_inv s \<Longrightarrow> dataInputObservable s \<Longrightarrow> readBytesThread s \<noteq> Crashed \<Longrightarrow>
     [] \<notin> set (mu_kept s) \<Longrightarrow>
     n + mock_work s' \<le> mock_work s \<and> mu_kept s' = mu_kept s \<and> mock_inv s' \<and> dataInputObservable s'
     \<and> readBytesThread s' \<noteq> Crashed"
proof (induction n arbitrary: s')
  case (Suc n)
  then obtain s1 where s1: "(mock_step Tau ^^ n) s s1" "mock_step Tau s1 s'" by auto
  then have IH: "n + mock_work s1 \<le> mock_work s" "mu_kept s1 = mu_kept s" "mock_inv s1" "dataInputObservable s1"
    "readBytesThread s1 \<noteq> Crashed"
    using Suc.IH [OF s1(1) Suc.prems(2-5)] by simp_all
  have alive: "readBytesThread s' \<noteq> Crashed"
    using mock_tau_crash [OF s1(2) IH(3-5)] Suc.prems(5) IH(2) by simp
  have "mock_inv s'" by (rule mock_inv_step [OF s1(2) alive IH(3)])
  then show ?case
    using mock_work_less [OF s1(2)] mock_tau_kept [OF s1(2)] mock_observed_step [OF s1(2)] IH(1,2,4) alive by simp
qed simp

text \<open>C35: No scheduled chunk is lost or overtaken, however the thread of the port and its caller are interleaved.
  In every state that is reached by any calls, also from within the observers, with a thread that has
  not crashed and without empty chunks: left alone, the driver takes a bounded number of steps,
  at each of which the observers have heard a prefix of what was scheduled and not destroyed; and when no
  step is possible any more, the queue is empty, no call waits, and all of it was heard, in order.\<close>

theorem mock_delivers_all:
  assumes "mock_reached E True s" "readBytesThread s \<noteq> Crashed" "[] \<notin> set (mu_kept s)"
    and "(mock_step Tau ^^ n) s s'"
  shows "n \<le> mock_work s
    \<and> mu_kept s = mu_heard s' @ in_flight (readBytesThread s') @ scheduledReadQueue s'
    \<and> ((\<exists>s''. mock_step Tau s' s'')
       \<or> scheduledReadQueue s' = [] \<and> mu_caller s' = Idle \<and> mu_heard s' = mu_kept s)"
proof -
  have "mock_inv s" "dataInputObservable s" using mock_reached_inv [OF assms(1)] assms(2) by auto
  then have run: "n + mock_work s' \<le> mock_work s" "mu_kept s' = mu_kept s" "mock_inv s'" "dataInputObservable s'"
    "readBytesThread s' \<noteq> Crashed"
    using mock_tau_run [OF assms(4)] assms(2,3) by blast+
  then show ?thesis using mock_at_rest [of s'] by (auto simp: mock_inv_def)
qed

text \<open>The states through which one chunk goes, from the call to the end of the thread.\<close>

lemma one_chunk:
  assumes "c \<noteq> []" "s = (schedule_push c (new_mock_uart True))\<lparr>mu_caller := Starting\<rparr>"
  shows "mock_reached {Schedule c} True s"
    "(mock_step Tau ^^ Suc (Suc (Suc (Suc (Suc 0))))) s
       (s\<lparr>scheduledReadQueue := [], scheduledReadBytesCount := 0, deliveredReadBytesCount := of_nat (length c),
          readBytesThread := Ended, mu_caller := Idle, mu_heard := [c]\<rparr>)"
proof -
  let ?s0 = "new_mock_uart True"
  have "mock_step (Schedule c) ?s0 s"
    using schedule [of ?s0 c] by (simp add: assms(2)) (simp add: new_mock_uart_def)
  then show "mock_reached {Schedule c} True s" by (rule next_step [OF first]) simp
  let ?s1 = "s\<lparr>readBytesThread := AtLoop, mu_caller := Idle\<rparr>"
  let ?s2 = "?s1\<lparr>scheduledReadQueue := [], readBytesThread := Sleeping c\<rparr>"
  let ?s3 = "count_chunk c ?s2"
  let ?s4 = "?s3\<lparr>readBytesThread := AtLoop, mu_heard := mu_heard ?s3 @ [c]\<rparr>"
  let ?s5 = "?s4\<lparr>readBytesThread := Ended\<rparr>"
  have t1: "mock_step Tau s ?s1" by (rule start) (simp_all add: assms(2) mock_defs new_mock_uart_def)
  have t2: "mock_step Tau ?s1 ?s2" by (rule take_chunk) (simp_all add: assms(2) mock_defs new_mock_uart_def)
  have t3: "mock_step Tau ?s2 ?s3" by (rule count) simp
  have t4: "mock_step Tau ?s3 ?s4" by (rule notify) (simp_all add: assms mock_defs new_mock_uart_def)
  have t5: "mock_step Tau ?s4 ?s5" by (rule finish) (simp_all add: mock_defs)
  have "(mock_step Tau ^^ Suc (Suc (Suc (Suc (Suc 0))))) s ?s5"
    by (intro relpowp_Suc_I) (rule relpowp_0_I t1 t2 t3 t4 t5)+
  then show "(mock_step Tau ^^ Suc (Suc (Suc (Suc (Suc 0))))) s
       (s\<lparr>scheduledReadQueue := [], scheduledReadBytesCount := 0, deliveredReadBytesCount := of_nat (length c),
          readBytesThread := Ended, mu_caller := Idle, mu_heard := [c]\<rparr>)"
    by (simp add: assms(2) mock_defs new_mock_uart_def)
qed

theorem mock_delivers_all_witness:
  "\<exists>s s'. mock_reached {Schedule [1]} True s \<and> (mock_step Tau ^^ 5) s s' \<and> 5 \<le> mock_work s
    \<and> mu_heard s' = [[1]] \<and> mu_kept s = [[1]]"
proof -
  let ?s = "(schedule_push [1] (new_mock_uart True))\<lparr>mu_caller := Starting\<rparr>"
  obtain s' where s': "(mock_step Tau ^^ Suc (Suc (Suc (Suc (Suc 0))))) ?s s'" "mu_heard s' = [[1]]"
    using one_chunk(2) [of "[1]" ?s] by force
  have r: "mock_reached {Schedule [1]} True ?s" by (rule one_chunk(1)) simp_all
  have "readBytesThread ?s \<noteq> Crashed" "[] \<notin> set (mu_kept ?s)" and kept: "mu_kept ?s = [[1]]"
    by (simp_all add: schedule_push_def new_mock_uart_def)
  from mock_delivers_all [OF r this(1,2) s'(1), THEN conjunct1] have "5 \<le> mock_work ?s"
    by (simp only: numeral_eq_Suc pred_numeral_simps BitM.simps)
  moreover have "(mock_step Tau ^^ 5) ?s s'" using s'(1) by (simp only: numeral_eq_Suc pred_numeral_simps BitM.simps)
  ultimately show ?thesis using r kept s'(2) by blast
qed

section \<open>Counters\<close>

fun uncounted :: "mock_reader \<Rightarrow> byte_buffer list" where
  "uncounted (Sleeping c) = [c]"
| "uncounted _ = []"

text \<open>As long as nothing is destroyed, the count of the scheduled bytes is that of the chunks which are queued,
  or taken and not yet counted.\<close>

lemma mock_counts:
  "mock_reached E observed s \<Longrightarrow> Destroy \<notin> E \<Longrightarrow> readBytesThread s \<noteq> Crashed \<Longrightarrow>
     scheduledReadBytesCount s = of_nat (sum_list (map length (uncounted (readBytesThread s) @ scheduledReadQueue s)))"
proof (induction rule: mock_reached.induct)
  case first
  then show ?case by (simp add: new_mock_uart_def)
next
  case (next_step s e s')
  have "readBytesThread s \<noteq> Crashed" using mock_crashed_step [OF next_step.hyps(2)] next_step.prems(2) by blast
  then have IH: "scheduledReadBytesCount s = of_nat (sum_list (map length (uncounted (readBytesThread s) @ scheduledReadQueue s)))"
    using next_step by blast
  have "e \<noteq> Destroy" using next_step by auto
  with next_step.hyps(2) show ?case
    using next_step.prems(2) IH by (induction rule: mock_step.induct) (auto simp: mock_defs algebra_simps)
qed

text \<open>When chunks are destroyed while the thread is about to deliver one, the count of the scheduled bytes is
  wrong from then on: it is set to 0, and the length of the chunk on its way is subtracted afterwards. So
  the driver comes to rest with an empty queue and a count that has wrapped around.\<close>

theorem mock_count_wraps:
  "\<exists>s. mock_reached {Schedule (b # bs), Destroy} True s
    \<and> scheduledReadQueue s = [] \<and> readBytesThread s = NoThread \<and> mu_caller s = Idle
    \<and> scheduledReadBytesCount s = - of_nat (Suc (length bs))"
proof -
  let ?c = "b # bs"
  let ?R = "mock_reached {Schedule ?c, Destroy} True"
  let ?s0 = "new_mock_uart True"
  let ?s1 = "(schedule_push ?c ?s0)\<lparr>mu_caller := Starting\<rparr>"
  let ?s2 = "?s1\<lparr>readBytesThread := AtLoop, mu_caller := Idle\<rparr>"
  let ?s3 = "schedule_push ?c ?s2"
  let ?s4 = "?s3\<lparr>scheduledReadQueue := [?c], readBytesThread := Sleeping ?c\<rparr>"
  let ?s5 = "(destroy_queue ?s4)\<lparr>mu_caller := Clearing\<rparr>"
  let ?s6 = "count_chunk ?c ?s5"
  let ?s7 = "?s6\<lparr>readBytesThread := AtLoop, mu_heard := mu_heard ?s6 @ [?c]\<rparr>"
  let ?s8 = "?s7\<lparr>readBytesThread := Ended\<rparr>"
  let ?s9 = "?s8\<lparr>readBytesThread := NoThread, mu_caller := Idle\<rparr>"
  note defs = mock_defs new_mock_uart_def
  note go = next_step [where E = "{Schedule (b # bs), Destroy}" and observed = True]
  have "mock_step (Schedule ?c) ?s0 ?s1" using schedule [of ?s0 ?c] by (simp add: defs)
  from go [OF first this] have r1: "?R ?s1" by simp
  have "mock_step Tau ?s1 ?s2" by (rule start) (simp_all add: defs)
  from go [OF r1 this] have r2: "?R ?s2" by simp
  have "mock_step (Schedule ?c) ?s2 ?s3" using schedule [of ?s2 ?c] by (simp add: defs)
  from go [OF r2 this] have r3: "?R ?s3" by simp
  have "mock_step Tau ?s3 ?s4" by (rule take_chunk) (simp_all add: defs)
  from go [OF r3 this] have r4: "?R ?s4" by simp
  have "mock_step Destroy ?s4 ?s5" by (rule destroy) (simp add: defs)
  from go [OF r4 this] have r5: "?R ?s5" by simp
  have "mock_step Tau ?s5 ?s6" by (rule count) (simp add: defs)
  from go [OF r5 this] have r6: "?R ?s6" by simp
  have "mock_step Tau ?s6 ?s7" by (rule notify) (simp_all add: defs)
  from go [OF r6 this] have r7: "?R ?s7" by simp
  have "mock_step Tau ?s7 ?s8" by (rule finish) (simp_all add: defs)
  from go [OF r7 this] have r8: "?R ?s8" by simp
  have "mock_step Tau ?s8 ?s9" by (rule destroyed) (simp_all add: defs)
  from go [OF r8 this] have "?R ?s9" by simp
  then show ?thesis by (intro exI [of _ ?s9]) (simp add: defs)
qed

end
