(* ===== verification/SerialPort.thy ===== *)
theory SerialPort
  imports AshDriver
begin

text \<open>
  The driver of the serial port, \<open>spi/serial/SerialUartDriver.cpp\<close>: its thread, which reads what has arrived
  and tells the observers, and the opening and closing of the port. The library \<open>serial\<close> is third
  party: its functions are the argument \<open>serial_lib\<close>, \<open>None\<close> where they throw a \<open>std::exception\<close>.
\<close>

section \<open>Reading\<close>

record 'p serial_lib =
  waitReadable :: "'p \<Rightarrow> bool option \<times> 'p"
  available :: "'p \<Rightarrow> nat option"
  port_read :: "nat \<Rightarrow> 'p \<Rightarrow> byte_buffer option \<times> 'p"

text \<open>One turn of the loop: what it hands to the observers.\<close>

definition reader_turn :: "'p serial_lib \<Rightarrow> bool \<Rightarrow> 'p \<Rightarrow> byte_buffer list \<times> 'p" where
  "reader_turn lib observed p =
     (case waitReadable lib p of
        (Some True, p) \<Rightarrow>
          (case available lib p of
             None \<Rightarrow> ([], p)
           | Some nbQueuedBytes \<Rightarrow>
               (case port_read lib (if nbQueuedBytes > 64 then 64 else nbQueuedBytes) p of
                  (None, p) \<Rightarrow> ([], p)
                | (Some buf, p) \<Rightarrow> (if observed then [buf] else [], p)))
      | (_, p) \<Rightarrow> ([], p))"

text \<open>The loop, for the number of turns in which \<open>m_read_thread_alive\<close> is found to be set.\<close>

fun threadreader :: "nat \<Rightarrow> 'p serial_lib \<Rightarrow> bool \<Rightarrow> 'p \<Rightarrow> byte_buffer list \<times> 'p" where
  "threadreader 0 lib observed p = ([], p)"
| "threadreader (Suc turns) lib observed p =
     (case reader_turn lib observed p of (cs, p) \<Rightarrow>
        (case threadreader turns lib observed p of (cs', p) \<Rightarrow> (cs @ cs', p)))"

definition serial_write :: "(byte_buffer \<Rightarrow> nat option) \<Rightarrow> byte_buffer \<Rightarrow> nat \<Rightarrow> int \<times> nat" where
  "serial_write port_write buf writtenCnt =
     (case port_write buf of Some n \<Rightarrow> (0, n) | None \<Rightarrow> (-1, writtenCnt))"

text \<open>The port as the drivers above it see it, whose count is 0 before the call.\<close>

definition serial_writer :: "(byte_buffer \<Rightarrow> nat option) \<Rightarrow> writer" where
  "serial_writer port_write log buf = serial_write port_write buf 0"

lemma serial_frame_sent:
  "fst (sendAshFrame (serial_writer port_write) f d) \<longleftrightarrow>
     serialWriteFunc d \<and> enabled d \<and> port_write f = Some (length f)"
  by (auto simp: sendAshFrame_True serial_writer_def serial_write_def split: option.splits)

section \<open>Opening and closing\<close>

text \<open>How \<open>m_serial_port.open()\<close> ends: with a \<open>serial::IOException\<close> and its number, with another
  exception, which \<open>open\<close> does not catch, or without one; then \<open>isOpen()\<close>.\<close>

datatype open_end = IOException int | OtherException | OpenReturns bool

record serial_driver =
  m_serial_port_open :: bool
  m_data_input_observable :: bool
  m_read_thread_alive :: bool
  m_read_messages_thread :: bool  \<comment> \<open>joinable\<close>

definition new_serial_driver :: serial_driver where
  "new_serial_driver =
     \<lparr>m_serial_port_open = False, m_data_input_observable = False, m_read_thread_alive = False,
      m_read_messages_thread = False\<rparr>"

text \<open>The result of \<open>open\<close>, if it returns one, and the state; \<open>None\<close> is \<open>std::terminate\<close>, which the assignment of a
  thread to one that can be joined calls, and so does the destruction of such a thread.\<close>

definition serial_open :: "open_end \<Rightarrow> serial_driver \<Rightarrow> (int option \<times> serial_driver) option" where
  "serial_open outcome s =
     (case outcome of
        IOException e \<Rightarrow> Some (Some e, s)
      | OtherException \<Rightarrow> Some (None, s)
      | OpenReturns False \<Rightarrow> Some (Some (-1), s)
      | OpenReturns True \<Rightarrow>
          (if m_read_messages_thread s then None
           else Some (Some 0, s\<lparr>m_serial_port_open := True, m_read_thread_alive := True, m_read_messages_thread := True\<rparr>)))"

definition serial_close :: "serial_driver \<Rightarrow> serial_driver" where
  "serial_close s = (if m_serial_port_open s then s\<lparr>m_serial_port_open := False\<rparr> else s)"

definition setIncomingDataHandler :: "bool \<Rightarrow> serial_driver \<Rightarrow> serial_driver" where
  "setIncomingDataHandler uartIncomingDataHandler s = s\<lparr>m_data_input_observable := uartIncomingDataHandler\<rparr>"

definition serial_destroy :: "serial_driver \<Rightarrow> serial_driver option" where
  "serial_destroy s =
     (let s = (if m_read_thread_alive s then s\<lparr>m_read_thread_alive := False, m_read_messages_thread := False\<rparr> else s);
          s = serial_close s
      in if m_read_messages_thread s then None else Some s)"

datatype serial_call = Open open_end | Close | SetHandler bool

fun serial_do :: "serial_call \<Rightarrow> serial_driver \<Rightarrow> serial_driver option" where
  "serial_do (Open outcome) s = map_option snd (serial_open outcome s)"
| "serial_do Close s = Some (serial_close s)"
| "serial_do (SetHandler h) s = Some (setIncomingDataHandler h s)"

fun serial_run :: "serial_call list \<Rightarrow> serial_driver \<Rightarrow> serial_driver option" where
  "serial_run [] s = Some s"
| "serial_run (x # xs) s = Option.bind (serial_do x s) (serial_run xs)"

section \<open>The bytes of the port\<close>

lemma reader_turn_takes:
  assumes "\<And>p r p'. waitReadable lib p = (r, p') \<Longrightarrow> taken p' = taken p"
    and "\<And>n p r p'. port_read lib n p = (r, p') \<Longrightarrow>
        length (case r of None \<Rightarrow> [] | Some bs \<Rightarrow> bs) \<le> n \<and> taken p' = taken p @ (case r of None \<Rightarrow> [] | Some bs \<Rightarrow> bs)"
    and "reader_turn lib True p = (cs, p')"
  shows "taken p' = taken p @ concat cs \<and> (\<forall>c \<in> set cs. length c \<le> 64)"
proof -
  obtain r p1 where 1: "waitReadable lib p = (r, p1)" by force
  show ?thesis
  proof (cases "r = Some True")
    case False
    then have "cs = [] \<and> p' = p1"
      using assms(3) 1 by (auto simp: reader_turn_def split: option.splits bool.splits)
    then show ?thesis using assms(1) [OF 1] by simp
  next
    case True
    obtain n r2 p2 where "available lib p1 = None \<or> available lib p1 = Some n"
      and 2: "port_read lib (if n > 64 then 64 else n) p1 = (r2, p2)" by (metis not_None_eq surj_pair)
    then show ?thesis
      using assms(3) assms(1) [OF 1] assms(2) [OF 2] 1 True
      by (auto simp: reader_turn_def split: option.splits if_splits)
  qed
qed

lemma threadreader_takes:
  assumes "\<And>p r p'. waitReadable lib p = (r, p') \<Longrightarrow> taken p' = taken p"
    and "\<And>n p r p'. port_read lib n p = (r, p') \<Longrightarrow>
        length (case r of None \<Rightarrow> [] | Some bs \<Rightarrow> bs) \<le> n \<and> taken p' = taken p @ (case r of None \<Rightarrow> [] | Some bs \<Rightarrow> bs)"
  shows "threadreader turns lib True p = (cs, p') \<Longrightarrow>
     taken p' = taken p @ concat cs \<and> (\<forall>c \<in> set cs. length c \<le> 64)"
proof (induction turns arbitrary: p cs)
  case (Suc turns)
  then obtain c1 p1 c2 where "reader_turn lib True p = (c1, p1)" "threadreader turns lib True p1 = (c2, p')" "cs = c1 @ c2"
    by (auto split: prod.splits)
  then show ?case using reader_turn_takes [OF assms] Suc.IH [of p1 c2] by fastforce
qed simp

text \<open>C18: Frames arrive through the real port as they were sent. Let the third-party port hand out its bytes in
  order, never more than it is asked for, and lose none when it throws. Then in any number of turns of the
  reading thread, with any time-outs and exceptions in between, the observers get chunks of at most 64
  bytes which are together what was taken from the port; and when these bytes are data frames of a peer, the
  codec delivers their payloads in order and once each.\<close>

theorem serial_port_delivers_frames:
  assumes "\<And>p r p'. waitReadable lib p = (r, p') \<Longrightarrow> taken p' = taken p"
    and "\<And>n p r p'. port_read lib n p = (r, p') \<Longrightarrow>
        length (case r of None \<Rightarrow> [] | Some bs \<Rightarrow> bs) \<le> n \<and> taken p' = taken p @ (case r of None \<Rightarrow> [] | Some bs \<Rightarrow> bs)"
    and "threadreader turns lib True p = (chunks, p')" "taken p' = taken p @ concat fs"
    and "codec_wf a" "in_msg c = []" "forge_frames ps a = Inr (fs, a')" "\<forall>f \<in> set fs. length f \<le> Suc ASH_MAX_LENGTH"
  shows "(\<forall>c \<in> set chunks. length c \<le> 64)
    \<and> feed trace_env chunks c w =
        Inr (ps, c\<lparr>lastReceivedByNEAckNum := (if ps = [] then lastReceivedByNEAckNum c else frmNum a')\<rparr>,
             w @ concat (map (\<lambda>_. data_calls c (lastReceivedByNEAckNum a)) ps))"
proof -
  from threadreader_takes [where taken = taken, OF assms(1,2,3)]
  have chunks: "concat chunks = concat fs" "\<forall>c \<in> set chunks. length c \<le> 64" using assms(4) by auto
  have "feed trace_env chunks c w = appendIncoming trace_env (concat fs) c w"
    using feed_eq_appendIncoming [of c chunks] forge_frames_well_spaced [OF assms(7,8)] assms(6) chunks(1) by simp
  also have "\<dots> = Inr (ps, c\<lparr>lastReceivedByNEAckNum := (if ps = [] then lastReceivedByNEAckNum c else frmNum a')\<rparr>,
             w @ concat (map (\<lambda>_. data_calls c (lastReceivedByNEAckNum a)) ps))"
    using assms(5) by (intro receive_frames [OF assms(6) _ assms(7,8)]) (simp add: codec_wf_def)
  finally show ?thesis using chunks(2) by blast
qed

text \<open>A port with the bytes that wait and those that were taken, which says that at most three are available and
  throws when there are none.\<close>

definition queue_port :: "(byte_buffer \<times> byte_buffer) serial_lib" where
  "queue_port =
     \<lparr>waitReadable = \<lambda>p. (Some (fst p \<noteq> []), p), available = \<lambda>p. Some (min 3 (length (fst p))),
      port_read = \<lambda>n p. if fst p = [] then (None, p) else (Some (take n (fst p)), (drop n (fst p), snd p @ take n (fst p)))\<rparr>"

theorem serial_port_delivers_frames_witness:
  "\<exists>chunks p'. threadreader 5 queue_port True ([0x00, 0x42, 0x21, 0xA8, 0x50, 0xED, 0x2C, 0x7E], []) = (chunks, p')
    \<and> length chunks = 3
    \<and> feed trace_env chunks (new_codec True True) [] =
        Inr ([[0x00, 0x00, 0x00, 0x04]], (new_codec True True)\<lparr>lastReceivedByNEAckNum := 1\<rparr>, [AckTimerCancel])"
proof -
  let ?n = "new_codec True True"
  let ?f = "[0x00, 0x42, 0x21, 0xA8, 0x50, 0xED, 0x2C, 0x7E] :: byte_buffer"
  have "addByteStuffing (with_crc [0x00, 0x42, 0x21, 0xA8, 0x50]) = ?f" by code_simp
  then have f: "forge_frames [[0x00, 0x00, 0x00, 0x04]] ?n = Inr ([?f], ?n\<lparr>frmNum := 1, nextExpectedFEAckNum := 1\<rparr>)"
    by (simp add: forgeDataFrame_eq data_control_def lfsr_next_def new_codec_def)
  have run: "threadreader 5 queue_port True (?f, []) = ([[0x00, 0x42, 0x21], [0xA8, 0x50, 0xED], [0x2C, 0x7E]], ([], ?f))"
    by (simp add: queue_port_def reader_turn_def numeral_eq_Suc)
  have w: "snd p' = snd p" if "waitReadable queue_port p = (r, p')" for p r p'
    using that by (simp add: queue_port_def)
  have rd: "length (case r of None \<Rightarrow> [] | Some bs \<Rightarrow> bs) \<le> n \<and> snd p' = snd p @ (case r of None \<Rightarrow> [] | Some bs \<Rightarrow> bs)"
    if "port_read queue_port n p = (r, p')" for n p r p'
    using that by (auto simp: queue_port_def split: if_splits)
  from serial_port_delivers_frames [where taken = snd and c = ?n and w = "[]", OF w rd run _ new_codec_wf _ f] run
  show ?thesis by (simp add: new_codec_def data_calls_def ASH_MAX_LENGTH_def)
qed

section \<open>The life of a driver\<close>

fun successful :: "serial_call \<Rightarrow> bool" where
  "successful (Open (OpenReturns ok)) = ok"
| "successful _ = False"

lemma serial_close_eq: "serial_close s = s\<lparr>m_serial_port_open := False\<rparr>"
  by (cases s) (simp add: serial_close_def)

lemma serial_run_thread:
  "m_read_thread_alive s = m_read_messages_thread s \<Longrightarrow>
   case serial_run xs s of
     None \<Rightarrow> 2 \<le> length (filter successful xs) + (if m_read_messages_thread s then 1 else 0)
   | Some s' \<Rightarrow> m_read_thread_alive s' = m_read_messages_thread s'
       \<and> (if m_read_messages_thread s' then 1 else 0) = length (filter successful xs) + (if m_read_messages_thread s then 1 else 0)"
proof (induction xs arbitrary: s)
  case (Cons x xs)
  show ?case
  proof (cases x)
    case (Open outcome)
    then show ?thesis
      using Cons.IH [of "s\<lparr>m_serial_port_open := True, m_read_thread_alive := True, m_read_messages_thread := True\<rparr>"]
        Cons.IH [OF Cons.prems] Cons.prems
      by (auto simp: serial_open_def split: open_end.splits bool.splits option.splits if_splits)
  next
    case Close
    then show ?thesis using Cons.IH [of "serial_close s"] Cons.prems by (auto simp: serial_close_eq split: option.splits if_splits)
  next
    case (SetHandler h)
    then show ?thesis
      using Cons.IH [of "setIncomingDataHandler h s"] Cons.prems by (auto simp: setIncomingDataHandler_def split: option.splits if_splits)
  qed
qed simp


end
