(* ===== verification/Logging.thy ===== *)
theory Logging
  imports MockUart
begin

text \<open>
  The log: the streams of \<open>spi/ILogger.h\<close> with their levels, and the logger that writes to the console,
  \<open>spi/console/ConsoleLogger.cpp\<close>. The streams of the console are the text that was written to them.
  Also here: the text of an array of bytes, from \<open>spi/Logger.cpp\<close>.
\<close>

section \<open>Streams\<close>

datatype LOG_LEVEL = ERROR | WARNING | INFO | DEBUG | TRACE

fun level_number :: "LOG_LEVEL \<Rightarrow> nat" where
  "level_number ERROR = 0"
| "level_number WARNING = 1"
| "level_number INFO = 2"
| "level_number DEBUG = 3"
| "level_number TRACE = 4"

record logger_stream =
  logLevel :: LOG_LEVEL
  stream_enabled :: bool
  muted :: bool

definition new_logger_stream :: "LOG_LEVEL \<Rightarrow> bool \<Rightarrow> logger_stream" where
  "new_logger_stream setLogLevel isEnabled =
     \<lparr>logLevel = setLogLevel, stream_enabled = isEnabled, muted = False\<rparr>"

definition mute :: "logger_stream \<Rightarrow> logger_stream" where
  "mute s = s\<lparr>muted := True\<rparr>"

definition unmute :: "logger_stream \<Rightarrow> logger_stream" where
  "unmute s = s\<lparr>muted := False\<rparr>"

definition isOutputting :: "logger_stream \<Rightarrow> bool" where
  "isOutputting s \<longleftrightarrow> stream_enabled s \<and> \<not> muted s"

definition setMaxEnabledLogLevel :: "LOG_LEVEL \<Rightarrow> logger_stream \<Rightarrow> logger_stream" where
  "setMaxEnabledLogLevel maxLevel s =
     s\<lparr>stream_enabled := level_number (logLevel s) \<le> level_number maxLevel\<rparr>"

section \<open>The logger\<close>

record logger =
  errorLogger :: logger_stream
  warningLogger :: logger_stream
  infoLogger :: logger_stream
  debugLogger :: logger_stream
  traceLogger :: logger_stream

definition new_console_logger :: logger where
  "new_console_logger =
     \<lparr>errorLogger = new_logger_stream ERROR True, warningLogger = new_logger_stream WARNING True,
      infoLogger = new_logger_stream INFO True, debugLogger = new_logger_stream DEBUG True,
      traceLogger = new_logger_stream TRACE True\<rparr>"

definition setLogLevel :: "LOG_LEVEL \<Rightarrow> logger \<Rightarrow> logger" where
  "setLogLevel level l =
     l\<lparr>errorLogger := setMaxEnabledLogLevel level (errorLogger l),
       warningLogger := setMaxEnabledLogLevel level (warningLogger l),
       infoLogger := setMaxEnabledLogLevel level (infoLogger l),
       debugLogger := setMaxEnabledLogLevel level (debugLogger l),
       traceLogger := setMaxEnabledLogLevel level (traceLogger l)\<rparr>"

fun stream_of :: "LOG_LEVEL \<Rightarrow> logger \<Rightarrow> logger_stream" where
  "stream_of ERROR l = errorLogger l"
| "stream_of WARNING l = warningLogger l"
| "stream_of INFO l = infoLogger l"
| "stream_of DEBUG l = debugLogger l"
| "stream_of TRACE l = traceLogger l"

section \<open>The console\<close>

record console =
  con_stdout :: string
  con_stderr :: string

text \<open>Both classes of streams write their characters with \<open>putchar\<close>, which is taken to succeed.\<close>

definition stream_overflow :: "char \<Rightarrow> logger_stream \<Rightarrow> console \<Rightarrow> console" where
  "stream_overflow c s con =
     (if stream_enabled s \<and> \<not> muted s then con\<lparr>con_stdout := con_stdout con @ [c]\<rparr> else con)"

text \<open>An \<open>ostream\<close> on a stream without a buffer hands over the characters one by one.\<close>

definition log_text :: "LOG_LEVEL \<Rightarrow> string \<Rightarrow> logger \<Rightarrow> console \<Rightarrow> console" where
  "log_text level t l con = fold (\<lambda>c. stream_overflow c (stream_of level l)) t con"

text \<open>\<open>printf\<close> of a format whose conversions find no arguments of their type: what is passed is a \<open>va_list\<close>.\<close>

fun printed :: "string \<Rightarrow> string result" where
  "printed [] = Inr []"
| "printed (c # cs) =
     (if c \<noteq> CHR ''%'' then bindR (printed cs) (\<lambda>t. Inr (c # t))
      else case cs of
          d # cs \<Rightarrow> if d = CHR ''%'' then bindR (printed cs) (\<lambda>t. Inr (d # t)) else Inl Undefined
        | [] \<Rightarrow> Inl Undefined)"

definition logs_to_stderr :: "LOG_LEVEL \<Rightarrow> bool" where
  "logs_to_stderr level \<longleftrightarrow> level = ERROR \<or> level = WARNING"

definition outputGenericLog :: "LOG_LEVEL \<Rightarrow> string \<Rightarrow> logger \<Rightarrow> console \<Rightarrow> console result" where
  "outputGenericLog level format l con =
     (let s = stream_of level l in
      if stream_enabled s \<and> \<not> muted s then
        bindR (printed format) (\<lambda>t.
          Inr (if logs_to_stderr level then con\<lparr>con_stderr := con_stderr con @ t\<rparr>
               else con\<lparr>con_stdout := con_stdout con @ t\<rparr>))
      else Inr con)"

section \<open>What is logged\<close>

lemma stream_of_setLogLevel:
  "stream_of level (setLogLevel maxLevel l) = setMaxEnabledLogLevel maxLevel (stream_of level l)"
  by (cases level) (simp_all add: setLogLevel_def)

lemma log_text_eq:
  "log_text level t l con =
     (if isOutputting (stream_of level l) then con\<lparr>con_stdout := con_stdout con @ t\<rparr> else con)"
  by (induction t arbitrary: con) (simp_all add: log_text_def stream_overflow_def isOutputting_def)

text \<open>The levels of the streams never change.\<close>

definition levels_kept :: "logger \<Rightarrow> bool" where
  "levels_kept l \<longleftrightarrow> (\<forall>level \<in> {ERROR, WARNING, INFO, DEBUG, TRACE}. logLevel (stream_of level l) = level)"

lemma levels_kept_ops:
  "levels_kept new_console_logger"
  "levels_kept l \<Longrightarrow> levels_kept (setLogLevel maxLevel l)"
  by (simp_all add: levels_kept_def new_console_logger_def new_logger_stream_def setLogLevel_def
      setMaxEnabledLogLevel_def)

text \<open>The level of the log filters its texts: after any sequence of changes of the level, exactly the texts up to
  the last level are written, in full and in order. They are all written to the standard output, also errors and
  warnings, whose streams are made for the standard error.\<close>

theorem log_level_filters:
  "fold (\<lambda>(level, t). log_text level t (fold setLogLevel (levels @ [maxLevel]) new_console_logger)) texts con =
     con\<lparr>con_stdout := con_stdout con
       @ concat (map snd (filter (\<lambda>(level, t). level_number level \<le> level_number maxLevel) texts))\<rparr>"
proof -
  have kept: "levels_kept (fold setLogLevel levels new_console_logger)"
    by (induction levels rule: rev_induct) (simp_all add: levels_kept_ops)
  have muted: "\<not> muted (stream_of level (fold setLogLevel levels new_console_logger))" for level
  proof (induction levels rule: rev_induct)
    case Nil
    then show ?case by (cases level) (simp_all add: new_console_logger_def new_logger_stream_def)
  qed (simp add: stream_of_setLogLevel setMaxEnabledLogLevel_def)
  have level: "logLevel (stream_of level (fold setLogLevel levels new_console_logger)) = level" for level
    using kept by (cases level) (simp_all add: levels_kept_def)
  show ?thesis
    by (induction texts arbitrary: con)
      (auto simp: log_text_eq stream_of_setLogLevel isOutputting_def setMaxEnabledLogLevel_def level muted)
qed

text \<open>The function for formatted texts writes errors elsewhere, and is undefined for formats with a conversion.\<close>

lemma error_streams_differ:
  "outputGenericLog ERROR ''e'' new_console_logger \<lparr>con_stdout = [], con_stderr = []\<rparr> = Inr \<lparr>con_stdout = [], con_stderr = ''e''\<rparr>"
  "log_text ERROR ''e'' new_console_logger \<lparr>con_stdout = [], con_stderr = []\<rparr> = \<lparr>con_stdout = ''e'', con_stderr = []\<rparr>"
  "outputGenericLog ERROR ''%d'' new_console_logger \<lparr>con_stdout = [], con_stderr = []\<rparr> = Inl Undefined"
  by code_simp+

section \<open>Arrays of bytes\<close>

text \<open>\<open>Logger::byteSequenceToString\<close> of an array with its size.\<close>

definition byteArrayToString :: "byte_buffer \<Rightarrow> string" where
  "byteArrayToString input =
     concat (map (\<lambda>i. (if i \<noteq> 0 then '' '' else []) @ byte_text (input ! i)) [0..<length input])"

lemma byteArrayToString_is_buffer_text: "byteArrayToString input = buffer_text input"
proof (cases input)
  case (Cons b bs)
  have "map (\<lambda>i. (if i \<noteq> 0 then '' '' else []) @ byte_text ((b # bs) ! i)) [0..<length (b # bs)]
    = byte_text b # map (\<lambda>i. CHR '' '' # byte_text (bs ! i)) [0..<length bs]"
    by (simp only: list.size(4) add_Suc_right add_0_right upt_conv_Cons [OF zero_less_Suc] map_Suc_upt [symmetric] list.map) simp
  also have "map (\<lambda>i. CHR '' '' # byte_text (bs ! i)) [0..<length bs] = map (\<lambda>b. CHR '' '' # byte_text b) bs"
    by (rule nth_equalityI) simp_all
  finally show ?thesis by (simp add: Cons byteArrayToString_def buffer_text_def del: upt_Suc)
qed (simp add: byteArrayToString_def buffer_text_def)

end
