(* ===== verification/Facade.thy ===== *)
theory Facade
  imports LibLink HexText
begin

text \<open>
  The facade \<open>NSEZSP::CEzsp\<close> of \<open>ezsp.cpp\<close>: the calls of the application on the whole system, and the
  networks that a scan reports, as text.
\<close>

section \<open>Calls\<close>

text \<open>The methods which change something. Functions that are registered are present or not. The results of
  requests are those of the methods of the library.\<close>

datatype api_call =
    ApiStart
  | ApiForceFirmwareUpgradeOnInitTimeout
  | ApiRegisterLibraryStateCallback bool
  | ApiRegisterGPFrameRecvCallback bool
  | ApiRegisterGPSourceIdCallback bool
  | ApiClearAllGPDevices
  | ApiRemoveGPDevices "u32 list"
  | ApiAddGPDevices "gp_device list"
  | ApiOpenCommissioningSession
  | ApiCloseCommissioningSession
  | ApiSetAnswerToGpfChannelRqstPolicy bool
  | ApiSetFirmwareUpgradeMode
  | ApiStartEnergyScan bool u8 u32
  | ApiStartActiveScan bool u8 u32
  | ApiGetNetworkKey bool
  | ApiSetChannel u8
  | ApiJoinNetwork u64 u16 u8 u8 u32 u8 u16 u8

fun cezsp_do :: "writer \<Rightarrow> api_call \<Rightarrow> dongle \<Rightarrow> lib_world \<Rightarrow> (dongle \<times> lib_world) result" where
  "cezsp_do wr ApiStart d w = lib_start wr d w"
| "cezsp_do wr ApiForceFirmwareUpgradeOnInitTimeout d w = Inr (forceFirmwareUpgradeOnInitTimeout d, w)"
| "cezsp_do wr (ApiRegisterLibraryStateCallback cb) d w = sys_apply wr (lib_do (LibStateCallback cb)) d w"
| "cezsp_do wr (ApiRegisterGPFrameRecvCallback cb) d w = sys_apply wr (lib_do (LibFrameCallback cb)) d w"
| "cezsp_do wr (ApiRegisterGPSourceIdCallback cb) d w = sys_apply wr (lib_do (LibSourceIdCallback cb)) d w"
| "cezsp_do wr ApiClearAllGPDevices d w = sys_apply wr (lib_do LibClear) d w"
| "cezsp_do wr (ApiRemoveGPDevices sourceIdList) d w = sys_apply wr (lib_do (LibRemove sourceIdList)) d w"
| "cezsp_do wr (ApiAddGPDevices gpDevicesList) d w = sys_apply wr (lib_do (LibAdd gpDevicesList)) d w"
| "cezsp_do wr ApiOpenCommissioningSession d w = sys_apply wr (lib_do LibOpen) d w"
| "cezsp_do wr ApiCloseCommissioningSession d w = sys_apply wr (lib_do LibClose) d w"
| "cezsp_do wr (ApiSetAnswerToGpfChannelRqstPolicy allowed) d w = sys_apply wr (lib_do (LibPolicy allowed)) d w"
| "cezsp_do wr ApiSetFirmwareUpgradeMode d w = sys_apply wr (lib_do LibUpgrade) d w"
| "cezsp_do wr (ApiStartEnergyScan cb secs channels) d w =
     sys_apply wr (lib_do (LibEnergyScan cb secs channels)) d w"
| "cezsp_do wr (ApiStartActiveScan cb secs channels) d w =
     sys_apply wr (lib_do (LibActiveScan cb secs channels)) d w"
| "cezsp_do wr (ApiGetNetworkKey cb) d w = sys_apply wr (lib_do (LibKey cb)) d w"
| "cezsp_do wr (ApiSetChannel channel) d w = sys_apply wr (lib_do (LibChannel channel)) d w"
| "cezsp_do wr (ApiJoinNetwork extendedPanId panId channel joinMethod allowedChannels radioTxPower nwkManagerId nwkUpdateId) d w =
     sys_apply wr (lib_do (LibJoin (join_parameters extendedPanId panId channel joinMethod allowedChannels
       radioTxPower nwkManagerId nwkUpdateId))) d w"

text \<open>The object of a facade: the dongle, the library, and the calls which the application has got.\<close>

definition new_cezsp :: "(nat \<Rightarrow> u16) \<Rightarrow> u32 \<Rightarrow> dongle \<times> lib_world" where
  "new_cezsp numbers requestZbNetworkResetToChannel =
     (new_dongle, new_lib numbers requestZbNetworkResetToChannel, [])"

definition getAdapterVersion :: "dongle \<times> lib_world \<Rightarrow> adapter_version" where
  "getAdapterVersion c = getVersion (fst c)"

text \<open>The application calls, and the world around the library: the serial port and the timers.\<close>

datatype cezsp_event = Api api_call | Received byte_buffer | AshTimeout | BlpTimeout

fun cezsp_step :: "writer \<Rightarrow> cezsp_event \<Rightarrow> dongle \<Rightarrow> lib_world \<Rightarrow> (dongle \<times> lib_world) result" where
  "cezsp_step wr (Api call) d w = cezsp_do wr call d w"
| "cezsp_step wr (Received bytes) d w = sys_do wr (SysBytes bytes) d w"
| "cezsp_step wr AshTimeout d w = sys_do wr SysAshTimeout d w"
| "cezsp_step wr BlpTimeout d w = sys_do wr SysBlpTimeout d w"

fun cezsp_run :: "writer \<Rightarrow> cezsp_event list \<Rightarrow> dongle \<times> lib_world \<Rightarrow> (dongle \<times> lib_world) result" where
  "cezsp_run wr [] c = Inr c"
| "cezsp_run wr (e # es) c = bindR (cezsp_step wr e (fst c) (snd c)) (cezsp_run wr es)"

lemma cezsp_run_append: "cezsp_run wr (xs @ ys) c = bindR (cezsp_run wr xs c) (cezsp_run wr ys)"
  by (induction xs arbitrary: c) (simp_all add: bindR_assoc cong: bindR_cong)

lemma api_system:
  assumes "call \<noteq> ApiForceFirmwareUpgradeOnInitTimeout"
  shows "\<exists>e. \<not> receives e \<and> cezsp_do wr call d w = sys_do wr e d w"
  using assms
proof (cases call)
  case ApiStart
  then have "\<not> receives SysStart \<and> cezsp_do wr call d w = sys_do wr SysStart d w" by simp
  then show ?thesis by blast
qed (simp_all, (rule exI, rule conjI [rotated], (rule sys_do.simps(5) [symmetric]), simp)+)

fun from_port :: "cezsp_event \<Rightarrow> bool" where
  "from_port (Received bytes) = True"
| "from_port _ = False"

lemma cezsp_link:
  assumes "cezsp_step wr e d (m, log) = Inr (d', m', log')" "lib_wf m"
  shows "link_next (from_port e) d d' \<and> lib_wf m'"
proof (cases "\<exists>s. receives s = from_port e \<and> cezsp_step wr e d (m, log) = sys_do wr s d (m, log)")
  case True
  then obtain s where "receives s = from_port e" "cezsp_step wr e d (m, log) = sys_do wr s d (m, log)" by blast
  then show ?thesis using assms event_link [of wr s d m log d' m' log'] by simp
next
  case False
  have "e = Api ApiForceFirmwareUpgradeOnInitTimeout"
  proof (cases e)
    case (Api call)
    then show ?thesis using False api_system [of call wr d "(m, log)"] by fastforce
  qed (use False receives.simps cezsp_step.simps from_port.simps in metis)+
  then show ?thesis using assms by (auto simp: forceFirmwareUpgradeOnInitTimeout_def link_next_def)
qed

text \<open>The invariants of the system hold whatever the application calls and the adapter sends.\<close>

lemma cezsp_invariant:
  "cezsp_run wr es (d, m, log) = Inr (d', m', log') \<Longrightarrow> lib_wf m \<Longrightarrow>
     link_next (\<exists>e \<in> set es. from_port e) d d' \<and> lib_wf m'"
proof (induction es arbitrary: d m log)
  case (Cons e es)
  then obtain d1 m1 l1 where 1: "cezsp_step wr e d (m, log) = Inr (d1, m1, l1)"
    and 2: "cezsp_run wr es (d1, m1, l1) = Inr (d', m', log')" by auto
  show ?case
    using cezsp_link [OF 1 Cons.prems(2)] Cons.IH [OF 2] link_next_trans by auto
qed (auto simp: link_next_def)

section \<open>The networks that a scan reports\<close>

definition getPanId :: "scan_result \<Rightarrow> u16" where
  "getPanId sr = zn_panId (sr_network sr)"

definition getExtendedPanId :: "scan_result \<Rightarrow> u64" where
  "getExtendedPanId sr = zn_extendedPanId (sr_network sr)"

definition scan_result_toString :: "scan_result \<Rightarrow> string" where
  "scan_result_toString sr =
     (let n = sr_network sr in
      ''ZigbeeNetworkScanResult: { ''
      @ ''[channel: '' @ int_text (uint (zn_channel n)) @ '']''
      @ ''[lastHop: LQI='' @ int_text (uint (sr_lastHopLqi sr)) @ '', rssi='' @ int_text (sint (sr_lastHopRssi sr)) @ '']''
      @ ''[panId: 0x'' @ hex_text 4 (zn_panId n) @ '']''
      @ ''[extendedPanId: 0x'' @ hex_text 8 (u64_get_hi_u32 (zn_extendedPanId n))
        @ hex_text 8 (u64_get_lo_u32 (zn_extendedPanId n)) @ '']''
      @ ''[allowingJoin: '' @ (if zn_allowingJoin n then ''true'' else ''false'') @ '']''
      @ ''[stackProfile: 0x'' @ hex_text 2 (zn_stackProfile n) @ '']''
      @ ''[nwkUpdateId: 0x'' @ hex_text 2 (zn_nwkUpdateId n) @ '']''
      @ '' }'')"

section \<open>An adapter that does not answer\<close>

text \<open>With its ASH driver disabled the dongle leaves the bytes to the driver of the boot loader.\<close>

lemma received_blp:
  assumes "\<not> enabled (ash d)"
    and "blp_handleInputData (blp_owner wr (sys_obs wr)) bytes (blp d) (d, w) = Inr (b, d', w')"
  shows "cezsp_step wr (Received bytes) d w = Inr (d'\<lparr>blp := b\<rparr>, w')"
  using assms by (simp add: uart_input_def ash_handleInputData_def)

text \<open>The dongle behind the prompt, with the choice of an upgrade written.\<close>

definition upgrading :: "dongle \<Rightarrow> dongle" where
  "upgrading d = d\<lparr>blp := (blp d)\<lparr>blp_state := XMODEM_READY_CHAR_WAIT, accumulatedBytes := GECKO_BOOTLOADER_PROMPT,
       blp_tx := blp_tx (blp d) @ [[0x31]], firmwareTransferStartFunc := Some FirmwareTransferStart\<rparr>,
     lastKnownMode := BOOTLOADER_FIRMWARE_UPGRADE\<rparr>"

lemma prompt_upgrades:
  assumes "blp_writeFunc b" "blp_enabled b"
  shows "blp_owner good_port (sys_obs good_port) PromptFirmwareUpgrade
       (b\<lparr>blp_state := TOPLEVEL_MENU_PROMPT, accumulatedBytes := GECKO_BOOTLOADER_PROMPT\<rparr>) (d, m, log) =
     Inr (blp (upgrading (d\<lparr>blp := b\<rparr>)), upgrading (d\<lparr>blp := b\<rparr>), m, log)"
  using assms by (simp add: blp_owner_def sys_obs_def sys_apply_def skip_def selectModeUpgradeFw_def
      blp_sendBytes_def good_port_def upgrading_def Let_def)

lemma menu_upgrades:
  assumes "menu_text pre r e"
  shows "\<lbrakk>n < length (menu_bytes pre r); concat cs = drop n (menu_bytes pre r);
      blp_state (blp d) = fst (menu_state pre r e n); accumulatedBytes (blp d) = snd (menu_state pre r e n);
      promptDetectCallback (blp d) = Some PromptFirmwareUpgrade; blp_enabled (blp d); blp_writeFunc (blp d);
      \<not> enabled (ash d)\<rbrakk> \<Longrightarrow>
    cezsp_run good_port (map Received cs) (d, m, log) = Inr (upgrading d, m, log)"
proof (induction cs arbitrary: n d)
  case (Cons c cs)
  show ?case
  proof (cases "c = []")
    case True
    then have "cezsp_step good_port (Received c) d (m, log) = Inr (d, m, log)"
      using received_blp [OF Cons.prems(8), of good_port c "(m, log)" "blp d" d "(m, log)"] by simp
    then show ?thesis using True Cons by simp
  next
    case False
    define k where "k = n + length c"
    have len: "k \<le> length (menu_bytes pre r)"
      using arg_cong [OF Cons.prems(2), of length] Cons.prems(1) by (simp add: k_def)
    have c: "c = drop n (take k (menu_bytes pre r))"
      using arg_cong [OF Cons.prems(2), of "take (length c)"] by (simp add: k_def drop_take)
    have cs: "concat cs = drop k (menu_bytes pre r)"
      using arg_cong [OF Cons.prems(2), of "drop (length c)"] by (simp add: k_def add.commute)
    have nk: "n < k" using False by (simp add: k_def)
    note step = received_blp [OF Cons.prems(8), of good_port c "(m, log)",
      unfolded menu_chunk [OF assms nk len Cons.prems(3-6), of "blp_owner good_port (sys_obs good_port)" "(d, m, log)", folded c]]
    show ?thesis
    proof (cases "k < length (menu_bytes pre r)")
      case True
      let ?b = "(blp d)\<lparr>blp_state := fst (menu_state pre r e k), accumulatedBytes := snd (menu_state pre r e k)\<rparr>"
      have "cezsp_step good_port (Received c) d (m, log) = Inr (d\<lparr>blp := ?b\<rparr>, m, log)"
        using step [of ?b d "(m, log)"] True by simp
      then show ?thesis using Cons.IH [OF True cs, of "d\<lparr>blp := ?b\<rparr>"] Cons.prems(5-8) by (simp add: upgrading_def)
    next
      case last: False
      have quiet: "cezsp_run good_port (map Received cs) (d', m, log) = Inr (d', m, log)"
        if "concat cs = []" "\<not> enabled (ash d')" for cs d'
        using that received_blp [of d' good_port "[]" "(m, log)" "blp d'" d' "(m, log)"] by (induction cs) simp_all
      have "cezsp_step good_port (Received c) d (m, log) = Inr (upgrading d, m, log)"
        using step [of "blp (upgrading d)" "upgrading d" "(m, log)"] last
          prompt_upgrades [of "blp d" d m log] Cons.prems(6,7) by simp
      then show ?thesis using quiet [of cs "upgrading d"] cs last Cons.prems(8) by (simp add: upgrading_def)
    qed
  qed
qed simp

lemma no_header: "0x47 \<notin> set s \<Longrightarrow> find_sub GECKO_BOOTLOADER_HEADER s = None"
proof (rule find_sub_None_iff [THEN iffD2], simp add: GECKO_BOOTLOADER_HEADER_def, rule allI, rule notI)
  fix i
  assume "0x47 \<notin> set s" "take (length GECKO_BOOTLOADER_HEADER) (drop i s) = GECKO_BOOTLOADER_HEADER"
  moreover have "0x47 \<in> set GECKO_BOOTLOADER_HEADER" by (simp add: GECKO_BOOTLOADER_HEADER_def)
  ultimately show False by (metis in_set_dropD in_set_takeD)
qed

lemma blp_accumulate_set: "set (fst (blp_accumulate bytes acc nul)) \<subseteq> set bytes \<union> set acc"
proof (induction bytes arbitrary: acc nul)
  case (Cons v bytes)
  show ?case
    using Cons.IH [of "(if nul then [] else acc) @ [v]" False] Cons.IH [of "if nul then [] else acc" True]
    by (auto simp: Let_def split: if_splits)
qed simp

lemma ready_char_upgrades:
  assumes "c \<noteq> []" "last c = 0x43" "0x47 \<notin> set c" "0x47 \<notin> set (accumulatedBytes b)"
    and "blp_state b = XMODEM_READY_CHAR_WAIT" "firmwareTransferStartFunc b = Some FirmwareTransferStart" "blp_enabled b"
    and "lib_observing m" "obsStateCallback m"
  shows "\<exists>acc. blp_handleInputData (blp_owner good_port (sys_obs good_port)) c b (d, m, log) =
     Inr (b\<lparr>blp_state := XMODEM_XFR, firmwareTransferStartFunc := None, accumulatedBytes := acc\<rparr>,
          d\<lparr>blp := b\<lparr>blp_state := XMODEM_XFR\<rparr>\<rparr>, m\<lparr>lib_state := IN_XMODEM_XFR\<rparr>, log @ [LibState PubIN_XMODEM_XFR])"
proof -
  obtain acc nul where acc: "blp_accumulate c (accumulatedBytes b) False = (acc, nul)" by force
  have "0x47 \<notin> set acc" using blp_accumulate_set [of c "accumulatedBytes b" False] assms(3,4) acc by auto
  then have "find_sub GECKO_BOOTLOADER_HEADER acc = None" by (rule no_header)
  moreover have "blp_owner good_port (sys_obs good_port) FirmwareTransferStart (b\<lparr>blp_state := XMODEM_XFR\<rparr>) (d, m, log) =
      Inr (b\<lparr>blp_state := XMODEM_XFR\<rparr>, d\<lparr>blp := b\<lparr>blp_state := XMODEM_XFR\<rparr>\<rparr>, m\<lparr>lib_state := IN_XMODEM_XFR\<rparr>,
           log @ [LibState PubIN_XMODEM_XFR])"
    using assms(8,9) by (simp add: blp_owner_def sys_obs_def sys_apply_def lib_xmodem_ready_def
        handleFirmwareXModemXfr_def setState_eq Let_def)
  ultimately show ?thesis
    using assms acc by (auto simp: blp_handleInputData_def blp_appendIncoming_def blp_ready_char_def
        blp_parse_header_def blp_parse_version_def blp_parse_prompt_def intro: exI [of _ acc])
qed

text \<open>From the construction to the probe of the boot loader.\<close>

definition probing :: "dongle \<Rightarrow> bool" where
  "probing d \<longleftrightarrow> \<not> enabled (ash d) \<and> blp_enabled (blp d) \<and> blp_writeFunc (blp d) \<and> blp_state (blp d) = PROBE
     \<and> accumulatedBytes (blp d) = [] \<and> promptDetectCallback (blp d) = Some PromptFirmwareUpgrade
     \<and> blp_tx (blp d) = [[0x0A]] \<and> length (ash_tx (ash d)) = 1"

lemmas startup_defs = lib_start_def dongle_reset_def sendResetNCPFrame_def forgeResetNCPFrame_def
  cancel_ack_timer_def ash_callback_def codec_env_def ash_owner_def ashCbInfo_def setUart_def
  new_dongle_def registerSerialWriter_def registerSerialReadObservable_def ash_enable_def
  ash_disable_def new_ash_driver_def new_codec_def setAckTimeoutCancelFunc_def new_timer_def
  stop_timer_def timer_stop_def sendAshFrame_def good_port_def start_visitor_def timer_start_def
  T_ACK_ASH_RESET_def sys_obs_def sys_apply_def lib_dongle_state_def handleDongleState_def
  start_before_def start_after_def new_lib_def setState_eq

lemma silent_adapter_probed:
  "\<exists>d m. cezsp_run good_port
      [Api (ApiRegisterLibraryStateCallback True), Api ApiForceFirmwareUpgradeOnInitTimeout, Api ApiStart, AshTimeout, BlpTimeout]
      (new_cezsp numbers channel) = Inr (d, m, [LibState PubUNINITIALIZED])
    \<and> probing d \<and> lib_observing m \<and> obsStateCallback m"
  by (simp add: startup_defs Let_def step_simps new_cezsp_def registerLibraryStateCallback_def
      forceFirmwareUpgradeOnInitTimeout_def dongle_ash_timeout_def ash_timeout_def timer_elapse_def ash_trigger_def
      isInConnectedState_def setMode_def blp_reset_def GECKO_QUIET_RX_TIMEOUT_def
      timer_callback_end_def dongle_blp_timeout_def blp_timeout_def blp_trigger_def blp_probe_def blp_sendBytes_def
      new_blp_def blp_enable_def blp_disable_def registerPromptDetectCallback_def blp_registerSerialWriter_def
      blp_registerSerialReadObservable_def probing_def)

text \<open>C8: An adapter that does not answer is brought into the firmware upgrade, as the application asked for
  before it started the library. From the construction of the library: when the reset is not answered in time
  and the line is quiet, the library probes for the boot loader; when its menu arrives, after any noise and in any
  chunks, it chooses the upgrade, and when the boot loader is ready for the image it tells the application so. Besides the
  frame of the reset it writes nothing else, and the application hears of no other state.\<close>

theorem silent_adapter_upgraded:
  assumes "menu_text pre r e" "concat chunks = pre @ GECKO_BOOTLOADER_HEADER @ r"
    and "c \<noteq> []" "last c = 0x43" "0x47 \<notin> set c"
  shows "\<exists>d m. cezsp_run good_port
      ([Api (ApiRegisterLibraryStateCallback True), Api ApiForceFirmwareUpgradeOnInitTimeout, Api ApiStart, AshTimeout, BlpTimeout]
        @ map Received (chunks @ [c])) (new_cezsp numbers channel) =
      Inr (d, m, [LibState PubUNINITIALIZED, LibState PubIN_XMODEM_XFR])
    \<and> lib_state m = IN_XMODEM_XFR \<and> lastKnownMode d = BOOTLOADER_FIRMWARE_UPGRADE \<and> \<not> enabled (ash d)
    \<and> length (ash_tx (ash d)) = 1 \<and> blp_tx (blp d) = [[0x0A], [0x31]]"
proof -
  let ?start = "[Api (ApiRegisterLibraryStateCallback True), Api ApiForceFirmwareUpgradeOnInitTimeout, Api ApiStart,
    AshTimeout, BlpTimeout]"
  let ?log = "[LibState PubUNINITIALIZED, LibState PubIN_XMODEM_XFR]"
  obtain d m where run: "cezsp_run good_port ?start (new_cezsp numbers channel) = Inr (d, m, [LibState PubUNINITIALIZED])"
    and d: "probing d" and m: "lib_observing m" "obsStateCallback m"
    using silent_adapter_probed by blast
  let ?m' = "m\<lparr>lib_state := IN_XMODEM_XFR\<rparr>"
  let ?d' = "\<lambda>acc. (upgrading d)\<lparr>blp := (blp (upgrading d))\<lparr>blp_state := XMODEM_XFR, firmwareTransferStartFunc := None,
    accumulatedBytes := acc\<rparr>\<rparr>"
  have menu: "cezsp_run good_port (map Received chunks) (d, m, [LibState PubUNINITIALIZED]) =
      Inr (upgrading d, m, [LibState PubUNINITIALIZED])"
    using d assms(2) by (intro menu_upgrades [OF assms(1), of 0]) (simp_all add: probing_def menu_state_def menu_bytes_def)
  have b: "0x47 \<notin> set (accumulatedBytes (blp (upgrading d)))" "blp_state (blp (upgrading d)) = XMODEM_READY_CHAR_WAIT"
    "firmwareTransferStartFunc (blp (upgrading d)) = Some FirmwareTransferStart" "blp_enabled (blp (upgrading d))"
    using d by (simp_all add: upgrading_def probing_def GECKO_BOOTLOADER_PROMPT_def)
  obtain acc where "blp_handleInputData (blp_owner good_port (sys_obs good_port)) c (blp (upgrading d))
        (upgrading d, m, [LibState PubUNINITIALIZED]) =
      Inr ((blp (upgrading d))\<lparr>blp_state := XMODEM_XFR, firmwareTransferStartFunc := None, accumulatedBytes := acc\<rparr>,
        (upgrading d)\<lparr>blp := (blp (upgrading d))\<lparr>blp_state := XMODEM_XFR\<rparr>\<rparr>, m\<lparr>lib_state := IN_XMODEM_XFR\<rparr>,
        [LibState PubUNINITIALIZED] @ [LibState PubIN_XMODEM_XFR])"
    using ready_char_upgrades [where d = "upgrading d" and log = "[LibState PubUNINITIALIZED]", OF assms(3-5) b m] by blast
  from received_blp [OF _ this]
  have "cezsp_step good_port (Received c) (upgrading d) (m, [LibState PubUNINITIALIZED]) = Inr (?d' acc, ?m', ?log)"
    using d by (simp add: upgrading_def probing_def)
  then have "cezsp_run good_port (map Received [c]) (upgrading d, m, [LibState PubUNINITIALIZED]) = Inr (?d' acc, ?m', ?log)"
    by simp
  then have "cezsp_run good_port (?start @ map Received (chunks @ [c])) (new_cezsp numbers channel) = Inr (?d' acc, ?m', ?log)"
    by (simp only: cezsp_run_append map_append run menu bindR.simps)
  moreover have "lastKnownMode (?d' acc) = BOOTLOADER_FIRMWARE_UPGRADE \<and> \<not> enabled (ash (?d' acc))
      \<and> length (ash_tx (ash (?d' acc))) = 1 \<and> blp_tx (blp (?d' acc)) = [[0x0A], [0x31]]"
    using d by (simp add: upgrading_def probing_def)
  ultimately show ?thesis by (intro exI [of _ "?d' acc"] exI [of _ ?m']) simp
qed

theorem silent_adapter_upgraded_witness:
  "\<exists>d m. cezsp_run good_port
      ([Api (ApiRegisterLibraryStateCallback True), Api ApiForceFirmwareUpgradeOnInitTimeout, Api ApiStart, AshTimeout, BlpTimeout]
        @ map Received ([[0x0D], [0x0A, 0x47, 0x65, 0x63, 0x6B], [0x6F, 0x20, 0x42, 0x6F, 0x6F, 0x74, 0x6C, 0x6F, 0x61],
       [0x64, 0x65, 0x72, 0x20, 0x76, 0x31, 0x0D], [0x0A, 0x31, 0x2E, 0x0A, 0x42], [0x4C, 0x20], [0x3E]] @ [[0x0D, 0, 0x43]]))
      (new_cezsp (\<lambda>_. 0) 0) = Inr (d, m, [LibState PubUNINITIALIZED, LibState PubIN_XMODEM_XFR])
    \<and> lib_state m = IN_XMODEM_XFR"
proof -
  have "menu_text [0x0D, 0x0A] [0x20, 0x76, 0x31, 0x0D, 0x0A, 0x31, 0x2E, 0x0A, 0x42, 0x4C, 0x20, 0x3E] 4"
    by code_simp
  from silent_adapter_upgraded [OF this, of
      "[[0x0D], [0x0A, 0x47, 0x65, 0x63, 0x6B], [0x6F, 0x20, 0x42, 0x6F, 0x6F, 0x74, 0x6C, 0x6F, 0x61],
       [0x64, 0x65, 0x72, 0x20, 0x76, 0x31, 0x0D], [0x0A, 0x31, 0x2E, 0x0A, 0x42], [0x4C, 0x20], [0x3E]]"
      "[0x0D, 0, 0x43]" "\<lambda>_. 0" 0]
  show ?thesis by (simp add: GECKO_BOOTLOADER_HEADER_def del: cezsp_run.simps) blast
qed

end
