(* ===== verification/DongleCopy.thy ===== *)
theory DongleCopy
  imports EzspDongle
begin

text \<open>
  Copies of a dongle and the end of one: the copy constructor and the destructor of \<open>CEzspDongle\<close>, and the
  set of its observers, as their addresses.
\<close>

text \<open>The copy has its own drivers, which are disabled and belong to no serial port.\<close>

definition dongle_copy :: "dongle \<Rightarrow> dongle" where
  "dongle_copy other =
     \<lparr>firstStartup = firstStartup other, version = version other, lastKnownMode = lastKnownMode other,
      switchToFirmwareUpgradeOnInitTimeout = switchToFirmwareUpgradeOnInitTimeout other,
      uartHandle = uartHandle other, ezspSeqNum = ezspSeqNum other,
      ash = ash_disable (new_ash_driver True False), blp = blp_disable (new_blp False),
      sendingMsgQueue = sendingMsgQueue other, wait_rsp = wait_rsp other\<rparr>"

definition dongle_destroy :: "dongle \<Rightarrow> dongle" where
  "dongle_destroy d = d\<lparr>ash := ash_disable (ash d), blp := blp_disable (blp d)\<rparr>"

definition dongle_registerObserver :: "nat \<Rightarrow> nat set \<Rightarrow> bool \<times> nat set" where
  "dongle_registerObserver observer observers = (observer \<notin> observers, insert observer observers)"

definition dongle_unregisterObserver :: "nat \<Rightarrow> nat set \<Rightarrow> bool \<times> nat set" where
  "dongle_unregisterObserver observer observers = (observer \<in> observers, observers - {observer})"

lemma fresh_ash_cannot_send:
  "\<not> serialWriteFunc a \<Longrightarrow> sendDataFrame wr p a = Inr (ok, a') \<Longrightarrow> \<not> ok \<and> ash_tx a' = ash_tx a"
  by (auto simp: sendDataFrame_def sendAshFrame_def split: prod.splits if_splits)

text \<open>A copy keeps the handle of the serial port but not the way to it: it cannot be reset, and a command
  that is given to it is queued and never written, until it is given a serial port of its own.\<close>

theorem dongle_copy_cannot_reset:
  "\<exists>d' u'. dongle_reset wr (\<lambda>n d u. Inr (d, u @ [n])) (dongle_copy d) u = Inr (False, d', u') \<and> ash_tx (ash d') = []"
  by (cases "uartHandle d")
    (simp_all add: dongle_reset_def dongle_copy_def sendResetNCPFrame_def forgeResetNCPFrame_def
      cancel_ack_timer_def ash_callback_def codec_env_def ash_owner_def ashCbInfo_def Let_def ash_enable_def
      ash_disable_def new_ash_driver_def new_codec_def setAckTimeoutCancelFunc_def new_timer_def
      stop_timer_def timer_stop_def sendAshFrame_def)

lemma dongle_copy_silent:
  "sendCommand wr c p (dongle_copy d) = Inr d' \<Longrightarrow> ash_tx (ash d') = []"
  by (auto simp: sendCommand_def sendNextMsg_def Let_def dongle_copy_def new_ash_driver_def ash_disable_def
      setAckTimeoutCancelFunc_def dest!: fresh_ash_cannot_send [rotated] split: if_splits)

end
