(* ===== verification/Spec2Isabelle.thy ===== *)
theory Spec2Isabelle
  imports GpSinkFlows GpSinkFrames LibNetwork LibScans LibDevices LibLink XmodemProps
    Gbl EzspNames AttributeReports CommandLine AppSystem MockUart SerialPort Logging Facade DongleCopy
begin

text \<open>
  Verification of libezsp, a C++ library that drives a Zigbee adapter which speaks Silicon Labs'
  EZSP protocol over a serial port, and makes it a sink of green power devices.

  \<^bold>\<open>The program.\<close> An application talks to \<open>CEzsp\<close> (\<open>ezsp.cpp\<close>), which forwards to \<open>CLibEzspMain\<close>
  (\<open>lib-ezsp-main.cpp\<close>), the state machine of the library. It owns the dongle \<open>CEzspDongle\<close>
  (\<open>ezsp-dongle.cpp\<close>) and three helpers that use the dongle: \<open>CZigbeeMessaging\<close>,
  \<open>CZigbeeNetworking\<close> and the green power sink \<open>CGpSink\<close> (\<open>zigbee-tools/\<close>). All four observe the
  dongle. The dongle queues EZSP commands, one in flight, and owns two drivers on the same
  serial port: \<open>AshDriver\<close> with its \<open>AshCodec\<close>, for frames, and \<open>BootloaderPromptDriver\<close>, for the
  text menu of the boot loader. Both arm timers. Messages are decoded by the classes of
  \<open>ezsp-protocol/\<close> and \<open>zbmessage/\<close>, the latter on AES (\<open>spi/custom-aes/\<close>).

  \<^bold>\<open>The model.\<close> A class is a record and a method is a function from the state to the new state, to what
  it does to the outside and, where it can throw, to a \<open>result\<close>: \<open>Inl\<close> of a fault (\<open>OutOfRange\<close> is
  \<open>std::out_of_range\<close>, \<open>Undefined\<close> is undefined behaviour, \<open>SelfJoin\<close> a thread that
  joins itself, \<open>Diverges\<close> a loop that does not end) or
  \<open>Inr\<close>. Integers are words of their C++ width. The theories:

  \<^item> \<open>Prelude\<close>: types, faults, \<open>bindR\<close>, words and lists. \<open>ByteManip\<close>: \<open>byte-manip.h\<close>.
  \<^item> \<open>BitCrc\<close>: the interface of a bitwise check code. \<open>AshBytes\<close>, \<open>AshCodec\<close>, \<open>AshLink\<close>:
    \<open>ashv2-codec.cpp\<close>, its bytes, its state machine, and what it promises. Callbacks are an
    argument (\<open>ash_env\<close>) which may change the codec again.
  \<^item> \<open>Timer\<close>: \<open>spi/cppthreads/CppThreadsTimer.cpp\<close>. \<open>AshDriver\<close>: \<open>ash-driver.cpp\<close>.
    \<open>BootloaderPrompt\<close>: \<open>bootloader-prompt-driver.cpp\<close>. \<open>AdapterVersion\<close>:
    \<open>ezsp-adapter-version.cpp\<close>.
  \<^item> \<open>EzspDongle\<close>: \<open>ezsp-dongle.cpp\<close>. The serial port is a \<open>writer\<close>; the observers are an argument.
    \<open>DongleLink\<close>: what the observers must keep so that the codec stays well formed.
  \<^item> \<open>Aes\<close>: \<open>spi/custom-aes/\<close>, with AES-128 as FIPS 197 has it. \<open>WireFormat\<close>, \<open>EmberStructs\<close>,
    \<open>GpCommissioning\<close>, \<open>ZigbeeMsg\<close>, \<open>GpFrame\<close>: the structures and messages, and the check of the
    integrity code of a green power frame, with CCM as RFC 3610 has it.
  \<^item> \<open>EzspCommands\<close>: identifiers (\<open>ezsp-enum.h\<close>), and the effects of the components above the dongle.
    These components change only their own state, so one of their operations is a \<open>step\<close>: the
    new state and the list of its effects. \<open>StateMachine\<close>: runs and reachable states of steps.
  \<^item> \<open>GpDeviceDb\<close>: \<open>green-power-device-db.cpp\<close> and devices. \<open>ZbNetworking\<close>: \<open>zigbee-messaging.cpp\<close>
    and \<open>zigbee-networking.cpp\<close>. \<open>GpSink\<close>: \<open>green-power-sink.cpp\<close>, with its correctness in
    \<open>GpSinkProps\<close>, \<open>GpSinkFlows\<close> and \<open>GpSinkFrames\<close>.
  \<^item> \<open>LibMain\<close>: \<open>lib-ezsp-main.cpp\<close>, a definition for each method and each large branch.
    \<open>LibEvents\<close>: the order in which the observers of the dongle are called, and the requests of
    the application. \<open>LibProps\<close>, \<open>LibFlows\<close>, \<open>LibNetwork\<close>, \<open>LibScans\<close>, \<open>LibDevices\<close>: its correctness.
  \<^item> \<open>LibSystem\<close>: the library on top of its dongle; the effects of a step of the library are carried
    out on the dongle, and what the dongle reports are steps of the library. \<open>LibLink\<close>: the
    invariants of both in all states of the system.
  \<^item> \<open>Xmodem\<close>: the transfer of firmware images, \<open>spi/georges-menie-thuffir-xmodem/\<close>, with its
    correctness in \<open>XmodemProps\<close>. Its line is the list of the results of \<open>_inbyte\<close>.
  \<^item> \<open>HexText\<close>: numbers as text, and back. \<open>Gbl\<close>: the tool that reads the version out of a firmware
    image (\<open>spi/gbl-info-extractor/\<close>), its output as a string. \<open>EzspNames\<close>: the remaining enumerations of
    \<open>ezsp-enum.h\<close>, the names of identifiers (\<open>ezsp-enum.cpp\<close>, \<open>zdp-enum.cpp\<close>), and the functions
    that \<open>enum-generator.h\<close> generates.
  \<^item> \<open>ExampleApp\<close>, \<open>AttributeReports\<close>: the sample application of \<open>src/example/\<close>, its state machine with
    the calls it makes, and its decoder of the reports of green power devices. \<open>CommandLine\<close>: its main
    program, from the options to the objects. \<open>AppSystem\<close>: the application on top of the library, which
    it calls again from its callback.
  \<^item> \<open>Facade\<close>: \<open>ezsp.cpp\<close>, the calls of the application on library and dongle, and the networks of a scan as
    text. \<open>DongleCopy\<close>: copies of a dongle.
  \<^item> \<open>SerialPort\<close>: the driver of the real port (\<open>spi/serial/\<close>), with the third-party library as an argument.
    \<open>Logging\<close>: levels and streams of the log (\<open>ILogger.h\<close>, \<open>spi/console/\<close>).
  \<^item> \<open>MockUart\<close>: the emulated serial port of the tests (\<open>spi/mock-uart/\<close>), the steps of its thread and
    its user in any order, and the observers of a port (\<open>GenericAsyncDataInputObservable.cpp\<close>).

  \<^bold>\<open>Interfaces.\<close> \<open>bit_crc\<close> (a linear shift register; the check values of ASH
  and XMODEM), \<open>ash_callbacks\<close> and
  \<open>ash_owner_contract\<close> (what an owner may do to the codec from its callbacks; the dongle under the
  library is an instance, and so the codec's lemmas hold in the whole system), \<open>dongle_observers\<close> and
  \<open>steady_observers\<close> (what observers may do to the dongle; the library), \<open>itimer\<close> (the thread timer),
  \<open>block_cipher\<close> (AES), \<open>bit_field\<close> and \<open>wire_format\<close> (option words, addresses, network parameters,
  APS frames), \<open>key_store\<close> (the device database), \<open>component\<close> and \<open>faulty_component\<close> (state machines
  with an invariant and known failures; the sink and the library).

  \<^bold>\<open>What the lemmas show.\<close>
  \<^item> The codec: data frames survive any chunking and come out in order; damaged frames are ignored;
    reception terminates, keeps the invariant, and fails only by \<open>std::out_of_range\<close>.
  \<^item> The dongle refines an abstract outbox: commands go out in order, one in flight.
  \<^item> The structures are read back from their bytes, and their decoders throw exactly on short input.
  \<^item> AES computes FIPS 197, the frame check computes CCM.
  \<^item> The sink: its invariant, removal, registration and commissioning of devices as whole
    conversations with an adapter that answers, and which frames reach the application.
  \<^item> The library: its invariant under all messages and requests; version negotiation, creation of
    a network, scans and work on devices as conversations; its composition with the dongle.
  \<^item> Firmware transfer: sender and receiver transfer an image, damaged and repeated blocks do no harm
    except that block 255 cannot be repeated, and the receiver stays within its buffer. The version
    tool reports the version of each application record.
  \<^item> The sample application: its options are read as they were written; it works off its configuration
    one step at a time, and together with library and sink installs the devices it was given, or loses
    one when an unpairing is confirmed late; reports are decoded
    as they are written, and the decoder terminates. Names lead back to their identifiers.
  \<^item> An adapter that does not answer is brought into the firmware upgrade, when the application asked for it.
  \<^item> The thread of the real port delivers frames as they were sent; the port can be opened once.
  \<^item> The emulated port delivers all chunks in order, whatever the interleaving, and comes to rest.
  \<^item> Behaviour which a reader may not expect, as theorems: see the \<open>error\<close> properties.

  \<^bold>\<open>Bounds and fuel.\<close> Loops are structural recursions, but for the masking loop of the codec, whose
  8-bit index never reaches a longer length: \<open>dataRandomize\<close> is \<open>Diverges\<close> there, and no frame that
  is received is that long. A conversation (\<open>converse\<close>, \<open>lib_converse\<close>, \<open>discover\<close>) has a number of
  answers as its argument, because an adapter may keep a component busy for ever; the liveness
  theorems give a number that is enough (four for a removed device) and the state in which no answer is due.

  \<^bold>\<open>Assumptions.\<close> Entry points run one at a time, as the locks of the code arrange. Functions which
  the application has registered do not call the library back before they return; the sample
  application does, from the last act of a step (\<open>AppSystem\<close>). Random numbers
  are an arbitrary sequence. Bytes read behind the end of a buffer are arbitrary.

  \<^bold>\<open>Not modelled.\<close> What the components write to the log, which nothing reads; the drivers, timers and loggers
  for another event loop (\<open>spi/raritan\<close>) and the builders that choose one, which are I/O or glue; tests, and
  the command line of the XMODEM tool. Of the sink the requests of the build with \<open>USE_BUILTIN_MIC_PROCESSING\<close>, where two functions end without a value; of
  the dongle its swapping, which nothing calls; of the library the members \<open>leavePreviousNetworkAtInit\<close>,
  \<open>xncpManufacturerId\<close> and \<open>xncpVersionNumber\<close>, which are never read.
\<close>

end
